(* ===== verification/Prelude.thy ===== *)
theory Prelude
  imports Main
begin

text \<open>
  What every component shares: the Python exceptions the code raises and catches, the two
  ways the model threads them (a plain result for pure code, a state-passing run for code
  that changes the database or talks to a provider), and the generic lemmas about both.
\<close>

section \<open>Exceptions as values\<close>

text \<open>
  One constructor per exception class that the code under \<^verbatim>\<open>src/\<close> raises or tells apart in
  an \<^verbatim>\<open>except\<close> clause; \<open>OtherError\<close> carries the class name and the text of any other
  exception. The detail of an \<^verbatim>\<open>HTTPException\<close> is a string or a flat dict of strings.
\<close>

datatype detail = DText string | DObj "(string \<times> string) list"

datatype py_exc =
    ValueError string
  | PatchMergeError string
  | KeyError string
  | RuntimeError string
  | DnsProviderDisabledError string
  | ImportError string
  | BadSignature string
  | HTTPException int detail
  | OtherError string string

text \<open>The subclass relation used by the handlers (\<^verbatim>\<open>PatchMergeError(ValueError)\<close>,
  \<^verbatim>\<open>DnsProviderDisabledError(RuntimeError)\<close>).\<close>

fun is_value_error :: "py_exc \<Rightarrow> bool" where
  "is_value_error (ValueError _) = True"
| "is_value_error (PatchMergeError _) = True"
| "is_value_error _ = False"

fun is_runtime_error :: "py_exc \<Rightarrow> bool" where
  "is_runtime_error (RuntimeError _) = True"
| "is_runtime_error (DnsProviderDisabledError _) = True"
| "is_runtime_error _ = False"

fun is_http_exception :: "py_exc \<Rightarrow> bool" where
  "is_http_exception (HTTPException _ _) = True"
| "is_http_exception _ = False"

text \<open>\<^verbatim>\<open>str(exc)\<close> and \<^verbatim>\<open>type(exc).__name__\<close>; the text of a \<^verbatim>\<open>KeyError\<close> or an
  \<^verbatim>\<open>HTTPException\<close> is not read by the modelled code.\<close>

fun exc_str :: "py_exc \<Rightarrow> string" where
  "exc_str (ValueError m) = m"
| "exc_str (PatchMergeError m) = m"
| "exc_str (KeyError m) = m"
| "exc_str (RuntimeError m) = m"
| "exc_str (DnsProviderDisabledError m) = m"
| "exc_str (ImportError m) = m"
| "exc_str (BadSignature m) = m"
| "exc_str (HTTPException _ d) = (case d of DText t \<Rightarrow> t | DObj _ \<Rightarrow> [])"
| "exc_str (OtherError _ m) = m"

fun exc_name :: "py_exc \<Rightarrow> string" where
  "exc_name (ValueError _) = ''ValueError''"
| "exc_name (PatchMergeError _) = ''PatchMergeError''"
| "exc_name (KeyError _) = ''KeyError''"
| "exc_name (RuntimeError _) = ''RuntimeError''"
| "exc_name (DnsProviderDisabledError _) = ''DnsProviderDisabledError''"
| "exc_name (ImportError _) = ''ImportError''"
| "exc_name (BadSignature _) = ''BadSignature''"
| "exc_name (HTTPException _ _) = ''HTTPException''"
| "exc_name (OtherError n _) = n"

section \<open>Results of pure code\<close>

type_synonym 'a res = "py_exc + 'a"

definition rbind :: "'a res \<Rightarrow> ('a \<Rightarrow> 'b res) \<Rightarrow> 'b res" where
  "rbind m f = (case m of Inl e \<Rightarrow> Inl e | Inr x \<Rightarrow> f x)"

lemma rbind_simps [simp]:
  "rbind (Inl e) f = Inl e"
  "rbind (Inr x) f = f x"
  by (simp_all add: rbind_def)

lemma rbind_eq_Inr: "rbind m f = Inr y \<longleftrightarrow> (\<exists>x. m = Inr x \<and> f x = Inr y)"
  by (cases m) auto

lemma rbind_eq_Inl: "rbind m f = Inl e \<longleftrightarrow> m = Inl e \<or> (\<exists>x. m = Inr x \<and> f x = Inl e)"
  by (cases m) auto

lemma rbind_split: "P (rbind m f) \<longleftrightarrow> (\<forall>e. m = Inl e \<longrightarrow> P (Inl e)) \<and> (\<forall>x. m = Inr x \<longrightarrow> P (f x))"
  by (cases m) auto

definition guard :: "bool \<Rightarrow> py_exc \<Rightarrow> unit res" where
  "guard b e = (if b then Inr () else Inl e)"

lemma guard_simps [simp]:
  "guard True e = Inr ()"
  "guard False e = Inl e"
  "guard b e = Inr u \<longleftrightarrow> b"
  "guard b e = Inl e' \<longleftrightarrow> \<not> b \<and> e' = e"
  by (auto simp: guard_def)

definition map_res :: "('a \<Rightarrow> 'b) \<Rightarrow> 'a res \<Rightarrow> 'b res" where
  "map_res f r = (case r of Inl e \<Rightarrow> Inl e | Inr x \<Rightarrow> Inr (f x))"

lemma map_res_simps [simp]: "map_res f (Inl e) = Inl e" "map_res f (Inr x) = Inr (f x)"
  by (simp_all add: map_res_def)

lemma map_res_eq_Inr: "map_res f r = Inr y \<longleftrightarrow> (\<exists>x. r = Inr x \<and> f x = y)"
  by (cases r) auto

text \<open>A list comprehension whose body may raise: the first exception ends it.\<close>

fun traverse :: "('a \<Rightarrow> 'b res) \<Rightarrow> 'a list \<Rightarrow> 'b list res" where
  "traverse f [] = Inr []"
| "traverse f (x # xs) = rbind (f x) (\<lambda>y. rbind (traverse f xs) (\<lambda>ys. Inr (y # ys)))"

lemma traverse_Inr_iff:
  "traverse f xs = Inr ys \<longleftrightarrow> list_all2 (\<lambda>x y. f x = Inr y) xs ys"
proof (induction xs arbitrary: ys)
  case (Cons x xs)
  then show ?case by (cases ys) (auto simp: rbind_eq_Inr)
qed auto

lemma traverse_length: "traverse f xs = Inr ys \<Longrightarrow> length ys = length xs"
  by (auto simp: traverse_Inr_iff dest: list_all2_lengthD)

lemma traverse_set: "traverse f xs = Inr ys \<Longrightarrow> y \<in> set ys \<Longrightarrow> \<exists>x \<in> set xs. f x = Inr y"
  by (auto simp: traverse_Inr_iff list_all2_conv_all_nth in_set_conv_nth Bex_def)

lemma traverse_idem:
  assumes "\<And>x y. x \<in> set xs \<Longrightarrow> f x = Inr y \<Longrightarrow> f y = Inr y"
    and "traverse f xs = Inr ys"
  shows "traverse f ys = Inr ys"
proof -
  have "\<forall>y \<in> set ys. f y = Inr y"
    using assms(1) traverse_set [OF assms(2)] by blast
  then show ?thesis
    by (simp add: traverse_Inr_iff list_all2_conv_all_nth)
qed

section \<open>Runs: state passing with exceptions\<close>

text \<open>
  A handler that changes a state (the database, the provider, the process) is a function
  from the state to a result and the state it leaves behind, the changes made before an
  exception included: nothing is rolled back unless the code does it.
\<close>

type_synonym ('s, 'a) run = "'s \<Rightarrow> 'a res \<times> 's"

definition ret :: "'a \<Rightarrow> ('s, 'a) run" where
  "ret x s = (Inr x, s)"

definition raise :: "py_exc \<Rightarrow> ('s, 'a) run" where
  "raise e s = (Inl e, s)"

definition lift_res :: "'a res \<Rightarrow> ('s, 'a) run" where
  "lift_res r s = (r, s)"

definition gets :: "('s \<Rightarrow> 'a) \<Rightarrow> ('s, 'a) run" where
  "gets f s = (Inr (f s), s)"

definition modify :: "('s \<Rightarrow> 's) \<Rightarrow> ('s, unit) run" where
  "modify f s = (Inr (), f s)"

definition sbind :: "('s, 'a) run \<Rightarrow> ('a \<Rightarrow> ('s, 'b) run) \<Rightarrow> ('s, 'b) run" where
  "sbind m f s = (case m s of (Inl e, s') \<Rightarrow> (Inl e, s') | (Inr x, s') \<Rightarrow> f x s')"

definition catch :: "('s, 'a) run \<Rightarrow> (py_exc \<Rightarrow> ('s, 'a) run) \<Rightarrow> ('s, 'a) run" where
  "catch m h s = (case m s of (Inl e, s') \<Rightarrow> h e s' | (Inr x, s') \<Rightarrow> (Inr x, s'))"

lemma ret_apply [simp]: "ret x s = (Inr x, s)"
  by (simp add: ret_def)

lemma raise_apply [simp]: "raise e s = (Inl e, s)"
  by (simp add: raise_def)

lemma lift_res_apply [simp]: "lift_res r s = (r, s)"
  by (simp add: lift_res_def)

lemma gets_apply [simp]: "gets f s = (Inr (f s), s)"
  by (simp add: gets_def)

lemma modify_apply [simp]: "modify f s = (Inr (), f s)"
  by (simp add: modify_def)

lemma sbind_Inl: "m s = (Inl e, s') \<Longrightarrow> sbind m f s = (Inl e, s')"
  by (simp add: sbind_def)

lemma sbind_Inr: "m s = (Inr x, s') \<Longrightarrow> sbind m f s = f x s'"
  by (simp add: sbind_def)

lemma sbind_simps [simp]:
  "sbind (ret x) f s = f x s"
  "sbind (raise e) f s = (Inl e, s)"
  "sbind (gets g) f s = f (g s) s"
  "sbind (modify h) k s = k () (h s)"
  "sbind (lift_res (Inl e)) f s = (Inl e, s)"
  "sbind (lift_res (Inr x)) f s = f x s"
  by (simp_all add: sbind_def)

lemma sbind_assoc: "sbind (sbind m f) g = sbind m (\<lambda>x. sbind (f x) g)"
  by (rule ext) (auto simp: sbind_def split: prod.splits sum.splits)

lemma sbind_eq_Inr:
  "sbind m f s = (Inr y, t) \<longleftrightarrow> (\<exists>x s'. m s = (Inr x, s') \<and> f x s' = (Inr y, t))"
  by (auto simp: sbind_def split: prod.splits sum.splits)

lemma sbind_cases:
  assumes "sbind m f s = (r, t)"
  obtains (err) e where "m s = (Inl e, t)" "r = Inl e"
  | (ok) x s' where "m s = (Inr x, s')" "f x s' = (r, t)"
  using assms by (auto simp: sbind_def split: prod.splits sum.splits)

lemma catch_simps [simp]:
  "catch (ret x) h s = (Inr x, s)"
  "catch (raise e) h s = h e s"
  "catch (lift_res (Inl e)) h s = h e s"
  "catch (lift_res (Inr x)) h s = (Inr x, s)"
  by (simp_all add: catch_def)

lemma catch_Inr: "m s = (Inr x, t) \<Longrightarrow> catch m h s = (Inr x, t)"
  by (simp add: catch_def)

lemma catch_Inl: "m s = (Inl e, t) \<Longrightarrow> catch m h s = h e t"
  by (simp add: catch_def)

subsection \<open>What a run keeps\<close>

text \<open>
  \<open>keeps I m\<close>: the run leaves every state of \<open>I\<close> in \<open>I\<close>, whether it returns or raises. It
  composes over the combinators, so a handler keeps what its calls keep.
\<close>

definition keeps :: "('s \<Rightarrow> bool) \<Rightarrow> ('s, 'a) run \<Rightarrow> bool" where
  "keeps I m \<longleftrightarrow> (\<forall>s. I s \<longrightarrow> I (snd (m s)))"

named_theorems keeps_intro "a run keeps an invariant its parts keep"

lemma keepsD: "keeps I m \<Longrightarrow> I s \<Longrightarrow> I (snd (m s))"
  by (simp add: keeps_def)

lemma keepsD2: "keeps I m \<Longrightarrow> I s \<Longrightarrow> m s = (r, t) \<Longrightarrow> I t"
  by (metis keepsD snd_conv)

lemma keeps_ret [keeps_intro]: "keeps I (ret x)"
  and keeps_raise [keeps_intro]: "keeps I (raise e)"
  and keeps_lift_res [keeps_intro]: "keeps I (lift_res r)"
  and keeps_gets [keeps_intro]: "keeps I (gets f)"
  by (simp_all add: keeps_def)

lemma keeps_modify [keeps_intro]: "(\<And>s. I s \<Longrightarrow> I (f s)) \<Longrightarrow> keeps I (modify f)"
  by (simp add: keeps_def)

lemma keeps_sbind [keeps_intro]:
  assumes "keeps I m" and "\<And>x. keeps I (f x)"
  shows "keeps I (sbind m f)"
  using assms by (auto simp: keeps_def sbind_def split: prod.splits sum.splits)

lemma keeps_catch [keeps_intro]:
  assumes "keeps I m" and "\<And>e. keeps I (h e)"
  shows "keeps I (catch m h)"
  using assms by (auto simp: keeps_def catch_def split: prod.splits sum.splits)

lemma keeps_if [keeps_intro]: "(b \<Longrightarrow> keeps I m) \<Longrightarrow> (\<not> b \<Longrightarrow> keeps I n) \<Longrightarrow> keeps I (if b then m else n)"
  by simp

section \<open>Lists\<close>

text \<open>\<^verbatim>\<open>sorted(set)\<close> of strings needs an order on strings; the code only sorts short ASCII
  names, and the order is the one on character codes.\<close>

fun str_le :: "string \<Rightarrow> string \<Rightarrow> bool" where
  "str_le [] ys = True"
| "str_le (x # xs) [] = False"
| "str_le (x # xs) (y # ys) =
     (if x = y then str_le xs ys else (of_char x :: nat) < of_char y)"

fun str_insort :: "string \<Rightarrow> string list \<Rightarrow> string list" where
  "str_insort x [] = [x]"
| "str_insort x (y # ys) = (if str_le x y then x # y # ys else y # str_insort x ys)"

definition str_sort :: "string list \<Rightarrow> string list" where
  "str_sort xs = foldr str_insort xs []"

lemma set_str_insort [simp]: "set (str_insort x xs) = insert x (set xs)"
  by (induction xs) auto

lemma str_sort_simps [simp]:
  "str_sort [] = []" "str_sort (x # xs) = str_insort x (str_sort xs)"
  by (simp_all add: str_sort_def)

lemma set_str_sort [simp]: "set (str_sort xs) = set xs"
  by (induction xs) auto

lemma length_str_insort [simp]: "length (str_insort x xs) = Suc (length xs)"
  by (induction xs) auto

lemma length_str_sort [simp]: "length (str_sort xs) = length xs"
  by (induction xs) auto

lemma distinct_str_insort [simp]: "distinct (str_insort x xs) \<longleftrightarrow> x \<notin> set xs \<and> distinct xs"
  by (induction xs) auto

lemma distinct_str_sort [simp]: "distinct (str_sort xs) = distinct xs"
  by (induction xs) auto

end
