(* ===== verification/PyStr.thy ===== *)
theory PyStr
  imports Prelude "HOL-Library.Sublist"
begin

text \<open>
  The operations of Python's \<^verbatim>\<open>str\<close> and \<^verbatim>\<open>int\<close> that the code uses. A string is a list of
  characters whose codes are below 256; white space is exact on that range, upper and lower
  case are the ASCII ones (every other character is left alone). The lemmas are the ones the
  normalising functions of the components rest on.
\<close>

section \<open>Characters\<close>

definition code :: "char \<Rightarrow> nat" where
  "code c = of_char c"

definition is_space :: "char \<Rightarrow> bool" where
  "is_space c \<longleftrightarrow> (let n = code c in (9 \<le> n \<and> n \<le> 13) \<or> (28 \<le> n \<and> n \<le> 32) \<or> n = 133 \<or> n = 160)"

definition is_digit :: "char \<Rightarrow> bool" where
  "is_digit c \<longleftrightarrow> 48 \<le> code c \<and> code c \<le> 57"

definition is_upper :: "char \<Rightarrow> bool" where
  "is_upper c \<longleftrightarrow> 65 \<le> code c \<and> code c \<le> 90"

definition is_lower :: "char \<Rightarrow> bool" where
  "is_lower c \<longleftrightarrow> 97 \<le> code c \<and> code c \<le> 122"

definition is_alnum :: "char \<Rightarrow> bool" where
  "is_alnum c \<longleftrightarrow> is_digit c \<or> is_upper c \<or> is_lower c"

definition chr :: "nat \<Rightarrow> char" where
  "chr n = char_of n"

definition lower_char :: "char \<Rightarrow> char" where
  "lower_char c = (if is_upper c then chr (code c + 32) else c)"

definition upper_char :: "char \<Rightarrow> char" where
  "upper_char c = (if is_lower c then chr (code c - 32) else c)"

definition digit_char :: "nat \<Rightarrow> char" where
  "digit_char n = chr (48 + n)"

definition digit_val :: "char \<Rightarrow> nat" where
  "digit_val c = code c - 48"

lemmas char_class_defs = is_space_def is_digit_def is_upper_def is_lower_def is_alnum_def

lemma code_chr [simp]: "n < 256 \<Longrightarrow> code (chr n) = n"
  by (simp add: code_def chr_def)

lemma code_less [simp]: "code c < 256"
  by (simp add: code_def)

lemma code_Char [simp]: "code (Char b0 b1 b2 b3 b4 b5 b6 b7) = of_char (Char b0 b1 b2 b3 b4 b5 b6 b7)"
  by (simp add: code_def)

lemma code_inject: "code c = code d \<longleftrightarrow> c = d"
  by (simp add: code_def)

lemma code_lower_char: "code (lower_char c) = (if is_upper c then code c + 32 else code c)"
  by (simp add: lower_char_def is_upper_def)

lemma code_upper_char: "code (upper_char c) = (if is_lower c then code c - 32 else code c)"
  using code_less [of c] by (auto simp: upper_char_def is_lower_def)

lemmas case_codes = code_lower_char code_upper_char

lemma is_space_lower_char [simp]: "is_space (lower_char c) = is_space c"
  and is_space_upper_char [simp]: "is_space (upper_char c) = is_space c"
  by (auto simp: case_codes char_class_defs Let_def)

lemma lower_char_idem [simp]: "lower_char (lower_char c) = lower_char c"
  and upper_char_idem [simp]: "upper_char (upper_char c) = upper_char c"
  and lower_upper_char [simp]: "lower_char (upper_char c) = lower_char c"
  and upper_lower_char [simp]: "upper_char (lower_char c) = upper_char c"
  by (auto simp: code_inject [symmetric] case_codes char_class_defs)

lemma is_alnum_lower_char [simp]: "is_alnum (lower_char c) = is_alnum c"
  by (auto simp: case_codes char_class_defs)

lemma code_digit_char [simp]: "n < 10 \<Longrightarrow> code (digit_char n) = 48 + n"
  by (simp add: digit_char_def)

lemma digit_val_digit_char [simp]: "n < 10 \<Longrightarrow> digit_val (digit_char n) = n"
  by (simp add: digit_val_def)

lemma is_digit_digit_char [simp]: "n < 10 \<Longrightarrow> is_digit (digit_char n)"
  by (simp add: is_digit_def)

lemma digit_not_space: "is_digit c \<Longrightarrow> \<not> is_space c"
  by (auto simp: char_class_defs Let_def)

lemma alnum_not_space: "is_alnum c \<Longrightarrow> \<not> is_space c"
  by (auto simp: char_class_defs Let_def)

section \<open>Case and stripping\<close>

definition lower :: "string \<Rightarrow> string" where
  "lower s = map lower_char s"

definition upper :: "string \<Rightarrow> string" where
  "upper s = map upper_char s"

definition lstrip :: "string \<Rightarrow> string" where
  "lstrip s = dropWhile is_space s"

definition rstrip :: "string \<Rightarrow> string" where
  "rstrip s = rev (dropWhile is_space (rev s))"

definition strip :: "string \<Rightarrow> string" where
  "strip s = rstrip (lstrip s)"

definition rstrip_char :: "char \<Rightarrow> string \<Rightarrow> string" where
  "rstrip_char c s = rev (dropWhile (\<lambda>x. x = c) (rev s))"

definition strip_char :: "char \<Rightarrow> string \<Rightarrow> string" where
  "strip_char c s = rstrip_char c (dropWhile (\<lambda>d. d = c) s)"

lemma lower_simps [simp]:
  "lower [] = []" "lower (c # s) = lower_char c # lower s" "lower (s @ t) = lower s @ lower t"
  "length (lower s) = length s" "lower (lower s) = lower s" "lower (upper s) = lower s"
  "lower s = [] \<longleftrightarrow> s = []"
  by (simp_all add: lower_def upper_def comp_def)

lemma upper_simps [simp]:
  "upper [] = []" "upper (c # s) = upper_char c # upper s" "upper (s @ t) = upper s @ upper t"
  "length (upper s) = length s" "upper (upper s) = upper s" "upper (lower s) = upper s"
  "upper s = [] \<longleftrightarrow> s = []"
  by (simp_all add: lower_def upper_def comp_def)

lemma rev_lower: "rev (lower s) = lower (rev s)"
  by (simp add: lower_def rev_map)

lemma rev_upper: "rev (upper s) = upper (rev s)"
  by (simp add: upper_def rev_map)

lemma dropWhile_map_inv: "(\<And>x. P (f x) = P x) \<Longrightarrow> dropWhile P (map f xs) = map f (dropWhile P xs)"
  by (induction xs) auto

lemma lstrip_lower [simp]: "lstrip (lower s) = lower (lstrip s)"
  and lstrip_upper [simp]: "lstrip (upper s) = upper (lstrip s)"
  by (simp_all add: lstrip_def lower_def upper_def dropWhile_map_inv)

lemma rstrip_lower [simp]: "rstrip (lower s) = lower (rstrip s)"
  and rstrip_upper [simp]: "rstrip (upper s) = upper (rstrip s)"
  by (simp_all add: rstrip_def rev_lower rev_upper) (simp_all add: lower_def upper_def dropWhile_map_inv rev_map)

lemma strip_lower [simp]: "strip (lower s) = lower (strip s)"
  and strip_upper [simp]: "strip (upper s) = upper (strip s)"
  by (simp_all add: strip_def)

lemma lstrip_Nil_iff: "lstrip s = [] \<longleftrightarrow> (\<forall>c \<in> set s. is_space c)"
  by (simp add: lstrip_def dropWhile_eq_Nil_conv)

lemma lstrip_ident: "s = [] \<or> \<not> is_space (hd s) \<Longrightarrow> lstrip s = s"
  by (cases s) (auto simp: lstrip_def)

lemma rstrip_ident: "s = [] \<or> \<not> is_space (last s) \<Longrightarrow> rstrip s = s"
  by (cases s rule: rev_cases) (auto simp: rstrip_def)

lemma hd_lstrip: "lstrip s \<noteq> [] \<Longrightarrow> \<not> is_space (hd (lstrip s))"
  by (simp add: lstrip_def hd_dropWhile)

lemma last_rstrip: "rstrip s \<noteq> [] \<Longrightarrow> \<not> is_space (last (rstrip s))"
  by (simp add: rstrip_def last_rev hd_dropWhile)

lemma rstrip_prefix: "prefix (rstrip s) s"
proof -
  have "suffix (rev (rstrip s)) (rev s)"
    by (simp add: rstrip_def suffix_dropWhile)
  then show ?thesis by (simp add: suffix_to_prefix)
qed

lemma set_rstrip: "set (rstrip s) \<subseteq> set s"
  and set_lstrip: "set (lstrip s) \<subseteq> set s"
  by (auto simp: rstrip_def lstrip_def dest: set_dropWhileD)

lemma set_strip: "set (strip s) \<subseteq> set s"
  using set_rstrip [of "lstrip s"] set_lstrip [of s] by (auto simp: strip_def)

lemma hd_prefix: "prefix p s \<Longrightarrow> p \<noteq> [] \<Longrightarrow> hd p = hd s"
  by (auto simp: prefix_def)

text \<open>What \<^verbatim>\<open>strip\<close> promises: no white space at either end, and nothing is removed from a
  string that has none.\<close>

definition stripped :: "string \<Rightarrow> bool" where
  "stripped s \<longleftrightarrow> s = [] \<or> (\<not> is_space (hd s) \<and> \<not> is_space (last s))"

lemma stripped_Nil [simp]: "stripped []"
  by (simp add: stripped_def)

lemma strip_stripped [simp]: "stripped s \<Longrightarrow> strip s = s"
  by (auto simp: strip_def stripped_def lstrip_ident rstrip_ident)

lemma stripped_strip [simp]: "stripped (strip s)"
proof (cases "strip s = []")
  case False
  then have ne: "lstrip s \<noteq> []" by (auto simp: strip_def rstrip_def)
  have "hd (strip s) = hd (lstrip s)"
    using False unfolding strip_def by (intro hd_prefix rstrip_prefix) auto
  then show ?thesis
    using False ne hd_lstrip [of s] last_rstrip [of "lstrip s"]
    by (simp add: stripped_def strip_def)
qed (simp add: stripped_def)

lemma strip_idem [simp]: "strip (strip s) = strip s"
  by simp

lemma strip_Nil [simp]: "strip [] = []"
  by simp

lemma stripped_no_space: "(\<forall>c \<in> set s. \<not> is_space c) \<Longrightarrow> stripped s"
  by (auto simp: stripped_def)

lemma strip_no_space: "(\<forall>c \<in> set s. \<not> is_space c) \<Longrightarrow> strip s = s"
  by (simp add: stripped_no_space)

lemma strip_eq_Nil_iff: "strip s = [] \<longleftrightarrow> (\<forall>c \<in> set s. is_space c)"
proof
  assume *: "strip s = []"
  have "lstrip s = []"
  proof (rule ccontr)
    assume ne: "lstrip s \<noteq> []"
    then have "hd (rev (lstrip s)) = last (lstrip s)" by (simp add: hd_rev)
    from * have "\<forall>c \<in> set (lstrip s). is_space c"
      by (auto simp: strip_def rstrip_def dropWhile_eq_Nil_conv)
    with ne hd_lstrip [OF ne] show False by simp
  qed
  then show "\<forall>c \<in> set s. is_space c" by (simp add: lstrip_Nil_iff)
next
  assume "\<forall>c \<in> set s. is_space c"
  then have "lstrip s = []" by (simp add: lstrip_Nil_iff)
  then show "strip s = []" by (simp add: strip_def rstrip_def)
qed

lemma rstrip_char_not_last: "rstrip_char c s \<noteq> [] \<Longrightarrow> last (rstrip_char c s) \<noteq> c"
  using hd_dropWhile [of "\<lambda>x. x = c" "rev s"]
  by (auto simp: rstrip_char_def last_rev)

lemma rstrip_char_ident: "s = [] \<or> last s \<noteq> c \<Longrightarrow> rstrip_char c s = s"
  by (cases s rule: rev_cases) (auto simp: rstrip_char_def)

lemma rstrip_char_idem [simp]: "rstrip_char c (rstrip_char c s) = rstrip_char c s"
  using rstrip_char_not_last [of c s] rstrip_char_ident [of "rstrip_char c s" c] by auto

lemma rstrip_char_prefix: "prefix (rstrip_char c s) s"
proof -
  have "suffix (rev (rstrip_char c s)) (rev s)"
    by (simp add: rstrip_char_def suffix_dropWhile)
  then show ?thesis by (simp add: suffix_to_prefix)
qed

lemma set_rstrip_char: "set (rstrip_char c s) \<subseteq> set s"
  by (auto simp: rstrip_char_def dest: set_dropWhileD)

lemma rstrip_char_Nil [simp]: "rstrip_char c [] = []"
  by (simp add: rstrip_char_def)

lemma lower_char_dot [simp]: "lower_char x = CHR ''.'' \<longleftrightarrow> x = CHR ''.''"
  by (auto simp: code_inject [symmetric] case_codes char_class_defs)

lemma rstrip_dot_lower [simp]: "rstrip_char CHR ''.'' (lower s) = lower (rstrip_char CHR ''.'' s)"
  by (simp add: rstrip_char_def rev_lower) (simp add: lower_def dropWhile_map_inv rev_map)

end
