(* ===== verification/PyText.thy ===== *)
theory PyText
  imports PyStr
begin

text \<open>
  Splitting, joining, searching and the decimal integers of Python: \<^verbatim>\<open>str.split\<close> in its
  three uses, \<^verbatim>\<open>str.join\<close>, \<^verbatim>\<open>startswith\<close> and \<^verbatim>\<open>endswith\<close>, \<^verbatim>\<open>in\<close>, \<^verbatim>\<open>replace\<close>,
  \<^verbatim>\<open>repr\<close>, \<^verbatim>\<open>int(text)\<close> and \<^verbatim>\<open>str(int)\<close>, with the round trips between them.
\<close>

section \<open>Searching\<close>

definition startswith :: "string \<Rightarrow> string \<Rightarrow> bool" where
  "startswith p s \<longleftrightarrow> take (length p) s = p"

definition endswith :: "string \<Rightarrow> string \<Rightarrow> bool" where
  "endswith p s \<longleftrightarrow> drop (length s - length p) s = p"

fun contains :: "string \<Rightarrow> string \<Rightarrow> bool" where
  "contains p [] = (p = [])"
| "contains p (c # cs) = (startswith p (c # cs) \<or> contains p cs)"

definition replace_char :: "char \<Rightarrow> string \<Rightarrow> string \<Rightarrow> string" where
  "replace_char c t s = concat (map (\<lambda>x. if x = c then t else [x]) s)"

lemma startswith_iff: "startswith p s \<longleftrightarrow> (\<exists>t. s = p @ t)"
  unfolding startswith_def by (metis append_eq_conv_conj append_take_drop_id)

lemma endswith_iff: "endswith p s \<longleftrightarrow> (\<exists>t. s = t @ p)"
  unfolding endswith_def
  by (metis append_eq_conv_conj append_take_drop_id diff_diff_cancel diff_le_self length_append
      length_drop add_diff_cancel_right')

lemma startswith_append [simp]: "startswith p (p @ t)"
  by (auto simp: startswith_iff)

lemma endswith_append [simp]: "endswith p (t @ p)"
  by (auto simp: endswith_iff)

lemma startswith_Nil [simp]: "startswith [] s"
  by (simp add: startswith_def)

section \<open>Splitting and joining\<close>

text \<open>\<^verbatim>\<open>s.split(c)\<close> for a one-character separator, and \<^verbatim>\<open>sep.join(ws)\<close>.\<close>

fun split_char :: "char \<Rightarrow> string \<Rightarrow> string list" where
  "split_char c [] = [[]]"
| "split_char c (x # xs) =
     (if x = c then [] # split_char c xs
      else case split_char c xs of [] \<Rightarrow> [[x]] | w # ws \<Rightarrow> (x # w) # ws)"

fun join :: "string \<Rightarrow> string list \<Rightarrow> string" where
  "join sep [] = []"
| "join sep [w] = w"
| "join sep (w # v # ws) = w @ sep @ join sep (v # ws)"

lemma split_char_not_Nil [simp]: "split_char c s \<noteq> []"
  by (cases s) (auto split: list.splits)

lemma split_char_pieces: "w \<in> set (split_char c s) \<Longrightarrow> c \<notin> set w"
  by (induction s arbitrary: w) (auto split: if_splits list.splits)

lemma join_Cons: "ws \<noteq> [] \<Longrightarrow> join sep (w # ws) = w @ sep @ join sep ws"
  by (cases ws) auto

lemma join_split_char [simp]: "join [c] (split_char c s) = s"
proof (induction s)
  case (Cons x xs)
  show ?case
  proof (cases "split_char c xs")
    case (Cons w ws)
    with Cons.IH show ?thesis by (cases ws) (auto simp: join_Cons)
  qed simp
qed simp

lemma set_join: "w \<in> set ws \<Longrightarrow> set w \<subseteq> set (join sep ws)"
  by (induction sep ws rule: join.induct) auto

lemma split_char_set: "w \<in> set (split_char c s) \<Longrightarrow> set w \<subseteq> set s"
  using set_join [of w "split_char c s" "[c]"] by simp

lemma split_char_no_sep: "c \<notin> set s \<Longrightarrow> split_char c s = [s]"
  by (induction s) auto

lemma split_char_append_sep: "c \<notin> set w \<Longrightarrow> split_char c (w @ c # s) = w # split_char c s"
  by (induction w) auto

lemma split_char_join:
  "ws \<noteq> [] \<Longrightarrow> \<forall>w \<in> set ws. c \<notin> set w \<Longrightarrow> split_char c (join [c] ws) = ws"
proof (induction "[c]" ws rule: join.induct)
  case (3 w v ws)
  then show ?case by (simp add: split_char_append_sep)
qed (auto simp: split_char_no_sep)

text \<open>\<^verbatim>\<open>s.split(c, 1)\<close> where \<^verbatim>\<open>c\<close> is known to occur, and \<^verbatim>\<open>s.partition(c)\<close>.\<close>

definition before_char :: "char \<Rightarrow> string \<Rightarrow> string" where
  "before_char c s = takeWhile (\<lambda>x. x \<noteq> c) s"

definition after_char :: "char \<Rightarrow> string \<Rightarrow> string" where
  "after_char c s = drop 1 (dropWhile (\<lambda>x. x \<noteq> c) s)"

lemma before_after_char: "c \<in> set s \<Longrightarrow> before_char c s @ c # after_char c s = s"
  by (induction s) (auto simp: before_char_def after_char_def)

text \<open>\<^verbatim>\<open>s.split()\<close> and \<^verbatim>\<open>s.split(None, n)\<close>: runs of white space separate; with a limit the
  rest keeps its trailing white space.\<close>

definition next_word :: "string \<Rightarrow> string" where
  "next_word t = takeWhile (\<lambda>c. \<not> is_space c) t"

definition after_word :: "string \<Rightarrow> string" where
  "after_word t = dropWhile (\<lambda>c. \<not> is_space c) t"

lemma after_word_shorter: "lstrip s \<noteq> [] \<Longrightarrow> length (after_word (lstrip s)) < length s"
proof -
  assume ne: "lstrip s \<noteq> []"
  then obtain c t where ct: "lstrip s = c # t" by (cases "lstrip s") auto
  with hd_lstrip [OF ne] have "\<not> is_space c" by simp
  with ct have "length (after_word (lstrip s)) \<le> length t"
    by (simp add: after_word_def length_dropWhile_le)
  also have "length t < length (lstrip s)" using ct by simp
  also have "length (lstrip s) \<le> length s" by (simp add: lstrip_def length_dropWhile_le)
  finally show ?thesis .
qed

function split_ws :: "string \<Rightarrow> string list" where
  "split_ws s =
     (let t = lstrip s in if t = [] then [] else next_word t # split_ws (after_word t))"
  by pat_completeness auto
termination
  by (relation "measure length") (auto simp: after_word_shorter)

declare split_ws.simps [simp del]

fun split_ws_max :: "nat \<Rightarrow> string \<Rightarrow> string list" where
  "split_ws_max 0 s = (let t = lstrip s in if t = [] then [] else [t])"
| "split_ws_max (Suc n) s =
     (let t = lstrip s in if t = [] then [] else next_word t # split_ws_max n (after_word t))"

text \<open>A word: not empty, no white space in it.\<close>

definition word :: "string \<Rightarrow> bool" where
  "word w \<longleftrightarrow> w \<noteq> [] \<and> (\<forall>c \<in> set w. \<not> is_space c)"

lemma next_word_word: "t \<noteq> [] \<Longrightarrow> \<not> is_space (hd t) \<Longrightarrow> word (next_word t)"
  by (cases t) (auto simp: next_word_def word_def dest: set_takeWhileD)

lemma split_ws_words: "w \<in> set (split_ws s) \<Longrightarrow> word w"
proof (induction s rule: split_ws.induct)
  case (1 s)
  then show ?case
    by (subst (asm) (2) split_ws.simps)
       (auto simp: Let_def split: if_splits intro: next_word_word [OF _ hd_lstrip])
qed

lemma split_ws_Nil [simp]: "split_ws [] = []"
  by (subst split_ws.simps) (simp add: lstrip_def)

lemma word_lstrip: "word w \<Longrightarrow> lstrip (w @ s) = w @ s"
  by (cases w) (auto simp: word_def lstrip_def)

lemma next_word_append: "word w \<Longrightarrow> s = [] \<or> is_space (hd s) \<Longrightarrow> next_word (w @ s) = w"
  by (cases s) (auto simp: word_def next_word_def takeWhile_append)

lemma after_word_append: "word w \<Longrightarrow> s = [] \<or> is_space (hd s) \<Longrightarrow> after_word (w @ s) = s"
  by (cases s) (auto simp: word_def after_word_def dropWhile_append)

lemma space_is_space [simp]: "is_space CHR '' ''"
  by (simp add: is_space_def)

lemma split_ws_lstrip: "split_ws (lstrip s) = split_ws s"
proof -
  have "lstrip (lstrip s) = lstrip s" by (simp add: lstrip_def dropWhile_idem)
  then show ?thesis by (subst (1 2) split_ws.simps) simp
qed

lemma split_ws_space: "split_ws (CHR '' '' # s) = split_ws s"
  using split_ws_lstrip [of "CHR '' '' # s"] split_ws_lstrip [of s] by (simp add: lstrip_def)

lemma split_ws_word: "word w \<Longrightarrow> s = [] \<or> is_space (hd s) \<Longrightarrow> split_ws (w @ s) = w # split_ws s"
  by (subst split_ws.simps)
     (auto simp: word_lstrip next_word_append after_word_append Let_def word_def)

lemma split_ws_join: "\<forall>w \<in> set ws. word w \<Longrightarrow> split_ws (join '' '' ws) = ws"
proof (induction "'' ''" ws rule: join.induct)
  case (2 w)
  then show ?case using split_ws_word [of w "[]"] by simp
next
  case (3 w v ws)
  then show ?case by (simp add: split_ws_word split_ws_space)
qed simp

lemma split_ws_max_word:
  "word w \<Longrightarrow> s = [] \<or> is_space (hd s) \<Longrightarrow> split_ws_max (Suc n) (w @ s) = w # split_ws_max n s"
  by (auto simp: word_lstrip next_word_append after_word_append Let_def word_def)

lemma split_ws_max_space: "split_ws_max n (CHR '' '' # s) = split_ws_max n s"
  by (cases n) (simp_all add: lstrip_def)

section \<open>Integers\<close>

function show_nat :: "nat \<Rightarrow> string" where
  "show_nat n = (if n < 10 then [digit_char n] else show_nat (n div 10) @ [digit_char (n mod 10)])"
  by pat_completeness auto
termination
  by (relation "measure id") auto

declare show_nat.simps [simp del]

definition show_int :: "int \<Rightarrow> string" where
  "show_int i = (if i < 0 then CHR ''-'' # show_nat (nat (- i)) else show_nat (nat i))"

text \<open>The digits of \<^verbatim>\<open>int(text)\<close> may be separated by single underscores; more than 4300 digits
  are refused (\<^verbatim>\<open>sys.int_info.default_max_str_digits\<close>).\<close>

fun us_ok :: "bool \<Rightarrow> string \<Rightarrow> bool" where
  "us_ok p [] = p"
| "us_ok p (c # cs) = (if is_digit c then us_ok True cs else c = CHR ''_'' \<and> p \<and> us_ok False cs)"

definition digits_val :: "string \<Rightarrow> nat" where
  "digits_val ds = foldl (\<lambda>n c. 10 * n + digit_val c) 0 ds"

definition max_str_digits :: nat where
  "max_str_digits = 4300"

definition unsigned_int :: "string \<Rightarrow> nat option" where
  "unsigned_int body =
     (let ds = filter is_digit body
      in if us_ok False body \<and> length ds \<le> max_str_digits then Some (digits_val ds) else None)"

fun signed_int :: "string \<Rightarrow> int option" where
  "signed_int [] = None"
| "signed_int (c # cs) =
     (if c = CHR ''-'' then map_option (\<lambda>n. - int n) (unsigned_int cs)
      else if c = CHR ''+'' then map_option int (unsigned_int cs)
      else map_option int (unsigned_int (c # cs)))"

definition py_int :: "string \<Rightarrow> int option" where
  "py_int s = signed_int (strip s)"

lemma digits_val_snoc [simp]: "digits_val (ds @ [d]) = 10 * digits_val ds + digit_val d"
  by (simp add: digits_val_def)

lemma digits_val_Nil [simp]: "digits_val [] = 0"
  by (simp add: digits_val_def)

lemma show_nat_digits: "\<forall>c \<in> set (show_nat n). is_digit c"
proof (induction n rule: show_nat.induct)
  case (1 n)
  then show ?case by (subst show_nat.simps) auto
qed

lemma show_nat_not_Nil [simp]: "show_nat n \<noteq> []"
  by (subst show_nat.simps) auto

lemma digits_val_show_nat [simp]: "digits_val (show_nat n) = n"
proof (induction n rule: show_nat.induct)
  case (1 n)
  show ?case
  proof (cases "n < 10")
    case True
    then show ?thesis using digits_val_snoc [of "[]"] by (subst show_nat.simps) simp
  next
    case False
    with 1 show ?thesis by (subst show_nat.simps) simp
  qed
qed

lemma length_show_nat: "n < 10 ^ k \<Longrightarrow> 0 < k \<Longrightarrow> length (show_nat n) \<le> k"
proof (induction k arbitrary: n)
  case (Suc k)
  show ?case
  proof (cases "n < 10")
    case False
    then have "k \<noteq> 0" using Suc.prems by (cases k) auto
    moreover have "n div 10 < 10 ^ k" using Suc.prems(1) by (simp add: less_mult_imp_div_less)
    ultimately have "length (show_nat (n div 10)) \<le> k" using Suc.IH by simp
    with False show ?thesis by (subst show_nat.simps) simp
  qed (subst show_nat.simps, simp)
qed simp

lemma us_ok_digits: "\<forall>c \<in> set s. is_digit c \<Longrightarrow> us_ok p s \<longleftrightarrow> s \<noteq> [] \<or> p"
  by (induction s arbitrary: p) auto

definition small_nat :: "nat \<Rightarrow> bool" where
  "small_nat n \<longleftrightarrow> length (show_nat n) \<le> max_str_digits"

lemma small_nat_less: "n < 10 ^ k \<Longrightarrow> 0 < k \<Longrightarrow> k \<le> 4300 \<Longrightarrow> small_nat n"
  using length_show_nat [of n k] by (simp add: small_nat_def max_str_digits_def)

lemma unsigned_int_show: "small_nat n \<Longrightarrow> unsigned_int (show_nat n) = Some n"
  using show_nat_digits [of n]
  by (simp add: unsigned_int_def us_ok_digits small_nat_def filter_id_conv [THEN iffD2])

lemma word_show_nat: "word (show_nat n)"
  using show_nat_digits [of n] by (auto simp: word_def dest: digit_not_space)

lemma minus_not_space: "\<not> is_space CHR ''-''"
  by (simp add: is_space_def)

lemma word_show_int: "word (show_int i)"
  using word_show_nat by (auto simp: show_int_def word_def minus_not_space)

lemma word_strip: "word w \<Longrightarrow> strip w = w"
  by (simp add: word_def strip_no_space)

lemma signed_int_show_nat: "small_nat n \<Longrightarrow> signed_int (show_nat n) = Some (int n)"
proof -
  assume small: "small_nat n"
  obtain c cs where eq: "show_nat n = c # cs" by (cases "show_nat n") auto
  with show_nat_digits [of n] have "is_digit c" by simp
  then have "c \<noteq> CHR ''-''" "c \<noteq> CHR ''+''" by (auto simp: is_digit_def)
  with eq unsigned_int_show [OF small] show ?thesis by simp
qed

lemma py_int_show_int:
  assumes "small_nat (nat \<bar>i\<bar>)"
  shows "py_int (show_int i) = Some i"
  using assms
  by (simp add: py_int_def word_strip word_show_int)
     (auto simp: show_int_def signed_int_show_nat unsigned_int_show)

text \<open>Lower-case hexadecimal, as the format \<^verbatim>\<open>%x\<close> writes it.\<close>

definition hex_char :: "nat \<Rightarrow> char" where
  "hex_char n = (if n < 10 then digit_char n else chr (87 + n))"

section \<open>\<^verbatim>\<open>repr\<close> of a string\<close>

definition repr_char :: "char \<Rightarrow> char \<Rightarrow> string" where
  "repr_char q c =
     (let n = code c in
      if c = q \<or> n = 92 then [CHR 0x5C, c]
      else if n = 10 then [CHR 0x5C, CHR ''n'']
      else if n = 13 then [CHR 0x5C, CHR ''r'']
      else if n = 9 then [CHR 0x5C, CHR ''t'']
      else if n < 32 \<or> (127 \<le> n \<and> n < 161) \<or> n = 173
        then [CHR 0x5C, CHR ''x'', hex_char (n div 16), hex_char (n mod 16)]
      else [c])"

definition repr :: "string \<Rightarrow> string" where
  "repr s =
     (let q = (if CHR 0x27 \<in> set s \<and> CHR 0x22 \<notin> set s then CHR 0x22 else CHR 0x27)
      in [q] @ concat (map (repr_char q) s) @ [q])"

section \<open>First line of a text\<close>

definition is_line_break :: "char \<Rightarrow> bool" where
  "is_line_break c \<longleftrightarrow> (let n = code c in (10 \<le> n \<and> n \<le> 13) \<or> (28 \<le> n \<and> n \<le> 30) \<or> n = 133)"

text \<open>\<^verbatim>\<open>s.splitlines()[0]\<close> for a string that is not empty.\<close>

definition first_line :: "string \<Rightarrow> string" where
  "first_line s = takeWhile (\<lambda>c. \<not> is_line_break c) s"

text \<open>\<^verbatim>\<open>s.splitlines()\<close>: a carriage return and line feed end one line.\<close>

fun lines_from :: "string \<Rightarrow> string \<Rightarrow> string list" where
  "lines_from acc [] = (if acc = [] then [] else [acc])"
| "lines_from acc (c # cs) =
     (if is_line_break c
      then acc # lines_from [] (if c = CHR 0x0D \<and> cs \<noteq> [] \<and> hd cs = CHR 0x0A then tl cs else cs)
      else lines_from (acc @ [c]) cs)"

definition splitlines :: "string \<Rightarrow> string list" where
  "splitlines s = lines_from [] s"

lemma lines_from_plain: "list_all (\<lambda>c. \<not> is_line_break c) w \<Longrightarrow> lines_from acc (w @ s) = lines_from (acc @ w) s"
  by (induction w arbitrary: acc) auto

lemma is_line_break_newline [simp]: "is_line_break CHR 0x0A"
  by (simp add: is_line_break_def code_def)

lemma splitlines_plain [simp]: "splitlines [] = []"
  "list_all (\<lambda>c. \<not> is_line_break c) w \<Longrightarrow> splitlines (w @ CHR 0x0A # s) = w # splitlines s"
  by (simp_all add: splitlines_def lines_from_plain)

lemma lines_from_no_break: "list_all (\<lambda>c. \<not> is_line_break c) acc \<Longrightarrow> l \<in> set (lines_from acc s) \<Longrightarrow> list_all (\<lambda>c. \<not> is_line_break c) l"
  by (induction acc s rule: lines_from.induct) (auto split: if_splits)

lemma splitlines_no_break: "l \<in> set (splitlines s) \<Longrightarrow> list_all (\<lambda>c. \<not> is_line_break c) l"
  using lines_from_no_break [of "[]" l s] by (simp add: splitlines_def)

lemma splitlines_join:
  "\<forall>l \<in> set ls. list_all (\<lambda>c. \<not> is_line_break c) l \<Longrightarrow> ls \<noteq> [] \<Longrightarrow> splitlines (join [CHR 0x0A] ls @ [CHR 0x0A]) = ls"
proof (induction "[CHR 0x0A]" ls rule: join.induct)
  case (2 w)
  then show ?case using splitlines_plain(2) [of w "[]"] by simp
qed simp_all

end
