(* ===== verification/PyIp.thy ===== *)
theory PyIp
  imports PyText
begin

text \<open>
  \<^verbatim>\<open>ipaddress.ip_address\<close> and \<^verbatim>\<open>str\<close> of its result, as the standard library of Python 3.12
  defines them: dotted-quad parsing without leading zeros, the eight hextets of an IPv6
  address with one \<^verbatim>\<open>::\<close>, an embedded IPv4 tail and a scope id, and the compressed text
  form. An address is held as its octets or hextets. The main lemma is that the text form
  parses back to the address (\<open>ip_address_ip_str\<close>).
\<close>

datatype ip = V4 "nat list" | V6 "nat list" "string option"

definition is_hex :: "char \<Rightarrow> bool" where
  "is_hex c \<longleftrightarrow> is_digit c \<or> (65 \<le> code c \<and> code c \<le> 70) \<or> (97 \<le> code c \<and> code c \<le> 102)"

definition hex_digit :: "char \<Rightarrow> nat" where
  "hex_digit c =
     (if is_digit c then code c - 48 else if code c < 97 then code c - 55 else code c - 87)"

definition hex_val :: "string \<Rightarrow> nat" where
  "hex_val s = foldl (\<lambda>n c. 16 * n + hex_digit c) 0 s"

function show_hex :: "nat \<Rightarrow> string" where
  "show_hex n = (if n < 16 then [hex_char n] else show_hex (n div 16) @ [hex_char (n mod 16)])"
  by pat_completeness auto
termination
  by (relation "measure id") auto

declare show_hex.simps [simp del]

section \<open>Parsing\<close>

definition parse_octet :: "string \<Rightarrow> nat option" where
  "parse_octet s =
     (if s \<noteq> [] \<and> (\<forall>c \<in> set s. is_digit c) \<and> length s \<le> 3
         \<and> \<not> (s \<noteq> ''0'' \<and> hd s = CHR ''0'') \<and> digits_val s \<le> 255
      then Some (digits_val s) else None)"

definition parse_v4 :: "string \<Rightarrow> nat list option" where
  "parse_v4 s =
     (let ps = split_char CHR ''.'' s
      in if length ps = 4 \<and> (\<forall>p \<in> set ps. parse_octet p \<noteq> None)
         then Some (map (the \<circ> parse_octet) ps) else None)"

definition parse_hextet :: "string \<Rightarrow> nat option" where
  "parse_hextet s =
     (if s \<noteq> [] \<and> (\<forall>c \<in> set s. is_hex c) \<and> length s \<le> 4 then Some (hex_val s) else None)"

definition parse_hextets :: "string list \<Rightarrow> nat list option" where
  "parse_hextets ps =
     (if \<forall>p \<in> set ps. parse_hextet p \<noteq> None then Some (map (the \<circ> parse_hextet) ps) else None)"

text \<open>The IPv4 tail of an IPv6 text becomes two hextets.\<close>

definition v6_parts :: "string \<Rightarrow> string list option" where
  "v6_parts s =
     (let ps = split_char CHR '':'' s
      in if length ps < 3 then None
         else if CHR ''.'' \<in> set (last ps) then
           (case parse_v4 (last ps) of
              None \<Rightarrow> None
            | Some os \<Rightarrow> Some (butlast ps @
                [show_hex (os ! 0 * 256 + os ! 1), show_hex (os ! 2 * 256 + os ! 3)]))
         else Some ps)"

definition empty_inner :: "string list \<Rightarrow> nat list" where
  "empty_inner ps = filter (\<lambda>i. ps ! i = []) [1..<length ps - 1]"

definition parse_skipped :: "string list \<Rightarrow> nat \<Rightarrow> nat list option" where
  "parse_skipped ps k =
     (let hi = (if hd ps = [] then k - 1 else k);
          lo = (if last ps = [] then length ps - k - 2 else length ps - k - 1)
      in if (hd ps = [] \<and> hi \<noteq> 0) \<or> (last ps = [] \<and> lo \<noteq> 0) \<or> 8 \<le> hi + lo then None
         else (case (parse_hextets (take hi ps), parse_hextets (drop (length ps - lo) ps)) of
                 (Some a, Some b) \<Rightarrow> Some (a @ replicate (8 - (hi + lo)) 0 @ b)
               | _ \<Rightarrow> None))"

definition parse_v6_parts :: "string list \<Rightarrow> nat list option" where
  "parse_v6_parts ps =
     (if 9 < length ps then None
      else (case empty_inner ps of
              [] \<Rightarrow> (if length ps = 8 then parse_hextets ps else None)
            | [k] \<Rightarrow> parse_skipped ps k
            | _ \<Rightarrow> None))"

definition parse_v6_addr :: "string \<Rightarrow> nat list option" where
  "parse_v6_addr s = Option.bind (v6_parts s) parse_v6_parts"

text \<open>\<^verbatim>\<open>_split_scope_id\<close>; a \<^verbatim>\<open>/\<close> anywhere is refused.\<close>

definition parse_v6 :: "string \<Rightarrow> ip option" where
  "parse_v6 s =
     (if CHR ''/'' \<in> set s then None
      else if CHR ''%'' \<in> set s then
        (let z = after_char CHR ''%'' s
         in if z = [] \<or> CHR ''%'' \<in> set z then None
            else map_option (\<lambda>h. V6 h (Some z)) (parse_v6_addr (before_char CHR ''%'' s)))
      else map_option (\<lambda>h. V6 h None) (parse_v6_addr s))"

definition ip_address :: "string \<Rightarrow> ip option" where
  "ip_address s = (case parse_v4 s of Some os \<Rightarrow> Some (V4 os) | None \<Rightarrow> parse_v6 s)"

section \<open>The text form\<close>

text \<open>\<open>zero_run i hs bs bl l\<close>: the loop of \<^verbatim>\<open>_compress_hextets\<close> from index \<open>i\<close>, with the best
  run so far (start \<open>bs\<close>, length \<open>bl\<close>) and the length \<open>l\<close> of the run that ends before \<open>i\<close>.\<close>

fun zero_run :: "nat \<Rightarrow> nat list \<Rightarrow> nat \<Rightarrow> nat \<Rightarrow> nat \<Rightarrow> nat \<times> nat" where
  "zero_run i [] bs bl l = (bs, bl)"
| "zero_run i (h # hs) bs bl l =
     (if h = 0
      then (if bl < Suc l then zero_run (Suc i) hs (i - l) (Suc l) (Suc l)
            else zero_run (Suc i) hs bs bl (Suc l))
      else zero_run (Suc i) hs bs bl 0)"

definition compress :: "nat list \<Rightarrow> string list" where
  "compress hs =
     (let (bs, bl) = zero_run 0 hs 0 0 0; ss = map show_hex hs
      in if 1 < bl then
           (let ss1 = (if bs + bl = length ss then ss @ [[]] else ss);
                ss2 = take bs ss1 @ [[]] @ drop (bs + bl) ss1
            in if bs = 0 then [] # ss2 else ss2)
         else ss)"

definition v4_str :: "nat list \<Rightarrow> string" where
  "v4_str os = join ''.'' (map show_nat os)"

definition v6_str :: "nat list \<Rightarrow> string" where
  "v6_str hs = join '':'' (compress hs)"

fun ip_str :: "ip \<Rightarrow> string" where
  "ip_str (V4 os) = v4_str os"
| "ip_str (V6 hs None) = v6_str hs"
| "ip_str (V6 hs (Some z)) = v6_str hs @ CHR ''%'' # z"

section \<open>Well-formed addresses\<close>

definition v4_ok :: "nat list \<Rightarrow> bool" where
  "v4_ok os \<longleftrightarrow> length os = 4 \<and> (\<forall>b \<in> set os. b < 256)"

definition v6_ok :: "nat list \<Rightarrow> bool" where
  "v6_ok hs \<longleftrightarrow> length hs = 8 \<and> (\<forall>h \<in> set hs. h < 65536)"

fun ip_ok :: "ip \<Rightarrow> bool" where
  "ip_ok (V4 os) = v4_ok os"
| "ip_ok (V6 hs z) = (v6_ok hs \<and> (case z of None \<Rightarrow> True
     | Some t \<Rightarrow> t \<noteq> [] \<and> CHR ''%'' \<notin> set t \<and> CHR ''/'' \<notin> set t))"

lemma parse_v4_ok: "parse_v4 s = Some os \<Longrightarrow> v4_ok os"
  by (fastforce simp: parse_v4_def v4_ok_def Let_def parse_octet_def split: if_splits)

lemma hex_digit_less: "is_hex c \<Longrightarrow> hex_digit c < 16"
  by (auto simp: is_hex_def hex_digit_def is_digit_def)

lemma hex_val_snoc [simp]: "hex_val (s @ [c]) = 16 * hex_val s + hex_digit c"
  and hex_val_Nil [simp]: "hex_val [] = 0"
  by (simp_all add: hex_val_def)

lemma hex_val_less: "\<forall>c \<in> set s. is_hex c \<Longrightarrow> hex_val s < 16 ^ length s"
proof (induction s rule: rev_induct)
  case (snoc c s)
  then have "hex_val s < 16 ^ length s" "hex_digit c < 16" by (auto intro: hex_digit_less)
  then show ?case by simp
qed simp

lemma parse_hextet_less: "parse_hextet p = Some h \<Longrightarrow> h < 65536"
proof -
  assume "parse_hextet p = Some h"
  then have *: "\<forall>c \<in> set p. is_hex c" "length p \<le> 4" "h = hex_val p"
    by (auto simp: parse_hextet_def split: if_splits)
  have "hex_val p < 16 ^ length p" using *(1) by (rule hex_val_less)
  also have "(16::nat) ^ length p \<le> 16 ^ 4" using *(2) by (intro power_increasing) auto
  finally show ?thesis using *(3) by simp
qed

lemma parse_hextets_ok:
  "parse_hextets ps = Some hs \<Longrightarrow> length hs = length ps \<and> (\<forall>h \<in> set hs. h < 65536)"
  by (fastforce simp: parse_hextets_def split: if_splits dest: parse_hextet_less)

lemma parse_skipped_ok:
  assumes "parse_skipped ps k = Some hs" and "k < length ps - 1"
  shows "v6_ok hs"
proof -
  define hi where "hi = (if hd ps = [] then k - 1 else k)"
  define lo where "lo = (if last ps = [] then length ps - k - 2 else length ps - k - 1)"
  from assms(1) obtain a b where ab: "parse_hextets (take hi ps) = Some a"
      "parse_hextets (drop (length ps - lo) ps) = Some b"
      "hs = a @ replicate (8 - (hi + lo)) 0 @ b" and less: "hi + lo < 8"
    unfolding parse_skipped_def Let_def hi_def [symmetric] lo_def [symmetric]
    by (auto split: if_splits option.splits)
  have "hi \<le> length ps" "lo \<le> length ps" using assms(2) by (auto simp: hi_def lo_def)
  with parse_hextets_ok [OF ab(1)] parse_hextets_ok [OF ab(2)] ab(3) less
  show ?thesis by (auto simp: v6_ok_def)
qed

lemma empty_inner_bound: "k \<in> set (empty_inner ps) \<Longrightarrow> 1 \<le> k \<and> k < length ps - 1 \<and> ps ! k = []"
  by (auto simp: empty_inner_def)

lemma parse_v6_parts_ok: "parse_v6_parts ps = Some hs \<Longrightarrow> v6_ok hs"
  using parse_hextets_ok [of ps hs] empty_inner_bound [of _ ps]
  by (auto simp: parse_v6_parts_def v6_ok_def [of hs] split: if_splits list.splits
      dest!: parse_skipped_ok)

lemma after_char_set: "set (after_char c s) \<subseteq> set s"
  by (auto simp: after_char_def dest: in_set_dropD set_dropWhileD)

lemma ip_address_ok: "ip_address s = Some a \<Longrightarrow> ip_ok a"
  using after_char_set [of "CHR ''%''" s]
  by (auto simp: ip_address_def parse_v6_def parse_v6_addr_def Let_def bind_eq_Some_conv
      split: if_splits option.splits dest: parse_v4_ok parse_v6_parts_ok)

section \<open>The text form parses back\<close>

lemma hex_char_props: "n < 16 \<Longrightarrow> is_hex (hex_char n) \<and> hex_digit (hex_char n) = n"
  by (auto simp: hex_char_def is_hex_def hex_digit_def is_digit_def)

lemma show_hex_hex: "\<forall>c \<in> set (show_hex n). is_hex c"
proof (induction n rule: show_hex.induct)
  case (1 n)
  then show ?case using hex_char_props by (subst show_hex.simps) auto
qed

lemma show_hex_not_Nil [simp]: "show_hex n \<noteq> []"
  by (subst show_hex.simps) auto

lemma hex_val_show_hex [simp]: "hex_val (show_hex n) = n"
proof (induction n rule: show_hex.induct)
  case (1 n)
  show ?case
  proof (cases "n < 16")
    case True
    then show ?thesis
      using hex_val_snoc [of "[]"] hex_char_props [of n] by (subst show_hex.simps) simp
  next
    case False
    with 1 show ?thesis using hex_char_props [of "n mod 16"] by (subst show_hex.simps) simp
  qed
qed

lemma length_show_hex: "n < 16 ^ k \<Longrightarrow> 0 < k \<Longrightarrow> length (show_hex n) \<le> k"
proof (induction k arbitrary: n)
  case (Suc k)
  show ?case
  proof (cases "n < 16")
    case False
    then have "k \<noteq> 0" using Suc.prems by (cases k) auto
    moreover have "n div 16 < 16 ^ k" using Suc.prems(1) by (simp add: less_mult_imp_div_less)
    ultimately have "length (show_hex (n div 16)) \<le> k" using Suc.IH by simp
    with False show ?thesis by (subst show_hex.simps) simp
  qed (subst show_hex.simps, simp)
qed simp

lemma parse_hextet_show: "h < 65536 \<Longrightarrow> parse_hextet (show_hex h) = Some h"
  using show_hex_hex [of h] length_show_hex [of h 4] by (simp add: parse_hextet_def)

lemma parse_hextets_show: "\<forall>h \<in> set hs. h < 65536 \<Longrightarrow> parse_hextets (map show_hex hs) = Some hs"
  by (auto simp: parse_hextets_def parse_hextet_show intro!: map_idI)

lemma hex_not: "is_hex c \<Longrightarrow> c \<noteq> CHR '':'' \<and> c \<noteq> CHR ''.'' \<and> c \<noteq> CHR ''/'' \<and> c \<noteq> CHR ''%''"
  by (auto simp: is_hex_def is_digit_def)

lemma hex_not_space: "is_hex c \<Longrightarrow> \<not> is_space c"
  by (auto simp: is_hex_def char_class_defs Let_def)

lemma show_hex_not: "c \<in> {CHR '':'', CHR ''.'', CHR ''/'', CHR ''%''} \<Longrightarrow> c \<notin> set (show_hex h)"
  using show_hex_hex [of h] hex_not by fastforce

definition zeros_in :: "(nat \<Rightarrow> nat) \<Rightarrow> nat \<Rightarrow> nat \<Rightarrow> bool" where
  "zeros_in z a b \<longleftrightarrow> (\<forall>j. a \<le> j \<and> j < b \<longrightarrow> z j = 0)"

lemma zeros_in_empty: "zeros_in z a a"
  by (simp add: zeros_in_def)

lemma zeros_in_Suc: "zeros_in z a b \<Longrightarrow> z b = 0 \<Longrightarrow> zeros_in z a (Suc b)"
  by (auto simp: zeros_in_def less_Suc_eq)

lemma zero_run_bounds:
  assumes "zero_run i hs bs bl l = (s, m)"
    and "bs + bl \<le> i" and "l \<le> i" and "zeros_in z bs (bs + bl)" and "zeros_in z (i - l) i"
    and "\<And>j. j < length hs \<Longrightarrow> z (i + j) = hs ! j"
  shows "s + m \<le> i + length hs \<and> zeros_in z s (s + m)"
  using assms
proof (induction i hs bs bl l rule: zero_run.induct)
  case (2 i h hs bs bl l)
  have zi: "z i = h" using 2(9) [of 0] by simp
  have tl: "z (Suc i + j) = hs ! j" if "j < length hs" for j
    using 2(9) [of "Suc j"] that by simp
  show ?case
  proof (cases "h = 0")
    case True
    with 2(8) zi have run: "zeros_in z (Suc i - Suc l) (Suc i)" by (simp add: zeros_in_Suc)
    show ?thesis
    proof (cases "bl < Suc l")
      case bl: True
      have "zeros_in z (i - l) (i - l + Suc l)" using run 2(6) by simp
      with 2(1) [OF True bl _ _ _ _ run tl] 2(4,6) True bl show ?thesis by simp
    next
      case False
      with 2(2) [OF True False _ _ _ 2(7) run tl] 2(4-6) True show ?thesis by simp
    qed
  next
    case False
    have "zeros_in z (Suc i - 0) (Suc i)" by (simp add: zeros_in_empty)
    with 2(3) [OF False _ _ _ 2(7) _ tl] 2(4,5) False show ?thesis by simp
  qed
qed auto

lemma zero_run_hextets:
  assumes "zero_run 0 hs 0 0 0 = (s, m)"
  shows "s + m \<le> length hs \<and> take m (drop s hs) = replicate m 0"
proof -
  have "s + m \<le> 0 + length hs \<and> zeros_in ((!) hs) s (s + m)"
    by (rule zero_run_bounds [OF assms]) (auto simp: zeros_in_def)
  then show ?thesis by (auto simp: list_eq_iff_nth_eq zeros_in_def)
qed

text \<open>The parts of a compressed text: what is before the run, one empty part, what is after;
  an empty side counts as one more empty part.\<close>

definition side :: "nat list \<Rightarrow> string list" where
  "side hs = (if hs = [] then [[]] else map show_hex hs)"

lemma side_simps [simp]: "side [] = [[]]" "side (h # hs) = show_hex h # map show_hex hs"
  by (simp_all add: side_def)

lemma side_ends [simp]: "side hs \<noteq> []" "hd (side hs) = [] \<longleftrightarrow> hs = []" "last (side hs) = [] \<longleftrightarrow> hs = []"
  by (cases "hs = []"; simp add: side_def last_map hd_map)+

lemma compress_cases:
  assumes "length hs = 8"
  shows "compress hs = map show_hex hs \<or>
    (\<exists>a n b. hs = a @ replicate n 0 @ b \<and> 2 \<le> n \<and> compress hs = side a @ [] # side b)"
proof -
  obtain s m where sm: "zero_run 0 hs 0 0 0 = (s, m)" by fastforce
  note run = zero_run_hextets [OF sm]
  show ?thesis
  proof (cases "1 < m")
    case True
    have "hs = take s hs @ replicate m 0 @ drop (s + m) hs"
      using run by (metis append_take_drop_id drop_drop add.commute)
    moreover have "compress hs = side (take s hs) @ [] # side (drop (s + m) hs)"
      using run True by (auto simp: compress_def sm side_def take_map drop_map)
    ultimately show ?thesis using True by fastforce
  next
    case False
    then show ?thesis by (simp add: compress_def sm)
  qed
qed

lemma empty_inner_none: "(\<forall>p \<in> set ps. p \<noteq> []) \<Longrightarrow> empty_inner ps = []"
  by (auto simp: empty_inner_def filter_empty_conv)

lemma filter_upt_single:
  assumes "a \<le> k" "k < b" "\<And>i. a \<le> i \<Longrightarrow> i < b \<Longrightarrow> P i \<longleftrightarrow> i = k"
  shows "filter P [a..<b] = [k]"
proof -
  have "[a..<b] = [a..<k] @ [k..<b]"
    using assms(1,2) by (metis le_add_diff_inverse less_imp_le upt_add_eq_append)
  moreover have "[k..<b] = k # [Suc k..<b]" using assms(2) by (rule upt_conv_Cons)
  moreover have "filter P [a..<k] = []" "filter P [Suc k..<b] = []" "P k"
    using assms by (auto simp: filter_empty_conv)
  ultimately show ?thesis by simp
qed

lemma length_side [simp]: "length (side hs) = max 1 (length hs)"
  by (cases hs) (auto simp: side_def)

lemma empty_inner_sides:
  "empty_inner (side a @ [] # side b) = [length (side a)]"
  unfolding empty_inner_def
proof (rule filter_upt_single)
  fix i assume i: "1 \<le> i" "i < length (side a @ [] # side b) - 1"
  show "(side a @ [] # side b) ! i = [] \<longleftrightarrow> i = length (side a)"
  proof (cases "i < length (side a)")
    case True
    with i have "a \<noteq> []" "i < length a" by (auto simp: side_def split: if_splits)
    with True show ?thesis by (auto simp: nth_append side_def)
  next
    case False
    show ?thesis
    proof (cases "i = length (side a)")
      case neq: False
      define j where "j = i - Suc (length (side a))"
      with neq False i have j: "Suc j < length (side b)" "i = Suc (length (side a)) + j" by auto
      then have "b \<noteq> []" "j < length b" by (auto simp: side_def split: if_splits)
      with j show ?thesis by (auto simp: nth_append side_def)
    qed (simp add: nth_append)
  qed
qed (auto simp: le_max_iff_disj)

lemma parse_sides:
  assumes "length a + n + length b = 8" and "2 \<le> n"
    and "\<forall>h \<in> set a. h < 65536" and "\<forall>h \<in> set b. h < 65536"
  shows "parse_v6_parts (side a @ [] # side b) = Some (a @ replicate n 0 @ b)"
proof -
  let ?ps = "side a @ [] # side b"
  have hd: "hd ?ps = [] \<longleftrightarrow> a = []" by simp
  have lst: "last ?ps = [] \<longleftrightarrow> b = []" by simp
  have hi: "(if hd ?ps = [] then length (side a) - 1 else length (side a)) = length a"
    by (cases a) (auto simp: hd)
  have lo: "(if last ?ps = [] then length ?ps - length (side a) - 2
      else length ?ps - length (side a) - 1) = length b"
    by (simp only: lst) (cases b, simp_all)
  have tk: "take (length a) ?ps = map show_hex a" by (cases a) (auto simp: side_def)
  have dr: "drop (length ?ps - length b) ?ps = map show_hex b" by (cases b) (auto simp: side_def)
  have n: "8 - (length a + length b) = n" "length a + length b < 8" using assms(1,2) by auto
  have "parse_skipped ?ps (length (side a)) = Some (a @ replicate n 0 @ b)"
    unfolding parse_skipped_def Let_def hi lo tk dr
    using n assms(3,4) by (auto simp: hd lst parse_hextets_show)
  moreover have "length ?ps \<le> 9" using assms(1,2) by auto
  ultimately show ?thesis
    by (simp add: parse_v6_parts_def empty_inner_sides)
qed

lemma parse_compress:
  assumes "v6_ok hs"
  shows "parse_v6_parts (compress hs) = Some hs"
  using compress_cases [of hs]
proof
  show "length hs = 8" using assms by (simp add: v6_ok_def)
next
  assume "compress hs = map show_hex hs"
  then show ?thesis using assms
    by (simp add: parse_v6_parts_def empty_inner_none v6_ok_def parse_hextets_show)
next
  assume "\<exists>a n b. hs = a @ replicate n 0 @ b \<and> 2 \<le> n \<and> compress hs = side a @ [] # side b"
  then obtain a n b where *: "hs = a @ replicate n 0 @ b" "2 \<le> n" "compress hs = side a @ [] # side b"
    by blast
  have "parse_v6_parts (side a @ [] # side b) = Some (a @ replicate n 0 @ b)"
    using assms * by (intro parse_sides) (auto simp: v6_ok_def)
  with * show ?thesis by simp
qed

lemma side_chars: "p \<in> set (side hs) \<Longrightarrow> c \<in> set p \<Longrightarrow> is_hex c"
  using show_hex_hex by (auto simp: side_def split: if_splits)

lemma compress_chars:
  assumes "length hs = 8" "p \<in> set (compress hs)" "c \<in> set p" shows "is_hex c"
  using compress_cases [OF assms(1)] assms(2,3) show_hex_hex side_chars by fastforce

lemma compress_length: "length hs = 8 \<Longrightarrow> 3 \<le> length (compress hs)"
  using compress_cases [of hs] by fastforce

lemma set_join_sep: "set (join sep ws) \<subseteq> set sep \<union> \<Union> (set ` set ws)"
  by (induction sep ws rule: join.induct) auto

lemma v6_str_chars:
  assumes "v6_ok hs" and "c \<in> set (v6_str hs)"
  shows "c = CHR '':'' \<or> is_hex c"
  using assms set_join_sep [of "'':''" "compress hs"] compress_chars [of hs]
  by (fastforce simp: v6_str_def v6_ok_def)

lemma parse_v6_str:
  assumes "v6_ok hs"
  shows "parse_v6_addr (v6_str hs) = Some hs"
proof -
  have len: "length hs = 8" using assms by (simp add: v6_ok_def)
  have ne: "compress hs \<noteq> []" using compress_length [OF len] by auto
  have "\<forall>p \<in> set (compress hs). CHR '':'' \<notin> set p"
    using compress_chars [OF len] hex_not by blast
  with ne have sp: "split_char CHR '':'' (v6_str hs) = compress hs"
    by (simp add: v6_str_def split_char_join)
  have "CHR ''.'' \<notin> set (last (compress hs))"
    using compress_chars [OF len last_in_set [OF ne]] hex_not by blast
  then have "v6_parts (v6_str hs) = Some (compress hs)"
    using compress_length [OF len] by (simp add: v6_parts_def sp Let_def)
  then show ?thesis by (simp add: parse_v6_addr_def parse_compress [OF assms])
qed

lemma hd_show_nat: "n \<noteq> 0 \<Longrightarrow> hd (show_nat n) \<noteq> CHR ''0''"
proof (induction n rule: show_nat.induct)
  case (1 n)
  show ?case
  proof (cases "n < 10")
    case True
    with 1 have "code (digit_char n) \<noteq> code CHR ''0''" by simp
    then have "digit_char n \<noteq> CHR ''0''" by auto
    with True show ?thesis by (subst show_nat.simps) simp
  next
    case False
    with 1 show ?thesis by (subst show_nat.simps) simp
  qed
qed

lemma show_nat_0: "show_nat 0 = ''0''"
  by (subst show_nat.simps) (simp add: code_inject [symmetric])

lemma parse_octet_show: "b < 256 \<Longrightarrow> parse_octet (show_nat b) = Some b"
proof (cases "b = 0")
  case True
  then show ?thesis
    by (simp add: parse_octet_def show_nat_0 is_digit_def digits_val_def digit_val_def)
next
  case False
  moreover assume "b < 256"
  ultimately show ?thesis
    using length_show_nat [of b 3] show_nat_digits [of b] hd_show_nat [of b]
    by (simp add: parse_octet_def)
qed

lemma digit_not: "is_digit c \<Longrightarrow> c \<noteq> CHR ''.'' \<and> c \<noteq> CHR '':''"
  by (auto simp: is_digit_def)

lemma parse_v4_str:
  assumes "v4_ok os"
  shows "parse_v4 (v4_str os) = Some os"
proof -
  have ne: "map show_nat os \<noteq> []" using assms by (auto simp: v4_ok_def)
  have "\<forall>p \<in> set (map show_nat os). CHR ''.'' \<notin> set p"
    using show_nat_digits digit_not by auto
  with ne have sp: "split_char CHR ''.'' (v4_str os) = map show_nat os"
    by (simp add: v4_str_def split_char_join)
  then show ?thesis using assms
    by (auto simp: parse_v4_def v4_ok_def parse_octet_show intro!: map_idI)
qed

lemma parse_v4_colon: "CHR '':'' \<in> set s \<Longrightarrow> parse_v4 s = None"
proof -
  assume s: "CHR '':'' \<in> set s"
  have "set s \<subseteq> {CHR ''.''} \<union> \<Union> (set ` set (split_char CHR ''.'' s))"
    using set_join_sep [of "''.''" "split_char CHR ''.'' s"] by simp
  with s obtain p where "p \<in> set (split_char CHR ''.'' s)" "CHR '':'' \<in> set p" by auto
  moreover from this have "parse_octet p = None" using digit_not by (auto simp: parse_octet_def)
  ultimately show ?thesis by (auto simp: parse_v4_def Let_def)
qed

lemma sep_in_join: "2 \<le> length ws \<Longrightarrow> set sep \<subseteq> set (join sep ws)"
  by (induction sep ws rule: join.induct) auto

lemma colon_in_v6_str: "length hs = 8 \<Longrightarrow> CHR '':'' \<in> set (v6_str hs)"
  using compress_length [of hs] sep_in_join [of "compress hs" "'':''"] by (simp add: v6_str_def)

lemma ip_address_ip_str:
  assumes "ip_ok a"
  shows "ip_address (ip_str a) = Some a"
proof (cases a)
  case (V4 os)
  with assms show ?thesis by (simp add: ip_address_def parse_v4_str)
next
  case (V6 hs z)
  with assms have hs: "v6_ok hs" "length hs = 8" by (auto simp: v6_ok_def)
  have no: "CHR ''%'' \<notin> set (v6_str hs)" "CHR ''/'' \<notin> set (v6_str hs)"
    using v6_str_chars [OF hs(1)] hex_not by fastforce+
  have v4: "parse_v4 (v6_str hs @ t) = None" for t
    using colon_in_v6_str [OF hs(2)] by (simp add: parse_v4_colon)
  show ?thesis
  proof (cases z)
    case None
    with V6 v4 [of "[]"] no hs show ?thesis
      by (simp add: ip_address_def parse_v6_def parse_v6_str)
  next
    case (Some t)
    have "before_char CHR ''%'' (v6_str hs @ CHR ''%'' # t) = v6_str hs"
      "after_char CHR ''%'' (v6_str hs @ CHR ''%'' # t) = t"
      using no(1) by (auto simp: before_char_def after_char_def takeWhile_append dropWhile_append)
    with Some V6 v4 no hs assms show ?thesis
      by (simp add: ip_address_def parse_v6_def parse_v6_str)
  qed
qed

lemma v6_str_no_space: "v6_ok hs \<Longrightarrow> c \<in> set (v6_str hs) \<Longrightarrow> \<not> is_space c"
  using v6_str_chars hex_not_space by (fastforce simp: is_space_def)

lemma v4_str_no_space: "c \<in> set (v4_str os) \<Longrightarrow> \<not> is_space c"
  using set_join_sep [of "''.''" "map show_nat os"] show_nat_digits digit_not_space
  by (fastforce simp: v4_str_def is_space_def)

lemma last_after_char: "after_char c s \<noteq> [] \<Longrightarrow> last (after_char c s) = last s"
proof -
  assume ne: "after_char c s \<noteq> []"
  have eq: "takeWhile (\<lambda>x. x \<noteq> c) s @ take 1 (dropWhile (\<lambda>x. x \<noteq> c) s) @ after_char c s = s"
    unfolding after_char_def append_take_drop_id by simp
  from ne have "last (takeWhile (\<lambda>x. x \<noteq> c) s @ take 1 (dropWhile (\<lambda>x. x \<noteq> c) s) @ after_char c s)
      = last (after_char c s)" by simp
  then show ?thesis by (simp only: eq)
qed

lemma stripped_ip_str:
  assumes "stripped s" and "ip_address s = Some a"
  shows "stripped (ip_str a)"
proof (cases a)
  case (V4 os)
  then show ?thesis using v4_str_no_space by (auto intro!: stripped_no_space)
next
  case (V6 hs z)
  have ok: "ip_ok a" using assms(2) by (rule ip_address_ok)
  with V6 have hs: "v6_ok hs" "length hs = 8" by (auto simp: v6_ok_def)
  show ?thesis
  proof (cases z)
    case None
    with V6 hs v6_str_no_space show ?thesis by (auto intro!: stripped_no_space)
  next
    case (Some t)
    with V6 assms(2) have t: "t = after_char CHR ''%'' s" "t \<noteq> []"
      by (auto simp: ip_address_def parse_v6_def Let_def split: option.splits if_splits)
    then have "s \<noteq> []" by (auto simp: after_char_def)
    with assms(1) t have "\<not> is_space (last t)" by (simp add: stripped_def last_after_char)
    moreover have ne: "v6_str hs \<noteq> []" using colon_in_v6_str [OF hs(2)] by auto
    moreover have "\<not> is_space (hd (v6_str hs))" using hs ne v6_str_no_space by simp
    ultimately show ?thesis using V6 Some t(2) by (simp add: stripped_def)
  qed
qed

end
