(* ===== verification/RecordTypes.thy ===== *)
theory RecordTypes
  imports PyIp
begin

text \<open>
  \<^verbatim>\<open>src/dns_record_types.py\<close>: the record types, the TTL and hostname checks, the parsers and
  printers of the structured values (MX, SRV, CAA) and the one function that every write
  passes, \<open>normalize_record_value\<close>. Optional arguments that may be \<^verbatim>\<open>None\<close> are options; a
  string argument guarded by \<^verbatim>\<open>value or ""\<close> is a string.
\<close>

section \<open>Record types\<close>

definition LOOKUP_RECORD_TYPES :: "string list" where
  "LOOKUP_RECORD_TYPES =
     [''A'', ''AAAA'', ''CNAME'', ''TXT'', ''MX'', ''NS'', ''SRV'', ''CAA'', ''PTR'', ''SOA'']"

definition PUBLIC_RECORD_TYPES :: "string list" where
  "PUBLIC_RECORD_TYPES = [''A'', ''AAAA'', ''CNAME'', ''TXT'']"

definition MUTABLE_RECORD_TYPES :: "string list" where
  "MUTABLE_RECORD_TYPES = filter (\<lambda>t. t \<noteq> ''SOA'') LOOKUP_RECORD_TYPES"

definition MIN_TTL :: int where
  "MIN_TTL = 0"

definition MAX_TTL :: int where
  "MAX_TTL = 2147483647"

record record_type_spec =
  spec_fields :: "string list"
  spec_multiple :: bool
  spec_mutable :: bool
  spec_label :: string

definition spec :: "string list \<Rightarrow> string \<Rightarrow> record_type_spec" where
  "spec fs l = \<lparr>spec_fields = fs, spec_multiple = True, spec_mutable = True, spec_label = l\<rparr>"

definition RECORD_TYPE_SPECS :: "(string \<times> record_type_spec) list" where
  "RECORD_TYPE_SPECS =
     [(''A'', spec [''address''] ''A''),
      (''AAAA'', spec [''address''] ''AAAA''),
      (''CNAME'', (spec [''target''] ''CNAME'')\<lparr>spec_multiple := False\<rparr>),
      (''TXT'', spec [''value''] ''TXT''),
      (''MX'', spec [''priority'', ''exchange''] ''MX''),
      (''NS'', spec [''hostname''] ''NS''),
      (''SRV'', spec [''priority'', ''weight'', ''port'', ''target''] ''SRV''),
      (''CAA'', spec [''flags'', ''tag'', ''value''] ''CAA''),
      (''PTR'', spec [''hostname''] ''PTR''),
      (''SOA'', (spec [''value''] ''SOA'')\<lparr>spec_multiple := False, spec_mutable := False\<rparr>)]"

text \<open>An entry of \<^verbatim>\<open>record_type_options()\<close>; the first one, for all records, has no
  \<^verbatim>\<open>fields\<close> and \<^verbatim>\<open>multiple\<close> keys.\<close>

record record_type_option =
  opt_value :: string
  opt_label :: string
  opt_fields :: "string list option"
  opt_multiple :: "bool option"
  opt_mutable :: bool

definition record_type_options :: "record_type_option list" where
  "record_type_options =
     \<lparr>opt_value = [], opt_label = ''All records'', opt_fields = None, opt_multiple = None,
        opt_mutable = False\<rparr>
     # map (\<lambda>rt. let s = the (map_of RECORD_TYPE_SPECS rt) in
          \<lparr>opt_value = rt, opt_label = (if spec_label s = [] then rt else spec_label s),
           opt_fields = Some (spec_fields s), opt_multiple = Some (spec_multiple s),
           opt_mutable = spec_mutable s\<rparr>) LOOKUP_RECORD_TYPES"

definition normalize_lookup_record_type :: "string option \<Rightarrow> string option res" where
  "normalize_lookup_record_type record_type =
     (case record_type of
        None \<Rightarrow> Inr None
      | Some s \<Rightarrow>
          if strip s = [] then Inr None
          else let rt = upper (strip s) in
            if rt \<notin> set LOOKUP_RECORD_TYPES
            then Inl (ValueError (''Record type must be one of '' @ join '', '' LOOKUP_RECORD_TYPES
                   @ ''; got '' @ repr s @ ''.''))
            else Inr (Some rt))"

definition normalize_mutable_record_type :: "string \<Rightarrow> string res" where
  "normalize_mutable_record_type record_type =
     (let rt = upper (strip record_type) in
      if rt \<notin> set MUTABLE_RECORD_TYPES
      then Inl (ValueError (''record_type must be one of ''
             @ join '', '' (str_sort MUTABLE_RECORD_TYPES) @ ''; got '' @ repr record_type @ ''.''))
      else Inr rt)"

definition normalize_public_record_type :: "string \<Rightarrow> string res" where
  "normalize_public_record_type record_type =
     (let rt = upper (strip record_type) in
      if rt \<notin> set PUBLIC_RECORD_TYPES
      then Inl (ValueError (''record_type must be one of ''
             @ join '', '' (str_sort PUBLIC_RECORD_TYPES) @ ''; got '' @ repr record_type @ ''.''))
      else Inr rt)"

definition lookup_record_types_to_query :: "string option \<Rightarrow> string list res" where
  "lookup_record_types_to_query record_type =
     rbind (normalize_lookup_record_type record_type) (\<lambda>normalized.
       Inr (case normalized of
              None \<Rightarrow> LOOKUP_RECORD_TYPES
            | Some rt \<Rightarrow> if rt = [] then LOOKUP_RECORD_TYPES else [rt]))"

definition validate_ttl :: "int option \<Rightarrow> bool \<Rightarrow> int res" where
  "validate_ttl ttl required =
     (case ttl of
        None \<Rightarrow> if required then Inl (ValueError ''ttl is required.'') else Inr 300
      | Some value \<Rightarrow>
          if value < MIN_TTL \<or> MAX_TTL < value
          then Inl (ValueError (''ttl must be between '' @ show_int MIN_TTL @ '' and ''
                 @ show_int MAX_TTL @ ''.''))
          else Inr value)"

section \<open>Hostnames\<close>

text \<open>
  A pattern \<^verbatim>\<open>^...$\<close> without \<^verbatim>\<open>re.MULTILINE\<close> matches the whole string or the string
  without one final newline. The label class has no dot, so the labels are the pieces
  between dots; the pattern allows one more dot at the end, and its lookahead bounds the
  length by 253.
\<close>

definition newline :: char where
  "newline = CHR 0x0A"

definition re_dollar :: "(string \<Rightarrow> bool) \<Rightarrow> string \<Rightarrow> bool" where
  "re_dollar p s \<longleftrightarrow> p s \<or> (s \<noteq> [] \<and> last s = newline \<and> p (butlast s))"

definition label_char :: "char \<Rightarrow> bool" where
  "label_char c \<longleftrightarrow> is_alnum c \<or> c = CHR ''_'' \<or> c = CHR ''-''"

definition hostname_label :: "string \<Rightarrow> bool" where
  "hostname_label l \<longleftrightarrow> l \<noteq> [] \<and> length l \<le> 63 \<and> (\<forall>c \<in> set l. label_char c)
     \<and> hd l \<noteq> CHR ''-'' \<and> last l \<noteq> CHR ''-''"

definition hostname_body :: "string \<Rightarrow> bool" where
  "hostname_body s \<longleftrightarrow> s \<noteq> [] \<and> length s \<le> 253 \<and>
     (let ls = split_char CHR ''.'' s in
      (\<forall>l \<in> set ls. hostname_label l)
      \<or> (last ls = [] \<and> butlast ls \<noteq> [] \<and> (\<forall>l \<in> set (butlast ls). hostname_label l)))"

definition hostname_re :: "string \<Rightarrow> bool" where
  "hostname_re = re_dollar hostname_body"

definition caa_tag_re :: "string \<Rightarrow> bool" where
  "caa_tag_re = re_dollar (\<lambda>s. s \<noteq> [] \<and> (\<forall>c \<in> set s. is_alnum c))"

definition normalize_hostname :: "bool \<Rightarrow> string \<Rightarrow> string res" where
  "normalize_hostname allow_at value =
     (let host = rstrip_char CHR ''.'' (strip value) in
      if allow_at \<and> (host = [] \<or> host = ''@'') then Inr ''@''
      else if host = [] \<or> \<not> hostname_re host
        then Inl (ValueError (''Invalid hostname: '' @ repr value @ ''.''))
      else Inr host)"

section \<open>Structured values\<close>

definition parse_uint :: "string \<Rightarrow> int \<Rightarrow> string \<Rightarrow> int res" where
  "parse_uint field maximum token =
     (case py_int token of
        None \<Rightarrow> Inl (ValueError (field @ '' must be an integer.''))
      | Some value \<Rightarrow>
          if value < 0 \<or> maximum < value
          then Inl (ValueError (field @ '' must be between 0 and '' @ show_int maximum @ ''.''))
          else Inr value)"

definition parse_mx :: "string \<Rightarrow> (int \<times> string) res" where
  "parse_mx value =
     (case split_ws (strip value) of
        [p, e] \<Rightarrow>
          rbind (parse_uint ''priority'' 65535 p) (\<lambda>priority.
          rbind (normalize_hostname False e) (\<lambda>exchange. Inr (priority, exchange)))
      | _ \<Rightarrow> Inl (ValueError ''MX value must be: priority exchange''))"

definition parse_srv :: "string \<Rightarrow> (int \<times> int \<times> int \<times> string) res" where
  "parse_srv value =
     (case split_ws (strip value) of
        [p, w, q, t] \<Rightarrow>
          rbind (parse_uint ''priority'' 65535 p) (\<lambda>priority.
          rbind (parse_uint ''weight'' 65535 w) (\<lambda>weight.
          rbind (parse_uint ''port'' 65535 q) (\<lambda>port.
          rbind (normalize_hostname False t) (\<lambda>target. Inr (priority, weight, port, target)))))
      | _ \<Rightarrow> Inl (ValueError ''SRV value must be: priority weight port target''))"

definition quoted :: "string \<Rightarrow> bool" where
  "quoted s \<longleftrightarrow> startswith [CHR 0x22] s \<and> endswith [CHR 0x22] s"

definition parse_caa :: "string \<Rightarrow> (int \<times> string \<times> string) res" where
  "parse_caa value =
     (case split_ws_max 2 (strip value) of
        [f, t, v] \<Rightarrow>
          rbind (parse_uint ''flags'' 255 f) (\<lambda>flags.
            let tag = strip t in
            if \<not> caa_tag_re tag then Inl (ValueError (''Invalid CAA tag: '' @ repr tag @ ''.''))
            else let caa_value = strip v in
            if caa_value = [] then Inl (ValueError ''CAA value is required.'')
            else let caa_value =
              (if CHR '' '' \<in> set caa_value \<and> \<not> quoted caa_value
               then [CHR 0x22] @ caa_value @ [CHR 0x22] else caa_value)
            in Inr (flags, lower tag, caa_value))
      | _ \<Rightarrow> Inl (ValueError ''CAA value must be: flags tag value''))"

section \<open>Zones, the apex and the mutation guard\<close>

definition is_reverse_zone :: "string \<Rightarrow> bool" where
  "is_reverse_zone dns_zone =
     (let z = lower (rstrip_char CHR ''.'' (strip dns_zone))
      in endswith ''.in-addr.arpa'' z \<or> endswith ''.ip6.arpa'' z)"

definition is_apex_name :: "string \<Rightarrow> string option \<Rightarrow> bool" where
  "is_apex_name record_name dns_zone =
     (let name = rstrip_char CHR ''.'' (strip record_name) in
      if name = [] \<or> name = ''@'' then True
      else case dns_zone of
        None \<Rightarrow> False
      | Some dz \<Rightarrow>
          if dz = [] then False
          else let zone = rstrip_char CHR ''.'' (strip dz) in
            if zone = [] then False
            else if lower name = lower zone then True
            else let suffix = ''.'' @ lower zone in
              endswith suffix (lower name)
              \<and> take (length name - length suffix) (lower name) = [])"

definition guard_mutation_allowed :: "string \<Rightarrow> string \<Rightarrow> string option \<Rightarrow> unit res" where
  "guard_mutation_allowed record_name record_type dns_zone =
     (let rt = upper (strip record_type) in
      if rt = ''SOA''
        then Inl (ValueError ''SOA records are view-only and cannot be created, edited, or deleted.'')
      else if rt = ''NS'' \<and> is_apex_name record_name dns_zone
        then Inl (ValueError ''Apex NS records cannot be modified from the admin DNS browser.'')
      else if rt = ''PTR'' \<and> (case dns_zone of None \<Rightarrow> False | Some z \<Rightarrow> z \<noteq> [] \<and> \<not> is_reverse_zone z)
        then Inl (ValueError
          ''PTR records may only be managed in reverse zones (in-addr.arpa or ip6.arpa).'')
      else Inr ())"

section \<open>Normalising record values\<close>

definition parse_ip :: "string \<Rightarrow> ip res" where
  "parse_ip raw =
     (case ip_address raw of
        None \<Rightarrow> Inl (ValueError (repr raw @ '' does not appear to be an IPv4 or IPv6 address''))
      | Some a \<Rightarrow> Inr a)"

fun ip_version :: "ip \<Rightarrow> nat" where
  "ip_version (V4 _) = 4"
| "ip_version (V6 _ _) = 6"

definition normalize_record_value :: "string \<Rightarrow> string \<Rightarrow> string res" where
  "normalize_record_value record_type value =
     (let rt = upper (strip record_type); raw = strip value in
      if raw = [] then Inl (ValueError ''Record values must not be empty.'')
      else if rt = ''A'' then
        rbind (parse_ip raw) (\<lambda>addr.
          if ip_version addr \<noteq> 4
          then Inl (ValueError (''A record requires an IPv4 address; got '' @ repr value @ ''.''))
          else Inr (ip_str addr))
      else if rt = ''AAAA'' then
        rbind (parse_ip raw) (\<lambda>addr.
          if ip_version addr \<noteq> 6
          then Inl (ValueError (''AAAA record requires an IPv6 address; got '' @ repr value @ ''.''))
          else Inr (ip_str addr))
      else if rt = ''CNAME'' then normalize_hostname False raw
      else if rt = ''TXT'' then Inr raw
      else if rt = ''MX'' then
        rbind (parse_mx raw) (\<lambda>(priority, exchange). Inr (show_int priority @ '' '' @ exchange))
      else if rt = ''NS'' then normalize_hostname False raw
      else if rt = ''SRV'' then
        rbind (parse_srv raw) (\<lambda>(priority, weight, port, target).
          Inr (show_int priority @ '' '' @ show_int weight @ '' '' @ show_int port @ '' '' @ target))
      else if rt = ''CAA'' then
        rbind (parse_caa raw) (\<lambda>(flags, tag, caa_value).
          Inr (show_int flags @ '' '' @ tag @ '' '' @ caa_value))
      else if rt = ''PTR'' then normalize_hostname False raw
      else if rt = ''SOA'' then Inr raw
      else Inl (ValueError (''Unsupported record type: '' @ repr record_type @ ''.'')))"

definition normalize_record_values :: "string \<Rightarrow> string list \<Rightarrow> string list res" where
  "normalize_record_values record_type values =
     (let rt = upper (strip record_type) in
      case map_of RECORD_TYPE_SPECS rt of
        None \<Rightarrow> Inl (ValueError (''Unsupported record type: '' @ repr record_type @ ''.''))
      | Some s \<Rightarrow>
          if values = []
            then Inl (ValueError ''values is required and must contain at least one entry.'')
          else if \<not> spec_multiple s \<and> length values \<noteq> 1
            then Inl (ValueError (rt @ '' requires exactly one value.''))
          else traverse (normalize_record_value rt) values)"

definition format_mx :: "int \<Rightarrow> string \<Rightarrow> string res" where
  "format_mx priority exchange =
     rbind (normalize_hostname False exchange) (\<lambda>h. Inr (show_int priority @ '' '' @ h))"

definition format_srv :: "int \<Rightarrow> int \<Rightarrow> int \<Rightarrow> string \<Rightarrow> string res" where
  "format_srv priority weight port target =
     rbind (normalize_hostname False target) (\<lambda>h.
       Inr (show_int priority @ '' '' @ show_int weight @ '' '' @ show_int port @ '' '' @ h))"

definition format_caa :: "int \<Rightarrow> string \<Rightarrow> string \<Rightarrow> string res" where
  "format_caa flags tag value =
     normalize_record_value ''CAA'' (show_int flags @ '' '' @ tag @ '' '' @ value)"

section \<open>Lemmas on the hostname patterns\<close>

lemma re_dollar_no_newline: "re_dollar p s \<Longrightarrow> s = [] \<or> last s \<noteq> newline \<Longrightarrow> p s"
  by (auto simp: re_dollar_def)

lemma newline_is_space [simp]: "is_space newline"
  by (simp add: newline_def is_space_def)

lemma word_last: "word w \<Longrightarrow> w \<noteq> [] \<and> \<not> is_space (last w) \<and> last w \<noteq> newline"
  unfolding word_def using newline_is_space last_in_set by metis

lemma label_char_not_space: "label_char c \<Longrightarrow> \<not> is_space c"
  by (auto simp: label_char_def dest: alnum_not_space) (simp_all add: is_space_def)

lemma set_butlast_last: "xs \<noteq> [] \<Longrightarrow> set xs = insert (last xs) (set (butlast xs))"
  by (induction xs rule: rev_induct) auto

lemma hostname_body_chars:
  assumes "hostname_body s" and "c \<in> set s"
  shows "label_char c \<or> c = CHR ''.''"
proof -
  let ?ls = "split_char CHR ''.'' s"
  have "set s \<subseteq> {CHR ''.''} \<union> \<Union> (set ` set ?ls)"
    using set_join_sep [of "''.''" ?ls] by simp
  then consider "c = CHR ''.''" | l where "l \<in> set ?ls" "c \<in> set l" using assms(2) by auto
  then show ?thesis
  proof cases
    case (2 l)
    then have "l = last ?ls \<or> l \<in> set (butlast ?ls)" by (simp add: set_butlast_last)
    with assms(1) 2 show ?thesis by (auto simp: hostname_body_def Let_def hostname_label_def)
  qed simp
qed

lemma hostname_re_word:
  assumes "hostname_re s" and "s \<noteq> []" and "last s \<noteq> newline"
  shows "word s"
proof -
  from assms have body: "hostname_body s" by (auto simp: hostname_re_def dest: re_dollar_no_newline)
  have "\<not> is_space CHR ''.''" by (simp add: is_space_def)
  with hostname_body_chars [OF body] label_char_not_space assms(2) show ?thesis
    by (auto simp: word_def)
qed

lemma normalize_hostname_Inr:
  "normalize_hostname False v = Inr h \<longleftrightarrow>
     h = rstrip_char CHR ''.'' (strip v) \<and> h \<noteq> [] \<and> hostname_re h"
  by (auto simp: normalize_hostname_def Let_def)

lemma normalize_hostname_again:
  assumes "normalize_hostname False v = Inr h" and "last h \<noteq> newline"
  shows "word h" and "normalize_hostname False h = Inr h"
proof -
  from assms(1) have h: "h = rstrip_char CHR ''.'' (strip v)" "h \<noteq> []" "hostname_re h"
    by (auto simp: normalize_hostname_Inr)
  with assms(2) show w: "word h" by (auto intro: hostname_re_word)
  have "rstrip_char CHR ''.'' h = h" using h(1) by simp
  with h w show "normalize_hostname False h = Inr h"
    by (simp add: normalize_hostname_Inr word_strip)
qed

lemma normalize_hostname_word:
  assumes "normalize_hostname False v = Inr h" and "word v"
  shows "word h" and "normalize_hostname False h = Inr h"
proof -
  from assms(1) have h: "h = rstrip_char CHR ''.'' (strip v)" "h \<noteq> []"
    by (auto simp: normalize_hostname_Inr)
  have "set h \<subseteq> set v" using h set_rstrip_char set_strip by blast
  with assms(2) h(2) have "last h \<noteq> newline"
    by (metis last_in_set newline_is_space subsetD word_def)
  with assms(1) show "word h" "normalize_hostname False h = Inr h"
    by (auto dest: normalize_hostname_again)
qed

section \<open>Lemmas on the structured values\<close>

lemma parse_uint_Inr:
  "parse_uint f m t = Inr v \<longleftrightarrow> py_int t = Some v \<and> 0 \<le> v \<and> v \<le> m"
  by (auto simp: parse_uint_def split: option.splits)

lemma small_nat_65535: "n \<le> 65535 \<Longrightarrow> small_nat n"
  by (rule small_nat_less [where k = 5]) simp_all

lemma parse_uint_show:
  assumes "0 \<le> v" and "v \<le> m" and "m \<le> 65535"
  shows "parse_uint f m (show_int v) = Inr v"
proof -
  have "small_nat (nat \<bar>v\<bar>)" using assms by (intro small_nat_65535) auto
  with assms show ?thesis by (simp add: parse_uint_Inr py_int_show_int)
qed

lemma word_not_Nil [simp]: "\<not> word []"
  by (simp add: word_def)

lemma join_words_ends:
  "ws \<noteq> [] \<Longrightarrow> \<forall>w \<in> set ws. word w \<Longrightarrow>
     join sep ws \<noteq> [] \<and> hd (join sep ws) = hd (hd ws) \<and> last (join sep ws) = last (last ws)"
proof (induction ws)
  case (Cons w ws)
  then show ?case by (cases "ws = []") (auto simp: join_Cons word_def)
qed simp

lemma stripped_words:
  assumes "\<forall>w \<in> set ws. word w"
  shows "strip (join '' '' ws) = join '' '' ws"
proof (cases "ws = []")
  case False
  with assms have "word (hd ws)" "word (last ws)" by auto
  with False join_words_ends [OF False assms, of "'' ''"] show ?thesis
    by (intro strip_stripped) (auto simp: stripped_def word_def)
qed simp

lemma split_words:
  assumes "\<forall>w \<in> set ws. word w"
  shows "split_ws (strip (join '' '' ws)) = ws"
  using assms by (simp add: stripped_words split_ws_join)

lemma parse_mx_print:
  assumes "0 \<le> p" "p \<le> 65535" "word h" "normalize_hostname False h = Inr h"
  shows "parse_mx (show_int p @ '' '' @ h) = Inr (p, h)"
proof -
  have "split_ws (strip (show_int p @ '' '' @ h)) = [show_int p, h]"
    using split_words [of "[show_int p, h]"] assms(3) by (simp add: word_show_int)
  then show ?thesis using assms by (simp add: parse_mx_def parse_uint_show)
qed

lemma parse_mx_Inr:
  assumes "parse_mx v = Inr (p, h)"
  shows "0 \<le> p \<and> p \<le> 65535 \<and> word h \<and> normalize_hostname False h = Inr h"
proof -
  from assms obtain a b where ab: "split_ws (strip v) = [a, b]"
      "parse_uint ''priority'' 65535 a = Inr p" "normalize_hostname False b = Inr h"
    by (auto simp: parse_mx_def rbind_eq_Inr split: list.splits)
  have "word b" by (rule split_ws_words [of b "strip v"]) (simp add: ab)
  with ab show ?thesis by (auto simp: parse_uint_Inr dest: normalize_hostname_word)
qed

lemma parse_srv_print:
  assumes "0 \<le> p" "p \<le> 65535" "0 \<le> w" "w \<le> 65535" "0 \<le> q" "q \<le> 65535"
    "word h" "normalize_hostname False h = Inr h"
  shows "parse_srv (show_int p @ '' '' @ show_int w @ '' '' @ show_int q @ '' '' @ h) = Inr (p, w, q, h)"
proof -
  have "split_ws (strip (show_int p @ '' '' @ show_int w @ '' '' @ show_int q @ '' '' @ h))
      = [show_int p, show_int w, show_int q, h]"
    using split_words [of "[show_int p, show_int w, show_int q, h]"] assms(7)
    by (simp add: word_show_int)
  then show ?thesis using assms by (simp add: parse_srv_def parse_uint_show)
qed

lemma parse_srv_Inr:
  assumes "parse_srv v = Inr (p, w, q, h)"
  shows "0 \<le> p \<and> p \<le> 65535 \<and> 0 \<le> w \<and> w \<le> 65535 \<and> 0 \<le> q \<and> q \<le> 65535
    \<and> word h \<and> normalize_hostname False h = Inr h"
proof -
  from assms obtain a b c d where ab: "split_ws (strip v) = [a, b, c, d]"
      "parse_uint ''priority'' 65535 a = Inr p" "parse_uint ''weight'' 65535 b = Inr w"
      "parse_uint ''port'' 65535 c = Inr q" "normalize_hostname False d = Inr h"
    by (auto simp: parse_srv_def rbind_eq_Inr split: list.splits)
  have "word d" by (rule split_ws_words [of d "strip v"]) (simp add: ab)
  with ab show ?thesis by (auto simp: parse_uint_Inr dest: normalize_hostname_word)
qed


lemma stripped_append:
  "a \<noteq> [] \<Longrightarrow> \<not> is_space (hd a) \<Longrightarrow> b \<noteq> [] \<Longrightarrow> \<not> is_space (last b) \<Longrightarrow> stripped (a @ b)"
  by (simp add: stripped_def)

lemma word_hd: "word w \<Longrightarrow> w \<noteq> [] \<and> \<not> is_space (hd w)"
  by (auto simp: word_def)

lemma split_ws_max_2:
  assumes "split_ws_max 2 s = [f, t, v]"
  shows "word f \<and> word t"
proof -
  let ?r = "lstrip (after_word (lstrip s))"
  from assms have "f = next_word (lstrip s)" "lstrip s \<noteq> []" "t = next_word ?r" "?r \<noteq> []"
    by (auto simp: numeral_2_eq_2 Let_def split: if_splits)
  then show ?thesis by (auto intro: next_word_word [OF _ hd_lstrip])
qed

definition caa_parts_ok :: "int \<Rightarrow> string \<Rightarrow> string \<Rightarrow> bool" where
  "caa_parts_ok f t c \<longleftrightarrow> 0 \<le> f \<and> f \<le> 255 \<and> t \<noteq> [] \<and> (\<forall>ch \<in> set t. is_alnum ch) \<and> lower t = t
     \<and> c \<noteq> [] \<and> stripped c \<and> (CHR '' '' \<in> set c \<longrightarrow> quoted c)"

lemma alnum_word: "t \<noteq> [] \<Longrightarrow> \<forall>ch \<in> set t. is_alnum ch \<Longrightarrow> word t"
  by (auto simp: word_def alnum_not_space)

lemma quoted_wrap [simp]: "quoted (CHR 0x22 # c @ [CHR 0x22])"
  using startswith_append [of "[CHR 0x22]" "c @ [CHR 0x22]"]
    endswith_append [of "[CHR 0x22]" "CHR 0x22 # c"]
  by (simp add: quoted_def)

lemma stripped_wrap: "stripped (CHR 0x22 # c @ [CHR 0x22])"
  by (simp add: stripped_def is_space_def)

lemma parse_caa_Inr:
  assumes "parse_caa v = Inr (f, t, c)"
  shows "caa_parts_ok f t c"
proof -
  from assms obtain a b d where ab: "split_ws_max 2 (strip v) = [a, b, d]"
      and f: "parse_uint ''flags'' 255 a = Inr f" and tag: "caa_tag_re (strip b)" "t = lower (strip b)"
      and d: "strip d \<noteq> []"
      and c: "c = (if CHR '' '' \<in> set (strip d) \<and> \<not> quoted (strip d)
           then CHR 0x22 # strip d @ [CHR 0x22] else strip d)"
    by (auto simp: parse_caa_def rbind_eq_Inr Let_def split: list.splits if_splits)
  have "word b" using split_ws_max_2 [OF ab] by simp
  then have b: "strip b = b" "last b \<noteq> newline" by (auto simp: word_strip dest: word_last)
  with tag have "b \<noteq> [] \<and> (\<forall>ch \<in> set b. is_alnum ch)"
    unfolding caa_tag_re_def by (auto dest: re_dollar_no_newline)
  then have "t \<noteq> [] \<and> (\<forall>ch \<in> set t. is_alnum ch) \<and> lower t = t"
    using tag(2) b(1) by (auto simp: lower_def)
  moreover have "0 \<le> f \<and> f \<le> 255" using f by (simp add: parse_uint_Inr)
  moreover have "c \<noteq> [] \<and> stripped c \<and> (CHR '' '' \<in> set c \<longrightarrow> quoted c)"
    using c d by (auto simp: stripped_wrap)
  ultimately show ?thesis by (simp add: caa_parts_ok_def)
qed

lemma parse_caa_print:
  assumes "caa_parts_ok f t c"
  shows "strip (show_int f @ '' '' @ t @ '' '' @ c) = show_int f @ '' '' @ t @ '' '' @ c"
    and "parse_caa (show_int f @ '' '' @ t @ '' '' @ c) = Inr (f, t, c)"
proof -
  let ?w = "show_int f @ '' '' @ t @ '' '' @ c"
  note ok = assms [unfolded caa_parts_ok_def]
  have t: "word t" "last t \<noteq> newline" using ok alnum_word word_last by blast+
  have c: "lstrip c = c" "\<not> is_space (last c)" using ok by (auto simp: stripped_def lstrip_ident)
  show strip: "strip ?w = ?w"
    using word_hd [OF word_show_int] c ok by (intro strip_stripped stripped_append) auto
  have "split_ws_max 2 ?w = [show_int f, t, c]"
    using t c ok by (simp add: numeral_2_eq_2 split_ws_max_word split_ws_max_space word_show_int
        del: split_ws_max.simps(2))
  moreover have "caa_tag_re t" using ok by (simp add: caa_tag_re_def re_dollar_def)
  ultimately show "parse_caa ?w = Inr (f, t, c)"
    using ok t by (auto simp: parse_caa_def strip [simplified] parse_uint_show word_strip Let_def)
qed

section \<open>Normalisation is stable\<close>

lemma parse_ip_Inr: "parse_ip raw = Inr a \<longleftrightarrow> ip_address raw = Some a"
  by (auto simp: parse_ip_def split: option.splits)

lemma parse_ip_again:
  assumes "parse_ip (strip v) = Inr a"
  shows "strip (ip_str a) = ip_str a" and "ip_str a \<noteq> []" and "parse_ip (ip_str a) = Inr a"
proof -
  from assms have a: "ip_address (strip v) = Some a" by (simp add: parse_ip_Inr)
  then show "strip (ip_str a) = ip_str a"
    using stripped_ip_str [OF stripped_strip] by simp
  from ip_address_ip_str [OF ip_address_ok [OF a]]
  show "parse_ip (ip_str a) = Inr a" by (simp add: parse_ip_Inr)
  then show "ip_str a \<noteq> []"
    by (auto simp: parse_ip_Inr ip_address_def parse_v4_def parse_v6_def parse_v6_addr_def v6_parts_def)
qed

definition HOST_TYPES :: "string list" where
  "HOST_TYPES = [''CNAME'', ''NS'', ''PTR'']"

lemma normalize_record_value_cases:
  assumes "normalize_record_value rt v = Inr w"
  obtains (ip4) a where "upper (strip rt) = ''A''" "parse_ip (strip v) = Inr a" "ip_version a = 4" "w = ip_str a"
  | (ip6) a where "upper (strip rt) = ''AAAA''" "parse_ip (strip v) = Inr a" "ip_version a = 6" "w = ip_str a"
  | (host) "upper (strip rt) \<in> set HOST_TYPES" "normalize_hostname False (strip v) = Inr w"
  | (raw) "upper (strip rt) \<in> {''TXT'', ''SOA''}" "w = strip v" "w \<noteq> []"
  | (mx) p h where "upper (strip rt) = ''MX''" "parse_mx (strip v) = Inr (p, h)"
      "w = show_int p @ '' '' @ h"
  | (srv) p q r h where "upper (strip rt) = ''SRV''" "parse_srv (strip v) = Inr (p, q, r, h)"
      "w = show_int p @ '' '' @ show_int q @ '' '' @ show_int r @ '' '' @ h"
  | (caa) f t c where "upper (strip rt) = ''CAA''" "parse_caa (strip v) = Inr (f, t, c)"
      "w = show_int f @ '' '' @ t @ '' '' @ c"
  using assms unfolding normalize_record_value_def HOST_TYPES_def Let_def
  by (auto simp: rbind_eq_Inr split: if_splits)

lemma normalize_record_value_stable:
  assumes v: "normalize_record_value rt v = Inr w"
    and nl: "upper (strip rt) \<in> set HOST_TYPES \<longrightarrow> last w \<noteq> newline"
  shows "normalize_record_value rt w = Inr w"
  using v
proof (cases rule: normalize_record_value_cases)
  case (ip4 a)
  then show ?thesis using parse_ip_again [OF ip4(2)]
    by (simp add: normalize_record_value_def Let_def)
next
  case (ip6 a)
  then show ?thesis using parse_ip_again [OF ip6(2)]
    by (simp add: normalize_record_value_def Let_def)
next
  case host
  note again = normalize_hostname_again [OF host(2)]
  with host(1) nl have "word w" "normalize_hostname False w = Inr w" by auto
  with host(1) show ?thesis
    by (auto simp: normalize_record_value_def Let_def HOST_TYPES_def word_strip)
next
  case raw
  then show ?thesis by (auto simp: normalize_record_value_def Let_def)
next
  case (mx p h)
  note ok = parse_mx_Inr [OF mx(2)]
  then have "strip w = w" "w \<noteq> []"
    using stripped_words [of "[show_int p, h]"] word_show_int [of p] mx(3) by (auto simp: word_def)
  moreover have "parse_mx w = Inr (p, h)" using ok mx(3) parse_mx_print by simp
  ultimately show ?thesis using mx(1,3) by (simp add: normalize_record_value_def Let_def)
next
  case (srv p q r h)
  note ok = parse_srv_Inr [OF srv(2)]
  then have "strip w = w" "w \<noteq> []"
    using stripped_words [of "[show_int p, show_int q, show_int r, h]"] word_show_int srv(3)
    by (auto simp: word_def)
  moreover have "parse_srv w = Inr (p, q, r, h)" using ok srv(3) parse_srv_print by simp
  ultimately show ?thesis using srv(1,3) by (simp add: normalize_record_value_def Let_def)
next
  case (caa f t c)
  note ok = parse_caa_print [OF parse_caa_Inr [OF caa(2)]]
  moreover have "w \<noteq> []" using caa(3) by simp
  ultimately show ?thesis using caa by (simp add: normalize_record_value_def Let_def)
qed

section \<open>Properties\<close>

lemma normalize_record_values_Inr:
  "normalize_record_values rt vs = Inr ws \<longleftrightarrow>
     (\<exists>s. map_of RECORD_TYPE_SPECS (upper (strip rt)) = Some s \<and> vs \<noteq> []
        \<and> (spec_multiple s \<or> length vs = 1)
        \<and> traverse (normalize_record_value (upper (strip rt))) vs = Inr ws)"
  by (auto simp: normalize_record_values_def Let_def split: option.splits)

text \<open>
  C30. Normalising record values is stable: the list that \<^verbatim>\<open>normalize_record_values\<close> accepts and
  returns is accepted again and returned unchanged, for every record type, so a record read
  back from a provider and written again is the same record. For the types whose value is a
  bare hostname this needs that no returned name ends in a newline (see
  \<open>hostname_newline_accepted\<close> for why the code does not guarantee that).
\<close>

theorem normalize_record_values_idempotent:
  assumes "normalize_record_values rt vs = Inr ws"
    and "upper (strip rt) \<in> set HOST_TYPES \<longrightarrow> (\<forall>w \<in> set ws. last w \<noteq> newline)"
  shows "normalize_record_values rt ws = Inr ws"
proof -
  let ?rt = "upper (strip rt)"
  from assms(1) obtain s where s: "map_of RECORD_TYPE_SPECS ?rt = Some s" "vs \<noteq> []"
      "spec_multiple s \<or> length vs = 1" and t: "traverse (normalize_record_value ?rt) vs = Inr ws"
    by (auto simp: normalize_record_values_Inr)
  have "normalize_record_value ?rt w = Inr w" if w: "w \<in> set ws" for w
  proof -
    obtain v where "normalize_record_value ?rt v = Inr w" using traverse_set [OF t w] by blast
    then show ?thesis using assms(2) w by (auto intro: normalize_record_value_stable)
  qed
  then have "traverse (normalize_record_value ?rt) ws = Inr ws"
    by (simp add: traverse_Inr_iff list_all2_conv_all_nth)
  moreover have "length ws = length vs" using t by (rule traverse_length)
  ultimately show ?thesis using s unfolding normalize_record_values_Inr by force
qed

lemma mx_example:
  "normalize_record_values ''mx'' [''  010  Mail.example.com. ''] = Inr [''10 Mail.example.com'']"
  by code_simp

theorem normalize_record_values_idempotent_witness:
  "normalize_record_values ''mx'' [''10 Mail.example.com''] = Inr [''10 Mail.example.com'']"
  by (rule normalize_record_values_idempotent [OF mx_example]) code_simp

text \<open>
  What the normalised text of a structured record means: reading the text back gives the
  fields that were read from the submitted value, so an MX, SRV or CAA record keeps its
  numbers, its tag and its target through normalisation.
\<close>

lemma normalized_value_same_fields:
  assumes "normalize_record_value rt v = Inr w"
  shows "(upper (strip rt) = ''MX'' \<longrightarrow> parse_mx w = parse_mx v)
    \<and> (upper (strip rt) = ''SRV'' \<longrightarrow> parse_srv w = parse_srv v)
    \<and> (upper (strip rt) = ''CAA'' \<longrightarrow> parse_caa w = parse_caa v)"
proof -
  have st: "parse_mx (strip v) = parse_mx v" "parse_srv (strip v) = parse_srv v"
    "parse_caa (strip v) = parse_caa v"
    by (simp_all add: parse_mx_def parse_srv_def parse_caa_def)
  from assms show ?thesis
  proof (cases rule: normalize_record_value_cases)
    case (mx p h)
    with parse_mx_Inr [OF mx(2)] parse_mx_print [of p h] st show ?thesis by simp
  next
    case (srv p q r h)
    with parse_srv_Inr [OF srv(2)] parse_srv_print [of p q r h] st show ?thesis by simp
  next
    case (caa f t c)
    with parse_caa_print(2) [OF parse_caa_Inr [OF caa(2)]] st show ?thesis by simp
  qed (auto simp: HOST_TYPES_def)
qed

text \<open>
  C35. What an accepted value is, type by type: an A value is the dotted quad of four octets, an
  AAAA value the compressed text of eight hextets, MX and SRV numbers fit 16 bits, CAA flags fit
  8 bits and the tag is lower-case alphanumeric; the address types never accept the other
  family.
\<close>

theorem normalized_value_shape:
  assumes "normalize_record_value rt v = Inr w"
  shows "w \<noteq> []
    \<and> (upper (strip rt) = ''A'' \<longrightarrow> (\<exists>os. v4_ok os \<and> w = v4_str os))
    \<and> (upper (strip rt) = ''AAAA'' \<longrightarrow> (\<exists>hs z. ip_ok (V6 hs z) \<and> w = ip_str (V6 hs z)))
    \<and> (upper (strip rt) = ''MX'' \<longrightarrow> (\<exists>p h. 0 \<le> p \<and> p \<le> 65535 \<and> word h
         \<and> w = show_int p @ '' '' @ h))
    \<and> (upper (strip rt) = ''SRV'' \<longrightarrow> (\<exists>p q r h. 0 \<le> p \<and> p \<le> 65535 \<and> 0 \<le> q \<and> q \<le> 65535
         \<and> 0 \<le> r \<and> r \<le> 65535 \<and> word h
         \<and> w = show_int p @ '' '' @ show_int q @ '' '' @ show_int r @ '' '' @ h))
    \<and> (upper (strip rt) = ''CAA'' \<longrightarrow> (\<exists>f t c. caa_parts_ok f t c
         \<and> w = show_int f @ '' '' @ t @ '' '' @ c))"
  using assms
proof (cases rule: normalize_record_value_cases)
  case (ip4 a)
  then obtain os where "a = V4 os" by (cases a) auto
  with ip4 parse_ip_again(2) [OF ip4(2)] show ?thesis
    by (auto simp: parse_ip_Inr dest!: ip_address_ok)
next
  case (ip6 a)
  then obtain hs z where "a = V6 hs z" by (cases a) auto
  with ip6(2,4) have "ip_ok (V6 hs z)" "w = ip_str (V6 hs z)"
    by (auto simp: parse_ip_Inr dest: ip_address_ok)
  then have "\<exists>hs z. ip_ok (V6 hs z) \<and> w = ip_str (V6 hs z)" by blast
  with ip6(1,4) parse_ip_again(2) [OF ip6(2)] show ?thesis by simp
next
  case (mx p h)
  with parse_mx_Inr [OF mx(2)] show ?thesis by auto
next
  case (srv p q r h)
  with parse_srv_Inr [OF srv(2)] show ?thesis by auto
next
  case (caa f t c)
  with parse_caa_Inr [OF caa(2)] show ?thesis by auto
qed (auto simp: HOST_TYPES_def normalize_hostname_Inr)

theorem normalized_value_shape_witness:
  "''192.0.2.7'' \<noteq> [] \<and> (\<exists>os. v4_ok os \<and> ''192.0.2.7'' = v4_str os)"
proof -
  have "normalize_record_value '' a '' '' 192.0.2.7 '' = Inr ''192.0.2.7''" by code_simp
  moreover have "upper (strip '' a '') = ''A''" by code_simp
  ultimately show ?thesis using normalized_value_shape by blast
qed

text \<open>
  A hostname followed by a newline and a dot passes the hostname check and is returned with
  the newline in it: the pattern ends in \<^verbatim>\<open>$\<close>, which also matches before a final newline, and
  the newline is exposed only after the trailing dots are stripped.
\<close>

lemma hostname_newline_accepted:
  assumes "hostname_label h"
  shows "normalize_hostname False (h @ [newline, CHR ''.'']) = Inr (h @ [newline])"
proof -
  have h: "h \<noteq> []" "\<forall>c \<in> set h. label_char c" "length h \<le> 63"
    using assms by (auto simp: hostname_label_def)
  have dot: "\<not> is_space CHR ''.''" by (simp add: is_space_def)
  have "\<not> is_space (hd h)" using h label_char_not_space by simp
  with h(1) dot have "stripped (h @ [newline, CHR ''.''])" by (simp add: stripped_def)
  moreover have "rstrip_char CHR ''.'' (h @ [newline, CHR ''.'']) = h @ [newline]"
    by (simp add: rstrip_char_def newline_def)
  moreover have "hostname_body h"
  proof -
    have "\<not> label_char CHR ''.''" by (simp add: label_char_def char_class_defs)
    with h have "split_char CHR ''.'' h = [h]" by (intro split_char_no_sep) auto
    with assms h show ?thesis by (simp add: hostname_body_def)
  qed
  ultimately show ?thesis
    by (simp add: normalize_hostname_def hostname_re_def re_dollar_def)
qed

text \<open>
  The TTL and the list checks: an accepted TTL is between 0 and 2147483647, an absent TTL is
  300 unless it is required, and an accepted list of values is not empty, has one normalised
  entry per submitted entry, and has exactly one for a CNAME or an SOA.
\<close>

lemma ttl_and_values_bounds:
  "(validate_ttl t required = Inr n \<longrightarrow>
      0 \<le> n \<and> n \<le> 2147483647 \<and> (t = None \<and> \<not> required \<and> n = 300 \<or> t = Some n))
   \<and> (normalize_record_values rt vs = Inr ws \<longrightarrow>
      length ws = length vs \<and> ws \<noteq> [] \<and> upper (strip rt) \<in> set LOOKUP_RECORD_TYPES
      \<and> (upper (strip rt) \<in> {''CNAME'', ''SOA''} \<longrightarrow> length ws = 1))"
proof (intro conjI impI)
  assume "normalize_record_values rt vs = Inr ws"
  then obtain s where s: "map_of RECORD_TYPE_SPECS (upper (strip rt)) = Some s" "vs \<noteq> []"
      "spec_multiple s \<or> length vs = 1"
      and t: "traverse (normalize_record_value (upper (strip rt))) vs = Inr ws"
    by (auto simp: normalize_record_values_Inr)
  show len: "length ws = length vs" using t by (rule traverse_length)
  with s show "ws \<noteq> []" by auto
  show "upper (strip rt) \<in> set LOOKUP_RECORD_TYPES"
    using s(1) by (auto simp: RECORD_TYPE_SPECS_def LOOKUP_RECORD_TYPES_def split: if_splits)
  show "length ws = 1" if "upper (strip rt) \<in> {''CNAME'', ''SOA''}"
    using that s len by (auto simp: RECORD_TYPE_SPECS_def spec_def)
qed (auto simp: validate_ttl_def MIN_TTL_def MAX_TTL_def split: option.splits if_splits)

end
