(* ===== verification/Schemas.thy ===== *)
theory Schemas
  imports RecordTypes
begin

text \<open>
  \<^verbatim>\<open>src/schemas/dns.py\<close>: the request and response models of the DNS API and of the provider
  plugins. Pydantic fills the fields; the \<^verbatim>\<open>model_validator\<close> of each class, which is the code
  of the repository, is the \<open>check\<close> function of the record. A failing validator surfaces as a
  \<^verbatim>\<open>ValueError\<close>, of which Pydantic's \<^verbatim>\<open>ValidationError\<close> is a subclass.
\<close>

record dns_record_request =
  rq_zone_name :: "string option"
  rq_record_type :: string
  rq_record_name :: string
  rq_ttl :: "int option"
  rq_values :: "string list"

definition check_record_request :: "dns_record_request \<Rightarrow> dns_record_request res" where
  "check_record_request q =
     (let rt = upper (strip (rq_record_type q)) in
      if rt = ''DELETE'' then
        (case rq_values q of
           [] \<Rightarrow> Inl (ValueError (
             ''DELETE requires values: first element must be the RR type to remove (e.g. ['' @ [CHR 0x22] @ ''A'' @ [CHR 0x22] @ '']).''))
         | v # _ \<Rightarrow>
             let inner = upper (strip v) in
             if inner \<notin> set MUTABLE_RECORD_TYPES
             then Inl (ValueError (''DELETE target type must be one of ''
                    @ join '', '' (str_sort MUTABLE_RECORD_TYPES) @ ''; got '' @ repr inner @ ''.''))
             else Inr q)
      else if rq_values q = [] then Inl (ValueError ''values is required for this record type.'')
      else Inr q)"

record create_request =
  cr_zone_name :: "string option"
  cr_record_type :: string
  cr_record_name :: string
  cr_ttl :: "int option"
  cr_values :: "string list"

definition check_create_request :: "create_request \<Rightarrow> create_request res" where
  "check_create_request q =
     rbind (normalize_public_record_type (cr_record_type q)) (\<lambda>_.
       if cr_values q = []
       then Inl (ValueError ''values is required and must contain at least one entry.'')
       else Inr q)"

record replace_request =
  rp_zone_name :: "string option"
  rp_record_type :: string
  rp_record_name :: string
  rp_ttl :: int
  rp_values :: "string list"

definition check_replace_request :: "replace_request \<Rightarrow> replace_request res" where
  "check_replace_request q =
     rbind (normalize_public_record_type (rp_record_type q)) (\<lambda>_.
       if rp_values q = []
       then Inl (ValueError ''values is required and must contain at least one entry.'')
       else Inr q)"

record patch_request =
  pt_zone_name :: "string option"
  pt_record_type :: string
  pt_record_name :: string
  pt_ttl :: "int option"
  pt_values :: "string list option"

definition check_patch_request :: "patch_request \<Rightarrow> patch_request res" where
  "check_patch_request q =
     rbind (normalize_public_record_type (pt_record_type q)) (\<lambda>_.
       if pt_ttl q = None \<and> pt_values q = None
       then Inl (ValueError ''At least one of ttl or values must be provided.'')
       else if pt_values q = Some []
       then Inl (ValueError ''values must contain at least one entry when provided.'')
       else Inr q)"

text \<open>What a provider reports, and what the API answers.\<close>

record dns_record_info =
  info_record_name :: string
  info_record_type :: string
  info_ttl :: "int option"
  info_values :: "string list option"

record dns_record_list_result =
  lr_records :: "dns_record_info list"
  lr_truncated :: bool

record get_response =
  gr_status :: string
  gr_zone_name :: string
  gr_dns_zone :: string
  gr_record_name :: string
  gr_records :: "dns_record_info list"

record record_response =
  rr_status :: string
  rr_action :: string
  rr_zone_name :: string
  rr_dns_zone :: string
  rr_record_name :: string
  rr_record_type :: string
  rr_values :: "string list"

record zone_summary =
  zs_id :: int
  zs_zone_name :: string
  zs_dns_zone :: string

lemma check_record_request_Inr:
  "check_record_request q = Inr q' \<longleftrightarrow> q' = q \<and> rq_values q \<noteq> []
     \<and> (upper (strip (rq_record_type q)) = ''DELETE''
          \<longrightarrow> upper (strip (hd (rq_values q))) \<in> set MUTABLE_RECORD_TYPES)"
  by (auto simp: check_record_request_def Let_def split: list.splits)

lemma check_create_request_Inr:
  "check_create_request q = Inr q' \<longleftrightarrow> q' = q \<and> cr_values q \<noteq> []
     \<and> upper (strip (cr_record_type q)) \<in> set PUBLIC_RECORD_TYPES"
  by (auto simp: check_create_request_def normalize_public_record_type_def Let_def)

lemma check_patch_request_Inr:
  "check_patch_request q = Inr q' \<longleftrightarrow> q' = q \<and> (pt_ttl q \<noteq> None \<or> pt_values q \<noteq> None)
     \<and> pt_values q \<noteq> Some [] \<and> upper (strip (pt_record_type q)) \<in> set PUBLIC_RECORD_TYPES"
  by (auto simp: check_patch_request_def normalize_public_record_type_def Let_def)

end
