(* ===== verification/PluginUtils.thy ===== *)
theory PluginUtils
  imports Schemas
begin

text \<open>
  \<^verbatim>\<open>src/plugins/utils.py\<close>: relative owner names, glob matching of names, quoting for
  PowerShell, and the exact-name lookups over TCP that the BIND plugin uses. The resolver and
  the DNS query of dnspython are the fields of \<open>dns_net\<close>, an argument of what uses them.
\<close>

section \<open>Names\<close>

definition ps_single_quoted :: "string \<Rightarrow> string" where
  "ps_single_quoted s = [CHR 0x27] @ replace_char CHR 0x27 [CHR 0x27, CHR 0x27] s @ [CHR 0x27]"

definition winrm_rr_type :: "string \<Rightarrow> string" where
  "winrm_rr_type upper_rr = (let u = upper (strip upper_rr) in if u = ''TXT'' then ''Txt'' else u)"

definition winrm_record_type_to_api :: "string \<Rightarrow> string" where
  "winrm_record_type_to_api ps_type =
     (let t = strip ps_type in if upper t = ''TXT'' \<or> t = ''Txt'' then ''TXT'' else upper t)"

definition dns_relative_name :: "string \<Rightarrow> string \<Rightarrow> string" where
  "dns_relative_name zone_name record_name =
     (let z = rstrip_char CHR ''.'' (strip zone_name);
          r = rstrip_char CHR ''.'' (strip record_name)
      in if r = [] \<or> r = ''@'' \<or> lower r = lower z then ''@''
         else let suffix = ''.'' @ z in
           if endswith (lower suffix) (lower r)
           then (let p = take (length r - length suffix) r in if p = [] then ''@'' else p)
           else r)"

definition has_dns_glob :: "string option \<Rightarrow> bool" where
  "has_dns_glob record_name =
     (let s = (case record_name of None \<Rightarrow> [] | Some t \<Rightarrow> t)
      in CHR ''*'' \<in> set s \<or> CHR ''?'' \<in> set s)"

section \<open>\<^verbatim>\<open>fnmatch.fnmatchcase\<close>\<close>

text \<open>
  A star matches any run of characters, a question mark any one, a bracket a class of
  characters (ranges included, negated by \<^verbatim>\<open>!\<close>), everything else itself. A bracket without a
  closing one is literal; a closing bracket right after the opening one belongs to the class.
  (A class whose first range is empty and is followed by \<^verbatim>\<open>!\<close>, as in \<^verbatim>\<open>[z-a!x]\<close>, is read
  here as the listed characters.)
\<close>

fun class_items :: "string \<Rightarrow> (char \<times> char) list" where
  "class_items (c # h # d # rest) =
     (if h = CHR ''-'' then (c, d) # class_items rest else (c, c) # class_items (h # d # rest))"
| "class_items [c, d] = [(c, c), (d, d)]"
| "class_items [c] = [(c, c)]"
| "class_items [] = []"

definition in_items :: "char \<Rightarrow> string \<Rightarrow> bool" where
  "in_items x cs \<longleftrightarrow> (\<exists>(a, b) \<in> set (class_items cs). code a \<le> code x \<and> code x \<le> code b)"

definition in_class :: "char \<Rightarrow> string \<Rightarrow> bool" where
  "in_class x cs \<longleftrightarrow>
     (case cs of [] \<Rightarrow> False | c # r \<Rightarrow> if c = CHR ''!'' then \<not> in_items x r else in_items x cs)"

text \<open>The content of a class and what follows its closing bracket.\<close>

definition class_start :: "string \<Rightarrow> nat" where
  "class_start p =
     (let a = (if startswith ''!'' p then 1 else 0)
      in if startswith '']'' (drop a p) then a + 1 else a)"

definition split_class :: "string \<Rightarrow> (string \<times> string) option" where
  "split_class p =
     (let b = class_start p; q = drop b p
      in if CHR '']'' \<in> set q
         then Some (take b p @ before_char CHR '']'' q, after_char CHR '']'' q) else None)"

lemma after_char_length: "length (after_char c s) \<le> length s"
  using length_dropWhile_le [of "\<lambda>x. x \<noteq> c" s] by (simp add: after_char_def)

lemma after_char_drop_length: "length (after_char c (drop n s)) \<le> length s"
  by (rule order_trans [OF after_char_length]) simp

lemma split_class_shorter: "split_class p = Some (cs, rest) \<Longrightarrow> length rest \<le> length p"
  by (auto simp: split_class_def Let_def after_char_drop_length split: if_splits)

function fnmatch :: "string \<Rightarrow> string \<Rightarrow> bool" where
  "fnmatch [] s = (s = [])"
| "fnmatch (c # p) s =
     (if c = CHR ''*'' then fnmatch p s \<or> (case s of [] \<Rightarrow> False | x # t \<Rightarrow> fnmatch (c # p) t)
      else case s of
        [] \<Rightarrow> False
      | x # t \<Rightarrow>
          if c = CHR ''?'' then fnmatch p t
          else if c = CHR ''['' then
            (case split_class p of
               None \<Rightarrow> x = CHR ''['' \<and> fnmatch p t
             | Some (cs, rest) \<Rightarrow> in_class x cs \<and> fnmatch rest t)
          else x = c \<and> fnmatch p t)"
  by pat_completeness auto
termination
  by (relation "measures [\<lambda>(p, s). length p + length s]") (auto dest: split_class_shorter)

declare fnmatch.simps(2) [simp del]

definition record_name_matches :: "string option \<Rightarrow> string \<Rightarrow> bool" where
  "record_name_matches pattern record_name =
     (case pattern of
        None \<Rightarrow> True
      | Some p \<Rightarrow> p = [] \<or> fnmatch (lower p) (lower record_name))"

section \<open>Exact-name queries\<close>

text \<open>
  What dnspython hands over: the attributes of an rdata that the formatter reads (texts of
  names without the final dot), and the answer section as a list of RRsets.
\<close>

datatype rdata =
    RAddress string
  | RTarget string
  | RStrings "string list"
  | RMX int string
  | RSRV int int int string
  | RCAA int string string
  | RText string

record rrset =
  rs_type :: string
  rs_ttl :: int
  rs_rdatas :: "rdata list"

text \<open>
  \<open>getaddrinfo\<close> gives the addresses of a host or raises \<^verbatim>\<open>gaierror\<close>; \<open>name_from_text\<close>
  raises for a text that is not a DNS name; \<open>tcp_query\<close> sends the query for a name and a
  type to an address and returns the answer section.
\<close>

record dns_net =
  getaddrinfo :: "string \<Rightarrow> string list res"
  name_from_text :: "string \<Rightarrow> string res"
  tcp_query :: "string \<Rightarrow> string \<Rightarrow> string \<Rightarrow> rrset list res"

definition tcp_endpoint_host :: "dns_net \<Rightarrow> string \<Rightarrow> string res" where
  "tcp_endpoint_host net host =
     (let h = strip host in
      if h = [] then Inr h
      else case ip_address h of
        Some _ \<Rightarrow> Inr h
      | None \<Rightarrow>
          (case getaddrinfo net h of
             Inl (OtherError n m) \<Rightarrow>
               if n = ''gaierror''
               then Inl (ValueError (''Could not resolve DNS server hostname '' @ repr h @ '': '' @ m))
               else Inl (OtherError n m)
           | Inl e \<Rightarrow> Inl e
           | Inr [] \<Rightarrow> Inl (ValueError (''DNS server hostname '' @ repr h @ '' resolved to no addresses.''))
           | Inr (a # _) \<Rightarrow> Inr a))"

definition query_name :: "string \<Rightarrow> string \<Rightarrow> string" where
  "query_name zone_name relative_name =
     (let z = rstrip_char CHR ''.'' (strip zone_name)
      in if relative_name = ''@'' \<or> relative_name = [] then z else relative_name @ ''.'' @ z)"

text \<open>\<^verbatim>\<open>_record_exists_at_name\<close>, and \<^verbatim>\<open>record_existed_before_update\<close>, which only calls it:
  every failure of the query is "no".\<close>

definition record_exists_at_name :: "dns_net \<Rightarrow> string \<Rightarrow> string \<Rightarrow> string \<Rightarrow> string \<Rightarrow> bool res" where
  "record_exists_at_name net server zone_name relative_name rdtype =
     rbind (name_from_text net (query_name zone_name relative_name)) (\<lambda>qname.
       case rbind (tcp_endpoint_host net server) (\<lambda>h. tcp_query net h qname rdtype) of
         Inl _ \<Rightarrow> Inr False
       | Inr answer \<Rightarrow> Inr (answer \<noteq> []))"

definition record_existed_before_update ::
  "dns_net \<Rightarrow> string \<Rightarrow> string \<Rightarrow> string \<Rightarrow> string \<Rightarrow> bool res" where
  "record_existed_before_update net server zone_name relative_name rdtype =
     record_exists_at_name net server zone_name relative_name rdtype"

definition attribute_error :: "'a res" where
  "attribute_error = Inl (OtherError ''AttributeError'' [])"

definition format_rdata_value :: "string \<Rightarrow> rdata \<Rightarrow> string res" where
  "format_rdata_value record_type rdata =
     (let rt = upper record_type in
      if rt = ''A'' \<or> rt = ''AAAA'' then (case rdata of RAddress a \<Rightarrow> Inr a | _ \<Rightarrow> attribute_error)
      else if rt = ''CNAME'' then (case rdata of RTarget t \<Rightarrow> Inr t | _ \<Rightarrow> attribute_error)
      else if rt = ''TXT'' then (case rdata of RStrings ps \<Rightarrow> Inr (concat ps) | _ \<Rightarrow> attribute_error)
      else if rt = ''MX'' then
        (case rdata of RMX p e \<Rightarrow> normalize_record_value ''MX'' (show_int p @ '' '' @ e)
         | _ \<Rightarrow> attribute_error)
      else if rt = ''NS'' then (case rdata of RTarget t \<Rightarrow> Inr t | _ \<Rightarrow> attribute_error)
      else if rt = ''SRV'' then
        (case rdata of RSRV p w q t \<Rightarrow> normalize_record_value ''SRV''
             (show_int p @ '' '' @ show_int w @ '' '' @ show_int q @ '' '' @ t)
         | _ \<Rightarrow> attribute_error)
      else if rt = ''CAA'' then
        (case rdata of RCAA f t v \<Rightarrow> normalize_record_value ''CAA'' (show_int f @ '' '' @ t @ '' '' @ v)
         | _ \<Rightarrow> attribute_error)
      else if rt = ''PTR'' then (case rdata of RTarget t \<Rightarrow> Inr t | _ \<Rightarrow> attribute_error)
      else (case rdata of RText t \<Rightarrow> Inr t | _ \<Rightarrow> attribute_error))"

text \<open>The loop over the answer: the TTL of the last RRset of the type, all its values.\<close>

fun collect_answer :: "string \<Rightarrow> rrset list \<Rightarrow> int option \<Rightarrow> string list \<Rightarrow> (int option \<times> string list) res" where
  "collect_answer rt [] ttl values = Inr (ttl, values)"
| "collect_answer rt (rs # rest) ttl values =
     (if rs_type rs \<noteq> rt then collect_answer rt rest ttl values
      else rbind (traverse (format_rdata_value rt) (rs_rdatas rs)) (\<lambda>vs.
        collect_answer rt rest (Some (rs_ttl rs)) (values @ vs)))"

definition query_record_details_at_name ::
  "dns_net \<Rightarrow> string \<Rightarrow> string \<Rightarrow> string \<Rightarrow> string \<Rightarrow> dns_record_info option res" where
  "query_record_details_at_name net server zone_name relative_name record_type =
     (let display_name = (if relative_name = ''@'' \<or> relative_name = [] then ''@'' else relative_name) in
      rbind (name_from_text net (query_name zone_name relative_name)) (\<lambda>qname.
        case rbind (tcp_endpoint_host net server) (\<lambda>h. tcp_query net h qname record_type) of
          Inl _ \<Rightarrow> Inr None
        | Inr answer \<Rightarrow>
            if answer = [] then Inr None
            else rbind (collect_answer record_type answer None []) (\<lambda>(ttl, values).
              case ttl of
                None \<Rightarrow> Inr None
              | Some t \<Rightarrow>
                  if values = [] then Inr None
                  else Inr (Some \<lparr>info_record_name = display_name, info_record_type = record_type,
                                  info_ttl = Some t, info_values = Some values\<rparr>))))"

definition query_dns_records_at_name ::
  "dns_net \<Rightarrow> string \<Rightarrow> string \<Rightarrow> string \<Rightarrow> string option \<Rightarrow> dns_record_info list res" where
  "query_dns_records_at_name net server zone_name relative_name record_type =
     rbind (lookup_record_types_to_query record_type) (\<lambda>types.
     rbind (traverse (query_record_details_at_name net server zone_name relative_name) types) (\<lambda>infos.
       Inr (map the (filter (\<lambda>i. i \<noteq> None) infos))))"

section \<open>Lemmas on names\<close>

lemma endswith_length: "endswith p s \<Longrightarrow> length p \<le> length s"
  by (auto simp: endswith_iff)

lemma lower_char_at: "lower_char c = CHR ''@'' \<longleftrightarrow> c = CHR ''@''"
  using code_lower_char [of c] by (auto simp: code_inject [symmetric] char_class_defs)

lemma lower_char_punct [simp]: "lower_char CHR ''@'' = CHR ''@''" "lower_char CHR ''.'' = CHR ''.''"
  by (simp_all add: lower_char_def is_upper_def)

lemma lower_at: "lower s = ''@'' \<longleftrightarrow> s = ''@''"
  by (cases s) (auto simp: lower_char_at)

lemma lower_Cons_dot: "lower (CHR ''.'' # z) = CHR ''.'' # lower z"
  by (simp add: lower_char_def is_upper_def)

lemma take_lower: "take n (lower s) = lower (take n s)"
  by (simp add: lower_def take_map)

lemma endswith_split:
  "endswith p s \<Longrightarrow> s = take (length s - length p) s @ p"
  by (auto simp: endswith_iff)

lemma rstrip_dot_last: "rstrip_char CHR ''.'' s = r \<Longrightarrow> r \<noteq> [] \<Longrightarrow> last r \<noteq> CHR ''.''"
  using rstrip_char_not_last by blast

lemma rstrip_dot_not_ends: "lower (rstrip_char CHR ''.'' s) \<noteq> xs @ [CHR ''.'']"
  using rstrip_char_not_last [of "CHR ''.''" "lower s"] by (metis last_snoc rstrip_dot_lower snoc_eq_iff_butlast)

text \<open>The names that \<^verbatim>\<open>dns_relative_name\<close> sends to the apex, spelled out.\<close>

lemma dns_relative_name_apex:
  fixes z n
  defines "z' \<equiv> rstrip_char CHR ''.'' (strip z)" and "r \<equiv> rstrip_char CHR ''.'' (strip n)"
  shows "dns_relative_name z n = ''@'' \<longleftrightarrow>
    r = [] \<or> r = ''@'' \<or> lower r = lower z' \<or> lower r = ''.'' @ lower z' \<or> lower r = ''@.'' @ lower z'"
proof (cases "r = [] \<or> r = ''@'' \<or> lower r = lower z'")
  case True
  then show ?thesis unfolding dns_relative_name_def z'_def r_def Let_def by auto
next
  case False
  let ?p = "take (length r - length (''.'' @ z')) r"
  have eq: "dns_relative_name z n =
      (if endswith (lower (''.'' @ z')) (lower r) then (if ?p = [] then ''@'' else ?p) else r)"
    using False unfolding dns_relative_name_def z'_def [symmetric] r_def [symmetric] Let_def by simp
  show ?thesis
  proof (cases "endswith (lower (''.'' @ z')) (lower r)")
    case True
    then have "lower r = lower ?p @ ''.'' @ lower z'"
      using endswith_split [OF True] by (simp add: take_lower lower_Cons_dot)
    then show ?thesis using True False by (auto simp: eq lower_at)
  next
    case no: False
    then have "lower r \<noteq> ''.'' @ lower z'" "lower r \<noteq> ''@.'' @ lower z'"
      using endswith_append [of "lower (''.'' @ z')" "[]"] endswith_append [of "lower (''.'' @ z')" "''@''"]
      by (auto simp: lower_Cons_dot)
    with no False show ?thesis by (simp add: eq)
  qed
qed

lemma is_apex_name_iff:
  fixes z n
  defines "z' \<equiv> rstrip_char CHR ''.'' (strip z)" and "r \<equiv> rstrip_char CHR ''.'' (strip n)"
  shows "is_apex_name n (Some z) \<longleftrightarrow>
    r = [] \<or> r = ''@'' \<or> (z' \<noteq> [] \<and> (lower r = lower z' \<or> lower r = ''.'' @ lower z'))"
proof -
  have "endswith (''.'' @ lower z') (lower r)
      \<and> take (length r - length (''.'' @ lower z')) (lower r) = [] \<longleftrightarrow> lower r = ''.'' @ lower z'"
    using endswith_split [of "''.'' @ lower z'" "lower r"] endswith_append [of "''.'' @ lower z'" "[]"]
    by auto
  moreover have "is_apex_name n (Some z) \<longleftrightarrow> r = [] \<or> r = ''@'' \<or> (z' \<noteq> [] \<and> (lower r = lower z'
      \<or> (endswith (''.'' @ lower z') (lower r)
         \<and> take (length r - length (''.'' @ lower z')) (lower r) = [])))"
    by (auto simp: is_apex_name_def Let_def z'_def r_def)
  ultimately show ?thesis by simp
qed

text \<open>
  The guard and the providers agree on which owner names are the zone apex, but for one
  spelling: a name is relativised to \<^verbatim>\<open>@\<close> exactly when \<^verbatim>\<open>is_apex_name\<close> holds or it reads
  \<^verbatim>\<open>@.\<close> followed by the zone (trailing dots, white space and case aside).
\<close>

lemma apex_guard_matches_relative_name:
  "dns_relative_name z n = ''@'' \<longleftrightarrow>
     is_apex_name n (Some z)
     \<or> lower (rstrip_char CHR ''.'' (strip n)) = ''@.'' @ lower (rstrip_char CHR ''.'' (strip z))"
proof -
  let ?z = "rstrip_char CHR ''.'' (strip z)" and ?r = "rstrip_char CHR ''.'' (strip n)"
  have "\<not> (lower ?r = ''@.'' \<or> lower ?r = ''.'')"
    using rstrip_dot_not_ends [of "strip n" "''@''"] rstrip_dot_not_ends [of "strip n" "[]"] by auto
  then show ?thesis
    unfolding dns_relative_name_apex is_apex_name_iff by auto
qed

text \<open>
  C28. That spelling defeats the apex NS guard: for every zone the name \<^verbatim>\<open>@.\<close>zone passes
  \<^verbatim>\<open>guard_mutation_allowed\<close> for NS, and the plugins that relativise names then write the NS set
  of the apex.
\<close>

theorem apex_ns_guard_bypass:
  assumes "word z" and "last z \<noteq> CHR ''.''"
  shows "guard_mutation_allowed (''@.'' @ z) ''NS'' (Some z) = Inr ()
    \<and> dns_relative_name z (''@.'' @ z) = ''@''"
proof -
  have ne: "z \<noteq> []" using assms(1) by auto
  have sp: "\<not> is_space CHR ''@''" "\<not> is_space CHR ''.''" by (simp_all add: is_space_def)
  have w: "word (''@.'' @ z)" using assms(1) sp by (auto simp: word_def)
  have z: "rstrip_char CHR ''.'' (strip z) = z"
    using assms by (simp add: word_strip rstrip_char_ident)
  have r: "rstrip_char CHR ''.'' (strip (''@.'' @ z)) = ''@.'' @ z"
    unfolding word_strip [OF w] using assms(2) ne by (intro rstrip_char_ident) auto
  have lw: "lower (''@.'' @ z) = ''@.'' @ lower z"
    by (simp add: lower_char_def is_upper_def)
  have len: "length (lower (''@.'' @ z)) = length z + 2" by simp
  have "\<not> is_apex_name (''@.'' @ z) (Some z)"
    unfolding is_apex_name_iff z r lw
    using len lw by (auto dest: arg_cong [where f = length])
  moreover have "upper (strip ''NS'') = ''NS''" by code_simp
  ultimately have "guard_mutation_allowed (''@.'' @ z) ''NS'' (Some z) = Inr ()"
    by (simp add: guard_mutation_allowed_def)
  moreover have "dns_relative_name z (''@.'' @ z) = ''@''"
    unfolding dns_relative_name_apex z r lw by simp
  ultimately show ?thesis ..
qed

theorem apex_ns_guard_bypass_witness:
  "guard_mutation_allowed (''@.'' @ ''example.com'') ''NS'' (Some ''example.com'') = Inr ()
    \<and> dns_relative_name ''example.com'' (''@.'' @ ''example.com'') = ''@''"
  by (rule apex_ns_guard_bypass) code_simp+

section \<open>Glob patterns\<close>

definition literal :: "string \<Rightarrow> bool" where
  "literal p \<longleftrightarrow> CHR ''*'' \<notin> set p \<and> CHR ''?'' \<notin> set p \<and> CHR ''['' \<notin> set p"

lemma fnmatch_literal_Cons:
  "c \<noteq> CHR ''*'' \<Longrightarrow> c \<noteq> CHR ''?'' \<Longrightarrow> c \<noteq> CHR ''['' \<Longrightarrow>
     fnmatch (c # p) s \<longleftrightarrow> (\<exists>t. s = c # t \<and> fnmatch p t)"
  by (auto simp: fnmatch.simps(2) split: list.splits)

lemma fnmatch_literal_append:
  "literal a \<Longrightarrow> fnmatch (a @ p) s \<longleftrightarrow> (\<exists>t. s = a @ t \<and> fnmatch p t)"
  by (induction a arbitrary: s) (auto simp: literal_def fnmatch_literal_Cons)

lemma fnmatch_literal: "literal p \<Longrightarrow> fnmatch p s \<longleftrightarrow> s = p"
  using fnmatch_literal_append [of p "[]" s] by simp

lemma fnmatch_star: "fnmatch (CHR ''*'' # p) s \<longleftrightarrow> (\<exists>m t. s = m @ t \<and> fnmatch p t)"
proof (induction s)
  case Nil
  show ?case by (subst fnmatch.simps) simp
next
  case (Cons x s)
  have "fnmatch (CHR ''*'' # p) (x # s) \<longleftrightarrow> fnmatch p (x # s) \<or> fnmatch (CHR ''*'' # p) s"
    by (subst fnmatch.simps) simp
  also have "\<dots> \<longleftrightarrow> (\<exists>m t. x # s = m @ t \<and> fnmatch p t)"
    unfolding Cons.IH by (auto simp: Cons_eq_append_conv)
  finally show ?case .
qed

lemma lower_char_eq_nonletter:
  "\<not> is_lower c \<Longrightarrow> \<not> is_upper c \<Longrightarrow> lower_char x = c \<longleftrightarrow> x = c"
  using code_lower_char [of x] by (auto simp: code_inject [symmetric] char_class_defs)

lemma lower_char_glob:
  "lower_char x = CHR ''*'' \<longleftrightarrow> x = CHR ''*''"
  "lower_char x = CHR ''?'' \<longleftrightarrow> x = CHR ''?''"
  "lower_char x = CHR ''['' \<longleftrightarrow> x = CHR ''[''"
  by (rule lower_char_eq_nonletter; simp add: char_class_defs)+

lemma image_fixed_point: "(\<And>x. f x = c \<longleftrightarrow> x = c) \<Longrightarrow> c \<in> f ` S \<longleftrightarrow> c \<in> S"
  by (metis image_iff)

lemma literal_lower [simp]: "literal (lower p) = literal p"
  by (simp add: literal_def lower_def image_fixed_point [OF lower_char_glob(1)]
      image_fixed_point [OF lower_char_glob(2)] image_fixed_point [OF lower_char_glob(3)])

text \<open>
  What a name pattern matches: a pattern without wild cards matches a name exactly when they
  agree up to case, and a pattern with one star matches the names that begin with what is before
  it and end with what is after it, in two places that do not overlap.
\<close>

lemma record_name_matches_spec:
  assumes "literal a" and "literal b"
  shows "(a \<noteq> [] \<longrightarrow> record_name_matches (Some a) name = (lower name = lower a))
    \<and> record_name_matches (Some (a @ ''*'' @ b)) name
        = (\<exists>m. lower name = lower a @ m @ lower b)"
proof
  have "lower (''*'' @ b) = CHR ''*'' # lower b" by (simp add: lower_char_def is_upper_def)
  then show "record_name_matches (Some (a @ ''*'' @ b)) name
      = (\<exists>m. lower name = lower a @ m @ lower b)"
    using assms
    by (auto simp: record_name_matches_def fnmatch_literal_append fnmatch_star fnmatch_literal)
qed (use assms in \<open>auto simp: record_name_matches_def fnmatch_literal\<close>)

section \<open>PowerShell quoting\<close>

text \<open>How PowerShell reads a single-quoted literal: a doubled quote is a quote, a single one
  ends the literal. The result is the text and what follows the literal.\<close>

fun ps_read :: "string \<Rightarrow> (string \<times> string) option" where
  "ps_read [] = None"
| "ps_read (c # s) =
     (if c = CHR 0x27
      then (case s of
              [] \<Rightarrow> Some ([], [])
            | d # t \<Rightarrow> if d = CHR 0x27
                then map_option (\<lambda>(x, r). (CHR 0x27 # x, r)) (ps_read t) else Some ([], s))
      else map_option (\<lambda>(x, r). (c # x, r)) (ps_read s))"

lemma ps_read_body:
  assumes "rest = [] \<or> hd rest \<noteq> CHR 0x27"
  shows "ps_read (replace_char CHR 0x27 [CHR 0x27, CHR 0x27] s @ CHR 0x27 # rest) = Some (s, rest)"
  using assms by (induction s) (auto simp: replace_char_def split: list.splits)

text \<open>
  A quoted value cannot leave its literal: whatever the value holds, reading the text that
  \<^verbatim>\<open>ps_single_quoted\<close> builds, with any continuation of the script that does not begin with a
  quote, gives the value back and the continuation untouched.
\<close>

lemma ps_single_quoted_reads_back:
  assumes "rest = [] \<or> hd rest \<noteq> CHR 0x27"
  shows "hd (ps_single_quoted s @ rest) = CHR 0x27
    \<and> ps_read (tl (ps_single_quoted s @ rest)) = Some (s, rest)"
  using ps_read_body [OF assms, of s] by (simp add: ps_single_quoted_def)

end
