(* ===== verification/Json.thy ===== *)
theory Json
  imports PyIp "HOL-Library.AList"
begin

text \<open>
  \<^verbatim>\<open>json.dumps\<close> and \<^verbatim>\<open>json.loads\<close> of the standard library, on the values the code stores:
  null, booleans, integers, strings, lists and dicts (association lists in insertion order).
  A float is held by its literal text. Strings are Latin-1: a \<^verbatim>\<open>\uXXXX\<close> escape above
  \<^verbatim>\<open>\u00ff\<close> is outside the model and refused by \<open>json_loads\<close>. The main lemma is the round
  trip \<open>json_loads_dumps\<close>.
\<close>

datatype json =
    JNull
  | JBool bool
  | JInt int
  | JFloat string
  | JStr string
  | JList "json list"
  | JObj "(string \<times> json) list"

section \<open>Printing\<close>

text \<open>The escapes of \<^verbatim>\<open>ensure_ascii=True\<close> and of \<^verbatim>\<open>ensure_ascii=False\<close>.\<close>

definition esc_u :: "nat \<Rightarrow> string" where
  "esc_u n = [CHR 0x5C, CHR ''u'', CHR ''0'', CHR ''0'', hex_char (n div 16), hex_char (n mod 16)]"

definition esc_short :: "nat \<Rightarrow> string option" where
  "esc_short n =
     (if n = 34 then Some [CHR 0x5C, CHR 0x22] else if n = 92 then Some [CHR 0x5C, CHR 0x5C]
      else if n = 10 then Some [CHR 0x5C, CHR ''n''] else if n = 13 then Some [CHR 0x5C, CHR ''r'']
      else if n = 9 then Some [CHR 0x5C, CHR ''t''] else if n = 12 then Some [CHR 0x5C, CHR ''f'']
      else if n = 8 then Some [CHR 0x5C, CHR ''b''] else None)"

definition esc_char :: "bool \<Rightarrow> char \<Rightarrow> string" where
  "esc_char ascii c =
     (case esc_short (code c) of
        Some s \<Rightarrow> s
      | None \<Rightarrow> if code c < 32 \<or> (ascii \<and> 127 \<le> code c) then esc_u (code c) else [c])"

definition json_quote :: "bool \<Rightarrow> string \<Rightarrow> string" where
  "json_quote ascii s = CHR 0x22 # concat (map (esc_char ascii) s) @ [CHR 0x22]"

fun dumps :: "bool \<Rightarrow> json \<Rightarrow> string" where
  "dumps a JNull = ''null''"
| "dumps a (JBool b) = (if b then ''true'' else ''false'')"
| "dumps a (JInt i) = show_int i"
| "dumps a (JFloat t) = t"
| "dumps a (JStr s) = json_quote a s"
| "dumps a (JList xs) = CHR ''['' # join '', '' (map (dumps a) xs) @ '']''"
| "dumps a (JObj kvs) =
     CHR ''{'' # join '', '' (map (\<lambda>(k, v). json_quote a k @ '': '' @ dumps a v) kvs) @ ''}''"

text \<open>\<^verbatim>\<open>sort_keys=True\<close>\<close>

definition sort_items :: "(string \<times> 'a) list \<Rightarrow> (string \<times> 'a) list" where
  "sort_items kvs = map (\<lambda>k. (k, the (map_of kvs k))) (str_sort (map fst kvs))"

fun sort_keys :: "json \<Rightarrow> json" where
  "sort_keys (JList xs) = JList (map sort_keys xs)"
| "sort_keys (JObj kvs) = JObj (sort_items (map (\<lambda>(k, v). (k, sort_keys v)) kvs))"
| "sort_keys j = j"

definition json_dumps :: "json \<Rightarrow> string" where
  "json_dumps j = dumps True j"

definition json_dumps_sorted :: "json \<Rightarrow> string" where
  "json_dumps_sorted j = dumps True (sort_keys j)"

section \<open>Parsing\<close>

definition skip_ws :: "string \<Rightarrow> string" where
  "skip_ws s = dropWhile (\<lambda>c. code c \<in> {32, 9, 10, 13}) s"

definition unesc :: "char \<Rightarrow> char option" where
  "unesc d =
     (if d \<in> {CHR 0x22, CHR 0x5C, CHR ''/''} then Some d
      else if d = CHR ''b'' then Some (chr 8) else if d = CHR ''f'' then Some (chr 12)
      else if d = CHR ''n'' then Some (chr 10) else if d = CHR ''r'' then Some (chr 13)
      else if d = CHR ''t'' then Some (chr 9) else None)"

definition u_char :: "string \<Rightarrow> char option" where
  "u_char hs =
     (if length hs = 4 \<and> (\<forall>c \<in> set hs. is_hex c) \<and> hex_val hs < 256
      then Some (chr (hex_val hs)) else None)"

definition cons_char :: "char option \<Rightarrow> (string \<times> string) option \<Rightarrow> (string \<times> string) option" where
  "cons_char c p =
     Option.bind c (\<lambda>c. map_option (\<lambda>(s, r). (c # s, r)) p)"

text \<open>The rest of a string literal after its opening quote.\<close>

fun p_chars :: "string \<Rightarrow> (string \<times> string) option" where
  "p_chars [] = None"
| "p_chars (c # cs) =
     (if c = CHR 0x22 then Some ([], cs)
      else if c = CHR 0x5C then
        (case cs of
           [] \<Rightarrow> None
         | d # ds \<Rightarrow>
             if d = CHR ''u'' then cons_char (u_char (take 4 ds)) (p_chars (drop 4 ds))
             else cons_char (unesc d) (p_chars ds))
      else if code c < 32 then None
      else cons_char (Some c) (p_chars cs))"

definition p_int_part :: "string \<Rightarrow> string" where
  "p_int_part s =
     (let neg = (case s of c # _ \<Rightarrow> c = CHR ''-'' | [] \<Rightarrow> False);
          r = (if neg then tl s else s); ds = takeWhile is_digit r;
          ip = (case ds of c # _ \<Rightarrow> if c = CHR ''0'' then [c] else ds | [] \<Rightarrow> [])
      in if ip = [] then [] else (if neg then CHR ''-'' # ip else ip))"

definition p_frac :: "string \<Rightarrow> string" where
  "p_frac s =
     (case s of
        c # r \<Rightarrow> if c = CHR ''.'' \<and> takeWhile is_digit r \<noteq> [] then c # takeWhile is_digit r else []
      | [] \<Rightarrow> [])"

definition p_exp :: "string \<Rightarrow> string" where
  "p_exp s =
     (case s of
        c # r \<Rightarrow>
          let sg = (case r of d # _ \<Rightarrow> if d \<in> {CHR ''+'', CHR ''-''} then [d] else [] | [] \<Rightarrow> []);
              ds = takeWhile is_digit (drop (length sg) r)
          in if c \<in> {CHR ''e'', CHR ''E''} \<and> ds \<noteq> [] then c # sg @ ds else []
      | [] \<Rightarrow> [])"

definition p_number :: "string \<Rightarrow> (json \<times> string) option" where
  "p_number s =
     (let ip = p_int_part s; r = drop (length ip) s;
          fr = p_frac r; r' = drop (length fr) r; ex = p_exp r'
      in if ip = [] then None
         else if fr = [] \<and> ex = [] then map_option (\<lambda>i. (JInt i, r)) (signed_int ip)
         else Some (JFloat (ip @ fr @ ex), drop (length ex) r'))"

definition p_word :: "string \<Rightarrow> json \<Rightarrow> string \<Rightarrow> (json \<times> string) option" where
  "p_word w j s = (if startswith w s then Some (j, drop (length w) s) else None)"

definition p_atom :: "string \<Rightarrow> (json \<times> string) option" where
  "p_atom s =
     (case p_word ''null'' JNull s of Some x \<Rightarrow> Some x | None \<Rightarrow>
      case p_word ''true'' (JBool True) s of Some x \<Rightarrow> Some x | None \<Rightarrow>
      case p_word ''false'' (JBool False) s of Some x \<Rightarrow> Some x | None \<Rightarrow>
      case p_number s of Some x \<Rightarrow> Some x | None \<Rightarrow>
      case p_word ''NaN'' (JFloat ''NaN'') s of Some x \<Rightarrow> Some x | None \<Rightarrow>
      case p_word ''Infinity'' (JFloat ''Infinity'') s of Some x \<Rightarrow> Some x | None \<Rightarrow>
      p_word ''-Infinity'' (JFloat ''-Infinity'') s)"

definition expect :: "char \<Rightarrow> string \<Rightarrow> string option" where
  "expect c s = (case s of d # ds \<Rightarrow> if d = c then Some ds else None | [] \<Rightarrow> None)"

text \<open>A later duplicate key replaces the value of the first.\<close>

definition make_dict :: "(string \<times> json) list \<Rightarrow> (string \<times> json) list" where
  "make_dict kvs = foldl (\<lambda>m (k, v). AList.update k v m) [] kvs"

text \<open>The first argument is fuel; \<open>2 * length s + 2\<close> is enough since every second step consumes
  a character.\<close>

fun p_val :: "nat \<Rightarrow> string \<Rightarrow> (json \<times> string) option"
  and p_elems :: "nat \<Rightarrow> string \<Rightarrow> (json list \<times> string) option"
  and p_members :: "nat \<Rightarrow> string \<Rightarrow> ((string \<times> json) list \<times> string) option" where
  "p_val 0 s = None"
| "p_val (Suc n) s =
     (case s of
        [] \<Rightarrow> None
      | c # cs \<Rightarrow>
          if c = CHR 0x22 then map_option (\<lambda>(x, r). (JStr x, r)) (p_chars cs)
          else if c = CHR ''['' then
            (case expect CHR '']'' (skip_ws cs) of
               Some r \<Rightarrow> Some (JList [], r)
             | None \<Rightarrow> map_option (\<lambda>(xs, r). (JList xs, r)) (p_elems n (skip_ws cs)))
          else if c = CHR ''{'' then
            (case expect CHR ''}'' (skip_ws cs) of
               Some r \<Rightarrow> Some (JObj [], r)
             | None \<Rightarrow> map_option (\<lambda>(kvs, r). (JObj (make_dict kvs), r)) (p_members n (skip_ws cs)))
          else p_atom s)"
| "p_elems 0 s = None"
| "p_elems (Suc n) s =
     Option.bind (p_val n s) (\<lambda>(x, r).
       case expect CHR '']'' (skip_ws r) of
         Some r' \<Rightarrow> Some ([x], r')
       | None \<Rightarrow> Option.bind (expect CHR '','' (skip_ws r)) (\<lambda>r'.
           map_option (\<lambda>(xs, z). (x # xs, z)) (p_elems n (skip_ws r'))))"
| "p_members 0 s = None"
| "p_members (Suc n) s =
     Option.bind (expect CHR 0x22 s) (\<lambda>s1.
     Option.bind (p_chars s1) (\<lambda>(k, s2).
     Option.bind (expect CHR '':'' (skip_ws s2)) (\<lambda>s3.
     Option.bind (p_val n (skip_ws s3)) (\<lambda>(x, r).
       case expect CHR ''}'' (skip_ws r) of
         Some r' \<Rightarrow> Some ([(k, x)], r')
       | None \<Rightarrow> Option.bind (expect CHR '','' (skip_ws r)) (\<lambda>r'.
           map_option (\<lambda>(kvs, z). ((k, x) # kvs, z)) (p_members n (skip_ws r')))))))"

definition json_error :: py_exc where
  "json_error = ValueError ''json''"

definition json_loads :: "string \<Rightarrow> json res" where
  "json_loads s =
     (case p_val (2 * length s + 2) (skip_ws s) of
        Some (j, r) \<Rightarrow> if skip_ws r = [] then Inr j else Inl json_error
      | None \<Rightarrow> Inl json_error)"

section \<open>Round trip\<close>

text \<open>The values that read back: no floats, integers within \<^verbatim>\<open>int\<close>'s text limit, distinct keys.\<close>

fun json_ok :: "json \<Rightarrow> bool" where
  "json_ok (JInt i) = small_nat (nat \<bar>i\<bar>)"
| "json_ok (JFloat t) = False"
| "json_ok (JList xs) = (\<forall>x \<in> set xs. json_ok x)"
| "json_ok (JObj kvs) = (distinct (map fst kvs) \<and> (\<forall>(k, v) \<in> set kvs. json_ok v))"
| "json_ok j = True"

lemma skip_ws_simps [simp]:
  "skip_ws [] = []"
  "code c \<notin> {32, 9, 10, 13} \<Longrightarrow> skip_ws (c # s) = c # s"
  "skip_ws (CHR '' '' # s) = skip_ws s"
  by (simp_all add: skip_ws_def code_def)

lemma expect_simps [simp]:
  "expect c (c # s) = Some s"
  "d \<noteq> c \<Longrightarrow> expect c (d # s) = None"
  "expect c [] = None"
  by (simp_all add: expect_def)

lemma make_dict_distinct:
  assumes "distinct (map fst kvs)"
  shows "make_dict kvs = kvs"
proof -
  have upd: "AList.update k v m = m @ [(k, v)]" if "k \<notin> fst ` set m" for k v m
    using that by (induction m) auto
  have "foldl (\<lambda>m (k, v). AList.update k v m) m kvs = m @ kvs"
    if "distinct (map fst kvs)" "fst ` set m \<inter> fst ` set kvs = {}" for m
    using that by (induction kvs arbitrary: m) (auto simp: upd)
  from this [of "[]"] assms show ?thesis by (simp add: make_dict_def)
qed

lemma code_hex_char: "n < 16 \<Longrightarrow> code (hex_char n) = (if n < 10 then 48 + n else 87 + n)"
  by (auto simp: hex_char_def chr_def digit_char_def code_def)

lemma hex_char_round: "n < 16 \<Longrightarrow> is_hex (hex_char n) \<and> hex_digit (hex_char n) = n"
  by (auto simp: is_hex_def hex_digit_def is_digit_def code_hex_char)

lemma u_char_esc: "u_char [CHR ''0'', CHR ''0'', hex_char (code c div 16), hex_char (code c mod 16)] = Some c"
proof -
  have lt: "code c < 256" by (simp add: code_def)
  have "code c div 16 < 16" using lt by (simp add: less_mult_imp_div_less)
  moreover have "is_hex CHR ''0''" "hex_digit CHR ''0'' = 0" by code_simp+
  ultimately show ?thesis
    using hex_char_round [of "code c div 16"] hex_char_round [of "code c mod 16"] lt
    by (simp add: u_char_def hex_val_def chr_def code_def)
qed

lemma chr_consts [simp]:
  "chr 8 = CHR 0x08" "chr 9 = CHR 0x09" "chr 10 = CHR 0x0A" "chr 12 = CHR 0x0C" "chr 13 = CHR 0x0D"
  "chr 48 = CHR ''0''"
  by (code_simp, code_simp, code_simp, code_simp, code_simp, code_simp)

lemma p_chars_quote: "p_chars (concat (map (esc_char a) s) @ CHR 0x22 # r) = Some (s, r)"
proof (induction s)
  case (Cons c s)
  define t where "t = concat (map (esc_char a) s) @ CHR 0x22 # r"
  have IH: "p_chars t = Some (s, r)" using Cons by (simp add: t_def)
  have "p_chars (esc_char a c @ t) = Some (c # s, r)"
  proof (cases "esc_short (code c)")
    case None
    have "c \<noteq> CHR 0x22" "c \<noteq> CHR 0x5C" using None by (auto simp: esc_short_def code_def)
    then show ?thesis using None IH u_char_esc [of c]
      by (simp add: esc_char_def esc_u_def cons_char_def)
  next
    case (Some e)
    then consider "c = CHR 0x22" | "c = CHR 0x5C" | "c = CHR 0x0A" | "c = CHR 0x0D" | "c = CHR 0x09"
      | "c = CHR 0x0C" | "c = CHR 0x08"
      by (auto simp: esc_short_def code_inject [symmetric] split: if_splits)
    then show ?thesis
      by cases (use IH in \<open>simp_all add: esc_char_def esc_short_def code_def cons_char_def unesc_def\<close>)
  qed
  then show ?case by (simp add: t_def)
qed simp

lemma p_chars_json_quote: "p_chars (tl (json_quote a s) @ r) = Some (s, r)"
  by (simp add: json_quote_def p_chars_quote)

lemma json_quote_Cons: "json_quote a s = CHR 0x22 # tl (json_quote a s)"
  by (simp add: json_quote_def)

lemma signed_int_show_int: "small_nat (nat \<bar>i\<bar>) \<Longrightarrow> signed_int (show_int i) = Some i"
  using py_int_show_int [of i] word_show_int [of i] by (simp add: py_int_def word_strip)

definition num_end :: "string \<Rightarrow> bool" where
  "num_end r \<longleftrightarrow> (case r of [] \<Rightarrow> True | c # _ \<Rightarrow> c \<in> {CHR '','', CHR '']'', CHR ''}'', CHR 0x0A})"

lemma num_end_simps [simp]:
  "num_end []" "num_end (CHR '','' # s)" "num_end (CHR '']'' # s)" "num_end (CHR ''}'' # s)"
  "num_end (CHR 0x0A # s)"
  by (simp_all add: num_end_def)

lemma num_end_digits:
  assumes "num_end r"
  shows "takeWhile is_digit (ds @ r) = takeWhile is_digit ds"
proof -
  have "takeWhile is_digit r = []"
    using assms by (cases r) (auto simp: num_end_def is_digit_def)
  then show ?thesis by (induction ds) auto
qed

lemma show_nat_hd: "0 < n \<Longrightarrow> hd (show_nat n) \<noteq> CHR ''0''"
proof (induction n rule: show_nat.induct)
  case (1 n)
  show ?case
  proof (cases "n < 10")
    case True
    with 1 have "code (hd (show_nat n)) \<noteq> 48" by (subst show_nat.simps) simp
    then show ?thesis by auto
  next
    case False
    then show ?thesis using 1 by (subst show_nat.simps) simp
  qed
qed

lemma show_nat_zero: "show_nat 0 = ''0''"
  by (subst show_nat.simps) (simp add: digit_char_def)

lemma p_int_part_show_nat:
  assumes "num_end r"
  shows "p_int_part (show_nat n @ r) = show_nat n"
    and "0 < n \<Longrightarrow> p_int_part (CHR ''-'' # show_nat n @ r) = CHR ''-'' # show_nat n"
proof -
  obtain c cs where eq: "show_nat n = c # cs" by (cases "show_nat n") auto
  have dig: "\<forall>x \<in> set (c # cs). is_digit x" using show_nat_digits [of n] eq by simp
  then have tw: "takeWhile is_digit (c # cs @ r) = c # cs"
    using num_end_digits [OF assms, of "c # cs"] by (simp add: takeWhile_eq_all_conv [THEN iffD2])
  have minus: "c \<noteq> CHR ''-''" using dig by (auto simp: is_digit_def)
  have zero: "c = CHR ''0'' \<Longrightarrow> cs = []"
    using show_nat_hd [of n] eq show_nat_zero by (cases "n = 0") auto
  show "p_int_part (show_nat n @ r) = show_nat n"
    using eq tw minus zero by (auto simp: p_int_part_def Let_def)
  show "0 < n \<Longrightarrow> p_int_part (CHR ''-'' # show_nat n @ r) = CHR ''-'' # show_nat n"
    using eq tw minus zero by (auto simp: p_int_part_def Let_def)
qed

lemma p_int_part_show_int: "num_end r \<Longrightarrow> p_int_part (show_int i @ r) = show_int i"
  using p_int_part_show_nat by (auto simp: show_int_def)

lemma p_number_show_int:
  assumes "num_end r" "small_nat (nat \<bar>i\<bar>)"
  shows "p_number (show_int i @ r) = Some (JInt i, r)"
proof -
  have "p_frac r = []" "p_exp r = []"
    using assms(1) by (cases r; auto simp: p_frac_def p_exp_def num_end_def Let_def)+
  moreover have "show_int i \<noteq> []" by (simp add: show_int_def)
  ultimately show ?thesis
    using p_int_part_show_int [OF assms(1), of i] signed_int_show_int [OF assms(2)]
    by (simp add: p_number_def Let_def)
qed

lemma show_int_hd:
  obtains c cs where "show_int i = c # cs" "is_digit c \<or> c = CHR ''-''"
proof (cases "i < 0")
  case True
  then show ?thesis using that by (simp add: show_int_def)
next
  case False
  then obtain c cs where "show_nat (nat i) = c # cs" by (cases "show_nat (nat i)") auto
  then show ?thesis using that [of c cs] show_nat_digits [of "nat i"] False by (simp add: show_int_def)
qed

lemma startswith_hd: "c \<noteq> d \<Longrightarrow> \<not> startswith (d # w) (c # s)"
  by (simp add: startswith_def)

lemma p_atom_show_int:
  assumes "num_end r" "small_nat (nat \<bar>i\<bar>)"
  shows "p_atom (show_int i @ r) = Some (JInt i, r)"
proof -
  obtain c cs where eq: "show_int i = c # cs" and c: "is_digit c \<or> c = CHR ''-''"
    by (rule show_int_hd)
  have "c \<noteq> CHR ''n''" "c \<noteq> CHR ''t''" "c \<noteq> CHR ''f''"
    using c by (auto simp: is_digit_def)
  then show ?thesis
    using eq p_number_show_int [OF assms] by (simp add: p_atom_def p_word_def startswith_hd)
qed

lemma dumps_hd:
  assumes "json_ok j"
  obtains c cs where "dumps a j = c # cs" "code c \<notin> {32, 9, 10, 13}" "c \<noteq> CHR '']''"
proof (cases j)
  case (JInt i)
  obtain c cs where eq: "show_int i = c # cs" and c: "is_digit c \<or> c = CHR ''-''"
    by (rule show_int_hd)
  show ?thesis
    by (rule that [of c cs]) (use JInt eq c in \<open>auto simp: is_digit_def\<close>)
next
  case (JBool b)
  then show ?thesis using that by (cases b) auto
qed (use assms that in \<open>auto simp: json_quote_def\<close>)

lemma p_elems_join:
  assumes "\<And>x n r. x \<in> set xs \<Longrightarrow> 2 * length (dumps a x) \<le> n \<Longrightarrow> num_end r
             \<Longrightarrow> p_val n (dumps a x @ r) = Some (x, r)"
    and "\<And>x. x \<in> set xs \<Longrightarrow> json_ok x" and "xs \<noteq> []"
    and "2 * length (join '', '' (map (dumps a) xs)) + 1 \<le> m"
  shows "p_elems m (join '', '' (map (dumps a) xs) @ CHR '']'' # r) = Some (xs, r)"
  using assms
proof (induction xs arbitrary: m)
  case (Cons x xs)
  obtain m' where m: "m = Suc m'" using Cons.prems(4) by (cases m) auto
  show ?case
  proof (cases xs)
    case Nil
    with Cons.prems m show ?thesis by simp
  next
    case (Cons y ys)
    obtain c cs where hd: "dumps a y = c # cs" "code c \<notin> {32, 9, 10, 13}"
      using dumps_hd Cons Cons.prems(2) by (metis list.set_intros)
    let ?j = "join '', '' (map (dumps a) xs)"
    have "skip_ws (?j @ z) = ?j @ z" for z
      using hd Cons by (cases ys) auto
    moreover have "p_elems m' (?j @ CHR '']'' # r) = Some (xs, r)"
      using Cons.IH [of m'] Cons.prems Cons m by simp
    moreover have "2 * length (dumps a x) \<le> m'" using Cons.prems(4) m Cons by simp
    ultimately show ?thesis
      using Cons.prems(1) [of x m' "CHR '','' # CHR '' '' # ?j @ CHR '']'' # r"] m Cons
      by (simp del: join.simps(2))
  qed
qed simp

definition member_text :: "bool \<Rightarrow> string \<times> json \<Rightarrow> string" where
  "member_text a kv = json_quote a (fst kv) @ '': '' @ dumps a (snd kv)"

lemma dumps_JObj:
  "dumps a (JObj kvs) = CHR ''{'' # join '', '' (map (member_text a) kvs) @ ''}''"
  by (simp add: member_text_def [abs_def] case_prod_beta')

lemma p_members_join:
  assumes "\<And>k x n r. (k, x) \<in> set kvs \<Longrightarrow> 2 * length (dumps a x) \<le> n \<Longrightarrow> num_end r
             \<Longrightarrow> p_val n (dumps a x @ r) = Some (x, r)"
    and "\<And>k x. (k, x) \<in> set kvs \<Longrightarrow> json_ok x" and "kvs \<noteq> []"
    and "2 * length (join '', '' (map (member_text a) kvs)) + 1 \<le> m"
  shows "p_members m (join '', '' (map (member_text a) kvs) @ CHR ''}'' # r) = Some (kvs, r)"
  using assms
proof (induction kvs arbitrary: m)
  case (Cons kv kvs)
  obtain k x where kv: "kv = (k, x)" by (cases kv)
  obtain m' where m: "m = Suc m'" using Cons.prems(4) by (cases m) auto
  obtain c cs where hd: "dumps a x = c # cs" "code c \<notin> {32, 9, 10, 13}"
    using dumps_hd Cons.prems(2) kv by (metis list.set_intros(1))
  have q: "json_quote a k = CHR 0x22 # tl (json_quote a k)" by (rule json_quote_Cons)
  have pk: "p_chars (tl (json_quote a k) @ z) = Some (k, z)" for z by (rule p_chars_json_quote)
  have skip: "skip_ws (dumps a x @ z) = dumps a x @ z" for z using hd by simp
  have mt: "member_text a kv = CHR 0x22 # tl (json_quote a k) @ CHR '':'' # CHR '' '' # dumps a x"
    using q kv by (simp add: member_text_def)
  show ?case
  proof (cases kvs)
    case Nil
    have "2 * length (dumps a x) \<le> m'" using Cons.prems(4) m Nil mt by simp
    then show ?thesis
      using Nil Cons.prems(1) [of k x m' "CHR ''}'' # r"] m mt pk skip kv by simp
  next
    case (Cons kv2 rest)
    let ?j = "join '', '' (map (member_text a) kvs)"
    have sj: "skip_ws (?j @ z) = ?j @ z" for z
      using Cons by (cases rest) (simp_all add: member_text_def json_quote_def)
    have pj: "p_members m' (?j @ CHR ''}'' # r) = Some (kvs, r)"
    proof (rule Cons.IH)
      show "p_val n (dumps a y @ z) = Some (y, z)"
        if "(k', y) \<in> set kvs" "2 * length (dumps a y) \<le> n" "num_end z" for k' y n z
        using Cons.prems(1) [of k' y n z] that by simp
      show "json_ok y" if "(k', y) \<in> set kvs" for k' y
        using Cons.prems(2) [of k' y] that by simp
    qed (use Cons.prems(4) m Cons mt in simp_all)
    have le: "2 * length (dumps a x) \<le> m'" using Cons.prems(4) m Cons mt by simp
    have "map (member_text a) kvs \<noteq> []" using Cons by simp
    then have "join '', '' (map (member_text a) (kv # kvs)) = member_text a kv @ '', '' @ ?j"
      by (simp add: join_Cons)
    then show ?thesis
      using Cons.prems(1) [of k x m' "CHR '','' # CHR '' '' # ?j @ CHR ''}'' # r"] m mt pk skip sj pj le kv
      by simp
  qed
qed simp

lemma p_val_dumps:
  "json_ok j \<Longrightarrow> 2 * length (dumps a j) \<le> n \<Longrightarrow> num_end r \<Longrightarrow> p_val n (dumps a j @ r) = Some (j, r)"
proof (induction j arbitrary: n r)
  case (JInt i)
  obtain c cs where eq: "show_int i = c # cs" and c: "is_digit c \<or> c = CHR ''-''" by (rule show_int_hd)
  obtain m where n: "n = Suc m" using JInt eq by (cases n) auto
  have "c \<noteq> CHR 0x22" "c \<noteq> CHR ''[''" "c \<noteq> CHR ''{''" using c by (auto simp: is_digit_def)
  then show ?case using eq n p_atom_show_int [of r i] JInt by simp
next
  case (JStr s)
  then obtain m where "n = Suc m" by (cases n) (auto simp: json_quote_def)
  then show ?case using p_chars_quote [of a s r] by (simp add: json_quote_def)
next
  case (JList xs)
  then obtain m where n: "n = Suc m" by (cases n) auto
  show ?case
  proof (cases xs)
    case (Cons x ys)
    let ?j = "join '', '' (map (dumps a) xs)"
    have pe: "p_elems m (?j @ CHR '']'' # r) = Some (xs, r)"
      using JList n Cons by (intro p_elems_join) auto
    obtain c cs where hd: "dumps a x = c # cs" "code c \<notin> {32, 9, 10, 13}" "c \<noteq> CHR '']''"
      using dumps_hd JList.prems(1) Cons by (metis json_ok.simps(3) list.set_intros(1))
    have "?j @ CHR '']'' # r = c # tl (?j @ CHR '']'' # r)" using hd Cons by (cases ys) auto
    then obtain z where z: "?j @ CHR '']'' # r = c # z" by blast
    show ?thesis using n pe hd z by simp
  qed (use n in simp)
next
  case (JObj kvs)
  then obtain m where n: "n = Suc m" by (cases n) auto
  show ?case
  proof (cases kvs)
    case (Cons kv rest)
    let ?j = "join '', '' (map (member_text a) kvs)"
    have pe: "p_members m (?j @ CHR ''}'' # r) = Some (kvs, r)"
    proof (rule p_members_join)
      show "p_val n (dumps a x @ r) = Some (x, r)"
        if "(k, x) \<in> set kvs" "2 * length (dumps a x) \<le> n" "num_end r" for k x n r
        using JObj.IH [of "(k, x)" x n r] JObj.prems(1) that by auto
    qed (use JObj.prems n Cons in \<open>auto simp: dumps_JObj simp del: dumps.simps\<close>)
    have "?j @ CHR ''}'' # r = CHR 0x22 # tl (?j @ CHR ''}'' # r)"
      using Cons by (cases rest) (auto simp: member_text_def json_quote_def)
    then obtain z where z: "?j @ CHR ''}'' # r = CHR 0x22 # z" by blast
    then show ?thesis
      using n pe JObj.prems(1) make_dict_distinct [of kvs] by (simp add: dumps_JObj del: dumps.simps)
  qed (use n in simp)
next
  case JNull
  then obtain m where "n = Suc m" by (cases n) auto
  then show ?case by (simp add: p_atom_def p_word_def startswith_def)
next
  case (JBool b)
  then obtain m where "n = Suc m" by (cases n) (auto split: if_splits)
  then show ?case by (cases b) (simp_all add: p_atom_def p_word_def startswith_def)
qed simp

lemma json_loads_dumps_gen:
  assumes "json_ok j"
  shows "json_loads (dumps a j) = Inr j"
proof -
  obtain c cs where "dumps a j = c # cs" "code c \<notin> {32, 9, 10, 13}" by (rule dumps_hd [OF assms])
  then have "skip_ws (dumps a j) = dumps a j" by simp
  then show ?thesis
    using p_val_dumps [OF assms, of a "2 * length (dumps a j) + 2" "[]"] by (simp add: json_loads_def)
qed

lemma json_loads_dumps: "json_ok j \<Longrightarrow> json_loads (json_dumps j) = Inr j"
  by (simp add: json_dumps_def json_loads_dumps_gen)

end
