(* ===== verification/Tables.thy ===== *)
theory Tables
  imports Json
begin

text \<open>
  The tables of \<^verbatim>\<open>models.py\<close> as records of rows in row-id order, the database as the record of
  its tables, the activity-log constants of \<^verbatim>\<open>log_constants.py\<close>, and the environment of the
  process: the parameters that stand for Fernet, the hash functions, the environment variables
  and the clock. A datetime is its number of microseconds since 1970, in UTC and naive, as
  \<^verbatim>\<open>time_utils.utc_now\<close> makes it.
\<close>

section \<open>Activity-log constants\<close>

definition LOG_LEVEL_VERBOSE :: string where "LOG_LEVEL_VERBOSE = ''VERBOSE''"
definition LOG_LEVEL_INFORMATIONAL :: string where "LOG_LEVEL_INFORMATIONAL = ''INFORMATIONAL''"
definition LOG_LEVEL_WARNING :: string where "LOG_LEVEL_WARNING = ''WARNING''"
definition LOG_LEVEL_ERROR :: string where "LOG_LEVEL_ERROR = ''ERROR''"

definition LOG_LEVEL_VALUES :: "string list" where
  "LOG_LEVEL_VALUES = [LOG_LEVEL_VERBOSE, LOG_LEVEL_INFORMATIONAL, LOG_LEVEL_WARNING, LOG_LEVEL_ERROR]"

definition LOG_LEVEL_ORDER :: "(string \<times> int) list" where
  "LOG_LEVEL_ORDER =
     [(LOG_LEVEL_VERBOSE, 0), (LOG_LEVEL_INFORMATIONAL, 10), (LOG_LEVEL_WARNING, 20), (LOG_LEVEL_ERROR, 30)]"

definition LOG_CATEGORY_SECURITY :: string where "LOG_CATEGORY_SECURITY = ''security''"
definition LOG_CATEGORY_ALERT :: string where "LOG_CATEGORY_ALERT = ''alert''"

definition LOG_CATEGORY_VALUES :: "string list" where
  "LOG_CATEGORY_VALUES =
     [LOG_CATEGORY_SECURITY, ''http'', ''dns'', ''plugin'', ''dns_zone'', LOG_CATEGORY_ALERT,
      ''alert_rule'', ''system'', ''user'']"

definition SECURITY_EVENT_PREFIXES :: "string list" where
  "SECURITY_EVENT_PREFIXES = [''auth.'', ''api_key.'', ''user.'']"

lemmas log_level_defs = LOG_LEVEL_VERBOSE_def LOG_LEVEL_INFORMATIONAL_def LOG_LEVEL_WARNING_def
  LOG_LEVEL_ERROR_def LOG_LEVEL_VALUES_def LOG_LEVEL_ORDER_def

section \<open>Rows\<close>

record user_row =
  us_id :: nat
  us_username :: string
  us_password_hash :: string
  us_roles :: string
  us_disabled :: bool
  us_session_version :: int

record rate_limit_bucket =
  rb_id :: nat
  rb_route_prefix :: string
  rb_identity_hash :: string
  rb_window_start :: int
  rb_count :: int
  rb_expires_at :: int

definition API_KEY_ACCESS_READ_ONLY :: string where "API_KEY_ACCESS_READ_ONLY = ''read_only''"
definition API_KEY_ACCESS_READ_WRITE :: string where "API_KEY_ACCESS_READ_WRITE = ''read_write''"

definition API_KEY_ACCESS_MODES :: "string list" where
  "API_KEY_ACCESS_MODES = [API_KEY_ACCESS_READ_ONLY, API_KEY_ACCESS_READ_WRITE]"

record api_key_row =
  ak_id :: nat
  ak_label :: string
  ak_key :: string
  ak_key_prefix :: "string option"
  ak_access_mode :: string
  ak_active :: bool
  ak_created_at :: int

record dns_zone_config =
  zc_id :: nat
  zc_zone_name :: string
  zc_encrypted_config :: string

record api_key_allowed_zone =
  az_id :: nat
  az_api_key_id :: nat
  az_dns_zone_config_id :: nat

record setting_row =
  st_id :: nat
  st_name :: string
  st_value :: string

record activity_log =
  al_id :: nat
  al_timestamp :: int
  al_level :: string
  al_category :: "string option"
  al_event_type :: string
  al_status :: "string option"
  al_actor_type :: "string option"
  al_actor_id :: "string option"
  al_actor_label :: "string option"
  al_zone_name :: "string option"
  al_record_name :: "string option"
  al_message :: "string option"
  al_details_json :: "string option"
  al_request_method :: "string option"
  al_request_path :: "string option"
  al_request_status_code :: "int option"
  al_request_ip :: "string option"

record alert_rule =
  ar_id :: nat
  ar_enabled :: bool
  ar_name :: string
  ar_event_type :: "string option"
  ar_category :: "string option"
  ar_minimum_level :: string
  ar_message_contains :: "string option"
  ar_email_recipients :: string
  ar_email_subject_template :: string
  ar_email_body_template :: string
  ar_cooldown_minutes :: int
  ar_last_triggered_at :: "int option"

section \<open>The database\<close>

record db =
  users :: "user_row list"
  rate_limit_buckets :: "rate_limit_bucket list"
  api_keys :: "api_key_row list"
  dns_zone_configs :: "dns_zone_config list"
  api_key_allowed_zones :: "api_key_allowed_zone list"
  settings :: "setting_row list"
  activity_logs :: "activity_log list"
  alert_rules :: "alert_rule list"

text \<open>SQLite gives a new row the largest row id plus one.\<close>

definition next_id :: "('a \<Rightarrow> nat) \<Rightarrow> 'a list \<Rightarrow> nat" where
  "next_id f rows = Suc (fold max (map f rows) 0)"

definition empty_db :: db where
  "empty_db = \<lparr>users = [], rate_limit_buckets = [], api_keys = [], dns_zone_configs = [],
     api_key_allowed_zones = [], settings = [], activity_logs = [], alert_rules = []\<rparr>"

text \<open>\<^verbatim>\<open>select(...).where(p).first()\<close>, and an update of the row it returned.\<close>

definition first_row :: "('a \<Rightarrow> bool) \<Rightarrow> 'a list \<Rightarrow> 'a option" where
  "first_row p rows = List.find p rows"

fun update_first :: "('a \<Rightarrow> bool) \<Rightarrow> ('a \<Rightarrow> 'a) \<Rightarrow> 'a list \<Rightarrow> 'a list" where
  "update_first p f [] = []"
| "update_first p f (r # rows) = (if p r then f r # rows else r # update_first p f rows)"

fun remove_first :: "('a \<Rightarrow> bool) \<Rightarrow> 'a list \<Rightarrow> 'a list" where
  "remove_first p [] = []"
| "remove_first p (r # rows) = (if p r then rows else r # remove_first p rows)"

lemma first_row_Some: "first_row p rows = Some r \<Longrightarrow> r \<in> set rows \<and> p r"
  by (auto simp: first_row_def find_Some_iff)

lemma first_row_None: "first_row p rows = None \<longleftrightarrow> (\<forall>r \<in> set rows. \<not> p r)"
  by (auto simp: first_row_def find_None_iff)

lemma first_row_append:
  "first_row p (xs @ ys) = (case first_row p xs of Some r \<Rightarrow> Some r | None \<Rightarrow> first_row p ys)"
  by (induction xs) (auto simp: first_row_def)

lemma first_row_simps [simp]:
  "first_row p [] = None"
  "first_row p (r # rows) = (if p r then Some r else first_row p rows)"
  by (simp_all add: first_row_def)

lemma first_row_update_first:
  assumes "\<And>r. p (f r) = p r"
  shows "first_row p (update_first p f rows) = map_option f (first_row p rows)"
  using assms by (induction rows) auto

lemma first_row_update_other:
  assumes "\<And>r. p r \<Longrightarrow> \<not> q r" "\<And>r. p r \<Longrightarrow> \<not> q (f r)"
  shows "first_row q (update_first p f rows) = first_row q rows"
  using assms by (induction rows) auto

lemma first_row_remove_other:
  assumes "\<And>r. p r \<Longrightarrow> \<not> q r"
  shows "first_row q (remove_first p rows) = first_row q rows"
  using assms by (induction rows) auto

lemma map_update_first:
  assumes "\<And>r. p r \<Longrightarrow> g (f r) = g r"
  shows "map g (update_first p f rows) = map g rows"
  using assms by (induction rows) auto

lemma set_remove_first: "set (remove_first p rows) \<subseteq> set rows"
  by (induction rows) auto

lemma remove_first_distinct:
  assumes "distinct (map g rows)"
  shows "distinct (map g (remove_first p rows))"
  using assms by (induction rows) (auto dest: subsetD [OF set_remove_first])

lemma first_row_remove_same:
  assumes "distinct (map g rows)"
  shows "first_row (\<lambda>r. g r = k) (remove_first (\<lambda>r. g r = k) rows) = None"
  using assms
proof (induction rows)
  case (Cons r rows)
  then show ?case by (cases "g r = k") (auto simp: first_row_None image_iff)
qed simp

lemma fold_max_ge: "a \<le> fold max xs (a :: nat)"
proof (induction xs arbitrary: a)
  case (Cons y ys)
  show ?case using Cons.IH [of "max y a"] by simp
qed simp

lemma le_fold_max: "x \<in> set xs \<Longrightarrow> x \<le> fold max xs (a :: nat)"
proof (induction xs arbitrary: a)
  case (Cons y ys)
  then show ?case using fold_max_ge [of "max y a" ys] by auto
qed simp

lemma next_id_fresh: "r \<in> set rows \<Longrightarrow> f r < next_id f rows"
  by (simp add: next_id_def le_fold_max less_Suc_eq_le)

section \<open>The environment of the process\<close>

text \<open>
  Fernet (\<^verbatim>\<open>cryptography\<close>), passlib, SHA-256, the environment variables and the clock. A Fernet
  token contains a random vector and the time, which no modelled code compares, so \<open>encrypt\<close> is
  a function of the text. \<open>decrypt\<close> may raise \<^verbatim>\<open>InvalidToken\<close>. \<open>clock\<close> is what the \<open>n\<close>-th
  reading of the clock returns.
\<close>

record env =
  encrypt :: "string \<Rightarrow> string"
  decrypt :: "string \<Rightarrow> string res"
  sha256_hex :: "string \<Rightarrow> string"
  hash_pw :: "string \<Rightarrow> string"
  verify_pw :: "string \<Rightarrow> string \<Rightarrow> bool"
  getenv :: "string \<Rightarrow> string option"
  clock :: "nat \<Rightarrow> int"

text \<open>What Fernet documents: a token decrypts to the text it was made from.\<close>

definition fernet_ok :: "env \<Rightarrow> bool" where
  "fernet_ok env \<longleftrightarrow> (\<forall>v. decrypt env (encrypt env v) = Inr v)"

lemma fernet_okD: "fernet_ok env \<Longrightarrow> decrypt env (encrypt env v) = Inr v"
  by (simp add: fernet_ok_def)

text \<open>A concrete environment for the witnesses: the token is the reversed text, the clock counts
  seconds.\<close>

definition demo_env :: env where
  "demo_env = \<lparr>encrypt = rev, decrypt = (\<lambda>t. Inr (rev t)), sha256_hex = (\<lambda>s. ''h'' @ s),
     hash_pw = (\<lambda>s. ''p'' @ s), verify_pw = (\<lambda>s h. h = ''p'' @ s), getenv = (\<lambda>_. None),
     clock = (\<lambda>n. int n * 1000000)\<rparr>"

lemma fernet_ok_demo [simp]: "fernet_ok demo_env"
  by (simp add: fernet_ok_def demo_env_def)

end
