(* ===== verification/Rbac.thy ===== *)
theory Rbac
  imports Tables
begin

text \<open>
  Role-based access control (\<^verbatim>\<open>rbac.py\<close>). A Python set of roles is a list without repeats; where
  the code sorts it, the model sorts it. The theorems say what an account administrator who is
  not a global administrator can and cannot do to the roles of another account.
\<close>

section \<open>Roles\<close>

definition ROLE_GLOBAL_ADMIN :: string where "ROLE_GLOBAL_ADMIN = ''global.admin''"
definition ROLE_GLOBAL_READ :: string where "ROLE_GLOBAL_READ = ''global.read''"
definition ROLE_ACCOUNT_UPDATE :: string where "ROLE_ACCOUNT_UPDATE = ''account.update''"
definition ROLE_ACCOUNT_RESET_PASSWORD :: string where
  "ROLE_ACCOUNT_RESET_PASSWORD = ''account.reset_password''"
definition ROLE_API_KEYS_READ :: string where "ROLE_API_KEYS_READ = ''api_keys.read''"
definition ROLE_API_KEYS_UPDATE :: string where "ROLE_API_KEYS_UPDATE = ''api_keys.update''"
definition ROLE_DNS_ZONES_READ :: string where "ROLE_DNS_ZONES_READ = ''dns_zones.read''"
definition ROLE_DNS_ZONES_UPDATE :: string where "ROLE_DNS_ZONES_UPDATE = ''dns_zones.update''"
definition ROLE_PLUGIN_UPDATE :: string where "ROLE_PLUGIN_UPDATE = ''plugin.update''"
definition ROLE_SYSTEM_UPDATE :: string where "ROLE_SYSTEM_UPDATE = ''system.update''"

lemmas role_defs = ROLE_GLOBAL_ADMIN_def ROLE_GLOBAL_READ_def ROLE_ACCOUNT_UPDATE_def
  ROLE_ACCOUNT_RESET_PASSWORD_def ROLE_API_KEYS_READ_def ROLE_API_KEYS_UPDATE_def
  ROLE_DNS_ZONES_READ_def ROLE_DNS_ZONES_UPDATE_def ROLE_PLUGIN_UPDATE_def ROLE_SYSTEM_UPDATE_def

definition ROLE_DEPENDENCIES :: "(string \<times> string) list" where
  "ROLE_DEPENDENCIES =
     [(ROLE_API_KEYS_UPDATE, ROLE_API_KEYS_READ), (ROLE_DNS_ZONES_UPDATE, ROLE_DNS_ZONES_READ)]"

definition MANDATORY_ROLES :: "string list" where
  "MANDATORY_ROLES = [ROLE_DNS_ZONES_READ]"

definition ALL_ROLES :: "string list" where
  "ALL_ROLES =
     [ROLE_GLOBAL_ADMIN, ROLE_GLOBAL_READ, ROLE_ACCOUNT_UPDATE, ROLE_ACCOUNT_RESET_PASSWORD,
      ROLE_API_KEYS_READ, ROLE_API_KEYS_UPDATE, ROLE_DNS_ZONES_READ, ROLE_DNS_ZONES_UPDATE,
      ROLE_PLUGIN_UPDATE, ROLE_SYSTEM_UPDATE]"

definition ACCOUNT_ADMIN_GRANTABLE_ROLES :: "string list" where
  "ACCOUNT_ADMIN_GRANTABLE_ROLES =
     [ROLE_GLOBAL_READ, ROLE_API_KEYS_READ, ROLE_DNS_ZONES_READ, ROLE_DNS_ZONES_UPDATE]"

definition SENSITIVE_ROLES :: "string list" where
  "SENSITIVE_ROLES =
     [ROLE_GLOBAL_ADMIN, ROLE_ACCOUNT_UPDATE, ROLE_ACCOUNT_RESET_PASSWORD, ROLE_API_KEYS_UPDATE,
      ROLE_PLUGIN_UPDATE, ROLE_SYSTEM_UPDATE]"

record role_label =
  rl_key :: string
  rl_label :: string
  rl_requires_role :: "string option"
  rl_mandatory :: bool

definition role_label_of :: "string \<Rightarrow> string \<Rightarrow> string option \<Rightarrow> bool \<Rightarrow> role_label" where
  "role_label_of k l r m = \<lparr>rl_key = k, rl_label = l, rl_requires_role = r, rl_mandatory = m\<rparr>"

definition ROLE_LABELS :: "role_label list" where
  "ROLE_LABELS =
     [role_label_of ROLE_GLOBAL_ADMIN ''Global: admin'' None False,
      role_label_of ROLE_GLOBAL_READ ''Global: read-only'' None False,
      role_label_of ROLE_ACCOUNT_UPDATE ''Account: update'' None False,
      role_label_of ROLE_ACCOUNT_RESET_PASSWORD ''Account: reset password'' None False,
      role_label_of ROLE_API_KEYS_READ ''API keys: read'' None False,
      role_label_of ROLE_API_KEYS_UPDATE ''API keys: update'' (Some ROLE_API_KEYS_READ) False,
      role_label_of ROLE_DNS_ZONES_READ ''DNS zones: read'' None True,
      role_label_of ROLE_DNS_ZONES_UPDATE ''DNS zones: update and admin DNS browser access''
        (Some ROLE_DNS_ZONES_READ) False,
      role_label_of ROLE_PLUGIN_UPDATE ''Plugin management'' None False,
      role_label_of ROLE_SYSTEM_UPDATE ''System: update'' None False]"

record settings_area =
  sa_key :: string
  sa_label :: string
  sa_required_roles :: "string list"

definition SETTINGS_AREAS :: "settings_area list" where
  "SETTINGS_AREAS =
     [\<lparr>sa_key = ''authentication'', sa_label = ''Authentication'',
       sa_required_roles = [ROLE_GLOBAL_READ, ROLE_ACCOUNT_UPDATE, ROLE_ACCOUNT_RESET_PASSWORD]\<rparr>,
      \<lparr>sa_key = ''plugins'', sa_label = ''Plugin Management'',
       sa_required_roles = [ROLE_GLOBAL_READ, ROLE_PLUGIN_UPDATE]\<rparr>,
      \<lparr>sa_key = ''email_alerting'', sa_label = ''Email Alerting'',
       sa_required_roles = [ROLE_GLOBAL_READ, ROLE_SYSTEM_UPDATE]\<rparr>,
      \<lparr>sa_key = ''log_viewing'', sa_label = ''View Logs'',
       sa_required_roles = [ROLE_GLOBAL_READ, ROLE_SYSTEM_UPDATE]\<rparr>,
      \<lparr>sa_key = ''backup'', sa_label = ''Backup'', sa_required_roles = [ROLE_GLOBAL_ADMIN]\<rparr>,
      \<lparr>sa_key = ''system_settings'', sa_label = ''System Settings'',
       sa_required_roles = [ROLE_GLOBAL_READ, ROLE_SYSTEM_UPDATE]\<rparr>]"

section \<open>Settings sections\<close>

definition SYSTEM_SETTINGS_SECTIONS :: "(string \<times> string) list" where
  "SYSTEM_SETTINGS_SECTIONS =
     [(''system_identity'', ''App DNS Name''), (''ssl_certificate'', ''SSL Certificate''),
      (''smtp_delivery'', ''SMTP Delivery''), (''logging_configuration'', ''Logging Level''),
      (''audit_log_retention'', ''Audit Log Retention''),
      (''operational_log_rotation'', ''Operational Log Rotation''),
      (''syslog_forwarding'', ''Remote Syslog'')]"

definition BACKUP_SECTIONS :: "(string \<times> string) list" where
  "BACKUP_SECTIONS = [(''export'', ''Export''), (''import'', ''Import'')]"

definition LEGACY_SYSTEM_SETTINGS_SECTION_ALIASES :: "(string \<times> string) list" where
  "LEGACY_SYSTEM_SETTINGS_SECTION_ALIASES = [(''ssl_planned'', ''ssl_certificate'')]"

definition or_empty :: "string option \<Rightarrow> string" where
  "or_empty s = (case s of Some t \<Rightarrow> t | None \<Rightarrow> [])"

definition default_system_settings_section :: string where
  "default_system_settings_section = fst (hd SYSTEM_SETTINGS_SECTIONS)"

definition normalize_system_settings_section :: "string option \<Rightarrow> string" where
  "normalize_system_settings_section section =
     (let k = lower (strip (or_empty section));
          key = (case map_of LEGACY_SYSTEM_SETTINGS_SECTION_ALIASES k of Some a \<Rightarrow> a | None \<Rightarrow> k)
      in if key \<in> fst ` set SYSTEM_SETTINGS_SECTIONS then key else default_system_settings_section)"

definition default_backup_section :: string where
  "default_backup_section = fst (hd BACKUP_SECTIONS)"

definition normalize_backup_section :: "string option \<Rightarrow> string" where
  "normalize_backup_section section =
     (let key = lower (strip (or_empty section))
      in if key \<in> fst ` set BACKUP_SECTIONS then key else default_backup_section)"

section \<open>Stored and effective roles\<close>

definition ROLE_FORBIDDEN_DETAIL :: string where
  "ROLE_FORBIDDEN_DETAIL = ''You do not have permission to access this resource.''"

definition parse_roles :: "string option \<Rightarrow> string list" where
  "parse_roles raw =
     remdups (map strip (filter (\<lambda>p. strip p \<noteq> []) (split_char CHR '','' (or_empty raw))))"

definition known_roles :: "string list \<Rightarrow> string list" where
  "known_roles roles = filter (\<lambda>r. r \<in> set roles) ALL_ROLES"

definition union_roles :: "string list \<Rightarrow> string list \<Rightarrow> string list" where
  "union_roles xs ys = xs @ filter (\<lambda>r. r \<notin> set xs) ys"

definition serialize_roles :: "string list \<Rightarrow> string" where
  "serialize_roles roles =
     (let cleaned = (if ROLE_GLOBAL_ADMIN \<in> set (known_roles roles) then ALL_ROLES else known_roles roles)
      in join '','' (str_sort (union_roles cleaned MANDATORY_ROLES)))"

fun add_dependencies :: "(string \<times> string) list \<Rightarrow> string list \<Rightarrow> string list" where
  "add_dependencies [] selected = selected"
| "add_dependencies ((role, required) # deps) selected =
     add_dependencies deps (if role \<in> set selected then union_roles selected [required] else selected)"

definition normalize_selected_roles :: "string list \<Rightarrow> string list" where
  "normalize_selected_roles roles =
     (let selected = known_roles roles
      in if ROLE_GLOBAL_ADMIN \<in> set selected then str_sort ALL_ROLES
         else str_sort (add_dependencies ROLE_DEPENDENCIES (union_roles selected MANDATORY_ROLES)))"

definition effective_roles :: "string list \<Rightarrow> string list" where
  "effective_roles stored =
     (if ROLE_GLOBAL_ADMIN \<in> set stored then ALL_ROLES else union_roles stored MANDATORY_ROLES)"

definition find_user :: "db \<Rightarrow> string \<Rightarrow> user_row option" where
  "find_user db username = first_row (\<lambda>u. us_username u = username) (users db)"

definition get_user_roles :: "db \<Rightarrow> string \<Rightarrow> string list" where
  "get_user_roles db username =
     (case find_user db username of
        None \<Rightarrow> []
      | Some u \<Rightarrow> effective_roles (parse_roles (Some (us_roles u))))"

definition roles_satisfy :: "string list \<Rightarrow> string \<Rightarrow> bool" where
  "roles_satisfy roles role \<longleftrightarrow>
     ROLE_GLOBAL_ADMIN \<in> set roles \<or> role \<in> set roles
     \<or> (ROLE_GLOBAL_READ \<in> set roles \<and> role \<in> {ROLE_API_KEYS_READ, ROLE_DNS_ZONES_READ})"

definition user_has_role :: "db \<Rightarrow> string \<Rightarrow> string \<Rightarrow> bool" where
  "user_has_role db username role = roles_satisfy (get_user_roles db username) role"

definition user_has_any_role :: "db \<Rightarrow> string \<Rightarrow> string list \<Rightarrow> bool" where
  "user_has_any_role db username roles = list_ex (user_has_role db username) roles"

definition user_is_global_admin :: "db \<Rightarrow> string \<Rightarrow> bool" where
  "user_is_global_admin db username \<longleftrightarrow> ROLE_GLOBAL_ADMIN \<in> set (get_user_roles db username)"

definition target_is_global_admin :: "user_row \<Rightarrow> bool" where
  "target_is_global_admin u \<longleftrightarrow>
     ROLE_GLOBAL_ADMIN \<in> set (effective_roles (parse_roles (Some (us_roles u))))"

definition global_admin_guard_message :: "db \<Rightarrow> string \<Rightarrow> user_row \<Rightarrow> string option" where
  "global_admin_guard_message db actor target =
     (if target_is_global_admin target \<and> \<not> user_is_global_admin db actor
      then Some ''Only a global admin can manage another global admin account.'' else None)"

definition role_is_grantable_by :: "bool \<Rightarrow> string \<Rightarrow> bool" where
  "role_is_grantable_by actor_is_ga role =
     (if role \<notin> set ALL_ROLES then False
      else if actor_is_ga then True else role \<in> set ACCOUNT_ADMIN_GRANTABLE_ROLES)"

definition validate_role_assignment ::
  "db \<Rightarrow> string \<Rightarrow> string list \<Rightarrow> string list option \<Rightarrow> string option" where
  "validate_role_assignment db actor selected_roles previous_roles =
     (let selected = normalize_selected_roles selected_roles;
          previous = (case previous_roles of Some p \<Rightarrow> p | None \<Rightarrow> []);
          disallowed = str_sort (filter (\<lambda>r. r \<notin> set previous
            \<and> r \<notin> set ACCOUNT_ADMIN_GRANTABLE_ROLES \<and> r \<notin> set MANDATORY_ROLES) selected);
          removed = str_sort (filter (\<lambda>r. r \<notin> set selected \<and> r \<in> set SENSITIVE_ROLES) (remdups previous))
      in if user_is_global_admin db actor then None
         else if disallowed \<noteq> [] then
           Some (''Only a global admin can grant sensitive roles: '' @ join '', '' disallowed @ ''.'')
         else if removed \<noteq> [] then
           Some (''Only a global admin can remove sensitive roles: '' @ join '', '' removed @ ''.'')
         else None)"

record catalog_entry =
  ce_entry :: role_label
  ce_grantable :: bool
  ce_sensitive :: bool

definition role_catalog_for_actor :: "db \<Rightarrow> string \<Rightarrow> catalog_entry list" where
  "role_catalog_for_actor db actor =
     map (\<lambda>e. \<lparr>ce_entry = e,
                ce_grantable = role_is_grantable_by (user_is_global_admin db actor) (rl_key e),
                ce_sensitive = rl_key e \<in> set SENSITIVE_ROLES\<rparr>) ROLE_LABELS"

text \<open>The dependency of a route: \<open>cached\<close> are the roles \<^verbatim>\<open>load_current_user\<close> put on the request.\<close>

definition require_role :: "string \<Rightarrow> string list option \<Rightarrow> string \<Rightarrow> string res" where
  "require_role role cached username =
     (case cached of
        None \<Rightarrow> Inl (HTTPException 401 (DText ''Invalid or expired session''))
      | Some roles \<Rightarrow>
          if \<not> roles_satisfy roles role then Inl (HTTPException 403 (DText ROLE_FORBIDDEN_DETAIL))
          else Inr username)"

record user_public =
  up_id :: nat
  up_username :: string
  up_disabled :: bool
  up_roles :: "string list"
  up_stored_roles :: "string list"
  up_is_global_admin :: bool

definition user_public_dict :: "user_row \<Rightarrow> user_public" where
  "user_public_dict u =
     (let roles = effective_roles (parse_roles (Some (us_roles u)))
      in \<lparr>up_id = us_id u, up_username = us_username u, up_disabled = us_disabled u,
          up_roles = str_sort roles, up_stored_roles = str_sort roles,
          up_is_global_admin = ROLE_GLOBAL_ADMIN \<in> set roles\<rparr>)"

definition accessible_settings_areas :: "string list \<Rightarrow> settings_area list" where
  "accessible_settings_areas roles =
     filter (\<lambda>a. sa_key a = ''authentication'' \<or> list_ex (\<lambda>r. r \<in> set roles) (sa_required_roles a))
       SETTINGS_AREAS"

section \<open>Lemmas\<close>

lemma set_known_roles [simp]: "set (known_roles roles) = set roles \<inter> set ALL_ROLES"
  by (auto simp: known_roles_def)

lemma set_union_roles [simp]: "set (union_roles xs ys) = set xs \<union> set ys"
  by (auto simp: union_roles_def)

lemma roles_partition:
  "set ALL_ROLES = set ACCOUNT_ADMIN_GRANTABLE_ROLES \<union> set SENSITIVE_ROLES"
  "set ACCOUNT_ADMIN_GRANTABLE_ROLES \<inter> set SENSITIVE_ROLES = {}"
  "set MANDATORY_ROLES \<subseteq> set ACCOUNT_ADMIN_GRANTABLE_ROLES"
  by (auto simp: ALL_ROLES_def ACCOUNT_ADMIN_GRANTABLE_ROLES_def SENSITIVE_ROLES_def MANDATORY_ROLES_def role_defs)

lemma set_add_dependencies:
  "set selected \<subseteq> set (add_dependencies deps selected)"
  "set (add_dependencies deps selected) \<subseteq> set selected \<union> snd ` set deps"
proof -
  show "set selected \<subseteq> set (add_dependencies deps selected)"
    by (induction deps selected rule: add_dependencies.induct) (auto split: if_splits)
  show "set (add_dependencies deps selected) \<subseteq> set selected \<union> snd ` set deps"
    by (induction deps selected rule: add_dependencies.induct) (auto split: if_splits)
qed

definition selected_closure :: "string list \<Rightarrow> string list" where
  "selected_closure roles =
     add_dependencies ROLE_DEPENDENCIES (union_roles (known_roles roles) MANDATORY_ROLES)"

lemma dependency_targets:
  "snd ` set ROLE_DEPENDENCIES \<union> set MANDATORY_ROLES \<subseteq> set ACCOUNT_ADMIN_GRANTABLE_ROLES"
  by (auto simp: ROLE_DEPENDENCIES_def MANDATORY_ROLES_def ACCOUNT_ADMIN_GRANTABLE_ROLES_def)

lemma selected_closure_bounds:
  "set roles \<inter> set ALL_ROLES \<union> set MANDATORY_ROLES \<subseteq> set (selected_closure roles)"
  "set (selected_closure roles)
     \<subseteq> set roles \<inter> set ALL_ROLES \<union> (snd ` set ROLE_DEPENDENCIES \<union> set MANDATORY_ROLES)"
  using set_add_dependencies(1) [of "union_roles (known_roles roles) MANDATORY_ROLES" ROLE_DEPENDENCIES]
    set_add_dependencies(2) [of ROLE_DEPENDENCIES "union_roles (known_roles roles) MANDATORY_ROLES"]
  unfolding selected_closure_def set_union_roles set_known_roles by blast+

lemma admin_known [simp]: "ROLE_GLOBAL_ADMIN \<in> set ALL_ROLES" "ROLE_GLOBAL_ADMIN \<in> set SENSITIVE_ROLES"
  by (simp_all add: ALL_ROLES_def SENSITIVE_ROLES_def)

lemma set_normalize_selected:
  "set (normalize_selected_roles roles) =
     (if ROLE_GLOBAL_ADMIN \<in> set roles then set ALL_ROLES else set (selected_closure roles))"
  by (simp add: normalize_selected_roles_def selected_closure_def Let_def)

lemma normalize_selected_known: "set (normalize_selected_roles roles) \<subseteq> set ALL_ROLES"
  using selected_closure_bounds(2) [of roles] dependency_targets roles_partition(1)
  unfolding set_normalize_selected by (simp split: if_splits) blast

lemma normalize_selected_mandatory: "set MANDATORY_ROLES \<subseteq> set (normalize_selected_roles roles)"
  using selected_closure_bounds(1) [of roles] roles_partition
  unfolding set_normalize_selected by auto

lemma normalize_selected_admin [simp]:
  "ROLE_GLOBAL_ADMIN \<in> set (normalize_selected_roles roles) \<longleftrightarrow> ROLE_GLOBAL_ADMIN \<in> set roles"
proof -
  have "ROLE_GLOBAL_ADMIN \<notin> set ACCOUNT_ADMIN_GRANTABLE_ROLES"
    using roles_partition(2) admin_known(2) by blast
  then show ?thesis
    using selected_closure_bounds(2) [of roles] dependency_targets
    unfolding set_normalize_selected by (simp split: if_splits) blast
qed

lemma role_words: "list_all (\<lambda>r. strip r = r \<and> r \<noteq> [] \<and> CHR '','' \<notin> set r) ALL_ROLES"
  by code_simp

lemma parse_roles_join:
  assumes "rs \<noteq> []" and "set rs \<subseteq> set ALL_ROLES"
  shows "set (parse_roles (Some (join '','' rs))) = set rs"
proof -
  have words: "\<forall>r \<in> set rs. strip r = r \<and> r \<noteq> [] \<and> CHR '','' \<notin> set r"
    using role_words assms(2) by (auto simp: list_all_iff)
  then have "split_char CHR '','' (join '','' rs) = rs"
    using assms(1) by (intro split_char_join) auto
  then show ?thesis using words by (auto simp: parse_roles_def or_empty_def image_iff)
qed

lemma parse_serialize:
  "set (parse_roles (Some (serialize_roles roles))) =
     (if ROLE_GLOBAL_ADMIN \<in> set roles then set ALL_ROLES
      else set roles \<inter> set ALL_ROLES \<union> set MANDATORY_ROLES)"
proof -
  define cleaned where
    "cleaned = (if ROLE_GLOBAL_ADMIN \<in> set (known_roles roles) then ALL_ROLES else known_roles roles)"
  define rs where "rs = str_sort (union_roles cleaned MANDATORY_ROLES)"
  have set: "set rs = set cleaned \<union> set MANDATORY_ROLES"
    by (simp add: rs_def)
  moreover have "rs \<noteq> []"
    using set by (auto simp: MANDATORY_ROLES_def)
  moreover have "set rs \<subseteq> set ALL_ROLES"
    using roles_partition unfolding set by (auto simp: cleaned_def)
  moreover have "serialize_roles roles = join '','' rs"
    by (simp add: serialize_roles_def cleaned_def rs_def Let_def)
  ultimately have "set (parse_roles (Some (serialize_roles roles))) = set cleaned \<union> set MANDATORY_ROLES"
    using parse_roles_join [of rs] by simp
  moreover have "set MANDATORY_ROLES \<subseteq> set ALL_ROLES" using roles_partition by blast
  ultimately show ?thesis by (auto simp: cleaned_def)
qed

lemma effective_stored:
  "set (effective_roles (parse_roles (Some (serialize_roles (normalize_selected_roles roles)))))
     = set (normalize_selected_roles roles)"
proof (cases "ROLE_GLOBAL_ADMIN \<in> set roles")
  case True
  then show ?thesis by (simp add: effective_roles_def parse_serialize set_normalize_selected)
next
  case False
  have "set (parse_roles (Some (serialize_roles (normalize_selected_roles roles))))
      = set (normalize_selected_roles roles)"
    using False normalize_selected_known normalize_selected_mandatory
    unfolding parse_serialize by (simp split: if_splits) blast
  then show ?thesis
    using False normalize_selected_mandatory [of roles] by (auto simp: effective_roles_def)
qed

lemma str_sort_Nil_iff [simp]: "str_sort xs = [] \<longleftrightarrow> xs = []"
  by (metis length_0_conv length_str_sort)

text \<open>
  C10. When an actor who is not a global administrator passes \<open>validate_role_assignment\<close>, the
  sensitive roles in force on the account after the new roles are stored and read back are
  exactly the sensitive roles it had: none gained, none lost, whatever was submitted.
\<close>

theorem account_admin_keeps_sensitive_roles:
  assumes "\<not> user_is_global_admin db actor"
    and "validate_role_assignment db actor selected (Some previous) = None"
  shows "set (effective_roles (parse_roles (Some (serialize_roles (normalize_selected_roles selected)))))
           \<inter> set SENSITIVE_ROLES = set previous \<inter> set SENSITIVE_ROLES"
proof -
  let ?sel = "set (normalize_selected_roles selected)"
  have "filter (\<lambda>r. r \<notin> set previous \<and> r \<notin> set ACCOUNT_ADMIN_GRANTABLE_ROLES \<and> r \<notin> set MANDATORY_ROLES)
          (normalize_selected_roles selected) = []"
    and "filter (\<lambda>r. r \<notin> ?sel \<and> r \<in> set SENSITIVE_ROLES) (remdups previous) = []"
    using assms by (simp_all add: validate_role_assignment_def Let_def split: if_splits)
  then have "\<forall>r \<in> ?sel. r \<in> set previous \<or> r \<in> set ACCOUNT_ADMIN_GRANTABLE_ROLES \<or> r \<in> set MANDATORY_ROLES"
    and "\<forall>r \<in> set previous. r \<in> ?sel \<or> r \<notin> set SENSITIVE_ROLES"
    by (auto simp: filter_empty_conv)
  then show ?thesis using roles_partition unfolding effective_stored by blast
qed

theorem account_admin_keeps_sensitive_roles_witness:
  "set (effective_roles (parse_roles (Some (serialize_roles (normalize_selected_roles
      [ROLE_SYSTEM_UPDATE, ROLE_DNS_ZONES_UPDATE]))))) \<inter> set SENSITIVE_ROLES
    = set [ROLE_SYSTEM_UPDATE] \<inter> set SENSITIVE_ROLES"
proof (rule account_admin_keeps_sensitive_roles)
  show "\<not> user_is_global_admin empty_db ''bob''" by code_simp
  show "validate_role_assignment empty_db ''bob'' [ROLE_SYSTEM_UPDATE, ROLE_DNS_ZONES_UPDATE]
      (Some [ROLE_SYSTEM_UPDATE]) = None" by code_simp
qed

end
