(* ===== verification/HttpUtils.thy ===== *)
theory HttpUtils
  imports Rbac
begin

text \<open>
  Requests and the shared HTTP helpers of \<^verbatim>\<open>http_utils.py\<close>: where the API key is read from, how
  an exception of the DNS layer becomes an HTTP error, and the text that is safe to show. The
  main lemma is that nothing the redaction pattern matches is left in a sanitised message.
\<close>

section \<open>Requests\<close>

text \<open>Header names are lower-case, as Starlette looks them up.\<close>

record request =
  hr_method :: string
  hr_path :: string
  hr_headers :: "(string \<times> string) list"
  hr_cookies :: "(string \<times> string) list"
  hr_client :: "string option"
  hr_scheme :: string

definition header :: "request \<Rightarrow> string \<Rightarrow> string option" where
  "header req name = map_of (hr_headers req) name"

definition wants_json_response :: "request \<Rightarrow> bool" where
  "wants_json_response req \<longleftrightarrow>
     contains ''application/json'' (lower (or_empty (header req ''accept'')))
     \<or> contains ''application/json'' (lower (or_empty (header req ''content-type'')))"

definition api_key_from_headers :: "string option \<Rightarrow> string option \<Rightarrow> string option" where
  "api_key_from_headers x_api_key authorization =
     (if or_empty x_api_key = [] \<and> or_empty authorization \<noteq> []
         \<and> startswith ''Bearer '' (or_empty authorization)
      then Some (strip (drop (length ''Bearer '') (or_empty authorization)))
      else x_api_key)"

section \<open>The redaction pattern\<close>

text \<open>
  \<^verbatim>\<open>_SECRETISH_RE\<close>: each alternative is a keyword in any case, a non-empty run of separators and
  a non-empty run of value characters. The two runs are greedy, and the separator run gives
  characters back when the value run would be empty. \<^verbatim>\<open>api[_-]?key\<close> is three keywords.
\<close>

definition sep_char :: "char \<Rightarrow> bool" where
  "sep_char c \<longleftrightarrow> c = CHR ''='' \<or> c = CHR '':'' \<or> is_space c"

definition val_char :: "char \<Rightarrow> bool" where
  "val_char c \<longleftrightarrow> \<not> is_space c \<and> c \<noteq> CHR '','' \<and> c \<noteq> CHR '';''"

definition bearer_char :: "char \<Rightarrow> bool" where
  "bearer_char c \<longleftrightarrow> is_alnum c \<or> c \<in> set ''._~-+/=''"

definition SECRETISH :: "(string \<times> (char \<Rightarrow> bool) \<times> (char \<Rightarrow> bool)) list" where
  "SECRETISH =
     [(''bearer'', is_space, bearer_char), (''token'', sep_char, val_char),
      (''secret'', sep_char, val_char), (''password'', sep_char, val_char),
      (''api_key'', sep_char, val_char), (''api-key'', sep_char, val_char),
      (''apikey'', sep_char, val_char)]"

definition value_len :: "(char \<Rightarrow> bool) \<Rightarrow> (char \<Rightarrow> bool) \<Rightarrow> string \<Rightarrow> nat option" where
  "value_len P Q s =
     (case filter (\<lambda>i. takeWhile Q (drop i s) \<noteq> []) (rev [1..<Suc (length (takeWhile P s))]) of
        [] \<Rightarrow> None
      | i # _ \<Rightarrow> Some (i + length (takeWhile Q (drop i s))))"

fun match_alts :: "(string \<times> (char \<Rightarrow> bool) \<times> (char \<Rightarrow> bool)) list \<Rightarrow> string \<Rightarrow> nat option" where
  "match_alts [] s = None"
| "match_alts ((kw, P, Q) # alts) s =
     (if lower (take (length kw) s) = kw \<and> value_len P Q (drop (length kw) s) \<noteq> None
      then map_option (\<lambda>n. length kw + n) (value_len P Q (drop (length kw) s))
      else match_alts alts s)"

definition secretish_at :: "string \<Rightarrow> nat option" where
  "secretish_at s = match_alts SECRETISH s"

lemma match_alts_pos: "match_alts alts s = Some n \<Longrightarrow> (\<forall>(kw, _) \<in> set alts. kw \<noteq> []) \<Longrightarrow> 0 < n"
  by (induction alts s rule: match_alts.induct) (auto split: if_splits)

lemma secretish_pos: "secretish_at s = Some n \<Longrightarrow> 0 < n"
  unfolding secretish_at_def by (erule match_alts_pos) (simp add: SECRETISH_def)

function redact_secretish :: "string \<Rightarrow> string" where
  "redact_secretish [] = []"
| "redact_secretish (c # cs) =
     (case secretish_at (c # cs) of
        Some n \<Rightarrow> ''[redacted]'' @ redact_secretish (drop n (c # cs))
      | None \<Rightarrow> c # redact_secretish cs)"
  by pat_completeness auto
termination
  by (relation "measure length") (auto dest: secretish_pos)

section \<open>Client-safe messages\<close>

definition sanitize_client_error_message :: "py_exc \<Rightarrow> string \<Rightarrow> string" where
  "sanitize_client_error_message e fallback =
     (let raw = (if strip (exc_str e) \<noteq> [] then strip (exc_str e) else fallback);
          line = take 512 (strip (first_line raw))
      in redact_secretish (if line \<noteq> [] then line else fallback))"

definition http_error :: "int \<Rightarrow> string \<Rightarrow> string \<Rightarrow> py_exc" where
  "http_error status err msg = HTTPException status (DObj [(''error'', err), (''message'', msg)])"

fun http_exception_from_dns_error :: "py_exc \<Rightarrow> py_exc" where
  "http_exception_from_dns_error e =
     (if is_http_exception e then e
      else if is_value_error e then
        http_error 400 ''invalid_request'' (sanitize_client_error_message e ''invalid request'')
      else if exc_name e = ''DnsProviderDisabledError'' then
        http_error 503 ''provider_disabled'' (sanitize_client_error_message e ''DNS provider is disabled'')
      else if is_runtime_error e then
        http_error 502 ''dns_provider_failed''
          (sanitize_client_error_message e ''DNS provider request failed'')
      else if exc_name e = ''ImportError'' then
        http_error 503 ''dependency_unavailable''
          (sanitize_client_error_message e ''Required dependency is unavailable'')
      else http_error 500 ''unexpected'' ''An unexpected error occurred while contacting the DNS provider'')"

definition api_key_fingerprint :: "env \<Rightarrow> string \<Rightarrow> string" where
  "api_key_fingerprint env api_key =
     (if api_key = [] then [] else ''sha256:'' @ take 12 (sha256_hex env api_key))"

section \<open>Nothing secret-looking is left\<close>

lemma takeWhile_hd: "takeWhile Q s \<noteq> [] \<longleftrightarrow> s \<noteq> [] \<and> Q (hd s)"
  by (cases s) auto

lemma value_len_iff:
  "value_len P Q s \<noteq> None \<longleftrightarrow>
     (\<exists>w v r. s = w @ v # r \<and> w \<noteq> [] \<and> (\<forall>c \<in> set w. P c) \<and> Q v)" (is "?l \<longleftrightarrow> ?r")
proof
  assume ?l
  then have "filter (\<lambda>i. takeWhile Q (drop i s) \<noteq> []) (rev [1..<Suc (length (takeWhile P s))]) \<noteq> []"
    by (auto simp: value_len_def simp del: upt_Suc)
  then obtain i where i: "1 \<le> i" "i \<le> length (takeWhile P s)" "takeWhile Q (drop i s) \<noteq> []"
    by (auto simp: filter_empty_conv less_Suc_eq_le simp del: upt_Suc)
  then obtain v r where v: "drop i s = v # r" "Q v" by (cases "drop i s") (auto split: if_splits)
  have "s = take i s @ v # r" using v(1) by (metis append_take_drop_id)
  moreover have "take i s = take i (takeWhile P s)"
    using i(2) by (metis append.right_neutral diff_is_0_eq' take0 take_append takeWhile_dropWhile_id)
  then have "\<forall>c \<in> set (take i s). P c" by (auto dest!: in_set_takeD set_takeWhileD)
  moreover have "take i s \<noteq> []" using i(1) v(1) by (cases s) auto
  ultimately show ?r using v(2) by blast
next
  assume ?r
  then obtain w v r where s: "s = w @ v # r" "w \<noteq> []" "\<forall>c \<in> set w. P c" "Q v" by blast
  have "length w \<in> set (rev [1..<Suc (length (takeWhile P s))])"
    using s(2,3) by (cases w) (auto simp: s(1) takeWhile_append2)
  moreover have "takeWhile Q (drop (length w) s) \<noteq> []" using s by simp
  ultimately have "filter (\<lambda>i. takeWhile Q (drop i s) \<noteq> []) (rev [1..<Suc (length (takeWhile P s))]) \<noteq> []"
    unfolding filter_empty_conv by blast
  then show ?l by (auto simp: value_len_def split: list.split simp del: upt_Suc)
qed

definition alt_shape :: "(string \<times> (char \<Rightarrow> bool) \<times> (char \<Rightarrow> bool)) \<Rightarrow> string \<Rightarrow> bool" where
  "alt_shape alt s \<longleftrightarrow> (\<exists>k w v r. s = k @ w @ v # r \<and> lower k = fst alt \<and> w \<noteq> []
     \<and> (\<forall>c \<in> set w. fst (snd alt) c) \<and> snd (snd alt) v)"

lemma kw_value_iff:
  "lower (take (length kw) s) = kw \<and> value_len P Q (drop (length kw) s) \<noteq> None
     \<longleftrightarrow> alt_shape (kw, P, Q) s"
proof
  assume "lower (take (length kw) s) = kw \<and> value_len P Q (drop (length kw) s) \<noteq> None"
  then show "alt_shape (kw, P, Q) s"
    unfolding value_len_iff alt_shape_def by (metis append_take_drop_id fst_conv snd_conv)
next
  assume "alt_shape (kw, P, Q) s"
  then obtain k w v r where s: "s = k @ w @ v # r" "lower k = kw" "w \<noteq> []" "\<forall>c \<in> set w. P c" "Q v"
    by (auto simp: alt_shape_def)
  have "length kw = length k" using s(2) by auto
  then show "lower (take (length kw) s) = kw \<and> value_len P Q (drop (length kw) s) \<noteq> None"
    using s unfolding value_len_iff by auto
qed

lemma match_alts_iff: "match_alts alts s \<noteq> None \<longleftrightarrow> (\<exists>alt \<in> set alts. alt_shape alt s)"
proof (induction alts s rule: match_alts.induct)
  case (2 kw P Q alts s)
  then show ?case using kw_value_iff [of kw s P Q] by auto
qed simp

lemma secretish_at_iff: "secretish_at s \<noteq> None \<longleftrightarrow> (\<exists>alt \<in> set SECRETISH. alt_shape alt s)"
  by (simp only: secretish_at_def match_alts_iff)

lemma alts_plain:
  assumes "alt \<in> set SECRETISH"
  shows "fst alt \<noteq> []" and "list_all (\<lambda>c. is_lower c \<or> c = CHR ''_'' \<or> c = CHR ''-'') (fst alt)"
    and "is_lower (hd (fst alt))" and "fst (snd alt) c \<Longrightarrow> c \<noteq> CHR ''[''"
    and "is_lower (lower_char c) \<Longrightarrow> snd (snd alt) c"
  using assms
  by (auto simp: SECRETISH_def is_lower_def sep_char_def val_char_def bearer_char_def is_space_def
      is_alnum_def is_upper_def is_digit_def case_codes split: if_splits)

lemma redact_prefix:
  "redact_secretish s = p @ q \<Longrightarrow> CHR ''['' \<notin> set p \<Longrightarrow> \<exists>t. s = p @ t \<and> q = redact_secretish t"
proof (induction p arbitrary: s)
  case (Cons c p)
  then obtain d cs where s: "s = d # cs" by (cases s) auto
  show ?case
  proof (cases "secretish_at s")
    case None
    then show ?thesis using Cons s by auto
  next
    case (Some n)
    then show ?thesis using Cons.prems s by auto
  qed
qed simp

lemma lower_hd: "lower k = kw \<Longrightarrow> kw \<noteq> [] \<Longrightarrow> k \<noteq> [] \<and> lower_char (hd k) = hd kw"
  by (cases k) auto

lemma no_bracket_lower: "c \<in> set k \<Longrightarrow> lower_char c \<noteq> CHR ''['' \<Longrightarrow> c \<noteq> CHR ''[''"
  by (auto simp: lower_char_def is_upper_def)

lemma not_shape_kept:
  assumes alt: "alt \<in> set SECRETISH" and none: "secretish_at (c # cs) = None"
  shows "\<not> alt_shape alt (c # redact_secretish cs)"
proof
  assume "alt_shape alt (c # redact_secretish cs)"
  then obtain k w v r where eq: "c # redact_secretish cs = k @ w @ v # r" and k: "lower k = fst alt"
    and w: "w \<noteq> []" "\<forall>c \<in> set w. fst (snd alt) c" and v: "snd (snd alt) v"
    by (auto simp: alt_shape_def)
  note plain = alts_plain [OF alt]
  obtain k' where kc: "k = c # k'" using lower_hd [OF k plain(1)] eq by (cases k) auto
  have "lower_char x \<noteq> CHR ''[''" if "x \<in> set k" for x
  proof -
    have "lower_char x \<in> set (fst alt)" using that k by (auto simp: lower_def simp flip: k)
    then show ?thesis using plain(2) by (auto simp: list_all_iff is_lower_def)
  qed
  then have "CHR ''['' \<notin> set k" using no_bracket_lower by blast
  then have "CHR ''['' \<notin> set (k' @ w)" using kc w(2) plain(4) by auto
  moreover have "redact_secretish cs = (k' @ w) @ v # r" using eq kc by simp
  ultimately obtain t where t: "cs = (k' @ w) @ t" "v # r = redact_secretish t"
    using redact_prefix by blast
  then obtain d ds where td: "t = d # ds" by (cases t) auto
  have "snd (snd alt) d"
  proof (cases "secretish_at t")
    case None
    then show ?thesis using t(2) td v by simp
  next
    case (Some n)
    then obtain alt' where alt': "alt' \<in> set SECRETISH" "alt_shape alt' t"
      using secretish_at_iff by blast
    then obtain k2 u where k2: "t = k2 @ u" "lower k2 = fst alt'"
      by (auto simp: alt_shape_def)
    then have "k2 \<noteq> []" "hd k2 = d"
      using lower_hd [OF k2(2) alts_plain(1) [OF alt'(1)]] td by (cases k2; simp)+
    with k2 have "is_lower (lower_char d)"
      using lower_hd alts_plain(1,3) [OF alt'(1)] by metis
    then show ?thesis by (rule plain(5))
  qed
  moreover have "c # cs = k @ w @ d # ds" using t(1) td kc by simp
  ultimately have "alt_shape alt (c # cs)"
    using k w unfolding alt_shape_def by blast
  then show False using none alt secretish_at_iff by blast
qed

lemma redacted_mark:
  "list_all (\<lambda>i. list_all (\<lambda>alt. lower (take 2 (drop i ''[redacted]'')) \<noteq> take 2 (fst alt)
     \<and> (i = 9 \<longrightarrow> hd (fst alt) \<noteq> CHR '']'')) SECRETISH) [0..<10]"
  by (simp add: SECRETISH_def upt_rec lower_char_def is_upper_def)

lemma not_shape_mark:
  assumes alt: "alt \<in> set SECRETISH" and i: "i < 10"
  shows "\<not> alt_shape alt (drop i ''[redacted]'' @ t)"
proof
  assume "alt_shape alt (drop i ''[redacted]'' @ t)"
  then obtain k u where eq: "drop i ''[redacted]'' @ t = k @ u" and k: "lower k = fst alt"
    by (auto simp: alt_shape_def)
  have two: "2 \<le> length (fst alt)" using alt by (auto simp: SECRETISH_def)
  have mark: "lower (take 2 (drop i ''[redacted]'')) \<noteq> take 2 (fst alt)"
      "i = 9 \<longrightarrow> hd (fst alt) \<noteq> CHR '']''"
    using redacted_mark i alt by (auto simp: list_all_iff)
  have "length k = length (fst alt)" using k by (metis lower_simps(4))
  then have k2: "2 \<le> length k" using two by simp
  show False
  proof (cases "i = 9")
    case True
    then have "hd k = CHR '']''" using eq k2 by (cases k) auto
    then have "hd (fst alt) = CHR '']''"
      using k2 by (cases k) (auto simp: k [symmetric] lower_char_def is_upper_def)
    then show False using mark(2) True by simp
  next
    case False
    then have "take 2 (drop i ''[redacted]'' @ t) = take 2 (drop i ''[redacted]'')" using i by simp
    then have "take 2 k = take 2 (drop i ''[redacted]'')" using eq k2 by simp
    then have "take 2 (fst alt) = lower (take 2 (drop i ''[redacted]''))"
      by (metis k lower_def take_map)
    then show False using mark(1) by simp
  qed
qed

lemma redact_clean: "secretish_at (drop i (redact_secretish s)) = None"
proof (induction s arbitrary: i rule: redact_secretish.induct)
  case 1
  then show ?case using secretish_at_iff [of "[]"] by (auto simp: alt_shape_def)
next
  case (2 c cs)
  show ?case
  proof (cases "secretish_at (c # cs)")
    case None
    show ?thesis
    proof (cases i)
      case 0
      then have "drop i (redact_secretish (c # cs)) = c # redact_secretish cs" using None by simp
      then show ?thesis using not_shape_kept [OF _ None] secretish_at_iff by metis
    next
      case (Suc j)
      then show ?thesis using None "2.IH"(1) [OF None, of j] by simp
    qed
  next
    case (Some n)
    show ?thesis
    proof (cases "i < 10")
      case True
      then have "drop i (redact_secretish (c # cs))
          = drop i (''[redacted]'' @ redact_secretish (drop n (c # cs)))" using Some by simp
      also have "\<dots> = drop i ''[redacted]'' @ redact_secretish (drop n (c # cs))"
        using True by (simp only: drop_append) simp
      finally show ?thesis using not_shape_mark [OF _ True] secretish_at_iff by metis
    next
      case False
      have "drop i (redact_secretish (c # cs))
          = drop i (''[redacted]'' @ redact_secretish (drop n (c # cs)))" using Some by simp
      also have "\<dots> = drop (i - 10) (redact_secretish (drop n (c # cs)))"
        using False by (simp only: drop_append) (simp add: eval_nat_numeral)
      finally show ?thesis using "2.IH"(2) [OF Some, of "i - 10"] by simp
    qed
  qed
qed

text \<open>A text shows a secret when the pattern matches somewhere in it: a keyword in any case, a
  separator and a value character.\<close>

definition shows_secret :: "string \<Rightarrow> bool" where
  "shows_secret s \<longleftrightarrow> (\<exists>pre post. s = pre @ post \<and> (\<exists>alt \<in> set SECRETISH. alt_shape alt post))"

lemma sanitized_clean: "\<not> shows_secret (redact_secretish s)"
proof
  assume "shows_secret (redact_secretish s)"
  then obtain pre post alt where "redact_secretish s = pre @ post" "alt \<in> set SECRETISH" "alt_shape alt post"
    by (auto simp: shows_secret_def)
  then have "secretish_at (drop (length pre) (redact_secretish s)) \<noteq> None"
    using secretish_at_iff by auto
  then show False using redact_clean by simp
qed

lemma contains_iff: "contains p s \<longleftrightarrow> (\<exists>u v. s = u @ p @ v)"
proof (induction s)
  case (Cons c s)
  have "(\<exists>u v. c # s = u @ p @ v) \<longleftrightarrow> startswith p (c # s) \<or> (\<exists>u v. s = u @ p @ v)"
    unfolding startswith_iff by (metis append_Cons append_Nil append_eq_Cons_conv)
  with Cons show ?case by simp
qed simp

lemma shows_secret_contains: "shows_secret s \<Longrightarrow> list_ex (\<lambda>alt. contains (fst alt) (lower s)) SECRETISH"
proof -
  assume "shows_secret s"
  then obtain pre alt k u where alt: "alt \<in> set SECRETISH" and s: "s = pre @ k @ u" "lower k = fst alt"
    by (auto simp: shows_secret_def alt_shape_def)
  have "lower s = lower pre @ fst alt @ lower u" using s by simp
  then have "contains (fst alt) (lower s)" unfolding contains_iff by blast
  then show ?thesis using alt by (auto simp: list_ex_iff)
qed

definition UNEXPECTED :: string where
  "UNEXPECTED = ''An unexpected error occurred while contacting the DNS provider''"

lemma unexpected_clean: "\<not> shows_secret UNEXPECTED"
proof -
  have "\<not> list_ex (\<lambda>alt. contains (fst alt) (lower UNEXPECTED)) SECRETISH" by code_simp
  then show ?thesis using shows_secret_contains by blast
qed

text \<open>
  What a client is shown of an exception contains nothing that the redaction pattern
  matches: no bearer token and no token, secret, password or API-key assignment survives.
\<close>

lemma sanitized_message_has_no_secret:
  "\<not> shows_secret (sanitize_client_error_message e fallback)"
  by (simp add: sanitize_client_error_message_def Let_def sanitized_clean)

text \<open>
  Every exception of the DNS layer becomes an HTTP error: an HTTP exception is passed on
  unchanged, anything else becomes 400, 502, 503 or 500 with an error object whose message
  shows no secret, and 400 is exactly for the value errors.
\<close>

lemma dns_error_is_http_error:
  "is_http_exception e \<and> http_exception_from_dns_error e = e
   \<or> (\<exists>status err msg. http_exception_from_dns_error e
        = HTTPException status (DObj [(''error'', err), (''message'', msg)])
      \<and> status \<in> {400, 500, 502, 503} \<and> \<not> shows_secret msg
      \<and> (status = 400 \<longleftrightarrow> is_value_error e))"
  using unexpected_clean
  by (cases e) (auto simp: http_error_def sanitize_client_error_message_def Let_def sanitized_clean
      UNEXPECTED_def)

end
