(* ===== verification/Settings.thy ===== *)
theory Settings
  imports Tables
begin

text \<open>
  The encrypted key-value settings: the inventory of \<^verbatim>\<open>settings_registry.py\<close> and the store of
  \<^verbatim>\<open>settings_store.py\<close>. A reader is a function of the database, a writer a function from the
  database to the database. The locale \<open>setting_store\<close> states what the clients of the store rely
  on; it is interpreted on \<open>get_setting\<close>, \<open>set_setting\<close> and \<open>delete_setting\<close>.
\<close>

section \<open>The registry\<close>

datatype value_type = TStr | TBool | TInt | TJson

record setting_spec =
  sp_key :: string
  sp_value_type :: value_type
  sp_default :: "string option"
  sp_sensitive :: bool
  sp_area :: string
  sp_description :: string

definition setting_spec_of ::
  "string \<Rightarrow> value_type \<Rightarrow> string option \<Rightarrow> bool \<Rightarrow> string \<Rightarrow> string \<Rightarrow> setting_spec" where
  "setting_spec_of key ty dflt sensitive area description =
     \<lparr>sp_key = key, sp_value_type = ty, sp_default = dflt, sp_sensitive = sensitive,
      sp_area = area, sp_description = description\<rparr>"

definition SETTING_SPECS :: "setting_spec list" where
  "SETTING_SPECS =
     [
      setting_spec_of ''ssl_enabled'' TBool (Some ''false'') False ''ssl''
        ''Serve the admin UI and API over HTTPS.'',
      setting_spec_of ''restart_required'' TBool (Some ''false'') False ''restart''
        ''Pending application restart flag.'',
      setting_spec_of ''restart_reason'' TStr (Some ''Application restart required.'') False ''restart''
        ''Operator-visible restart reason.'',
      setting_spec_of ''last_scheduled_restart_date'' TStr None False ''restart''
        ''UTC date of the last scheduled certificate restart.'',
      setting_spec_of ''letsencrypt_renewal_pending_restart'' TBool (Some ''false'') False ''restart''
        (''Let'' @ [CHR 0x27] @ ''s Encrypt renewal is waiting for a scheduled restart.''),
      setting_spec_of ''letsencrypt_config'' TJson None False ''ssl''
        (''Let'' @ [CHR 0x27] @ ''s Encrypt enrollment and renewal configuration.''),
      setting_spec_of ''letsencrypt_enrollment'' TJson None False ''ssl''
        (''In-progress Let'' @ [CHR 0x27] @ ''s Encrypt enrollment state.''),
      setting_spec_of ''letsencrypt_enrollment_progress'' TJson None False ''ssl''
        (''Let'' @ [CHR 0x27] @ ''s Encrypt enrollment progress shown in the admin UI.''),
      setting_spec_of ''disabled_dns_plugins'' TJson (Some ''[]'') False ''plugins''
        ''Disabled DNS provider plugin keys.'',
      setting_spec_of ''backup_restore_progress'' TJson None False ''backup''
        ''In-progress backup restore status (not exported).'',
      setting_spec_of ''log_level'' TStr (Some ''INFORMATIONAL'') False ''logging''
        ''Activity log storage level.'',
      setting_spec_of ''activity_retention_days'' TInt (Some ''90'') False ''logging''
        ''Activity log retention in days.'',
      setting_spec_of ''last_activity_retention_cleanup'' TStr None False ''logging''
        ''Timestamp of the last activity-log retention cleanup.'',
      setting_spec_of ''operational_log_file'' TStr (Some '''') False ''logging''
        ''Optional rotating operational log file path.'',
      setting_spec_of ''operational_log_max_bytes'' TInt (Some ''1048576'') False ''logging''
        ''Operational log rotation size in bytes.'',
      setting_spec_of ''operational_log_backup_count'' TInt (Some ''5'') False ''logging''
        ''Number of rotated operational log files to keep.'',
      setting_spec_of ''app_dns_name'' TStr (Some '''') False ''system''
        ''Configured application DNS name.'',
      setting_spec_of ''smtp_servers'' TStr (Some '''') False ''smtp''
        ''Ordered CSV list of SMTP servers.'',
      setting_spec_of ''smtp_port'' TInt (Some ''587'') False ''smtp''
        ''SMTP port.'',
      setting_spec_of ''smtp_anonymous'' TBool (Some ''false'') False ''smtp''
        ''Skip SMTP authentication.'',
      setting_spec_of ''smtp_username'' TStr (Some '''') False ''smtp''
        ''SMTP username.'',
      setting_spec_of ''smtp_password'' TStr (Some '''') True ''smtp''
        ''SMTP password.'',
      setting_spec_of ''smtp_from'' TStr (Some '''') False ''smtp''
        ''SMTP From address.'',
      setting_spec_of ''smtp_security'' TStr (Some ''starttls'') False ''smtp''
        ''SMTP transport security (none, starttls, ssl).'',
      setting_spec_of ''smtp_timeout'' TInt (Some ''10'') False ''smtp''
        ''SMTP timeout in seconds.'',
      setting_spec_of ''smtp_allow_insecure_auth'' TBool (Some ''false'') False ''smtp''
        ''Allow SMTP authentication without TLS.'',
      setting_spec_of ''remote_syslog_enabled'' TBool (Some ''false'') False ''syslog''
        ''Forward stored activity events to remote syslog.'',
      setting_spec_of ''remote_syslog_host'' TStr (Some '''') False ''syslog''
        ''Remote syslog hostname or IP.'',
      setting_spec_of ''remote_syslog_port'' TInt (Some ''6514'') False ''syslog''
        ''Remote syslog port.'',
      setting_spec_of ''remote_syslog_protocol'' TStr (Some ''tls'') False ''syslog''
        ''Remote syslog protocol (tls, tcp, udp).'',
      setting_spec_of ''remote_syslog_facility'' TStr (Some ''local0'') False ''syslog''
        ''Remote syslog facility.'',
      setting_spec_of ''remote_syslog_minimum_level'' TStr (Some ''INFORMATIONAL'') False ''syslog''
        ''Minimum activity level to forward.'',
      setting_spec_of ''remote_syslog_timeout'' TStr (Some ''5.0'') False ''syslog''
        ''Remote syslog network timeout in seconds.'',
      setting_spec_of ''remote_syslog_queue_size'' TInt (Some ''1000'') False ''syslog''
        ''In-process remote syslog queue size.'',
      setting_spec_of ''remote_syslog_allow_insecure_plaintext'' TBool (Some ''false'') False ''syslog''
        ''Allow plaintext UDP/TCP syslog without TLS.'',
      setting_spec_of ''dns_provider_type'' TStr (Some ''azure'') True ''legacy_dns''
        ''Legacy global DNS provider type.'',
      setting_spec_of ''dns_server'' TStr (Some '''') True ''legacy_dns''
        ''Legacy global DNS server host.'',
      setting_spec_of ''dns_zone'' TStr (Some '''') False ''legacy_dns''
        ''Legacy global DNS zone name.'',
      setting_spec_of ''dns_username'' TStr (Some '''') True ''legacy_dns''
        ''Legacy global DNS username or TSIG key name.'',
      setting_spec_of ''dns_password'' TStr (Some '''') True ''legacy_dns''
        ''Legacy global DNS password or TSIG secret.'',
      setting_spec_of ''dns_tsig_algorithm'' TStr (Some '''') False ''legacy_dns''
        ''Legacy global TSIG algorithm.'',
      setting_spec_of ''dns_winrm_ssl'' TStr (Some '''') False ''legacy_dns''
        ''Legacy global WinRM SSL flag.'',
      setting_spec_of ''azure_tenant_id'' TStr (Some '''') True ''legacy_dns''
        ''Legacy global Azure tenant ID.'',
      setting_spec_of ''azure_client_id'' TStr (Some '''') True ''legacy_dns''
        ''Legacy global Azure client ID.'',
      setting_spec_of ''azure_client_secret'' TStr (Some '''') True ''legacy_dns''
        ''Legacy global Azure client secret.'',
      setting_spec_of ''azure_subscription_id'' TStr (Some '''') True ''legacy_dns''
        ''Legacy global Azure subscription ID.'',
      setting_spec_of ''azure_resource_group'' TStr (Some '''') False ''legacy_dns''
        ''Legacy global Azure resource group.'']"

definition get_spec :: "string \<Rightarrow> setting_spec option" where
  "get_spec key = List.find (\<lambda>sp. sp_key sp = key) SETTING_SPECS"

text \<open>The look-up as a chain of tests, which evaluates faster.\<close>

lemma get_spec_code [code]:
  "get_spec key =
    (if ''ssl_enabled'' = key then Some (setting_spec_of ''ssl_enabled'' TBool (Some ''false'') False ''ssl'' ''Serve the admin UI and API over HTTPS.'')
     else if ''restart_required'' = key then Some (setting_spec_of ''restart_required'' TBool (Some ''false'') False ''restart'' ''Pending application restart flag.'')
     else if ''restart_reason'' = key then Some (setting_spec_of ''restart_reason'' TStr (Some ''Application restart required.'') False ''restart'' ''Operator-visible restart reason.'')
     else if ''last_scheduled_restart_date'' = key then Some (setting_spec_of ''last_scheduled_restart_date'' TStr None False ''restart'' ''UTC date of the last scheduled certificate restart.'')
     else if ''letsencrypt_renewal_pending_restart'' = key then Some (setting_spec_of ''letsencrypt_renewal_pending_restart'' TBool (Some ''false'') False ''restart'' (''Let'' @ [CHR 0x27] @ ''s Encrypt renewal is waiting for a scheduled restart.''))
     else if ''letsencrypt_config'' = key then Some (setting_spec_of ''letsencrypt_config'' TJson None False ''ssl'' (''Let'' @ [CHR 0x27] @ ''s Encrypt enrollment and renewal configuration.''))
     else if ''letsencrypt_enrollment'' = key then Some (setting_spec_of ''letsencrypt_enrollment'' TJson None False ''ssl'' (''In-progress Let'' @ [CHR 0x27] @ ''s Encrypt enrollment state.''))
     else if ''letsencrypt_enrollment_progress'' = key then Some (setting_spec_of ''letsencrypt_enrollment_progress'' TJson None False ''ssl'' (''Let'' @ [CHR 0x27] @ ''s Encrypt enrollment progress shown in the admin UI.''))
     else if ''disabled_dns_plugins'' = key then Some (setting_spec_of ''disabled_dns_plugins'' TJson (Some ''[]'') False ''plugins'' ''Disabled DNS provider plugin keys.'')
     else if ''backup_restore_progress'' = key then Some (setting_spec_of ''backup_restore_progress'' TJson None False ''backup'' ''In-progress backup restore status (not exported).'')
     else if ''log_level'' = key then Some (setting_spec_of ''log_level'' TStr (Some ''INFORMATIONAL'') False ''logging'' ''Activity log storage level.'')
     else if ''activity_retention_days'' = key then Some (setting_spec_of ''activity_retention_days'' TInt (Some ''90'') False ''logging'' ''Activity log retention in days.'')
     else if ''last_activity_retention_cleanup'' = key then Some (setting_spec_of ''last_activity_retention_cleanup'' TStr None False ''logging'' ''Timestamp of the last activity-log retention cleanup.'')
     else if ''operational_log_file'' = key then Some (setting_spec_of ''operational_log_file'' TStr (Some '''') False ''logging'' ''Optional rotating operational log file path.'')
     else if ''operational_log_max_bytes'' = key then Some (setting_spec_of ''operational_log_max_bytes'' TInt (Some ''1048576'') False ''logging'' ''Operational log rotation size in bytes.'')
     else if ''operational_log_backup_count'' = key then Some (setting_spec_of ''operational_log_backup_count'' TInt (Some ''5'') False ''logging'' ''Number of rotated operational log files to keep.'')
     else if ''app_dns_name'' = key then Some (setting_spec_of ''app_dns_name'' TStr (Some '''') False ''system'' ''Configured application DNS name.'')
     else if ''smtp_servers'' = key then Some (setting_spec_of ''smtp_servers'' TStr (Some '''') False ''smtp'' ''Ordered CSV list of SMTP servers.'')
     else if ''smtp_port'' = key then Some (setting_spec_of ''smtp_port'' TInt (Some ''587'') False ''smtp'' ''SMTP port.'')
     else if ''smtp_anonymous'' = key then Some (setting_spec_of ''smtp_anonymous'' TBool (Some ''false'') False ''smtp'' ''Skip SMTP authentication.'')
     else if ''smtp_username'' = key then Some (setting_spec_of ''smtp_username'' TStr (Some '''') False ''smtp'' ''SMTP username.'')
     else if ''smtp_password'' = key then Some (setting_spec_of ''smtp_password'' TStr (Some '''') True ''smtp'' ''SMTP password.'')
     else if ''smtp_from'' = key then Some (setting_spec_of ''smtp_from'' TStr (Some '''') False ''smtp'' ''SMTP From address.'')
     else if ''smtp_security'' = key then Some (setting_spec_of ''smtp_security'' TStr (Some ''starttls'') False ''smtp'' ''SMTP transport security (none, starttls, ssl).'')
     else if ''smtp_timeout'' = key then Some (setting_spec_of ''smtp_timeout'' TInt (Some ''10'') False ''smtp'' ''SMTP timeout in seconds.'')
     else if ''smtp_allow_insecure_auth'' = key then Some (setting_spec_of ''smtp_allow_insecure_auth'' TBool (Some ''false'') False ''smtp'' ''Allow SMTP authentication without TLS.'')
     else if ''remote_syslog_enabled'' = key then Some (setting_spec_of ''remote_syslog_enabled'' TBool (Some ''false'') False ''syslog'' ''Forward stored activity events to remote syslog.'')
     else if ''remote_syslog_host'' = key then Some (setting_spec_of ''remote_syslog_host'' TStr (Some '''') False ''syslog'' ''Remote syslog hostname or IP.'')
     else if ''remote_syslog_port'' = key then Some (setting_spec_of ''remote_syslog_port'' TInt (Some ''6514'') False ''syslog'' ''Remote syslog port.'')
     else if ''remote_syslog_protocol'' = key then Some (setting_spec_of ''remote_syslog_protocol'' TStr (Some ''tls'') False ''syslog'' ''Remote syslog protocol (tls, tcp, udp).'')
     else if ''remote_syslog_facility'' = key then Some (setting_spec_of ''remote_syslog_facility'' TStr (Some ''local0'') False ''syslog'' ''Remote syslog facility.'')
     else if ''remote_syslog_minimum_level'' = key then Some (setting_spec_of ''remote_syslog_minimum_level'' TStr (Some ''INFORMATIONAL'') False ''syslog'' ''Minimum activity level to forward.'')
     else if ''remote_syslog_timeout'' = key then Some (setting_spec_of ''remote_syslog_timeout'' TStr (Some ''5.0'') False ''syslog'' ''Remote syslog network timeout in seconds.'')
     else if ''remote_syslog_queue_size'' = key then Some (setting_spec_of ''remote_syslog_queue_size'' TInt (Some ''1000'') False ''syslog'' ''In-process remote syslog queue size.'')
     else if ''remote_syslog_allow_insecure_plaintext'' = key then Some (setting_spec_of ''remote_syslog_allow_insecure_plaintext'' TBool (Some ''false'') False ''syslog'' ''Allow plaintext UDP/TCP syslog without TLS.'')
     else if ''dns_provider_type'' = key then Some (setting_spec_of ''dns_provider_type'' TStr (Some ''azure'') True ''legacy_dns'' ''Legacy global DNS provider type.'')
     else if ''dns_server'' = key then Some (setting_spec_of ''dns_server'' TStr (Some '''') True ''legacy_dns'' ''Legacy global DNS server host.'')
     else if ''dns_zone'' = key then Some (setting_spec_of ''dns_zone'' TStr (Some '''') False ''legacy_dns'' ''Legacy global DNS zone name.'')
     else if ''dns_username'' = key then Some (setting_spec_of ''dns_username'' TStr (Some '''') True ''legacy_dns'' ''Legacy global DNS username or TSIG key name.'')
     else if ''dns_password'' = key then Some (setting_spec_of ''dns_password'' TStr (Some '''') True ''legacy_dns'' ''Legacy global DNS password or TSIG secret.'')
     else if ''dns_tsig_algorithm'' = key then Some (setting_spec_of ''dns_tsig_algorithm'' TStr (Some '''') False ''legacy_dns'' ''Legacy global TSIG algorithm.'')
     else if ''dns_winrm_ssl'' = key then Some (setting_spec_of ''dns_winrm_ssl'' TStr (Some '''') False ''legacy_dns'' ''Legacy global WinRM SSL flag.'')
     else if ''azure_tenant_id'' = key then Some (setting_spec_of ''azure_tenant_id'' TStr (Some '''') True ''legacy_dns'' ''Legacy global Azure tenant ID.'')
     else if ''azure_client_id'' = key then Some (setting_spec_of ''azure_client_id'' TStr (Some '''') True ''legacy_dns'' ''Legacy global Azure client ID.'')
     else if ''azure_client_secret'' = key then Some (setting_spec_of ''azure_client_secret'' TStr (Some '''') True ''legacy_dns'' ''Legacy global Azure client secret.'')
     else if ''azure_subscription_id'' = key then Some (setting_spec_of ''azure_subscription_id'' TStr (Some '''') True ''legacy_dns'' ''Legacy global Azure subscription ID.'')
     else if ''azure_resource_group'' = key then Some (setting_spec_of ''azure_resource_group'' TStr (Some '''') False ''legacy_dns'' ''Legacy global Azure resource group.'')
     else None)"
  by (simp only: get_spec_def SETTING_SPECS_def List.find.simps setting_spec_of_def setting_spec.simps)

section \<open>The store\<close>

definition get_setting :: "env \<Rightarrow> db \<Rightarrow> string \<Rightarrow> string option res" where
  "get_setting env db name =
     (case first_row (\<lambda>r. st_name r = name) (settings db) of
        None \<Rightarrow> Inr None
      | Some r \<Rightarrow> map_res Some (decrypt env (st_value r)))"

definition set_setting :: "env \<Rightarrow> string \<Rightarrow> string \<Rightarrow> db \<Rightarrow> db" where
  "set_setting env name v db =
     (case first_row (\<lambda>r. st_name r = name) (settings db) of
        Some r \<Rightarrow> db\<lparr>settings :=
          update_first (\<lambda>r. st_name r = name) (\<lambda>r. r\<lparr>st_value := encrypt env v\<rparr>) (settings db)\<rparr>
      | None \<Rightarrow> db\<lparr>settings := settings db @
          [\<lparr>st_id = next_id st_id (settings db), st_name = name, st_value = encrypt env v\<rparr>]\<rparr>)"

definition delete_setting :: "string \<Rightarrow> db \<Rightarrow> db" where
  "delete_setting name db = db\<lparr>settings := remove_first (\<lambda>r. st_name r = name) (settings db)\<rparr>"

section \<open>Typed values\<close>

datatype setting_value = VStr string | VBool bool | VInt int | VJson json

definition TRUTHY :: "string list" where
  "TRUTHY = [''1'', ''true'', ''yes'', ''on'', ''enabled'']"

definition FALSY :: "string list" where
  "FALSY = [''0'', ''false'', ''no'', ''off'', ''disabled'', [] ]"

definition default_value :: "value_type \<Rightarrow> setting_value" where
  "default_value ty =
     (case ty of TJson \<Rightarrow> VJson JNull | TBool \<Rightarrow> VBool False | TInt \<Rightarrow> VInt 0 | TStr \<Rightarrow> VStr [])"

definition parse_present :: "setting_spec \<Rightarrow> string \<Rightarrow> setting_value res" where
  "parse_present sp raw =
     (case sp_value_type sp of
        TStr \<Rightarrow> Inr (VStr raw)
      | TBool \<Rightarrow>
          (let lowered = lower (strip raw)
           in if lowered \<in> set TRUTHY then Inr (VBool True)
              else if lowered \<in> set FALSY then Inr (VBool False)
              else Inl (ValueError (''Invalid boolean for '' @ sp_key sp @ '': '' @ repr raw)))
      | TInt \<Rightarrow>
          (case py_int raw of
             Some i \<Rightarrow> Inr (VInt i)
           | None \<Rightarrow> Inl (ValueError (''Invalid integer for '' @ sp_key sp @ '': '' @ repr raw)))
      | TJson \<Rightarrow>
          (if strip raw = [] then Inr (VJson JNull)
           else case json_loads raw of
             Inr j \<Rightarrow> Inr (VJson j)
           | Inl _ \<Rightarrow> Inl (ValueError (''Invalid JSON for '' @ sp_key sp))))"

definition parse_typed :: "setting_spec \<Rightarrow> string option \<Rightarrow> setting_value res" where
  "parse_typed sp raw =
     (case (case raw of None \<Rightarrow> sp_default sp | Some r \<Rightarrow> Some r) of
        None \<Rightarrow> Inr (default_value (sp_value_type sp))
      | Some r \<Rightarrow> parse_present sp r)"

text \<open>Python's truth value, and \<^verbatim>\<open>int(value)\<close>, of the values the callers pass. A float
  literal is zero when its mantissa has no digit but \<open>0\<close>.\<close>

definition float_zero :: "string \<Rightarrow> bool" where
  "float_zero t =
     (\<forall>c \<in> set (takeWhile (\<lambda>c. c \<noteq> CHR ''e'' \<and> c \<noteq> CHR ''E'') t).
        c = CHR ''0'' \<or> c = CHR ''.'' \<or> c = CHR ''-'')"

fun json_truthy :: "json \<Rightarrow> bool" where
  "json_truthy JNull = False"
| "json_truthy (JBool b) = b"
| "json_truthy (JInt i) = (i \<noteq> 0)"
| "json_truthy (JFloat t) = (\<not> float_zero t)"
| "json_truthy (JStr s) = (s \<noteq> [])"
| "json_truthy (JList xs) = (xs \<noteq> [])"
| "json_truthy (JObj kvs) = (kvs \<noteq> [])"

fun value_truthy :: "setting_value \<Rightarrow> bool" where
  "value_truthy (VStr s) = (s \<noteq> [])"
| "value_truthy (VBool b) = b"
| "value_truthy (VInt i) = (i \<noteq> 0)"
| "value_truthy (VJson j) = json_truthy j"

definition type_error :: "'a res" where
  "type_error = Inl (OtherError ''TypeError'' [])"

definition str_int :: "string \<Rightarrow> int res" where
  "str_int s =
     (case py_int s of
        Some i \<Rightarrow> Inr i
      | None \<Rightarrow> Inl (ValueError (''invalid literal for int() with base 10: '' @ repr s)))"

fun value_int :: "setting_value \<Rightarrow> int res" where
  "value_int (VStr s) = str_int s"
| "value_int (VBool b) = Inr (if b then 1 else 0)"
| "value_int (VInt i) = Inr i"
| "value_int (VJson (JInt i)) = Inr i"
| "value_int (VJson (JBool b)) = Inr (if b then 1 else 0)"
| "value_int (VJson (JStr s)) = str_int s"
| "value_int (VJson j) = type_error"

fun value_json :: "setting_value \<Rightarrow> json" where
  "value_json (VStr s) = JStr s"
| "value_json (VBool b) = JBool b"
| "value_json (VInt i) = JInt i"
| "value_json (VJson j) = j"

text \<open>\<^verbatim>\<open>str(value if value is not None else "")\<close>; the code passes no list or dict here.\<close>

fun value_str :: "setting_value \<Rightarrow> string res" where
  "value_str (VStr s) = Inr s"
| "value_str (VBool b) = Inr (if b then ''True'' else ''False'')"
| "value_str (VInt i) = Inr (show_int i)"
| "value_str (VJson JNull) = Inr []"
| "value_str (VJson (JStr s)) = Inr s"
| "value_str (VJson _) = type_error"

definition encode_typed :: "setting_spec \<Rightarrow> setting_value \<Rightarrow> string res" where
  "encode_typed sp v =
     (case sp_value_type sp of
        TBool \<Rightarrow> Inr (if value_truthy v then ''true'' else ''false'')
      | TInt \<Rightarrow> map_res show_int (value_int v)
      | TJson \<Rightarrow> Inr (json_dumps_sorted (value_json v))
      | TStr \<Rightarrow> value_str v)"

definition get_typed_setting :: "env \<Rightarrow> db \<Rightarrow> setting_spec \<Rightarrow> setting_value res" where
  "get_typed_setting env db sp = rbind (get_setting env db (sp_key sp)) (parse_typed sp)"

definition set_typed_setting :: "env \<Rightarrow> setting_spec \<Rightarrow> setting_value \<Rightarrow> db \<Rightarrow> db res" where
  "set_typed_setting env sp v db =
     map_res (\<lambda>raw. set_setting env (sp_key sp) raw db) (encode_typed sp v)"

definition require_spec :: "string \<Rightarrow> setting_spec res" where
  "require_spec key =
     (case get_spec key of Some sp \<Rightarrow> Inr sp
      | None \<Rightarrow> Inl (KeyError (''Unregistered setting key: '' @ key)))"

definition get_typed_setting_by_key :: "env \<Rightarrow> db \<Rightarrow> string \<Rightarrow> setting_value res" where
  "get_typed_setting_by_key env db key = rbind (require_spec key) (get_typed_setting env db)"

definition set_typed_setting_by_key :: "env \<Rightarrow> string \<Rightarrow> setting_value \<Rightarrow> db \<Rightarrow> db res" where
  "set_typed_setting_by_key env key v db =
     rbind (require_spec key) (\<lambda>sp. set_typed_setting env sp v db)"

definition unknown_setting_names :: "db \<Rightarrow> string list" where
  "unknown_setting_names db =
     str_sort (remdups (filter (\<lambda>n. n \<noteq> [] \<and> get_spec n = None) (map st_name (settings db))))"

text \<open>The helpers \<^verbatim>\<open>_typed_bool\<close>, \<^verbatim>\<open>_typed_int\<close> and \<^verbatim>\<open>_typed_str\<close> that \<^verbatim>\<open>activity_logging\<close>,
  \<^verbatim>\<open>alerting\<close>, \<^verbatim>\<open>remote_syslog\<close> and \<^verbatim>\<open>restart\<close> each define: a \<^verbatim>\<open>ValueError\<close> of the parser gives
  the fallback.\<close>

definition typed_bool :: "env \<Rightarrow> db \<Rightarrow> string \<Rightarrow> bool res" where
  "typed_bool env db key =
     (case get_typed_setting_by_key env db key of
        Inr v \<Rightarrow> Inr (value_truthy v)
      | Inl e \<Rightarrow> if is_value_error e then Inr False else Inl e)"

definition is_type_error :: "py_exc \<Rightarrow> bool" where
  "is_type_error e = (exc_name e = ''TypeError'')"

definition typed_int :: "env \<Rightarrow> db \<Rightarrow> string \<Rightarrow> int \<Rightarrow> int res" where
  "typed_int env db key fallback =
     (case rbind (get_typed_setting_by_key env db key) value_int of
        Inr i \<Rightarrow> Inr i
      | Inl e \<Rightarrow> if is_value_error e \<or> is_type_error e then Inr fallback else Inl e)"

definition typed_str :: "env \<Rightarrow> db \<Rightarrow> string \<Rightarrow> string res" where
  "typed_str env db key =
     (case get_typed_setting_by_key env db key of
        Inl e \<Rightarrow> if is_value_error e then Inr [] else Inl e
      | Inr v \<Rightarrow> value_str v)"

section \<open>The contract of the store\<close>

text \<open>
  \<open>wf\<close>: the environment is usable; \<open>inv\<close>: the states the laws hold in. A name reads back what was
  last written to it, nothing after a delete, and no other name is disturbed.
\<close>

locale setting_store =
  fixes wf :: "'e \<Rightarrow> bool"
    and inv :: "'s \<Rightarrow> bool"
    and get :: "'e \<Rightarrow> 's \<Rightarrow> string \<Rightarrow> string option res"
    and put :: "'e \<Rightarrow> string \<Rightarrow> string \<Rightarrow> 's \<Rightarrow> 's"
    and del :: "string \<Rightarrow> 's \<Rightarrow> 's"
  assumes get_put: "wf e \<Longrightarrow> get e (put e k v s) k = Inr (Some v)"
    and get_put_other: "k \<noteq> k' \<Longrightarrow> get e (put e k v s) k' = get e s k'"
    and get_del: "inv s \<Longrightarrow> get e (del k s) k = Inr None"
    and get_del_other: "k \<noteq> k' \<Longrightarrow> get e (del k s) k' = get e s k'"
    and inv_put: "inv s \<Longrightarrow> inv (put e k v s)"
    and inv_del: "inv s \<Longrightarrow> inv (del k s)"
begin

lemma fold_put_other:
  "k \<notin> fst ` set kvs \<Longrightarrow> get e (fold (\<lambda>(k, v). put e k v) kvs s) k = get e s k"
proof (induction kvs arbitrary: s)
  case (Cons kv kvs)
  obtain k1 v1 where "kv = (k1, v1)" by (cases kv)
  with Cons get_put_other [of k1 k e v1 s] show ?case by auto
qed simp

lemma fold_put:
  assumes "wf e" and "distinct (map fst kvs)" and "(k, v) \<in> set kvs"
  shows "get e (fold (\<lambda>(k, v). put e k v) kvs s) k = Inr (Some v)"
  using assms(2,3)
proof (induction kvs arbitrary: s)
  case (Cons kv kvs)
  obtain k1 v1 where kv: "kv = (k1, v1)" by (cases kv)
  show ?case
  proof (cases "k = k1")
    case True
    with Cons.prems kv have "k \<notin> fst ` set kvs" and "v = v1" by force+
    then show ?thesis using True kv fold_put_other get_put [OF assms(1)] by simp
  next
    case False
    then show ?thesis using Cons kv by simp
  qed
qed simp

lemma fold_del:
  assumes "inv s" and "k \<in> set ks"
  shows "get e (fold del ks s) k = Inr None"
proof -
  have keep: "get e (fold del ks s) k = Inr None" if "get e s k = Inr None" "inv s" for ks s
    using that
  proof (induction ks arbitrary: s)
    case (Cons k1 ks)
    have "get e (del k1 s) k = Inr None"
      using Cons.prems get_del [of s] get_del_other [of k1 k e s] by (cases "k1 = k") auto
    then show ?case using Cons inv_del by simp
  qed simp
  show ?thesis
    using assms
  proof (induction ks arbitrary: s)
    case (Cons k1 ks)
    then show ?case using keep get_del inv_del by (cases "k1 = k") auto
  qed simp
qed

lemma inv_fold_put: "inv s \<Longrightarrow> inv (fold (\<lambda>(k, v). put e k v) kvs s)"
  by (induction kvs arbitrary: s) (auto simp: inv_put)

lemma fold_del_other: "k \<notin> set ks \<Longrightarrow> get e (fold del ks s) k = get e s k"
  by (induction ks arbitrary: s) (auto simp: get_del_other)

lemma inv_fold_del: "inv s \<Longrightarrow> inv (fold del ks s)"
  by (induction ks arbitrary: s) (auto simp: inv_del)

end

text \<open>The invariant: no two rows share a name (the unique index of \<^verbatim>\<open>Setting.name\<close>).\<close>

definition settings_ok :: "db \<Rightarrow> bool" where
  "settings_ok db \<longleftrightarrow> distinct (map st_name (settings db))"

lemma first_row_not_name: "first_row (\<lambda>r. st_name r = name) rows = None \<longleftrightarrow> name \<notin> st_name ` set rows"
  by (auto simp: first_row_None)

interpretation st: setting_store fernet_ok settings_ok get_setting set_setting delete_setting
proof unfold_locales
  fix e k v s
  assume "fernet_ok e"
  then show "get_setting e (set_setting e k v s) k = Inr (Some v)"
    by (auto simp: get_setting_def set_setting_def first_row_append first_row_update_first fernet_okD
        split: option.split)
next
  fix k k' :: string and e v s
  assume "k \<noteq> k'"
  then show "get_setting e (set_setting e k v s) k' = get_setting e s k'"
    by (auto simp: get_setting_def set_setting_def first_row_append first_row_update_other
        split: option.split)
next
  fix s e k
  assume "settings_ok s"
  then show "get_setting e (delete_setting k s) k = Inr None"
    by (simp add: get_setting_def delete_setting_def settings_ok_def first_row_remove_same)
next
  fix k k' :: string and e s
  assume "k \<noteq> k'"
  then show "get_setting e (delete_setting k s) k' = get_setting e s k'"
    by (simp add: get_setting_def delete_setting_def first_row_remove_other)
next
  fix s e k v
  assume "settings_ok s"
  then show "settings_ok (set_setting e k v s)"
    by (auto simp: settings_ok_def set_setting_def map_update_first first_row_not_name split: option.split)
next
  fix s k
  assume "settings_ok s"
  then show "settings_ok (delete_setting k s)"
    by (simp add: settings_ok_def delete_setting_def remove_first_distinct)
qed

section \<open>Typed values read back\<close>

definition value_fits :: "setting_spec \<Rightarrow> setting_value \<Rightarrow> bool" where
  "value_fits sp v =
     (case v of
        VStr s \<Rightarrow> sp_value_type sp = TStr
      | VBool b \<Rightarrow> sp_value_type sp = TBool
      | VInt i \<Rightarrow> sp_value_type sp = TInt \<and> small_nat (nat \<bar>i\<bar>)
      | VJson j \<Rightarrow> sp_value_type sp = TJson \<and> json_ok j)"

definition canonical_value :: "setting_value \<Rightarrow> setting_value" where
  "canonical_value v = (case v of VJson j \<Rightarrow> VJson (sort_keys j) | _ \<Rightarrow> v)"

lemma map_fst_sort_items: "map fst (sort_items kvs) = str_sort (map fst kvs)"
  by (simp add: sort_items_def comp_def)

lemma sort_items_mem:
  assumes "distinct (map fst kvs)" "(k, x) \<in> set (sort_items kvs)"
  shows "(k, x) \<in> set kvs"
proof -
  have "k \<in> fst ` set kvs" "x = the (map_of kvs k)"
    using assms(2) by (auto simp: sort_items_def)
  then show ?thesis using assms(1) by (auto simp: map_of_eq_Some_iff)
qed

lemma json_ok_sort_keys: "json_ok j \<Longrightarrow> json_ok (sort_keys j)"
proof (induction j)
  case (JObj kvs)
  let ?kvs = "map (\<lambda>(k, v). (k, sort_keys v)) kvs"
  have fst: "map fst ?kvs = map fst kvs" by (simp add: comp_def case_prod_beta')
  have d: "distinct (map fst ?kvs)" using JObj.prems by (simp only: fst json_ok.simps)
  have "json_ok x" if mem: "(k, x) \<in> set (sort_items ?kvs)" for k x
  proof -
    obtain v where "(k, v) \<in> set kvs" "x = sort_keys v"
      using sort_items_mem [OF d mem] by auto
    then show ?thesis using JObj.IH [of "(k, v)" v] JObj.prems by auto
  qed
  then show ?case using d by (auto simp: map_fst_sort_items)
qed auto

lemma dumps_not_blank:
  assumes "json_ok j"
  shows "strip (dumps a j) \<noteq> []"
proof -
  obtain c cs where eq: "dumps a j = c # cs" by (rule dumps_hd [OF assms])
  show ?thesis
  proof (cases j)
    case (JInt i)
    then show ?thesis using word_strip [OF word_show_int [of i]] by (auto simp: show_int_def)
  qed (use assms in \<open>auto simp: json_quote_def strip_def lstrip_def rstrip_def is_space_def dropWhile_append\<close>)
qed

lemma parse_encode:
  assumes "value_fits sp v"
  obtains raw where "encode_typed sp v = Inr raw" "parse_typed sp (Some raw) = Inr (canonical_value v)"
proof (cases v)
  case (VStr s)
  with assms that show ?thesis
    by (auto simp: value_fits_def encode_typed_def parse_typed_def parse_present_def canonical_value_def)
next
  case (VBool b)
  have "lower (strip ''true'') = ''true''" "lower (strip ''false'') = ''false''" by code_simp+
  with VBool assms that show ?thesis
    by (cases b) (auto simp: value_fits_def encode_typed_def parse_typed_def parse_present_def
        canonical_value_def TRUTHY_def FALSY_def)
next
  case (VInt i)
  with assms that show ?thesis
    by (auto simp: value_fits_def encode_typed_def parse_typed_def parse_present_def
        canonical_value_def py_int_show_int)
next
  case (VJson j)
  then have "json_ok (sort_keys j)" using assms by (simp add: value_fits_def json_ok_sort_keys)
  then have "strip (json_dumps_sorted j) \<noteq> []" "json_loads (json_dumps_sorted j) = Inr (sort_keys j)"
    by (simp_all add: json_dumps_sorted_def dumps_not_blank json_loads_dumps_gen)
  then show ?thesis using VJson assms that
    by (auto simp: value_fits_def encode_typed_def parse_typed_def parse_present_def canonical_value_def)
qed

lemma typed_put:
  assumes "fernet_ok env" and "get_spec key = Some sp" and "value_fits sp v"
  shows "\<exists>db'. set_typed_setting_by_key env key v db = Inr db'
    \<and> get_typed_setting_by_key env db' key = Inr (canonical_value v)
    \<and> (\<forall>key'. key' \<noteq> key \<longrightarrow> get_typed_setting_by_key env db' key' = get_typed_setting_by_key env db key')"
proof -
  obtain raw where enc: "encode_typed sp v = Inr raw"
    and dec: "parse_typed sp (Some raw) = Inr (canonical_value v)"
    by (rule parse_encode [OF assms(3)])
  have key_of: "sp_key sp' = k" if "get_spec k = Some sp'" for k sp'
    using that by (auto simp: get_spec_def find_Some_iff)
  have "get_typed_setting_by_key env (set_setting env key raw db) key = Inr (canonical_value v)"
    using assms dec st.get_put key_of [OF assms(2)]
    by (simp add: get_typed_setting_by_key_def require_spec_def get_typed_setting_def)
  moreover have "get_typed_setting_by_key env (set_setting env key raw db) k
      = get_typed_setting_by_key env db k" if "k \<noteq> key" for k
    using that key_of [of k] st.get_put_other [of key k env raw db]
    by (auto simp: get_typed_setting_by_key_def require_spec_def get_typed_setting_def
        split: option.split)
  moreover have "set_typed_setting_by_key env key v db = Inr (set_setting env key raw db)"
    using assms enc key_of [OF assms(2)] by (simp add: set_typed_setting_by_key_def require_spec_def set_typed_setting_def)
  ultimately show ?thesis by blast
qed

text \<open>Several typed writes in a row, as the settings pages make them: the first error ends the
  sequence, the writes before it stay.\<close>

fun put_typed_all :: "env \<Rightarrow> (string \<times> setting_value) list \<Rightarrow> db \<Rightarrow> db res" where
  "put_typed_all env [] db = Inr db"
| "put_typed_all env ((key, v) # kvs) db =
     rbind (set_typed_setting_by_key env key v db) (put_typed_all env kvs)"

definition storable :: "string \<times> setting_value \<Rightarrow> bool" where
  "storable kv = (case get_spec (fst kv) of Some sp \<Rightarrow> value_fits sp (snd kv) | None \<Rightarrow> False)"

lemma put_typed_all_reads:
  assumes "fernet_ok env" "list_all storable kvs" "distinct (map fst kvs)"
  obtains db' where "put_typed_all env kvs db = Inr db'"
    "\<forall>(key, v) \<in> set kvs. get_typed_setting_by_key env db' key = Inr (canonical_value v)"
    "\<forall>key. key \<notin> fst ` set kvs \<longrightarrow> get_typed_setting_by_key env db' key = get_typed_setting_by_key env db key"
  using assms
proof (induction kvs arbitrary: db thesis)
  case Nil
  show ?case by (rule Nil.prems(1) [of db]) simp_all
next
  case (Cons kv kvs)
  obtain key v where kv: "kv = (key, v)" by (cases kv)
  obtain sp where sp: "get_spec key = Some sp" "value_fits sp v"
    using Cons.prems(3) kv by (auto simp: storable_def split: option.splits)
  obtain db1 where one: "set_typed_setting_by_key env key v db = Inr db1"
      "get_typed_setting_by_key env db1 key = Inr (canonical_value v)"
      "\<forall>key'. key' \<noteq> key \<longrightarrow> get_typed_setting_by_key env db1 key' = get_typed_setting_by_key env db key'"
    using typed_put [OF Cons.prems(2) sp, of db] by blast
  obtain db' where rest: "put_typed_all env kvs db1 = Inr db'"
    "\<forall>(key, v) \<in> set kvs. get_typed_setting_by_key env db' key = Inr (canonical_value v)"
    "\<forall>key. key \<notin> fst ` set kvs \<longrightarrow> get_typed_setting_by_key env db' key = get_typed_setting_by_key env db1 key"
    by (rule Cons.IH [of db1]) (use Cons.prems in auto)
  have "key \<notin> fst ` set kvs" using Cons.prems(4) kv by auto
  then show ?case using Cons.prems(1) [of db'] one rest kv by auto
qed

text \<open>
  C33. A value written under a registered key reads back, in a JSON value with the keys of every
  dict sorted, and every other key reads what it read before.
\<close>

theorem typed_setting_reads_back:
  assumes "fernet_ok env" and "get_spec key = Some sp" and "value_fits sp v"
  shows "\<exists>db'. set_typed_setting_by_key env key v db = Inr db'
    \<and> get_typed_setting_by_key env db' key = Inr (canonical_value v)
    \<and> (\<forall>key'. key' \<noteq> key \<longrightarrow> get_typed_setting_by_key env db' key' = get_typed_setting_by_key env db key')"
  using assms by (rule typed_put)

theorem typed_setting_reads_back_witness:
  "\<exists>db'. set_typed_setting_by_key demo_env ''smtp_port'' (VInt 25) empty_db = Inr db'
    \<and> get_typed_setting_by_key demo_env db' ''smtp_port'' = Inr (canonical_value (VInt 25))
    \<and> (\<forall>key'. key' \<noteq> ''smtp_port'' \<longrightarrow>
         get_typed_setting_by_key demo_env db' key' = get_typed_setting_by_key demo_env empty_db key')"
proof (rule typed_setting_reads_back)
  show "fernet_ok demo_env" by simp
  show "get_spec ''smtp_port'' =
      Some (setting_spec_of ''smtp_port'' TInt (Some ''587'') False ''smtp'' ''SMTP port.'')"
    by code_simp
  show "value_fits (setting_spec_of ''smtp_port'' TInt (Some ''587'') False ''smtp'' ''SMTP port.'') (VInt 25)"
    by (simp add: value_fits_def setting_spec_of_def small_nat_less [where k = 2])
qed

definition default_parses :: "setting_spec \<Rightarrow> bool" where
  "default_parses sp = (case parse_typed sp None of Inr _ \<Rightarrow> True | Inl _ \<Rightarrow> False)"

lemma find_key: "distinct (map g xs) \<Longrightarrow> x \<in> set xs \<Longrightarrow> List.find (\<lambda>y. g y = g x) xs = Some x"
  by (induction xs) auto

lemma default_parses_simps:
  "default_parses (setting_spec_of k TStr d s a t)"
  "default_parses (setting_spec_of k TJson None s a t)"
  "default_parses (setting_spec_of k TBool (Some x) s a t) \<longleftrightarrow> lower (strip x) \<in> set TRUTHY \<union> set FALSY"
  "default_parses (setting_spec_of k TInt (Some x) s a t) \<longleftrightarrow> py_int x \<noteq> None"
  "default_parses (setting_spec_of k TJson (Some x) s a t)
     \<longleftrightarrow> strip x = [] \<or> json_loads x \<noteq> Inl json_error"
  by (auto simp: default_parses_def parse_typed_def parse_present_def setting_spec_of_def Let_def
      json_loads_def split: option.split sum.split)

lemma default_texts:
  "json_loads ''[]'' \<noteq> Inl json_error"
  "lower (strip ''false'') \<in> set TRUTHY \<union> set FALSY"
  by code_simp+

lemma sign_not_digit [simp]: "\<not> is_digit CHR ''+''" "\<not> is_digit CHR ''-''"
  by (simp_all add: is_digit_def)

lemma py_int_digits: "list_all is_digit s \<Longrightarrow> s \<noteq> [] \<Longrightarrow> length s \<le> 4300 \<Longrightarrow> py_int s \<noteq> None"
  by (cases s) (auto simp: py_int_def strip_no_space list_all_iff digit_not_space unsigned_int_def
      us_ok_digits max_str_digits_def filter_id_conv [THEN iffD2] Let_def)

lemma default_ints:
  "list_all (\<lambda>x. py_int x \<noteq> None) [''587'', ''90'', ''1048576'', ''5'', ''10'', ''6514'', ''1000'']"
  by (simp add: py_int_digits is_digit_def del: not_None_eq)

lemma defaults_parse: "list_all default_parses SETTING_SPECS"
  using default_texts default_ints by (simp add: SETTING_SPECS_def default_parses_simps)

lemma keys_distinct: "distinct (map sp_key SETTING_SPECS)"
  by (simp add: SETTING_SPECS_def setting_spec_of_def)

text \<open>
  Every registered setting reads its default without an error when it has no row: the
  defaults of the registry all parse as their declared types.
\<close>

lemma defaults_read:
  assumes "sp \<in> set SETTING_SPECS" and "sp_key sp \<notin> st_name ` set (settings db)"
  shows "\<exists>v. parse_typed sp None = Inr v \<and> get_typed_setting_by_key env db (sp_key sp) = Inr v"
proof -
  have "get_spec (sp_key sp) = Some sp"
    using assms(1) keys_distinct by (simp add: get_spec_def find_key)
  moreover have "default_parses sp" using assms(1) defaults_parse by (simp add: list_all_iff)
  moreover have "get_setting env db (sp_key sp) = Inr None"
    using assms(2) by (simp add: get_setting_def first_row_not_name [THEN iffD2])
  ultimately show ?thesis
    by (auto simp: default_parses_def get_typed_setting_by_key_def require_spec_def
        get_typed_setting_def split: sum.splits)
qed

end
