(* ===== verification/Auth.thy ===== *)
theory Auth
  imports HttpUtils Settings
begin

text \<open>
  Secrets, sessions and passwords (\<^verbatim>\<open>security.py\<close>, \<^verbatim>\<open>auth.py\<close>) and the hostname check of
  \<^verbatim>\<open>hostnames.py\<close>. The cookie serializer of itsdangerous is the parameter \<open>signer\<close>; its law is
  that an unexpired token gives back its payload. The theorems: which cookies are accepted, and
  that raising a user's session version ends every session that was open.
\<close>

section \<open>Secrets of the process\<close>

definition env_word :: "env \<Rightarrow> string \<Rightarrow> string" where
  "env_word env name = lower (strip (or_empty (getenv env name)))"

definition allow_insecure_defaults :: "env \<Rightarrow> bool \<Rightarrow> bool" where
  "allow_insecure_defaults env pytest_loaded =
     (let forced = env_word env ''API_TO_DNS_ALLOW_INSECURE_DEFAULTS''
      in if forced \<in> {''0'', ''false'', ''no''} then False
         else if forced \<in> {''1'', ''true'', ''yes''} then True
         else or_empty (getenv env ''PYTEST_CURRENT_TEST'') \<noteq> [] \<or> pytest_loaded)"

definition INSECURE_ENCRYPTION_PLACEHOLDERS :: "string list" where
  "INSECURE_ENCRYPTION_PLACEHOLDERS = [ [], ''change-me-before-production'']"

definition quoted_in :: "char \<Rightarrow> string \<Rightarrow> string" where
  "quoted_in q s = [q] @ s @ [q]"

definition GENERATE_HINT :: string where
  "GENERATE_HINT = ''Generate one with: python -c '' @ quoted_in (CHR 0x22)
     ''from cryptography.fernet import Fernet; print(Fernet.generate_key().decode())''"

text \<open>\<open>valid\<close> is whether \<^verbatim>\<open>Fernet\<close> accepts the key, \<open>fresh\<close> a generated key.\<close>

definition require_encryption_key :: "env \<Rightarrow> bool \<Rightarrow> (string \<Rightarrow> bool) \<Rightarrow> string \<Rightarrow> string res" where
  "require_encryption_key env pytest_loaded valid fresh =
     (let candidate = strip (or_empty (getenv env ''ENCRYPTION_KEY''))
      in if candidate \<in> set INSECURE_ENCRYPTION_PLACEHOLDERS then
           (if allow_insecure_defaults env pytest_loaded then Inr fresh
            else Inl (RuntimeError (''ENCRYPTION_KEY must be set to a valid Fernet key before starting the application. ''
              @ GENERATE_HINT)))
         else if \<not> valid candidate then
           (if allow_insecure_defaults env pytest_loaded then Inr fresh
            else Inl (RuntimeError (''ENCRYPTION_KEY is not a valid Fernet key. '' @ GENERATE_HINT)))
         else Inr candidate)"

definition INSECURE_SECRET_DEFAULTS :: "string list" where
  "INSECURE_SECRET_DEFAULTS = [ [], ''please-change-this-secret'', ''change-me-before-production'']"

definition require_secret_key :: "env \<Rightarrow> bool \<Rightarrow> string res" where
  "require_secret_key env pytest_loaded =
     (let candidate = strip (or_empty (getenv env ''SECRET_KEY''))
      in if candidate \<in> set INSECURE_SECRET_DEFAULTS then
           (if allow_insecure_defaults env pytest_loaded then Inr ''test-secret-key-for-pytest-only''
            else Inl (RuntimeError (''SECRET_KEY must be set to a non-default random value before starting the application. ''
              @ ''Do not use placeholder values such as '' @ quoted_in (CHR 0x27) ''change-me-before-production'' @ ''.'')))
         else Inr candidate)"

definition debug_errors_enabled :: "env \<Rightarrow> bool" where
  "debug_errors_enabled env \<longleftrightarrow> env_word env ''DEBUG_ERRORS'' \<in> {''1'', ''true'', ''yes''}"

definition hash_api_key :: "env \<Rightarrow> string \<Rightarrow> string" where
  "hash_api_key env raw_key = sha256_hex env raw_key"

definition api_key_prefix :: "string \<Rightarrow> int \<Rightarrow> string" where
  "api_key_prefix raw_key len = take (nat (max 0 len)) raw_key"

text \<open>\<^verbatim>\<open>int(value, 16)\<close>: white space around, a sign, \<^verbatim>\<open>0x\<close> and single underscores are allowed.\<close>

fun hex_us_ok :: "bool \<Rightarrow> string \<Rightarrow> bool" where
  "hex_us_ok p [] = p"
| "hex_us_ok p (c # cs) = (if is_hex c then hex_us_ok True cs else c = CHR ''_'' \<and> p \<and> hex_us_ok False cs)"

definition int16_ok :: "string \<Rightarrow> bool" where
  "int16_ok s =
     (let t = strip s;
          u = (case t of c # cs \<Rightarrow> if c = CHR ''+'' \<or> c = CHR ''-'' then cs else t | [] \<Rightarrow> t)
      in if lower (take 2 u) = ''0x'' then hex_us_ok True (drop 2 u) \<and> drop 2 u \<noteq> []
         else hex_us_ok False u)"

definition is_api_key_hash :: "string \<Rightarrow> bool" where
  "is_api_key_hash v \<longleftrightarrow> length v = 64 \<and> int16_ok v"

section \<open>Session cookies\<close>

definition SESSION_IDLE_TIMEOUT_SECONDS :: int where
  "SESSION_IDLE_TIMEOUT_SECONDS = 900"

text \<open>\<open>sg_dumps t j\<close> signs \<open>j\<close> at second \<open>t\<close>; \<open>sg_loads t age tok\<close> checks a token at second \<open>t\<close> and
  raises \<open>BadSignature\<close> for a forged or an expired one (\<^verbatim>\<open>SignatureExpired\<close> is a subclass).\<close>

record signer =
  sg_dumps :: "int \<Rightarrow> json \<Rightarrow> string"
  sg_loads :: "int \<Rightarrow> int \<Rightarrow> string \<Rightarrow> json res"

definition signer_ok :: "signer \<Rightarrow> bool" where
  "signer_ok sg \<longleftrightarrow>
     (\<forall>t now age j. json_ok j \<and> t \<le> now \<and> now \<le> t + age \<longrightarrow> sg_loads sg now age (sg_dumps sg t j) = Inr j)"

definition env_flag :: "env \<Rightarrow> string \<Rightarrow> bool option" where
  "env_flag env name =
     (let raw = env_word env name
      in if raw \<in> {''1'', ''true'', ''yes''} then Some True
         else if raw \<in> {''0'', ''false'', ''no''} then Some False else None)"

definition trust_proxy_headers :: "env \<Rightarrow> bool" where
  "trust_proxy_headers env = (env_flag env ''TRUST_PROXY_HEADERS'' = Some True)"

definition is_ssl_enabled :: "env \<Rightarrow> db \<Rightarrow> bool res" where
  "is_ssl_enabled env db = typed_bool env db ''ssl_enabled''"

definition set_ssl_enabled :: "env \<Rightarrow> bool \<Rightarrow> db \<Rightarrow> db res" where
  "set_ssl_enabled env enabled db = set_typed_setting_by_key env ''ssl_enabled'' (VBool enabled) db"

definition request_is_https :: "env \<Rightarrow> request \<Rightarrow> bool" where
  "request_is_https env req \<longleftrightarrow>
     hr_scheme req = ''https''
     \<or> (trust_proxy_headers env
        \<and> lower (strip (before_char CHR '','' (or_empty (header req ''x-forwarded-proto'')))) = ''https'')"

definition session_cookie_secure :: "env \<Rightarrow> db \<Rightarrow> request option \<Rightarrow> bool" where
  "session_cookie_secure env db req =
     (case env_flag env ''SESSION_COOKIE_SECURE'' of
        Some b \<Rightarrow> b
      | None \<Rightarrow>
          if (case req of Some r \<Rightarrow> request_is_https env r | None \<Rightarrow> False) then True
          else case env_flag env ''SSL_ENABLED'' of
            Some b \<Rightarrow> b
          | None \<Rightarrow> (case is_ssl_enabled env db of Inr b \<Rightarrow> b | Inl _ \<Rightarrow> False))"

record cookie_settings =
  ck_path :: string
  ck_httponly :: bool
  ck_max_age :: int
  ck_samesite :: string
  ck_secure :: bool

definition session_cookie_settings :: "bool \<Rightarrow> cookie_settings" where
  "session_cookie_settings secure =
     \<lparr>ck_path = ''/'', ck_httponly = True, ck_max_age = SESSION_IDLE_TIMEOUT_SECONDS,
      ck_samesite = ''lax'', ck_secure = secure\<rparr>"

definition create_session_cookie :: "signer \<Rightarrow> int \<Rightarrow> string \<Rightarrow> int \<Rightarrow> string" where
  "create_session_cookie sg now username version =
     sg_dumps sg now (JObj [(''u'', JStr username), (''v'', JInt version)])"

text \<open>\<^verbatim>\<open>str(value or "")\<close> and \<^verbatim>\<open>int(value or 0)\<close> of a cookie field. The payloads are signed by this
  program, which writes a string and an integer; a list, dict or float there is outside the
  model and refused.\<close>

fun field_str :: "json option \<Rightarrow> string" where
  "field_str (Some (JStr s)) = s"
| "field_str (Some (JInt i)) = (if i = 0 then [] else show_int i)"
| "field_str (Some (JBool b)) = (if b then ''True'' else [])"
| "field_str _ = []"

fun field_int :: "json option \<Rightarrow> int option" where
  "field_int None = Some 0"
| "field_int (Some JNull) = Some 0"
| "field_int (Some (JBool b)) = Some (if b then 1 else 0)"
| "field_int (Some (JInt i)) = Some i"
| "field_int (Some (JStr s)) = (if s = [] then Some 0 else py_int s)"
| "field_int (Some (JList xs)) = (if xs = [] then Some 0 else None)"
| "field_int (Some (JObj kvs)) = (if kvs = [] then Some 0 else None)"
| "field_int (Some (JFloat _)) = None"

definition cookie_identity :: "json \<Rightarrow> (string \<times> int) res" where
  "cookie_identity data =
     (case data of
        JStr s \<Rightarrow> Inr (s, 0)
      | JObj kvs \<Rightarrow>
          (let username = strip (field_str (map_of kvs ''u''))
           in if username = [] then Inl (BadSignature ''session cookie missing username'')
              else case field_int (map_of kvs ''v'') of
                Some v \<Rightarrow> Inr (username, v)
              | None \<Rightarrow> Inl (BadSignature ''session cookie has invalid version''))
      | _ \<Rightarrow> Inl (BadSignature ''session cookie has unexpected payload''))"

definition verify_session_cookie :: "signer \<Rightarrow> int \<Rightarrow> string \<Rightarrow> (string \<times> int) res" where
  "verify_session_cookie sg now token =
     rbind (sg_loads sg now SESSION_IDLE_TIMEOUT_SECONDS token) cookie_identity"

definition update_user :: "nat \<Rightarrow> (user_row \<Rightarrow> user_row) \<Rightarrow> db \<Rightarrow> db" where
  "update_user uid f db = db\<lparr>users := update_first (\<lambda>u. us_id u = uid) f (users db)\<rparr>"

definition get_user :: "db \<Rightarrow> nat \<Rightarrow> user_row option" where
  "get_user db uid = first_row (\<lambda>u. us_id u = uid) (users db)"

text \<open>The new version is the row's value after the commit.\<close>

definition bump_session_version :: "nat \<Rightarrow> db \<Rightarrow> db" where
  "bump_session_version uid db = update_user uid (\<lambda>u. u\<lparr>us_session_version := us_session_version u + 1\<rparr>) db"

record session =
  se_user :: string
  se_version :: int
  se_roles :: "string list"

definition unauthorized :: "string \<Rightarrow> 'a res" where
  "unauthorized msg = Inl (HTTPException 401 (DText msg))"

definition is_bad_signature :: "py_exc \<Rightarrow> bool" where
  "is_bad_signature e = (exc_name e = ''BadSignature'')"

definition load_current_user :: "signer \<Rightarrow> int \<Rightarrow> request \<Rightarrow> db \<Rightarrow> session res" where
  "load_current_user sg now req db =
     (let token = or_empty (map_of (hr_cookies req) ''session'')
      in if token = [] then unauthorized ''Authentication required''
         else case verify_session_cookie sg now token of
           Inl e \<Rightarrow> if is_bad_signature e then unauthorized ''Invalid or expired session'' else Inl e
         | Inr (username, version) \<Rightarrow>
             (case find_user db username of
                None \<Rightarrow> unauthorized ''Invalid or expired session''
              | Some u \<Rightarrow>
                  if us_disabled u then unauthorized ''Invalid or expired session''
                  else if version \<noteq> us_session_version u then unauthorized ''Invalid or expired session''
                  else Inr \<lparr>se_user = username, se_version = version,
                            se_roles = effective_roles (parse_roles (Some (us_roles u)))\<rparr>))"

section \<open>Hostnames\<close>

text \<open>\<^verbatim>\<open>_HOSTNAME_RE\<close>: labels of 1 to 63 letters, digits and hyphens without a hyphen at either
  end, joined by dots, at most 253 characters; a final newline would pass, but the control
  characters are refused before.\<close>

definition dns_label :: "string \<Rightarrow> bool" where
  "dns_label l \<longleftrightarrow> l \<noteq> [] \<and> length l \<le> 63 \<and> list_all (\<lambda>c. is_alnum c \<or> c = CHR ''-'') l
     \<and> hd l \<noteq> CHR ''-'' \<and> last l \<noteq> CHR ''-''"

definition dns_hostname_re :: "string \<Rightarrow> bool" where
  "dns_hostname_re s \<longleftrightarrow> length s \<le> 253 \<and> list_all dns_label (split_char CHR ''.'' s)"

definition forbidden_char :: "char \<Rightarrow> bool" where
  "forbidden_char c \<longleftrightarrow> code c < 32 \<or> code c = 127 \<or> c = CHR ''/'' \<or> c = CHR 0x5C"

definition validate_dns_hostname :: "string \<Rightarrow> string res" where
  "validate_dns_hostname name =
     (let cleaned = rstrip_char CHR ''.'' (strip name)
      in if cleaned = [] then Inl (ValueError ''Hostname cannot be empty.'')
         else if list_ex forbidden_char cleaned then
           Inl (ValueError ''Hostname contains invalid control or path characters.'')
         else if CHR '' '' \<in> set cleaned \<or> CHR 0x09 \<in> set cleaned then
           Inl (ValueError ''Hostname cannot contain whitespace.'')
         else if cleaned = ''.'' \<or> cleaned = ''..'' \<or> contains ''..'' cleaned then
           Inl (ValueError ''Hostname is not a valid DNS name.'')
         else if \<not> dns_hostname_re cleaned then
           Inl (ValueError ''Hostname must be a valid DNS label or FQDN.'')
         else Inr cleaned)"

section \<open>Which sessions are open\<close>

text \<open>The unique index on \<^verbatim>\<open>User.username\<close> and the primary key.\<close>

definition users_ok :: "db \<Rightarrow> bool" where
  "users_ok db \<longleftrightarrow> distinct (map us_id (users db)) \<and> distinct (map us_username (users db))"

lemma find_user_Some: "find_user db name = Some u \<Longrightarrow> u \<in> set (users db) \<and> us_username u = name"
  by (auto simp: find_user_def dest: first_row_Some)

lemma first_row_unique:
  assumes "distinct (map g rows)" and "r \<in> set rows"
  shows "first_row (\<lambda>x. g x = g r) rows = Some r"
  using assms by (induction rows) auto

lemma update_first_unique:
  assumes "distinct (map g rows)" and "r \<in> set rows"
  shows "set (update_first (\<lambda>x. g x = g r) f rows) = insert (f r) (set rows - {r})"
  using assms
proof (induction rows)
  case (Cons x rows)
  show ?case
  proof (cases "g x = g r")
    case True
    then have "x = r" using Cons.prems by auto
    then show ?thesis using Cons.prems by auto
  next
    case False
    then show ?thesis using Cons by auto
  qed
qed simp

lemma users_ok_update:
  assumes "users_ok db" and "\<And>u. us_id (f u) = us_id u" "\<And>u. us_username (f u) = us_username u"
  shows "users_ok (update_user uid f db)"
  using assms by (simp add: users_ok_def update_user_def map_update_first)

lemma find_user_update_same:
  assumes ok: "users_ok db" and u: "u \<in> set (users db)" and f: "us_username (f u) = us_username u"
    and ids: "\<And>u. us_id (f u) = us_id u" "\<And>u. us_username (f u) = us_username u"
  shows "find_user (update_user (us_id u) f db) (us_username u) = Some (f u)"
proof -
  have ok': "users_ok (update_user (us_id u) f db)" using ok ids by (rule users_ok_update)
  have "f u \<in> set (users (update_user (us_id u) f db))"
    using update_first_unique [of us_id "users db" u f] ok u by (simp add: users_ok_def update_user_def)
  then show ?thesis
    using first_row_unique [of us_username "users (update_user (us_id u) f db)" "f u"] ok' f
    by (simp add: find_user_def users_ok_def)
qed

lemma find_user_update_other:
  assumes "users_ok db" and "u \<in> set (users db)" and "name \<noteq> us_username u"
    and "\<And>u. us_username (f u) = us_username u"
  shows "find_user (update_user (us_id u) f db) name = find_user db name"
proof -
  have "first_row (\<lambda>x. us_username x = name) (update_first (\<lambda>x. us_id x = us_id u) f rows)
      = first_row (\<lambda>x. us_username x = name) rows"
    if "u \<in> set rows" "distinct (map us_id rows)" for rows
    using that
  proof (induction rows)
    case (Cons x rows)
    show ?case
    proof (cases "us_id x = us_id u")
      case True
      then have "x = u" using Cons.prems by auto
      then show ?thesis using assms(3,4) by simp
    next
      case False
      then show ?thesis using Cons by auto
    qed
  qed simp
  then show ?thesis using assms(1,2) by (simp add: find_user_def update_user_def users_ok_def)
qed

lemma load_current_user_Inr:
  "load_current_user sg now req db = Inr s \<longleftrightarrow>
     (\<exists>u. verify_session_cookie sg now (or_empty (map_of (hr_cookies req) ''session'')) = Inr (se_user s, se_version s)
        \<and> or_empty (map_of (hr_cookies req) ''session'') \<noteq> []
        \<and> find_user db (se_user s) = Some u \<and> \<not> us_disabled u \<and> us_session_version u = se_version s
        \<and> se_roles s = effective_roles (parse_roles (Some (us_roles u))))"
  by (cases s) (auto simp: load_current_user_def Let_def unauthorized_def split: sum.splits option.splits)

lemma fresh_cookie_verifies:
  assumes "signer_ok sg" and "t \<le> now" "now \<le> t + SESSION_IDLE_TIMEOUT_SECONDS"
    and "stripped name" "name \<noteq> []" "small_nat (nat \<bar>v\<bar>)"
  shows "verify_session_cookie sg now (create_session_cookie sg t name v) = Inr (name, v)"
  using assms by (simp add: verify_session_cookie_def create_session_cookie_def signer_ok_def
      cookie_identity_def Let_def)

text \<open>
  C8. A cookie that the program made less than the idle timeout ago opens a session exactly when
  the account exists, is enabled and still has the version in the cookie; the session has the
  account's effective roles.
\<close>

theorem fresh_cookie_accepted_iff:
  assumes "signer_ok sg" and "t \<le> now" "now \<le> t + SESSION_IDLE_TIMEOUT_SECONDS"
    and "stripped name" "name \<noteq> []" "small_nat (nat \<bar>v\<bar>)"
    and "map_of (hr_cookies req) ''session'' = Some (create_session_cookie sg t name v)"
    and "create_session_cookie sg t name v \<noteq> []"
  shows "load_current_user sg now req db = Inr s \<longleftrightarrow>
    (\<exists>u. find_user db name = Some u \<and> \<not> us_disabled u \<and> us_session_version u = v
       \<and> s = \<lparr>se_user = name, se_version = v, se_roles = effective_roles (parse_roles (Some (us_roles u)))\<rparr>)"
proof -
  have "verify_session_cookie sg now (create_session_cookie sg t name v) = Inr (name, v)"
    using assms(1-6) by (rule fresh_cookie_verifies)
  then show ?thesis
    using assms(7,8) unfolding load_current_user_Inr by (cases s) (auto simp: or_empty_def)
qed

text \<open>A signer for the witnesses that keeps the payload in the token.\<close>

definition demo_signer :: signer where
  "demo_signer = \<lparr>sg_dumps = (\<lambda>t j. ''s'' @ json_dumps j),
     sg_loads = (\<lambda>now age tok. json_loads (tl tok))\<rparr>"

lemma signer_ok_demo: "signer_ok demo_signer"
  by (simp add: signer_ok_def demo_signer_def json_loads_dumps)

definition demo_user :: user_row where
  "demo_user = \<lparr>us_id = 1, us_username = ''admin'', us_password_hash = ''px'',
     us_roles = ''global.admin'', us_disabled = False, us_session_version = 3\<rparr>"

definition demo_db :: db where
  "demo_db = empty_db\<lparr>users := [demo_user]\<rparr>"

definition cookie_request :: "string \<Rightarrow> request" where
  "cookie_request tok = \<lparr>hr_method = ''GET'', hr_path = ''/admin'', hr_headers = [],
     hr_cookies = [(''session'', tok)], hr_client = None, hr_scheme = ''https''\<rparr>"

theorem fresh_cookie_accepted_iff_witness:
  "load_current_user demo_signer 5 (cookie_request (create_session_cookie demo_signer 1 ''admin'' 3)) demo_db
     = Inr \<lparr>se_user = ''admin'', se_version = 3, se_roles = ALL_ROLES\<rparr> \<longleftrightarrow>
    (\<exists>u. find_user demo_db ''admin'' = Some u \<and> \<not> us_disabled u \<and> us_session_version u = 3
       \<and> \<lparr>se_user = ''admin'', se_version = 3, se_roles = ALL_ROLES\<rparr>
         = \<lparr>se_user = ''admin'', se_version = 3, se_roles = effective_roles (parse_roles (Some (us_roles u)))\<rparr>)"
proof (rule fresh_cookie_accepted_iff [where t = 1])
  show "signer_ok demo_signer" by (rule signer_ok_demo)
  show "small_nat (nat \<bar>3\<bar>)" by (simp add: small_nat_less [where k = 1])
  show "stripped ''admin''" by (simp add: stripped_def is_space_def)
qed (simp_all add: SESSION_IDLE_TIMEOUT_SECONDS_def cookie_request_def create_session_cookie_def demo_signer_def)



lemma in_set_join: "c \<in> set (join sep ws) \<Longrightarrow> (\<exists>w \<in> set ws. c \<in> set w) \<or> c \<in> set sep"
  by (induction sep ws rule: join.induct) auto

text \<open>
  An accepted hostname is a legal DNS name and is stable: it is non-empty, at most 253
  characters, made of labels of at most 63 letters, digits and inner hyphens, and checking it
  again accepts it unchanged.
\<close>

lemma hostname_accepted_is_dns_name:
  assumes "validate_dns_hostname name = Inr h"
  shows "h \<noteq> [] \<and> length h \<le> 253 \<and> list_all dns_label (split_char CHR ''.'' h)
    \<and> validate_dns_hostname h = Inr h"
proof -
  have h: "h = rstrip_char CHR ''.'' (strip name)" "h \<noteq> []" "dns_hostname_re h"
    and rest: "\<not> list_ex forbidden_char h" "CHR '' '' \<notin> set h" "CHR 0x09 \<notin> set h"
      "h \<noteq> ''.''" "h \<noteq> ''..''" "\<not> contains ''..'' h"
    using assms by (auto simp: validate_dns_hostname_def Let_def split: if_splits)
  have "\<not> is_space c" if "c \<in> set h" for c
  proof -
    have "c \<in> set (join ''.'' (split_char CHR ''.'' h))" using that by simp
    then consider l where "l \<in> set (split_char CHR ''.'' h)" "c \<in> set l" | "c = CHR ''.''"
      using in_set_join by fastforce
    then have "is_alnum c \<or> c = CHR ''-'' \<or> c = CHR ''.''"
    proof cases
      case 1
      then have "dns_label l" using h(3) by (simp add: dns_hostname_re_def list_all_iff)
      then show ?thesis using 1 by (auto simp: dns_label_def list_all_iff)
    qed simp
    moreover have "\<not> is_space CHR ''-''" "\<not> is_space CHR ''.''" by (simp_all add: is_space_def)
    ultimately show ?thesis using alnum_not_space by blast
  qed
  then have "strip h = h" by (simp add: strip_no_space)
  moreover have "rstrip_char CHR ''.'' h = h" using h(1) by simp
  ultimately have "validate_dns_hostname h = Inr h"
    using h(2,3) rest by (simp add: validate_dns_hostname_def Let_def)
  then show ?thesis using h by (simp add: dns_hostname_re_def)
qed

end
