(* ===== verification/RateLimit.thy ===== *)
theory RateLimit
  imports Auth
begin

text \<open>
  The rate limiter of \<^verbatim>\<open>rate_limit.py\<close>: which bucket a request falls in, the upsert that counts it
  and the attempts around it. The main theorem counts exactly: in a bucket, the first
  \<open>max_requests\<close> requests of a window pass and every further one is refused. A second theorem
  shows what follows from hashing the unchecked API key into the bucket.
\<close>

section \<open>Limits and routes\<close>

type_synonym limits = "(string \<times> (int \<times> int)) list"

definition BROWSER_ROUTE :: string where "BROWSER_ROUTE = ''/zones/*/records''"

definition DEFAULT_LIMITS :: limits where
  "DEFAULT_LIMITS =
     [(''/login'', (20, 60)), (''/keycheck'', (60, 60)), (''/dns-record'', (180, 60)),
      (BROWSER_ROUTE, (60, 60))]"

definition LIMIT_VARIABLES :: "(string \<times> string) list" where
  "LIMIT_VARIABLES =
     [(''RATE_LIMIT_LOGIN'', ''/login''), (''RATE_LIMIT_KEYCHECK'', ''/keycheck''),
      (''RATE_LIMIT_DNS_RECORD'', ''/dns-record''), (''RATE_LIMIT_DNS_BROWSER'', BROWSER_ROUTE)]"

definition parse_limit :: "string \<Rightarrow> (int \<times> int) option" where
  "parse_limit raw =
     (if raw = [] \<or> CHR '':'' \<notin> set raw then None
      else case (py_int (before_char CHR '':'' raw), py_int (after_char CHR '':'' raw)) of
        (Some c, Some w) \<Rightarrow> Some (max 1 c, max 1 w)
      | _ \<Rightarrow> None)"

definition limits_of :: "env \<Rightarrow> limits" where
  "limits_of env =
     fold (\<lambda>(var, path) ls. case parse_limit (strip (or_empty (getenv env var))) of
             Some rule \<Rightarrow> AList.update path rule ls
           | None \<Rightarrow> ls) LIMIT_VARIABLES DEFAULT_LIMITS"

definition is_dns_browser_path :: "string \<Rightarrow> bool" where
  "is_dns_browser_path path =
     (case filter (\<lambda>p. p \<noteq> []) (split_char CHR ''/'' path) of
        [a, _, c] \<Rightarrow> a = ''zones'' \<and> c = ''records''
      | [a, _, c, d] \<Rightarrow> a = ''zones'' \<and> c = ''records'' \<and> d = ''search''
      | _ \<Rightarrow> False)"

definition match_route :: "string \<Rightarrow> limits \<Rightarrow> (string \<times> (int \<times> int)) option" where
  "match_route path ls =
     (case (if is_dns_browser_path path then map_of ls BROWSER_ROUTE else None) of
        Some rule \<Rightarrow> Some (BROWSER_ROUTE, rule)
      | None \<Rightarrow> List.find (\<lambda>(prefix, _). prefix \<noteq> BROWSER_ROUTE
          \<and> (path = prefix \<or> startswith (prefix @ ''/'') path)) ls)"

section \<open>Identity\<close>

definition client_identity :: "request \<Rightarrow> string" where
  "client_identity req = ''ip:'' @ (case hr_client req of Some h \<Rightarrow> h | None \<Rightarrow> ''unknown'')"

definition identity_hash :: "env \<Rightarrow> signer \<Rightarrow> int \<Rightarrow> request \<Rightarrow> string" where
  "identity_hash env sg now req =
     (if is_dns_browser_path (hr_path req) then
        (let token = or_empty (map_of (hr_cookies req) ''session'')
         in if token = [] then client_identity req
            else case verify_session_cookie sg now token of
              Inr (username, _) \<Rightarrow> ''session:'' @ lower (strip username)
            | Inl _ \<Rightarrow> client_identity req)
      else
        (let api_key = or_empty (api_key_from_headers (header req ''x-api-key'') (header req ''authorization''))
         in if api_key \<noteq> [] then ''key:'' @ sha256_hex env api_key else client_identity req))"

section \<open>Counting\<close>

definition is_transient_sqlite_lock :: "string \<Rightarrow> bool" where
  "is_transient_sqlite_lock message \<longleftrightarrow>
     contains ''database is locked'' (lower message) \<or> contains ''database is busy'' (lower message)"

text \<open>What happens to one attempt: it runs (with or without the random cleanup), or the database
  raises before the commit, which leaves the table as it was.\<close>

datatype attempt = Runs bool | OperationalError string | UnexpectedError

definition RATE_LIMIT_DB_LOCK_ATTEMPTS :: nat where "RATE_LIMIT_DB_LOCK_ATTEMPTS = 3"

definition maybe_cleanup_expired :: "bool \<Rightarrow> int \<Rightarrow> rate_limit_bucket list \<Rightarrow> rate_limit_bucket list" where
  "maybe_cleanup_expired run now bs = (if run then filter (\<lambda>b. \<not> rb_expires_at b < now) bs else bs)"

definition in_bucket :: "string \<Rightarrow> string \<Rightarrow> int \<Rightarrow> rate_limit_bucket \<Rightarrow> bool" where
  "in_bucket route identity start b \<longleftrightarrow>
     rb_route_prefix b = route \<and> rb_identity_hash b = identity \<and> rb_window_start b = start"

definition upsert_bucket ::
  "string \<Rightarrow> string \<Rightarrow> int \<Rightarrow> int \<Rightarrow> rate_limit_bucket list \<Rightarrow> rate_limit_bucket list" where
  "upsert_bucket route identity start expires bs =
     (case first_row (in_bucket route identity start) bs of
        Some _ \<Rightarrow> update_first (in_bucket route identity start) (\<lambda>b. b\<lparr>rb_count := rb_count b + 1\<rparr>) bs
      | None \<Rightarrow> bs @ [\<lparr>rb_id = next_id rb_id bs, rb_route_prefix = route, rb_identity_hash = identity,
                      rb_window_start = start, rb_count = 1, rb_expires_at = expires\<rparr>])"

definition bucket_count :: "string \<Rightarrow> string \<Rightarrow> int \<Rightarrow> rate_limit_bucket list \<Rightarrow> int option" where
  "bucket_count route identity start bs =
     map_option rb_count (first_row (in_bucket route identity start) bs)"

fun attempts ::
  "nat \<Rightarrow> attempt list \<Rightarrow> (bool \<Rightarrow> bool \<times> rate_limit_bucket list) \<Rightarrow> rate_limit_bucket list
     \<Rightarrow> bool \<times> rate_limit_bucket list" where
  "attempts 0 outcomes count bs = (True, bs)"
| "attempts (Suc n) outcomes count bs =
     (case (case outcomes of a # _ \<Rightarrow> a | [] \<Rightarrow> Runs False) of
        Runs cleanup \<Rightarrow> count cleanup
      | OperationalError m \<Rightarrow>
          if is_transient_sqlite_lock m \<and> 0 < n then attempts n (tl outcomes) count bs else (True, bs)
      | UnexpectedError \<Rightarrow> (True, bs))"

definition count_request ::
  "string \<Rightarrow> int \<Rightarrow> int \<Rightarrow> string \<Rightarrow> int \<Rightarrow> rate_limit_bucket list \<Rightarrow> bool \<Rightarrow> bool \<times> rate_limit_bucket list" where
  "count_request route max_requests window identity now bs cleanup =
     (let start = now - now mod window;
          bs' = upsert_bucket route identity start (start + window) (maybe_cleanup_expired cleanup now bs);
          count = (case bucket_count route identity start bs' of Some c \<Rightarrow> c | None \<Rightarrow> 1)
      in (count > max_requests, bs'))"

definition rate_limit_exceeded ::
  "env \<Rightarrow> signer \<Rightarrow> request \<Rightarrow> int \<Rightarrow> attempt list \<Rightarrow> rate_limit_bucket list \<Rightarrow> bool \<times> rate_limit_bucket list" where
  "rate_limit_exceeded env sg req now outcomes bs =
     (if env_word env ''API_TO_DNS_DISABLE_RATE_LIMIT'' \<in> {''1'', ''true'', ''yes''} then (False, bs)
      else case match_route (hr_path req) (limits_of env) of
        None \<Rightarrow> (False, bs)
      | Some (route, max_requests, window) \<Rightarrow>
          attempts RATE_LIMIT_DB_LOCK_ATTEMPTS outcomes
            (count_request route max_requests window (identity_hash env sg now req) now bs) bs)"

text \<open>The refusal: plain text on the login page for a browser, an error object otherwise; the
  second field is the \<^verbatim>\<open>Retry-After\<close> header.\<close>

datatype rejection = JsonRejection int string "(string \<times> string) list" | TextRejection int string string

definition rate_limit_rejection_response :: "request \<Rightarrow> rejection" where
  "rate_limit_rejection_response req =
     (let message = ''Rate limit exceeded. Try again later.'';
          object = JsonRejection 429 ''60'' [(''error'', ''rate_limited''), (''message'', message)]
      in if wants_json_response req \<or> startswith ''/dns-record'' (hr_path req)
            \<or> hr_path req = ''/keycheck'' \<or> is_dns_browser_path (hr_path req) then object
         else if hr_path req = ''/login'' then TextRejection 429 ''60'' message
         else object)"

section \<open>Sequences of requests\<close>

text \<open>An event is a request, the second it arrives and whether the random cleanup runs; the
  database does not fail.\<close>

type_synonym event = "request \<times> int \<times> bool"

definition step :: "env \<Rightarrow> signer \<Rightarrow> event \<Rightarrow> rate_limit_bucket list \<Rightarrow> bool \<times> rate_limit_bucket list" where
  "step env sg e bs = (case e of (req, now, cleanup) \<Rightarrow> rate_limit_exceeded env sg req now [Runs cleanup] bs)"

definition table_after :: "env \<Rightarrow> signer \<Rightarrow> event list \<Rightarrow> rate_limit_bucket list" where
  "table_after env sg es = fold (\<lambda>e bs. snd (step env sg e bs)) es []"

text \<open>Whether the \<open>i\<close>-th request of a sequence that starts with an empty table is refused.\<close>

definition refused :: "env \<Rightarrow> signer \<Rightarrow> event list \<Rightarrow> nat \<Rightarrow> bool" where
  "refused env sg es i = fst (step env sg (es ! i) (table_after env sg (take i es)))"

definition arrival :: "event \<Rightarrow> int" where
  "arrival e = fst (snd e)"

text \<open>The bucket of an event: route, identity and window start.\<close>

definition bucket_of :: "env \<Rightarrow> signer \<Rightarrow> event \<Rightarrow> (string \<times> string \<times> int) option" where
  "bucket_of env sg e = (case e of (req, now, _) \<Rightarrow>
     (case match_route (hr_path req) (limits_of env) of
        None \<Rightarrow> None
      | Some (route, _, window) \<Rightarrow> Some (route, identity_hash env sg now req, now - now mod window)))"

definition limiter_on :: "env \<Rightarrow> bool" where
  "limiter_on env \<longleftrightarrow> env_word env ''API_TO_DNS_DISABLE_RATE_LIMIT'' \<notin> {''1'', ''true'', ''yes''}"

lemma limits_ok:
  "distinct (map fst (limits_of env)) \<and> (\<forall>(p, m, w) \<in> set (limits_of env). 1 \<le> m \<and> 1 \<le> w)"
proof -
  define upd where "upd = (\<lambda>(var, path) ls. case parse_limit (strip (or_empty (getenv env var))) of
             Some rule \<Rightarrow> AList.update path rule ls | None \<Rightarrow> (ls :: limits))"
  define ok where "ok ls \<longleftrightarrow> distinct (map fst ls) \<and> (\<forall>(p, m, w) \<in> set ls. 1 \<le> m \<and> 1 \<le> w)"
    for ls :: limits
  have rule: "1 \<le> m \<and> 1 \<le> w" if "parse_limit raw = Some (m, w)" for raw m w
    using that by (auto simp: parse_limit_def split: if_splits option.splits)
  have set_upd: "set (AList.update p r ls) \<subseteq> insert (p, r) (set ls)" for p r and ls :: limits
    by (induction ls) auto
  have "ok (upd vp ls)" if "ok ls" for vp ls
  proof (cases "parse_limit (strip (or_empty (getenv env (fst vp))))")
    case (Some r)
    then have "1 \<le> fst r \<and> 1 \<le> snd r" using rule [of _ "fst r" "snd r"] by simp
    then show ?thesis
      using that Some set_upd [of "snd vp" r ls]
      by (fastforce simp: ok_def upd_def case_prod_beta' distinct_update)
  qed (use that in \<open>simp add: upd_def case_prod_beta'\<close>)
  then have "ok (fold upd vps ls)" if "ok ls" for vps ls
    using that by (induction vps arbitrary: ls) auto
  moreover have "ok DEFAULT_LIMITS" by (simp add: ok_def DEFAULT_LIMITS_def BROWSER_ROUTE_def)
  ultimately show ?thesis by (simp add: limits_of_def ok_def upd_def)
qed

lemma match_route_rule:
  assumes "match_route path (limits_of env) = Some (route, rule)"
  shows "map_of (limits_of env) route = Some rule" and "1 \<le> fst rule" "1 \<le> snd rule"
proof -
  show *: "map_of (limits_of env) route = Some rule"
    using assms limits_ok [of env]
    by (auto simp: match_route_def find_Some_iff split: option.splits if_splits)
  then show "1 \<le> fst rule" "1 \<le> snd rule"
    using limits_ok [of env] by (auto dest!: map_of_SomeD)
qed

lemma bucket_count_upsert:
  "bucket_count route identity start (upsert_bucket r i s x bs) =
     (if (r, i, s) = (route, identity, start)
      then Some (case bucket_count route identity start bs of None \<Rightarrow> 1 | Some n \<Rightarrow> n + 1)
      else bucket_count route identity start bs)"
proof (cases "(r, i, s) = (route, identity, start)")
  case True
  then show ?thesis
    by (auto simp: bucket_count_def upsert_bucket_def first_row_append first_row_update_first
        in_bucket_def split: option.split)
next
  case False
  have "first_row (in_bucket route identity start)
          (update_first (in_bucket r i s) (\<lambda>b. b\<lparr>rb_count := rb_count b + 1\<rparr>) bs)
      = first_row (in_bucket route identity start) bs"
    by (rule first_row_update_other) (use False in \<open>auto simp: in_bucket_def\<close>)
  then show ?thesis using False
    by (auto simp: bucket_count_def upsert_bucket_def first_row_append in_bucket_def split: option.split)
qed

lemma first_row_filter: "(\<And>r. r \<in> set rows \<Longrightarrow> p r \<Longrightarrow> q r) \<Longrightarrow> first_row p (filter q rows) = first_row p rows"
  by (induction rows) auto

text \<open>The table invariant: a bucket expires when its window ends.\<close>

definition buckets_ok :: "env \<Rightarrow> rate_limit_bucket list \<Rightarrow> bool" where
  "buckets_ok env bs \<longleftrightarrow> (\<forall>b \<in> set bs. \<forall>m w. map_of (limits_of env) (rb_route_prefix b) = Some (m, w)
     \<longrightarrow> rb_expires_at b = rb_window_start b + w)"

lemma set_update_first: "set (update_first p f rows) \<subseteq> set rows \<union> f ` set rows"
  by (induction rows) auto

lemma buckets_ok_count:
  assumes "buckets_ok env bs" and "map_of (limits_of env) route = Some (m, w)"
  shows "buckets_ok env (snd (count_request route m w identity now bs cleanup))"
proof -
  have "buckets_ok env (maybe_cleanup_expired cleanup now bs)"
    using assms(1) by (auto simp: buckets_ok_def maybe_cleanup_expired_def)
  then show ?thesis
    using assms(2) set_update_first
    by (fastforce simp: count_request_def upsert_bucket_def Let_def buckets_ok_def split: option.splits)
qed

lemma count_cleanup:
  assumes "buckets_ok env bs" and "map_of (limits_of env) route = Some (m, w)" and "now \<le> start + w"
  shows "bucket_count route identity start (maybe_cleanup_expired cleanup now bs)
    = bucket_count route identity start bs"
  using assms
  by (auto simp: bucket_count_def maybe_cleanup_expired_def in_bucket_def buckets_ok_def
      intro!: arg_cong [where f = "map_option rb_count"] first_row_filter)

lemma step_cases:
  assumes "limiter_on env"
  obtains (unlimited) "bucket_of env sg e = None" "step env sg e bs = (False, bs)"
  | (limited) route m w identity cleanup where
      "bucket_of env sg e = Some (route, identity, arrival e - arrival e mod w)"
      "map_of (limits_of env) route = Some (m, w)" "1 \<le> m" "1 \<le> w"
      "match_route (hr_path (fst e)) (limits_of env) = Some (route, m, w)"
      "step env sg e bs = count_request route m w identity (arrival e) bs cleanup"
proof -
  obtain req now cleanup where e: "e = (req, now, cleanup)" by (cases e)
  show ?thesis
  proof (cases "match_route (hr_path req) (limits_of env)")
    case None
    then show ?thesis using unlimited assms
      by (simp add: e step_def rate_limit_exceeded_def bucket_of_def limiter_on_def)
  next
    case (Some rr)
    obtain route m w where rr: "rr = (route, m, w)" by (cases rr)
    show ?thesis
    proof (rule limited)
      show "step env sg e bs
          = count_request route m w (identity_hash env sg now req) (arrival e) bs cleanup"
        using assms Some rr
        by (simp add: e step_def rate_limit_exceeded_def limiter_on_def RATE_LIMIT_DB_LOCK_ATTEMPTS_def
            numeral_3_eq_3 arrival_def)
    qed (use Some rr match_route_rule [of "hr_path req" env route "(m, w)"]
      in \<open>simp_all add: e bucket_of_def arrival_def\<close>)
  qed
qed

definition earlier :: "env \<Rightarrow> signer \<Rightarrow> (string \<times> string \<times> int) \<Rightarrow> event list \<Rightarrow> nat" where
  "earlier env sg b es = length (filter (\<lambda>e. bucket_of env sg e = Some b) es)"

lemma table_counts:
  assumes on: "limiter_on env"
  shows "buckets_ok env (table_after env sg es)
    \<and> (\<forall>route m w identity start. map_of (limits_of env) route = Some (m, w)
         \<and> (\<forall>e \<in> set es. arrival e \<le> start + w) \<longrightarrow>
         bucket_count route identity start (table_after env sg es) =
           (let n = earlier env sg (route, identity, start) es in if n = 0 then None else Some (int n)))"
proof (induction es rule: rev_induct)
  case Nil
  then show ?case by (simp add: table_after_def buckets_ok_def bucket_count_def earlier_def)
next
  case (snoc e es)
  let ?bs = "table_after env sg es"
  have tab: "table_after env sg (es @ [e]) = snd (step env sg e ?bs)" by (simp add: table_after_def)
  show ?case
  proof (rule step_cases [OF on, of sg e ?bs], goal_cases unlimited limited)
    case unlimited
    then have "earlier env sg b (es @ [e]) = earlier env sg b es" for b by (simp add: earlier_def)
    moreover have "table_after env sg (es @ [e]) = ?bs" using unlimited(2) tab by simp
    ultimately show ?thesis using snoc by auto
  next
    case (limited r m w i cleanup)
    let ?s = "arrival e - arrival e mod w"
    have ok: "buckets_ok env (table_after env sg (es @ [e]))"
      using buckets_ok_count [of env ?bs r m w] snoc limited tab by simp
    moreover have "bucket_count route identity start (table_after env sg (es @ [e])) =
           (let n = earlier env sg (route, identity, start) (es @ [e]) in if n = 0 then None else Some (int n))"
      if rule: "map_of (limits_of env) route = Some (m', w')" and alive: "\<forall>x \<in> set (es @ [e]). arrival x \<le> start + w'"
      for route m' w' identity start
    proof -
      have "bucket_count route identity start (maybe_cleanup_expired cleanup (arrival e) ?bs)
          = bucket_count route identity start ?bs"
        using count_cleanup [of env ?bs route m' w'] snoc rule alive by simp
      also have "\<dots> = (let n = earlier env sg (route, identity, start) es in if n = 0 then None else Some (int n))"
        using snoc rule alive by auto
      finally have c: "bucket_count route identity start (maybe_cleanup_expired cleanup (arrival e) ?bs) = \<dots>" .
      have "bucket_count route identity start (table_after env sg (es @ [e]))
          = bucket_count route identity start
              (upsert_bucket r i ?s (?s + w) (maybe_cleanup_expired cleanup (arrival e) ?bs))"
        using tab limited(6) by (simp add: count_request_def Let_def)
      then show ?thesis
        using c limited(1) unfolding bucket_count_upsert by (auto simp: earlier_def Let_def)
    qed
    ultimately show ?thesis by blast
  qed
qed

lemma bucket_of_rule:
  assumes "bucket_of env sg e = Some (route, identity, start)"
  obtains m w where "map_of (limits_of env) route = Some (m, w)" "1 \<le> m" "1 \<le> w"
    "start = arrival e - arrival e mod w" "match_route (hr_path (fst e)) (limits_of env) = Some (route, m, w)"
proof -
  obtain req now cleanup where e: "e = (req, now, cleanup)" by (cases e)
  from assms obtain m w where mr: "match_route (hr_path req) (limits_of env) = Some (route, m, w)"
    and "start = now - now mod w"
    by (auto simp: e bucket_of_def split: option.splits)
  with match_route_rule [OF mr] show ?thesis using that by (auto simp: e arrival_def)
qed

lemma refused_iff:
  assumes on: "limiter_on env" and sorted: "sorted (map arrival es)" and i: "i < length es"
    and b: "bucket_of env sg (es ! i) = Some (route, identity, start)"
    and rule: "map_of (limits_of env) route = Some (m, w)"
  shows "refused env sg es i \<longleftrightarrow> m < int (earlier env sg (route, identity, start) (take i es)) + 1"
proof -
  obtain m' w' where *: "map_of (limits_of env) route = Some (m', w')" "1 \<le> w'"
      "start = arrival (es ! i) - arrival (es ! i) mod w'"
    by (rule bucket_of_rule [OF b]) auto
  have "arrival (es ! i) mod w' < w'" using *(2) by simp
  then have now: "arrival (es ! i) \<le> start + w" using *(1,3) rule by auto
  have le: "\<forall>e \<in> set (take i es). arrival e \<le> start + w"
  proof
    fix e assume "e \<in> set (take i es)"
    then obtain j where "j < i" "e = es ! j" by (auto simp: in_set_conv_nth)
    then have "arrival e \<le> arrival (es ! i)"
      using sorted i by (auto simp: sorted_iff_nth_mono_less)
    then show "arrival e \<le> start + w" using now by simp
  qed
  let ?bs = "table_after env sg (take i es)"
  have ok: "buckets_ok env ?bs"
    and c: "bucket_count route identity start ?bs =
      (let n = earlier env sg (route, identity, start) (take i es) in if n = 0 then None else Some (int n))"
    using table_counts [OF on, of sg "take i es"] rule le by blast+
  show ?thesis
  proof (rule step_cases [OF on, of sg "es ! i" ?bs], goal_cases unlimited limited)
    case unlimited
    then show ?thesis using b by simp
  next
    case (limited r m2 w2 i2 cleanup)
    then have eq: "r = route" "i2 = identity" "m2 = m" "w2 = w" "arrival (es ! i) - arrival (es ! i) mod w2 = start"
      using b rule by auto
    have "bucket_count route identity start (maybe_cleanup_expired cleanup (arrival (es ! i)) ?bs)
        = bucket_count route identity start ?bs"
      by (rule count_cleanup [OF ok rule now])
    then show ?thesis
      using limited(6) c eq
      by (auto simp: refused_def count_request_def Let_def bucket_count_upsert)
  qed
qed

text \<open>
  C9. The limiter counts exactly. In any sequence of requests in order of arrival, over any
  routes, identities and windows, with the random cleanup running whenever it likes, a request
  is refused exactly when at least \<open>max_requests\<close> earlier ones fell in the same bucket.
\<close>

theorem rate_limit_counts_exactly:
  assumes "limiter_on env" and "sorted (map arrival es)" and "i < length es"
    and "bucket_of env sg (es ! i) = Some (route, identity, start)"
    and "map_of (limits_of env) route = Some (max_requests, window)"
  shows "refused env sg es i \<longleftrightarrow>
    max_requests \<le> int (length (filter (\<lambda>e. bucket_of env sg e = Some (route, identity, start)) (take i es)))"
  using refused_iff [OF assms] unfolding earlier_def by linarith

definition login_event :: "int \<Rightarrow> event" where
  "login_event t = (\<lparr>hr_method = ''POST'', hr_path = ''/login'', hr_headers = [], hr_cookies = [],
     hr_client = Some ''192.0.2.1'', hr_scheme = ''https''\<rparr>, t, True)"

lemma demo_limits: "limits_of demo_env = DEFAULT_LIMITS" "limiter_on demo_env"
  by (simp_all add: limits_of_def LIMIT_VARIABLES_def demo_env_def or_empty_def parse_limit_def
      limiter_on_def env_word_def)

lemma bucket_of_login:
  "bucket_of demo_env demo_signer (login_event t) = Some (''/login'', ''ip:192.0.2.1'', t - t mod 60)"
proof -
  have "match_route ''/login'' DEFAULT_LIMITS = Some (''/login'', 20, 60)" by code_simp
  moreover have "identity_hash demo_env demo_signer t (fst (login_event t)) = ''ip:192.0.2.1''"
  proof -
    have "\<not> is_dns_browser_path ''/login''" by code_simp
    then show ?thesis
      by (simp add: identity_hash_def login_event_def header_def api_key_from_headers_def or_empty_def
          client_identity_def)
  qed
  ultimately show ?thesis by (simp add: bucket_of_def login_event_def demo_limits)
qed

theorem rate_limit_counts_exactly_witness:
  "refused demo_env demo_signer (replicate 21 (login_event 5)) 20 \<longleftrightarrow>
    (20 :: int) \<le> int (length (filter
       (\<lambda>e. bucket_of demo_env demo_signer e = Some (''/login'', ''ip:192.0.2.1'', 0))
       (take 20 (replicate 21 (login_event 5)))))"
proof (rule rate_limit_counts_exactly)
  show "limiter_on demo_env" by (rule demo_limits)
  show "sorted (map arrival (replicate 21 (login_event 5)))" by (simp add: sorted_replicate)
  show "bucket_of demo_env demo_signer (replicate 21 (login_event 5) ! 20)
      = Some (''/login'', ''ip:192.0.2.1'', 0)" by (simp add: bucket_of_login)
  show "map_of (limits_of demo_env) ''/login'' = Some (20, 60)"
    by (simp add: demo_limits DEFAULT_LIMITS_def)
qed simp

text \<open>
  Guessing API keys is not limited: when every request of a sequence carries an API key of
  its own in the \<^verbatim>\<open>X-API-Key\<close> header and the digests differ, none of them is refused, however
  many there are and on whatever limited API route, \<^verbatim>\<open>/keycheck\<close> included.
\<close>

lemma distinct_keys_never_limited:
  assumes "limiter_on env" and "sorted (map arrival es)" and "i < length es"
    and "\<forall>e \<in> set es. \<not> is_dns_browser_path (hr_path (fst e)) \<and> or_empty (header (fst e) ''x-api-key'') \<noteq> []"
    and "distinct (map (\<lambda>e. sha256_hex env (or_empty (header (fst e) ''x-api-key''))) es)"
  shows "\<not> refused env sg es i"
proof (cases "bucket_of env sg (es ! i)")
  case None
  show ?thesis
    by (rule step_cases [OF assms(1), of sg "es ! i" "table_after env sg (take i es)"])
       (use None in \<open>auto simp: refused_def\<close>)
next
  case (Some b)
  obtain route identity start where b: "b = (route, identity, start)" by (cases b)
  obtain m w where rule: "map_of (limits_of env) route = Some (m, w)" "1 \<le> m"
    by (rule bucket_of_rule [OF Some [unfolded b]]) auto
  have ident: "identity' = ''key:'' @ sha256_hex env (or_empty (header (fst e) ''x-api-key''))"
    if "e \<in> set es" "bucket_of env sg e = Some (route', identity', start')" for e route' identity' start'
  proof -
    have "identity_hash env sg (fst (snd e)) (fst e)
        = ''key:'' @ sha256_hex env (or_empty (header (fst e) ''x-api-key''))"
      using assms(4) that(1) by (auto simp: identity_hash_def api_key_from_headers_def)
    then show ?thesis using that(2) by (auto simp: bucket_of_def split: option.splits prod.splits)
  qed
  have "filter (\<lambda>e. bucket_of env sg e = Some b) (take i es) = []"
  proof -
    have "bucket_of env sg (es ! j) \<noteq> Some b" if "j < i" for j
    proof
      assume "bucket_of env sg (es ! j) = Some b"
      then have "sha256_hex env (or_empty (header (fst (es ! j)) ''x-api-key''))
          = sha256_hex env (or_empty (header (fst (es ! i)) ''x-api-key''))"
        using ident [of "es ! j"] ident [of "es ! i"] Some b assms(3) that by simp
      then show False using assms(3,5) that by (auto simp: distinct_conv_nth)
    qed
    then show ?thesis by (fastforce simp: filter_empty_conv in_set_conv_nth)
  qed
  then show ?thesis
    using refused_iff [OF assms(1-3) Some [unfolded b] rule(1)] rule(2) b by (simp add: earlier_def)
qed

definition keycheck_event :: "nat \<Rightarrow> event" where
  "keycheck_event n = (\<lparr>hr_method = ''GET'', hr_path = ''/keycheck'',
     hr_headers = [(''x-api-key'', replicate (Suc n) (CHR ''k''))], hr_cookies = [],
     hr_client = Some ''192.0.2.1'', hr_scheme = ''https''\<rparr>, 5, False)"

text \<open>
  The limiter fails closed: when every attempt raises, with a lock error or any other
  exception, a request on a limited route is refused and the table is unchanged.
\<close>

lemma rate_limit_fails_closed:
  assumes "limiter_on env" and "match_route (hr_path req) (limits_of env) \<noteq> None"
    and "length outcomes = RATE_LIMIT_DB_LOCK_ATTEMPTS" and "\<forall>a \<in> set outcomes. \<forall>c. a \<noteq> Runs c"
  shows "rate_limit_exceeded env sg req now outcomes bs = (True, bs)"
proof -
  have "attempts n as count bs = (True, bs)"
    if "length as = n" "\<forall>a \<in> set as. \<forall>c. a \<noteq> Runs c" for n as count
    using that
  proof (induction n arbitrary: as)
    case (Suc n)
    then obtain a as' where "as = a # as'" by (cases as) auto
    then show ?case using Suc by (cases a) auto
  qed simp
  then show ?thesis using assms by (auto simp: rate_limit_exceeded_def limiter_on_def split: option.split)
qed

end
