(* ===== verification/Csrf.thy ===== *)
theory Csrf
  imports Auth
begin

text \<open>
  The same-origin check of \<^verbatim>\<open>csrf.py\<close>, with the host part of \<^verbatim>\<open>urllib.parse.urlparse\<close> as Python
  3.12 computes it. The theorem says which requests with an Origin or a Referer pass.
\<close>

section \<open>The host part of a URL\<close>

definition scheme_char :: "char \<Rightarrow> bool" where
  "scheme_char c \<longleftrightarrow> is_alnum c \<or> c = CHR ''+'' \<or> c = CHR ''-'' \<or> c = CHR ''.''"

definition clean_url :: "string \<Rightarrow> string" where
  "clean_url url = filter (\<lambda>c. code c \<notin> {9, 10, 13}) (dropWhile (\<lambda>c. code c \<le> 32) url)"

definition after_scheme :: "string \<Rightarrow> string" where
  "after_scheme url =
     (let s = before_char CHR '':'' url
      in if CHR '':'' \<in> set url \<and> s \<noteq> [] \<and> (is_upper (hd s) \<or> is_lower (hd s)) \<and> list_all scheme_char s
         then after_char CHR '':'' url else url)"

definition bracket_host_ok :: "string \<Rightarrow> bool" where
  "bracket_host_ok h =
     (if startswith ''v'' h then
        (let t = tl h; x = takeWhile is_hex t
         in x \<noteq> [] \<and> startswith ''.'' (drop (length x) t) \<and> 1 < length (drop (length x) t))
      else (case ip_address h of Some (V6 _ _) \<Rightarrow> True | _ \<Rightarrow> False))"

definition netloc :: "string \<Rightarrow> string res" where
  "netloc url =
     (let u = after_scheme (clean_url url)
      in if \<not> startswith ''//'' u then Inr []
         else let n = takeWhile (\<lambda>c. c \<notin> {CHR ''/'', CHR ''?'', CHR ''#''}) (drop 2 u)
              in if (CHR ''['' \<in> set n) \<noteq> (CHR '']'' \<in> set n) then Inl (ValueError ''Invalid IPv6 URL'')
                 else if CHR ''['' \<in> set n
                   \<and> \<not> bracket_host_ok (before_char CHR '']'' (after_char CHR ''['' n))
                 then Inl (ValueError ''Invalid IPv6 URL'')
                 else Inr n)"

section \<open>The check\<close>

definition SAFE_METHODS :: "string list" where
  "SAFE_METHODS = [''GET'', ''HEAD'', ''OPTIONS'', ''TRACE'']"

definition EXEMPT_PREFIXES :: "string list" where
  "EXEMPT_PREFIXES = [''/.well-known/'', ''/static/'']"

definition relax_csrf_for_tests :: "env \<Rightarrow> bool" where
  "relax_csrf_for_tests env \<longleftrightarrow> env_word env ''API_TO_DNS_RELAX_CSRF'' \<in> {''1'', ''true'', ''yes''}"

definition host_matches :: "string \<Rightarrow> string \<Rightarrow> bool res" where
  "host_matches url host =
     (if url = [] \<or> host = [] then Inr False
      else map_res (\<lambda>n. lower n = lower host) (netloc url))"

definition request_uses_api_key :: "request \<Rightarrow> bool" where
  "request_uses_api_key req \<longleftrightarrow>
     or_empty (api_key_from_headers (header req ''x-api-key'') (header req ''authorization'')) \<noteq> []"

definition csrf_check_required :: "request \<Rightarrow> bool" where
  "csrf_check_required req \<longleftrightarrow>
     hr_method req \<notin> set SAFE_METHODS
     \<and> \<not> list_ex (\<lambda>p. startswith p (hr_path req)) EXEMPT_PREFIXES
     \<and> \<not> request_uses_api_key req"

definition csrf_origin_allowed :: "env \<Rightarrow> request \<Rightarrow> bool res" where
  "csrf_origin_allowed env req =
     (if \<not> csrf_check_required req then Inr True
      else let host = or_empty (header req ''host'');
               origin = or_empty (header req ''origin'');
               referer = or_empty (header req ''referer'')
           in if origin \<noteq> [] then host_matches origin host
              else if referer \<noteq> [] then host_matches referer host
              else Inr (relax_csrf_for_tests env))"

datatype csrf_rejection = CsrfJson int "(string \<times> string) list" | CsrfPage int string string string

definition csrf_rejection_response :: "request \<Rightarrow> csrf_rejection" where
  "csrf_rejection_response req =
     (let message = ''CSRF validation failed''
      in if wants_json_response req then
           CsrfJson 403 [(''error'', ''csrf_failed''), (''message'', message)]
         else CsrfPage 403 ''CSRF failed'' ''Request blocked'' message)"

section \<open>Which requests pass\<close>

definition plain_host :: "string \<Rightarrow> bool" where
  "plain_host h \<longleftrightarrow> list_all (\<lambda>c. 32 < code c \<and> c \<notin> set ''/?#[]'') h"

lemma filter_clean:
  assumes "plain_host h"
  shows "filter (\<lambda>c. code c \<noteq> 9 \<and> code c \<noteq> 10 \<and> code c \<noteq> 13) h = h"
  using assms unfolding plain_host_def list_all_iff by (intro filter_True) fastforce

lemma netloc_http:
  assumes scheme: "scheme = ''http'' \<or> scheme = ''https''" and h: "plain_host h"
    and path: "path = [] \<or> hd path = CHR ''/''"
  shows "netloc (scheme @ ''://'' @ h @ path) = Inr h"
proof -
  define p where "p = filter (\<lambda>c. code c \<notin> {9, 10, 13}) path"
  have p: "p = [] \<or> hd p = CHR ''/''" using path by (cases path) (auto simp: p_def)
  have "clean_url (scheme @ ''://'' @ h @ path) = scheme @ ''://'' @ h @ p"
    using scheme h by (auto simp: clean_url_def p_def filter_clean)
  moreover have "after_scheme (scheme @ ''://'' @ h @ p) = ''//'' @ h @ p"
    using scheme by (auto simp: after_scheme_def before_char_def after_char_def scheme_char_def
        is_alnum_def is_lower_def is_upper_def Let_def)
  moreover have "takeWhile (\<lambda>c. c \<notin> {CHR ''/'', CHR ''?'', CHR ''#''}) (h @ p) = h"
  proof -
    have "\<forall>c \<in> set h. c \<notin> {CHR ''/'', CHR ''?'', CHR ''#''}" using h by (auto simp: plain_host_def list_all_iff)
    then show ?thesis using p by (cases p) (auto simp: takeWhile_append2)
  qed
  moreover have "CHR ''['' \<notin> set h" "CHR '']'' \<notin> set h" using h by (auto simp: plain_host_def list_all_iff)
  ultimately show ?thesis by (simp add: netloc_def Let_def startswith_def)
qed

text \<open>
  C23. A request that must be checked and names its source, by Origin or else by Referer, as an
  http or https URL passes exactly when the source's host and port are those of the Host header,
  case apart; and when it names no source it passes only if the checks are relaxed for tests.
\<close>

theorem csrf_same_origin:
  assumes "csrf_check_required req"
    and "source = (if or_empty (header req ''origin'') \<noteq> [] then or_empty (header req ''origin'')
                   else or_empty (header req ''referer''))"
    and "source = [] \<or> (scheme = ''http'' \<or> scheme = ''https'') \<and> plain_host h
           \<and> (path = [] \<or> hd path = CHR ''/'') \<and> source = scheme @ ''://'' @ h @ path"
  shows "csrf_origin_allowed env req = Inr
    (if source = [] then relax_csrf_for_tests env
     else or_empty (header req ''host'') \<noteq> [] \<and> lower h = lower (or_empty (header req ''host'')))"
proof (cases "source = []")
  case True
  then show ?thesis using assms(1,2) by (auto simp: csrf_origin_allowed_def Let_def split: if_splits)
next
  case False
  then have "netloc source = Inr h" using assms(3) netloc_http by auto
  then have "host_matches source (or_empty (header req ''host''))
      = Inr (or_empty (header req ''host'') \<noteq> [] \<and> lower h = lower (or_empty (header req ''host'')))"
    using False by (simp add: host_matches_def)
  then show ?thesis
    using False assms(1,2) by (auto simp: csrf_origin_allowed_def Let_def split: if_splits)
qed

definition form_post :: "string \<Rightarrow> request" where
  "form_post origin = \<lparr>hr_method = ''POST'', hr_path = ''/settings/users'',
     hr_headers = [(''host'', ''dns.example''), (''origin'', origin)], hr_cookies = [],
     hr_client = None, hr_scheme = ''https''\<rparr>"

theorem csrf_same_origin_witness:
  "csrf_origin_allowed demo_env (form_post ''https://evil.example'') = Inr
    (if ''https://evil.example'' = [] then relax_csrf_for_tests demo_env
     else or_empty (header (form_post ''https://evil.example'') ''host'') \<noteq> []
       \<and> lower ''evil.example'' = lower (or_empty (header (form_post ''https://evil.example'') ''host'')))"
proof (rule csrf_same_origin)
  show "csrf_check_required (form_post ''https://evil.example'')"
    by (simp add: csrf_check_required_def form_post_def SAFE_METHODS_def EXEMPT_PREFIXES_def
        startswith_def request_uses_api_key_def api_key_from_headers_def header_def or_empty_def)
  show "''https://evil.example'' =
      (if or_empty (header (form_post ''https://evil.example'') ''origin'') \<noteq> []
       then or_empty (header (form_post ''https://evil.example'') ''origin'')
       else or_empty (header (form_post ''https://evil.example'') ''referer''))"
    by (simp add: form_post_def header_def or_empty_def)
  show "''https://evil.example'' = [] \<or> (''https'' = ''http'' \<or> ''https'' = ''https'')
      \<and> plain_host ''evil.example'' \<and> ([] = [] \<or> hd [] = CHR ''/'')
      \<and> ''https://evil.example'' = ''https'' @ ''://'' @ ''evil.example'' @ []"
    by (simp add: plain_host_def)
qed

end
