(* ===== verification/PyTime.thy ===== *)
theory PyTime
  imports PyText
begin

text \<open>
  The datetimes of the code: a naive UTC datetime is its number of microseconds since
  1970-01-01, and its text forms are those of \<^verbatim>\<open>isoformat\<close>, \<^verbatim>\<open>date().isoformat()\<close> and
  \<^verbatim>\<open>strftime\<close>. \<open>from_iso\<close> reads the forms that \<open>iso_format\<close> writes and the date alone; the
  other forms that \<^verbatim>\<open>datetime.fromisoformat\<close> accepts (week dates, offsets, the basic format) are
  never stored by the code and are refused here.
\<close>

definition seconds :: "int \<Rightarrow> int" where "seconds n = n * 1000000"
definition minutes :: "int \<Rightarrow> int" where "minutes n = seconds (60 * n)"
definition hours :: "int \<Rightarrow> int" where "hours n = minutes (60 * n)"
definition days :: "int \<Rightarrow> int" where "days n = hours (24 * n)"

lemmas duration_defs = seconds_def minutes_def hours_def days_def

text \<open>The civil date of a day number, in the proleptic Gregorian calendar.\<close>

definition civil :: "int \<Rightarrow> int \<times> int \<times> int" where
  "civil z =
     (let z' = z + 719468; era = z' div 146097; doe = z' mod 146097;
          yoe = (doe - doe div 1460 + doe div 36524 - doe div 146096) div 365;
          doy = doe - (365 * yoe + yoe div 4 - yoe div 100);
          mp = (5 * doy + 2) div 153; d = doy - (153 * mp + 2) div 5 + 1;
          m = (if mp < 10 then mp + 3 else mp - 9)
      in (yoe + era * 400 + (if m \<le> 2 then 1 else 0), m, d))"

definition day_number :: "int \<Rightarrow> int \<Rightarrow> int \<Rightarrow> int" where
  "day_number y m d =
     (let y' = (if m \<le> 2 then y - 1 else y); era = y' div 400; yoe = y' mod 400;
          mp = (if 2 < m then m - 3 else m + 9); doy = (153 * mp + 2) div 5 + d - 1;
          doe = yoe * 365 + yoe div 4 - yoe div 100 + doy
      in era * 146097 + doe - 719468)"

definition pad :: "nat \<Rightarrow> int \<Rightarrow> string" where
  "pad k n = (let s = show_int n in replicate (k - length s) CHR ''0'' @ s)"

definition iso_date :: "int \<Rightarrow> string" where
  "iso_date t = (case civil (t div 86400000000) of (y, m, d) \<Rightarrow>
     pad 4 y @ ''-'' @ pad 2 m @ ''-'' @ pad 2 d)"

definition clock_hm :: "int \<Rightarrow> string" where
  "clock_hm t =
     (let s = (t mod 86400000000) div 1000000 in pad 2 (s div 3600) @ '':'' @ pad 2 (s div 60 mod 60))"

definition iso_format :: "int \<Rightarrow> string" where
  "iso_format t =
     (let s = (t mod 86400000000) div 1000000; us = t mod 1000000
      in iso_date t @ ''T'' @ clock_hm t @ '':'' @ pad 2 (s mod 60)
         @ (if us = 0 then [] else ''.'' @ pad 6 us))"

definition days_in_month :: "int \<Rightarrow> int \<Rightarrow> int" where
  "days_in_month y m =
     (if m = 2 then (if (y mod 4 = 0 \<and> y mod 100 \<noteq> 0) \<or> y mod 400 = 0 then 29 else 28)
      else if m \<in> {4, 6, 9, 11} then 30 else 31)"

definition num_at :: "nat \<Rightarrow> nat \<Rightarrow> string \<Rightarrow> int option" where
  "num_at i k s =
     (let w = take k (drop i s)
      in if length w = k \<and> list_all is_digit w then Some (int (digits_val w)) else None)"

definition iso_day :: "string \<Rightarrow> int option" where
  "iso_day s =
     (case (num_at 0 4 s, num_at 5 2 s, num_at 8 2 s) of
        (Some y, Some m, Some d) \<Rightarrow>
          if s ! 4 = CHR ''-'' \<and> s ! 7 = CHR ''-'' \<and> 1 \<le> y \<and> 1 \<le> m \<and> m \<le> 12
             \<and> 1 \<le> d \<and> d \<le> days_in_month y m
          then Some (day_number y m d) else None
      | _ \<Rightarrow> None)"

definition iso_time :: "string \<Rightarrow> int option" where
  "iso_time s =
     (case (num_at 11 2 s, num_at 14 2 s, num_at 17 2 s) of
        (Some h, Some m, Some sec) \<Rightarrow>
          if s ! 13 = CHR '':'' \<and> s ! 16 = CHR '':'' \<and> h < 24 \<and> m < 60 \<and> sec < 60
          then (if length s = 19 then Some (seconds (3600 * h + 60 * m + sec))
                else case num_at 20 6 s of
                       Some us \<Rightarrow> if s ! 19 = CHR ''.'' \<and> length s = 26
                         then Some (seconds (3600 * h + 60 * m + sec) + us) else None
                     | None \<Rightarrow> None)
          else None
      | _ \<Rightarrow> None)"

definition from_iso :: "string \<Rightarrow> int option" where
  "from_iso s =
     (if length s < 10 then None
      else case iso_day s of
        None \<Rightarrow> None
      | Some d \<Rightarrow>
          if length s = 10 then Some (d * 86400000000)
          else map_option (\<lambda>t. d * 86400000000 + t) (iso_time s))"

lemma civil_examples:
  "civil 19782 = (2024, 2, 29)" "day_number 2024 2 29 = 19782" "civil 0 = (1970, 1, 1)"
  by code_simp+

end
