(* ===== verification/Restart.thy ===== *)
theory Restart
  imports Settings PyTime
begin

text \<open>
  The restart flags of \<^verbatim>\<open>restart.py\<close>: the visible "restart required" flag with its reason, the
  pending renewal flag, the policy that chooses between them and the once-a-day gate of the
  scheduled restart. The signal that ends the process and the URL preview are not modelled.
\<close>

definition SETTING_RESTART_REQUIRED :: string where
  "SETTING_RESTART_REQUIRED = ''restart_required''"
definition SETTING_RESTART_REASON :: string where
  "SETTING_RESTART_REASON = ''restart_reason''"
definition SETTING_LAST_SCHEDULED_RESTART_DATE :: string where
  "SETTING_LAST_SCHEDULED_RESTART_DATE = ''last_scheduled_restart_date''"
definition SETTING_LE_RENEWAL_PENDING_RESTART :: string where
  "SETTING_LE_RENEWAL_PENDING_RESTART = ''letsencrypt_renewal_pending_restart''"

lemmas restart_keys = SETTING_RESTART_REQUIRED_def SETTING_RESTART_REASON_def
  SETTING_LAST_SCHEDULED_RESTART_DATE_def SETTING_LE_RENEWAL_PENDING_RESTART_def

definition DEFAULT_REASON :: string where
  "DEFAULT_REASON = ''Application restart required.''"

definition mark_restart_required :: "env \<Rightarrow> string \<Rightarrow> db \<Rightarrow> db res" where
  "mark_restart_required env reason db =
     rbind (set_typed_setting_by_key env SETTING_RESTART_REQUIRED (VBool True) db) (\<lambda>db1.
       set_typed_setting_by_key env SETTING_RESTART_REASON
         (VStr (if strip reason = [] then DEFAULT_REASON else strip reason)) db1)"

definition clear_restart_required :: "db \<Rightarrow> db" where
  "clear_restart_required db =
     delete_setting SETTING_RESTART_REASON (delete_setting SETTING_RESTART_REQUIRED db)"

definition is_restart_required :: "env \<Rightarrow> db \<Rightarrow> bool res" where
  "is_restart_required env db = typed_bool env db SETTING_RESTART_REQUIRED"

definition restart_reason :: "env \<Rightarrow> db \<Rightarrow> string res" where
  "restart_reason env db =
     rbind (get_typed_setting_by_key env db SETTING_RESTART_REASON) (\<lambda>v.
       if value_truthy v then value_str v else Inr DEFAULT_REASON)"

definition mark_le_renewal_pending_restart :: "env \<Rightarrow> db \<Rightarrow> db res" where
  "mark_le_renewal_pending_restart env db =
     set_typed_setting_by_key env SETTING_LE_RENEWAL_PENDING_RESTART (VBool True) db"

definition clear_le_renewal_pending_restart :: "db \<Rightarrow> db" where
  "clear_le_renewal_pending_restart db = delete_setting SETTING_LE_RENEWAL_PENDING_RESTART db"

definition is_le_renewal_pending_restart :: "env \<Rightarrow> db \<Rightarrow> bool res" where
  "is_le_renewal_pending_restart env db = typed_bool env db SETTING_LE_RENEWAL_PENDING_RESTART"

text \<open>\<open>config\<close> is the Let's Encrypt configuration; a missing key is false.\<close>

definition cfg_truthy :: "(string \<times> json) list \<Rightarrow> string \<Rightarrow> bool" where
  "cfg_truthy config k = (case map_of config k of None \<Rightarrow> False | Some j \<Rightarrow> json_truthy j)"

definition apply_le_renewal_restart_policy :: "env \<Rightarrow> (string \<times> json) list \<Rightarrow> db \<Rightarrow> db res" where
  "apply_le_renewal_restart_policy env config db =
     (if cfg_truthy config ''scheduled_restart_enabled'' \<and> cfg_truthy config ''scheduled_restart_time''
      then mark_le_renewal_pending_restart env db
      else mark_restart_required env (''Let'' @ [CHR 0x27] @ ''s Encrypt certificate renewed.'') db)"

text \<open>\<open>local\<close> is the local wall-clock time, in microseconds like any datetime.\<close>

definition scheduled_restart_due :: "env \<Rightarrow> string \<Rightarrow> int \<Rightarrow> db \<Rightarrow> (bool \<times> db) res" where
  "scheduled_restart_due env configured local db =
     (if clock_hm local \<noteq> configured then Inr (False, db)
      else rbind (get_typed_setting_by_key env db SETTING_LAST_SCHEDULED_RESTART_DATE) (\<lambda>v.
        if v = VStr (iso_date local) then Inr (False, db)
        else map_res (Pair True)
          (set_typed_setting_by_key env SETTING_LAST_SCHEDULED_RESTART_DATE (VStr (iso_date local)) db)))"

section \<open>Properties\<close>

definition bool_spec :: "string \<Rightarrow> bool" where
  "bool_spec key \<longleftrightarrow> (case get_spec key of Some sp \<Rightarrow> sp_key sp = key \<and> sp_value_type sp = TBool
     \<and> sp_default sp = Some ''false'' | None \<Rightarrow> False)"

definition str_spec :: "string \<Rightarrow> bool" where
  "str_spec key \<longleftrightarrow>
     (case get_spec key of Some sp \<Rightarrow> sp_key sp = key \<and> sp_value_type sp = TStr | None \<Rightarrow> False)"

lemma restart_specs [simp]:
  "bool_spec SETTING_RESTART_REQUIRED" "bool_spec SETTING_LE_RENEWAL_PENDING_RESTART"
  "str_spec SETTING_RESTART_REASON" "str_spec SETTING_LAST_SCHEDULED_RESTART_DATE"
  by code_simp+

lemma set_bool: "bool_spec key \<Longrightarrow> set_typed_setting_by_key env key (VBool b) db
     = Inr (set_setting env key (if b then ''true'' else ''false'') db)"
  by (auto simp: bool_spec_def set_typed_setting_by_key_def require_spec_def set_typed_setting_def
      encode_typed_def split: option.splits)

lemma set_str: "str_spec key \<Longrightarrow> set_typed_setting_by_key env key (VStr s) db = Inr (set_setting env key s db)"
  by (auto simp: str_spec_def set_typed_setting_by_key_def require_spec_def set_typed_setting_def
      encode_typed_def split: option.splits)

lemma bool_texts: "lower (strip ''true'') = ''true''" "lower (strip ''false'') = ''false''"
  by code_simp+

lemma typed_bool_set: "bool_spec key \<Longrightarrow> get_setting env db key = Inr (Some ''true'') \<Longrightarrow> typed_bool env db key = Inr True"
  and typed_bool_unset: "bool_spec key \<Longrightarrow> get_setting env db key = Inr None \<Longrightarrow> typed_bool env db key = Inr False"
  by (auto simp: bool_spec_def typed_bool_def get_typed_setting_by_key_def require_spec_def
      get_typed_setting_def parse_typed_def parse_present_def bool_texts TRUTHY_def FALSY_def
      split: option.splits)

lemma get_str: "str_spec key \<Longrightarrow> get_setting env db key = Inr (Some s)
    \<Longrightarrow> get_typed_setting_by_key env db key = Inr (VStr s)"
  by (auto simp: str_spec_def get_typed_setting_by_key_def require_spec_def
      get_typed_setting_def parse_typed_def parse_present_def split: option.splits)

lemma restart_keys_differ [simp]:
  "SETTING_RESTART_REASON \<noteq> SETTING_RESTART_REQUIRED" "SETTING_RESTART_REQUIRED \<noteq> SETTING_RESTART_REASON"
  by (simp_all add: restart_keys)

text \<open>
  After \<open>mark_restart_required\<close> the flag is set and the reason shown is the stripped text, or
  the default when it is blank; after \<open>clear_restart_required\<close> the flag is off.
\<close>

lemma restart_flag_life_cycle:
  assumes "fernet_ok env" and "settings_ok db"
  shows "\<exists>db1. mark_restart_required env reason db = Inr db1
     \<and> is_restart_required env db1 = Inr True
     \<and> restart_reason env db1 = Inr (if strip reason = [] then DEFAULT_REASON else strip reason)
     \<and> is_restart_required env (clear_restart_required db1) = Inr False"
proof -
  define shown where "shown = (if strip reason = [] then DEFAULT_REASON else strip reason)"
  define db0 where "db0 = set_setting env SETTING_RESTART_REQUIRED ''true'' db"
  define db1 where "db1 = set_setting env SETTING_RESTART_REASON shown db0"
  have "mark_restart_required env reason db = Inr db1"
    by (simp add: mark_restart_required_def set_bool set_str db0_def db1_def shown_def)
  moreover have "get_setting env db1 SETTING_RESTART_REQUIRED = Inr (Some ''true'')"
    using assms(1) by (simp add: db1_def db0_def st.get_put_other st.get_put)
  moreover have "get_typed_setting_by_key env db1 SETTING_RESTART_REASON = Inr (VStr shown)"
    using assms(1) by (simp add: db1_def st.get_put get_str)
  moreover have "shown \<noteq> []" by (simp add: shown_def DEFAULT_REASON_def)
  moreover have "settings_ok db1" using assms(2) by (simp add: db1_def db0_def st.inv_put)
  then have "get_setting env (clear_restart_required db1) SETTING_RESTART_REQUIRED = Inr None"
    by (simp add: clear_restart_required_def st.get_del_other st.get_del)
  ultimately show ?thesis
    using typed_bool_set typed_bool_unset
    by (simp add: is_restart_required_def restart_reason_def shown_def)
qed

text \<open>
  The scheduled restart fires at most once a day: when it has fired, every further check on
  the same local date answers no, whatever other settings are written in between.
\<close>

lemma scheduled_restart_once_a_day:
  assumes "fernet_ok env" and "scheduled_restart_due env time1 t1 db = Inr (True, db1)"
    and "iso_date t2 = iso_date t1" and "key \<noteq> SETTING_LAST_SCHEDULED_RESTART_DATE"
  shows "scheduled_restart_due env time2 t2 (set_setting env key v db1) = Inr (False, set_setting env key v db1)"
proof -
  have "db1 = set_setting env SETTING_LAST_SCHEDULED_RESTART_DATE (iso_date t1) db"
    using assms(2) by (auto simp: scheduled_restart_due_def set_str rbind_def split: if_splits sum.splits)
  then have "get_setting env (set_setting env key v db1) SETTING_LAST_SCHEDULED_RESTART_DATE
      = Inr (Some (iso_date t1))"
    using assms(1,4) by (simp add: st.get_put_other st.get_put)
  then show ?thesis using assms(3) by (simp add: scheduled_restart_due_def get_str)
qed

lemma iso_date_not_Nil: "iso_date t \<noteq> []"
  by (simp add: iso_date_def split: prod.split)

end
