(* ===== verification/PyFloat.thy ===== *)
theory PyFloat
  imports PyText
begin

text \<open>
  Python's \<^verbatim>\<open>float(text)\<close> and the comparisons the code makes. A finite literal stands for its exact
  decimal value: the rounding to a binary double is not modelled (it can only matter within one
  unit in the last place of a bound). \<^verbatim>\<open>repr\<close> of a float is a parameter where the code prints one.
\<close>

text \<open>\<open>Dec m e\<close> is \<open>m \<cdot> 10\<^sup>e\<close>; \<open>Inf b\<close> is an infinity, negative when \<open>b\<close>.\<close>

datatype pyfloat = Dec int int | Inf bool | NaN

fun float_le :: "pyfloat \<Rightarrow> int \<Rightarrow> bool" where
  "float_le (Dec m e) n = (if 0 \<le> e then m * 10 ^ nat e \<le> n else m \<le> n * 10 ^ nat (- e))"
| "float_le (Inf negative) n = negative"
| "float_le NaN n = False"

fun float_gt :: "pyfloat \<Rightarrow> int \<Rightarrow> bool" where
  "float_gt (Dec m e) n = (\<not> float_le (Dec m e) n)"
| "float_gt (Inf negative) n = (\<not> negative)"
| "float_gt NaN n = False"

fun float_truthy :: "pyfloat \<Rightarrow> bool" where
  "float_truthy (Dec m e) = (m \<noteq> 0)"
| "float_truthy x = True"

definition digits_part :: "string \<Rightarrow> bool" where
  "digits_part s \<longleftrightarrow> s = [] \<or> us_ok False s"

definition unsigned_float :: "string \<Rightarrow> pyfloat option" where
  "unsigned_float s =
     (if lower s \<in> {''inf'', ''infinity''} then Some (Inf False)
      else if lower s = ''nan'' then Some NaN
      else
        let is_e = (\<lambda>c. c = CHR ''e'' \<or> c = CHR ''E'');
            mant = takeWhile (\<lambda>c. \<not> is_e c) s;
            ex = dropWhile (\<lambda>c. \<not> is_e c) s;
            whole = takeWhile (\<lambda>c. c \<noteq> CHR ''.'') mant;
            frac = drop 1 (dropWhile (\<lambda>c. c \<noteq> CHR ''.'') mant)
        in if \<not> digits_part whole \<or> \<not> digits_part frac \<or> whole = [] \<and> frac = [] then None
           else map_option
             (\<lambda>e. Dec (int (digits_val (filter is_digit (whole @ frac)))) (e - int (length (filter is_digit frac))))
             (if ex = [] then Some 0 else signed_int (tl ex)))"

fun float_neg :: "pyfloat \<Rightarrow> pyfloat" where
  "float_neg (Dec m e) = Dec (- m) e"
| "float_neg (Inf b) = Inf (\<not> b)"
| "float_neg NaN = NaN"

fun signed_float :: "string \<Rightarrow> pyfloat option" where
  "signed_float [] = None"
| "signed_float (c # cs) =
     (if c = CHR ''-'' then map_option float_neg (unsigned_float cs)
      else if c = CHR ''+'' then unsigned_float cs
      else unsigned_float (c # cs))"

definition py_float :: "string \<Rightarrow> pyfloat option" where
  "py_float s = signed_float (strip s)"

lemma py_float_examples:
  "py_float '' 5.0 '' = Some (Dec 50 (- 1))"
  "py_float ''-1_0e2'' = Some (Dec (- 10) 2)"
  "py_float ''nan'' = Some NaN"
  "py_float ''.'' = None"
  by code_simp+

end
