(* ===== verification/Syslog.thy ===== *)
theory Syslog
  imports Settings PyTime PyFloat
begin

text \<open>
  The remote syslog forwarder of \<^verbatim>\<open>remote_syslog.py\<close>: the immutable configuration, the snapshot of
  an activity row, the RFC 5424 text with octet-count framing, and the bounded queue with its
  generations. Sockets and the timing of the worker thread are not modelled. The validation of the
  settings is in \<open>SyslogConfig\<close>.
\<close>

section \<open>Configuration and snapshots\<close>

definition SYSLOG_PROTOCOLS :: "string list" where
  "SYSLOG_PROTOCOLS = [''tls'', ''udp'', ''tcp'']"

definition PLAINTEXT_PROTOCOLS :: "string list" where
  "PLAINTEXT_PROTOCOLS = [''udp'', ''tcp'']"

definition SYSLOG_FACILITY :: "(string \<times> nat) list" where
  "SYSLOG_FACILITY =
     [(''kern'', 0), (''user'', 1), (''mail'', 2), (''daemon'', 3), (''auth'', 4), (''syslog'', 5),
      (''lpr'', 6), (''news'', 7), (''uucp'', 8), (''cron'', 9), (''authpriv'', 10), (''ftp'', 11),
      (''local0'', 16), (''local1'', 17), (''local2'', 18), (''local3'', 19), (''local4'', 20),
      (''local5'', 21), (''local6'', 22), (''local7'', 23)]"

definition SYSLOG_SEVERITY :: "(string \<times> nat) list" where
  "SYSLOG_SEVERITY =
     [(LOG_LEVEL_VERBOSE, 7), (LOG_LEVEL_INFORMATIONAL, 6), (LOG_LEVEL_WARNING, 4), (LOG_LEVEL_ERROR, 3)]"

record syslog_config =
  sc_enabled :: bool
  sc_host :: string
  sc_port :: int
  sc_protocol :: string
  sc_facility :: string
  sc_minimum_level :: string
  sc_timeout :: pyfloat
  sc_queue_size :: nat
  sc_allow_insecure_plaintext :: bool
  sc_hostname :: string
  sc_generation :: nat

definition default_config :: syslog_config where
  "default_config = \<lparr>sc_enabled = False, sc_host = [], sc_port = 6514, sc_protocol = ''tls'',
     sc_facility = ''local0'', sc_minimum_level = LOG_LEVEL_INFORMATIONAL, sc_timeout = Dec 5 0,
     sc_queue_size = 1000, sc_allow_insecure_plaintext = False, sc_hostname = ''-'', sc_generation = 0\<rparr>"

record snapshot =
  sn_timestamp :: int
  sn_level :: string
  sn_category :: "string option"
  sn_event_type :: string
  sn_status :: "string option"
  sn_actor_type :: "string option"
  sn_actor_id :: "string option"
  sn_actor_label :: "string option"
  sn_zone_name :: "string option"
  sn_record_name :: "string option"
  sn_message :: "string option"
  sn_details :: "json option"
  sn_request_method :: "string option"
  sn_request_path :: "string option"
  sn_request_status_code :: "int option"
  sn_request_ip :: "string option"
  sn_id :: nat

definition snapshot_details :: "string option \<Rightarrow> json option" where
  "snapshot_details details_json =
     (case details_json of
        None \<Rightarrow> None
      | Some [] \<Rightarrow> None
      | Some t \<Rightarrow> (case json_loads t of Inr JNull \<Rightarrow> None | Inr j \<Rightarrow> Some j | Inl _ \<Rightarrow> Some (JStr t)))"

definition snapshot_of_row :: "activity_log \<Rightarrow> snapshot" where
  "snapshot_of_row r = \<lparr>sn_timestamp = al_timestamp r,
     sn_level = (if al_level r = [] then LOG_LEVEL_INFORMATIONAL else al_level r),
     sn_category = al_category r, sn_event_type = al_event_type r, sn_status = al_status r,
     sn_actor_type = al_actor_type r, sn_actor_id = al_actor_id r, sn_actor_label = al_actor_label r,
     sn_zone_name = al_zone_name r, sn_record_name = al_record_name r, sn_message = al_message r,
     sn_details = snapshot_details (al_details_json r), sn_request_method = al_request_method r,
     sn_request_path = al_request_path r, sn_request_status_code = al_request_status_code r,
     sn_request_ip = al_request_ip r, sn_id = al_id r\<rparr>"

section \<open>Encoding\<close>

definition timestamp_iso :: "int \<Rightarrow> string" where
  "timestamp_iso t =
     iso_date t @ ''T'' @ clock_hm t @ '':'' @ pad 2 ((t mod 86400000000) div 1000000 mod 60)
     @ ''.'' @ pad 3 (t mod 1000000 div 1000) @ ''Z''"

definition opt_field :: "string \<Rightarrow> json option \<Rightarrow> (string \<times> json) list" where
  "opt_field k v = (case v of None \<Rightarrow> [] | Some j \<Rightarrow> [(k, j)])"

definition snapshot_as_dict :: "snapshot \<Rightarrow> (string \<times> json) list" where
  "snapshot_as_dict e =
     [(''timestamp'', JStr (timestamp_iso (sn_timestamp e))), (''level'', JStr (sn_level e)),
      (''event_type'', JStr (sn_event_type e))]
     @ opt_field ''id'' (Some (JInt (int (sn_id e))))
     @ opt_field ''category'' (map_option JStr (sn_category e))
     @ opt_field ''status'' (map_option JStr (sn_status e))
     @ opt_field ''actor_type'' (map_option JStr (sn_actor_type e))
     @ opt_field ''actor_id'' (map_option JStr (sn_actor_id e))
     @ opt_field ''actor_label'' (map_option JStr (sn_actor_label e))
     @ opt_field ''zone_name'' (map_option JStr (sn_zone_name e))
     @ opt_field ''record_name'' (map_option JStr (sn_record_name e))
     @ opt_field ''message'' (map_option JStr (sn_message e))
     @ opt_field ''details'' (sn_details e)
     @ opt_field ''request_method'' (map_option JStr (sn_request_method e))
     @ opt_field ''request_path'' (map_option JStr (sn_request_path e))
     @ opt_field ''request_status_code'' (map_option JInt (sn_request_status_code e))
     @ opt_field ''request_ip'' (map_option JStr (sn_request_ip e))"

definition or_nil :: "string \<Rightarrow> string" where
  "or_nil s = (if s = [] then ''-'' else s)"

definition sanitize_hostname :: "string \<Rightarrow> string" where
  "sanitize_hostname v =
     (if strip v = [] then ''-''
      else or_nil (take 255 (filter (\<lambda>c. code c \<notin> {13, 10, 9}) (replace_char CHR '' '' ''_'' (strip v)))))"

definition sd_name_char :: "char \<Rightarrow> bool" where
  "sd_name_char c \<longleftrightarrow> is_alnum c \<or> c \<in> {CHR ''.'', CHR ''_'', CHR ''-''}"

text \<open>Each maximal run of other characters becomes one underscore.\<close>

fun squash_runs :: "bool \<Rightarrow> string \<Rightarrow> string" where
  "squash_runs in_run [] = []"
| "squash_runs in_run (c # s) =
     (if sd_name_char c then c # squash_runs False s
      else if in_run then squash_runs True s else CHR ''_'' # squash_runs True s)"

definition sanitize_msg_id :: "string \<Rightarrow> string" where
  "sanitize_msg_id v =
     (if strip v = [] then ''-'' else or_nil (take 48 (squash_runs False (strip v))))"

definition level_rank :: "string \<Rightarrow> int" where
  "level_rank level = (case map_of LOG_LEVEL_ORDER (upper (strip level)) of Some n \<Rightarrow> n | None \<Rightarrow> 10)"

definition meets_minimum_level :: "string \<Rightarrow> string \<Rightarrow> bool" where
  "meets_minimum_level event_level minimum_level \<longleftrightarrow> level_rank minimum_level \<le> level_rank event_level"

text \<open>\<^verbatim>\<open>separators=(",", ":")\<close>, then \<^verbatim>\<open>encode("ascii", errors="replace")\<close>: a character above
  127 becomes a question mark.\<close>

fun dumps_compact :: "json \<Rightarrow> string" where
  "dumps_compact (JList xs) = CHR ''['' # join '','' (map dumps_compact xs) @ '']''"
| "dumps_compact (JObj kvs) =
     CHR ''{'' # join '','' (map (\<lambda>(k, v). json_quote True k @ '':'' @ dumps_compact v) kvs) @ ''}''"
| "dumps_compact j = dumps True j"

definition to_ascii :: "string \<Rightarrow> string" where
  "to_ascii s = map (\<lambda>c. if 128 \<le> code c then CHR ''?'' else c) s"

definition encode_rfc5424 :: "snapshot \<Rightarrow> syslog_config \<Rightarrow> string" where
  "encode_rfc5424 e cfg =
     (let severity = (case map_of SYSLOG_SEVERITY (upper (sn_level e)) of Some n \<Rightarrow> n | None \<Rightarrow> 6);
          fac = lower (if sc_facility cfg = [] then ''local0'' else sc_facility cfg);
          facility = (case map_of SYSLOG_FACILITY fac of Some n \<Rightarrow> n | None \<Rightarrow> 16);
          head = ''<'' @ show_nat (facility * 8 + severity) @ ''>1 '' @ timestamp_iso (sn_timestamp e) @ '' ''
            @ sanitize_hostname (sc_hostname cfg) @ '' api-to-dns - '' @ sanitize_msg_id (sn_event_type e) @ '' - ''
      in to_ascii (head @ dumps_compact (JObj (snapshot_as_dict e))))"

definition frame_tcp :: "string \<Rightarrow> string" where
  "frame_tcp message = show_nat (length message) @ '' '' @ message"

section \<open>The queue\<close>

record forwarder =
  fw_config :: syslog_config
  fw_queue :: "(nat \<times> snapshot) list"
  fw_generation :: nat

definition initial_forwarder :: forwarder where
  "initial_forwarder = \<lparr>fw_config = default_config, fw_queue = [], fw_generation = 0\<rparr>"

text \<open>A full queue drops the new event; only the limited warning tells.\<close>

definition enqueue :: "snapshot \<Rightarrow> forwarder \<Rightarrow> forwarder" where
  "enqueue e fw =
     (let cfg = fw_config fw
      in if \<not> sc_enabled cfg \<or> \<not> meets_minimum_level (sn_level e) (sc_minimum_level cfg) then fw
         else if max 1 (sc_queue_size cfg) \<le> length (fw_queue fw) then fw
         else fw\<lparr>fw_queue := fw_queue fw @ [(sc_generation cfg, e)]\<rparr>)"

text \<open>A new configuration raises the generation; a resize keeps the newest events that fit. The
  bound of the queue is \<open>max 1 size\<close>; a size of 0, which validation refuses, would keep the oldest
  event, as \<^verbatim>\<open>pending[-0:]\<close> is the whole list.\<close>

definition configure :: "syslog_config \<Rightarrow> forwarder \<Rightarrow> forwarder" where
  "configure cfg fw =
     (let applied = cfg\<lparr>sc_generation := Suc (fw_generation fw)\<rparr>;
          q = fw_queue fw;
          size = sc_queue_size applied
      in fw\<lparr>fw_generation := Suc (fw_generation fw), fw_config := applied,
            fw_queue := (if size \<noteq> sc_queue_size (fw_config fw) \<or> size = 0
               then take (max 1 size) (if size = 0 then q else drop (length q - size) q) else q)\<rparr>)"

text \<open>One turn of the worker: it takes the oldest event and sends it under the current
  configuration, unless the event belongs to an older generation or forwarding is off.\<close>

definition worker_turn :: "forwarder \<Rightarrow> (syslog_config \<times> string) option \<times> forwarder" where
  "worker_turn fw =
     (case fw_queue fw of
        [] \<Rightarrow> (None, fw)
      | (g, e) # q \<Rightarrow>
          (let cfg = fw_config fw
           in (if g \<noteq> sc_generation cfg \<or> \<not> sc_enabled cfg then None else Some (cfg, encode_rfc5424 e cfg),
               fw\<lparr>fw_queue := q\<rparr>)))"

section \<open>Runs of the forwarder\<close>

definition accepts :: "forwarder \<Rightarrow> snapshot \<Rightarrow> bool" where
  "accepts fw e \<longleftrightarrow> fw_queue (enqueue e fw) \<noteq> fw_queue fw"

text \<open>\<open>forwards fw acc sent\<close>: the forwarder can be in state \<open>fw\<close> after it accepted the events \<open>acc\<close>,
  each with the configuration it was accepted under, and sent the messages \<open>sent\<close>.\<close>

inductive forwards ::
  "forwarder \<Rightarrow> (syslog_config \<times> snapshot) list \<Rightarrow> (syslog_config \<times> string) list \<Rightarrow> bool" where
  start: "forwards initial_forwarder [] []"
| event: "forwards fw acc sent \<Longrightarrow>
    forwards (enqueue e fw) (if accepts fw e then acc @ [(fw_config fw, e)] else acc) sent"
| config: "forwards fw acc sent \<Longrightarrow> forwards (configure cfg fw) acc sent"
| turn: "forwards fw acc sent \<Longrightarrow> worker_turn fw = (out, fw') \<Longrightarrow>
    forwards fw' acc (case out of Some m \<Rightarrow> sent @ [m] | None \<Rightarrow> sent)"

inductive_cases forwardsE: "forwards fw acc sent"

lemma accepts_iff:
  "accepts fw e \<longleftrightarrow> sc_enabled (fw_config fw) \<and> meets_minimum_level (sn_level e) (sc_minimum_level (fw_config fw))
     \<and> length (fw_queue fw) < max 1 (sc_queue_size (fw_config fw))"
  by (auto simp: accepts_def enqueue_def Let_def)

lemma enqueue_alt:
  "enqueue e fw = (if accepts fw e then fw\<lparr>fw_queue := fw_queue fw @ [(sc_generation (fw_config fw), e)]\<rparr> else fw)"
  by (auto simp: accepts_iff enqueue_def Let_def)

definition forwarder_inv ::
  "forwarder \<Rightarrow> (syslog_config \<times> snapshot) list \<Rightarrow> (syslog_config \<times> string) list \<Rightarrow> bool" where
  "forwarder_inv fw acc sent \<longleftrightarrow>
     sc_generation (fw_config fw) = fw_generation fw
     \<and> length (fw_queue fw) \<le> max 1 (sc_queue_size (fw_config fw))
     \<and> (\<forall>(c, e) \<in> set acc. sc_enabled c \<and> meets_minimum_level (sn_level e) (sc_minimum_level c)
          \<and> sc_generation c \<le> fw_generation fw
          \<and> (sc_generation c = fw_generation fw \<longrightarrow> c = fw_config fw))
     \<and> (\<forall>(g, e) \<in> set (fw_queue fw). \<exists>c. (c, e) \<in> set acc \<and> sc_generation c = g)
     \<and> (\<forall>(c, m) \<in> set sent. \<exists>e. (c, e) \<in> set acc \<and> m = encode_rfc5424 e c)"

definition acc_ok :: "forwarder \<Rightarrow> syslog_config \<times> snapshot \<Rightarrow> bool" where
  "acc_ok fw ce \<longleftrightarrow> sc_enabled (fst ce) \<and> meets_minimum_level (sn_level (snd ce)) (sc_minimum_level (fst ce))
     \<and> sc_generation (fst ce) \<le> fw_generation fw
     \<and> (sc_generation (fst ce) = fw_generation fw \<longrightarrow> fst ce = fw_config fw)"

lemma forwarder_inv_alt:
  "forwarder_inv fw acc sent \<longleftrightarrow>
     sc_generation (fw_config fw) = fw_generation fw
     \<and> length (fw_queue fw) \<le> max 1 (sc_queue_size (fw_config fw))
     \<and> Ball (set acc) (acc_ok fw)
     \<and> Ball (set (fw_queue fw)) (\<lambda>ge. \<exists>c. (c, snd ge) \<in> set acc \<and> sc_generation c = fst ge)
     \<and> Ball (set sent) (\<lambda>cm. \<exists>e. (fst cm, e) \<in> set acc \<and> snd cm = encode_rfc5424 e (fst cm))"
  by (auto simp: forwarder_inv_def acc_ok_def case_prod_beta')

lemma forwards_inv: "forwards fw acc sent \<Longrightarrow> forwarder_inv fw acc sent"
proof (induction rule: forwards.induct)
  case start
  then show ?case by (simp add: forwarder_inv_def initial_forwarder_def default_config_def)
next
  case (event fw acc sent e)
  show ?case
  proof (cases "accepts fw e")
    case True
    let ?fw = "fw\<lparr>fw_queue := fw_queue fw @ [(sc_generation (fw_config fw), e)]\<rparr>"
    let ?acc = "acc @ [(fw_config fw, e)]"
    note I = event.IH [unfolded forwarder_inv_alt]
    have ok: "acc_ok ?fw = acc_ok fw" by (simp add: acc_ok_def fun_eq_iff)
    have "length (fw_queue ?fw) \<le> max 1 (sc_queue_size (fw_config ?fw))"
      using True by (auto simp: accepts_iff)
    moreover have "Ball (set ?acc) (acc_ok ?fw)"
      unfolding ok using I True by (simp add: accepts_iff acc_ok_def)
    moreover have "Ball (set (fw_queue ?fw)) (\<lambda>ge. \<exists>c. (c, snd ge) \<in> set ?acc \<and> sc_generation c = fst ge)"
      using I by auto
    moreover have "Ball (set sent) (\<lambda>cm. \<exists>e. (fst cm, e) \<in> set ?acc \<and> snd cm = encode_rfc5424 e (fst cm))"
      using I by auto
    ultimately show ?thesis using I True by (simp add: forwarder_inv_alt enqueue_alt)
  qed (use event.IH in \<open>simp add: enqueue_alt\<close>)
next
  case (config fw acc sent cfg)
  have "length (fw_queue (configure cfg fw)) \<le> max 1 (sc_queue_size cfg)"
    using config.IH by (auto simp: forwarder_inv_def configure_def Let_def)
  moreover have "set (fw_queue (configure cfg fw)) \<subseteq> set (fw_queue fw)"
    by (auto simp: configure_def Let_def dest: in_set_dropD in_set_takeD)
  moreover have "fw_config (configure cfg fw) = cfg\<lparr>sc_generation := Suc (fw_generation fw)\<rparr>"
    "fw_generation (configure cfg fw) = Suc (fw_generation fw)"
    by (simp_all add: configure_def Let_def)
  moreover have "acc_ok (configure cfg fw) ce" if "acc_ok fw ce" for ce
    using that by (simp add: acc_ok_def configure_def Let_def)
  ultimately show ?case
    using config.IH unfolding forwarder_inv_alt by auto
next
  case (turn fw acc sent out fw')
  show ?case
  proof (cases "fw_queue fw")
    case Nil
    then show ?thesis using turn by (auto simp: worker_turn_def)
  next
    case (Cons ge q)
    obtain g e where ge: "ge = (g, e)" by (cases ge)
    have fw': "fw' = fw\<lparr>fw_queue := q\<rparr>" using turn.hyps(2) Cons ge by (auto simp: worker_turn_def Let_def)
    obtain c where c: "(c, e) \<in> set acc" "sc_generation c = g"
      using turn.IH Cons ge by (auto simp: forwarder_inv_alt)
    have "c = fw_config fw" if "g = sc_generation (fw_config fw)"
      using turn.IH c that by (auto simp: forwarder_inv_alt acc_ok_def)
    then have "\<forall>m. out = Some m \<longrightarrow> (\<exists>e. (fst m, e) \<in> set acc \<and> snd m = encode_rfc5424 e (fst m))"
      using turn.hyps(2) Cons ge c by (auto simp: worker_turn_def Let_def split: if_splits)
    note out = this
    note I = turn.IH [unfolded forwarder_inv_alt]
    have "acc_ok fw' = acc_ok fw" using fw' by (simp add: acc_ok_def fun_eq_iff)
    then have "Ball (set acc) (acc_ok fw')" using I by simp
    moreover have "length (fw_queue fw') \<le> max 1 (sc_queue_size (fw_config fw'))" using I Cons fw' by simp
    moreover have "Ball (set (fw_queue fw')) (\<lambda>ge. \<exists>c. (c, snd ge) \<in> set acc \<and> sc_generation c = fst ge)"
      using I Cons fw' by simp
    moreover have "Ball (set (case out of Some m \<Rightarrow> sent @ [m] | None \<Rightarrow> sent))
        (\<lambda>cm. \<exists>e. (fst cm, e) \<in> set acc \<and> snd cm = encode_rfc5424 e (fst cm))"
      using I out by (cases out) simp_all
    ultimately show ?thesis
      using I fw' unfolding forwarder_inv_alt by simp
  qed
qed

text \<open>
  C21. Whatever the order of events, reconfigurations and worker turns: the queue never exceeds
  its bound, and every message sent is the encoding of an event that was accepted under exactly
  the configuration it is sent with, which was enabled and whose minimum level the event meets;
  so no event reaches a destination that was configured after it was queued.
\<close>

theorem forwarder_sends_to_its_generation:
  assumes "forwards fw acc sent"
  shows "length (fw_queue fw) \<le> max 1 (sc_queue_size (fw_config fw))
    \<and> (\<forall>(cfg, msg) \<in> set sent. \<exists>e. (cfg, e) \<in> set acc \<and> msg = encode_rfc5424 e cfg
         \<and> sc_enabled cfg \<and> meets_minimum_level (sn_level e) (sc_minimum_level cfg))"
proof (intro conjI ballI, goal_cases queue msg)
  case queue
  then show ?case using forwards_inv [OF assms] unfolding forwarder_inv_def by blast
next
  case (msg cm)
  obtain cfg m where cm: "cm = (cfg, m)" by (cases cm)
  then obtain e where e: "(cfg, e) \<in> set acc" "m = encode_rfc5424 e cfg"
    using forwards_inv [OF assms] msg unfolding forwarder_inv_def by blast
  moreover have "acc_ok fw (cfg, e)"
    using forwards_inv [OF assms] e(1) unfolding forwarder_inv_alt by blast
  ultimately show ?case unfolding cm acc_ok_def by auto
qed

definition demo_snapshot :: snapshot where
  "demo_snapshot = \<lparr>sn_timestamp = 0, sn_level = LOG_LEVEL_ERROR, sn_category = None, sn_event_type = ''login.failure'',
     sn_status = None, sn_actor_type = None, sn_actor_id = None, sn_actor_label = None, sn_zone_name = None,
     sn_record_name = None, sn_message = None, sn_details = None, sn_request_method = None,
     sn_request_path = None, sn_request_status_code = None, sn_request_ip = None, sn_id = 1\<rparr>"

definition demo_forwarder :: forwarder where
  "demo_forwarder = enqueue demo_snapshot (configure (default_config\<lparr>sc_enabled := True\<rparr>) initial_forwarder)"

lemma demo_run:
  "\<exists>cfg. forwards (snd (worker_turn demo_forwarder)) [(cfg, demo_snapshot)] [(cfg, encode_rfc5424 demo_snapshot cfg)]"
proof -
  let ?c = "default_config\<lparr>sc_enabled := True\<rparr>"
  let ?g = "?c\<lparr>sc_generation := 1\<rparr>"
  let ?f = "configure ?c initial_forwarder"
  have meets: "meets_minimum_level LOG_LEVEL_ERROR LOG_LEVEL_INFORMATIONAL" by code_simp
  have f: "fw_config ?f = ?g" "fw_queue ?f = []"
    by (simp_all add: configure_def initial_forwarder_def Let_def default_config_def)
  have acc: "accepts ?f demo_snapshot"
    using meets by (simp add: accepts_iff f demo_snapshot_def) (simp add: default_config_def)
  have "forwards (enqueue demo_snapshot ?f) [(?g, demo_snapshot)] []"
    using forwards.event [OF forwards.config [OF forwards.start, of ?c], of demo_snapshot] acc f by simp
  moreover have "worker_turn demo_forwarder = (Some (?g, encode_rfc5424 demo_snapshot ?g), snd (worker_turn demo_forwarder))"
    using acc by (simp add: demo_forwarder_def worker_turn_def enqueue_alt f Let_def)
  ultimately show ?thesis
    using forwards.turn [of "enqueue demo_snapshot ?f"] unfolding demo_forwarder_def by fastforce
qed

theorem forwarder_sends_to_its_generation_witness:
  "\<exists>fw cfg m. forwards fw [(cfg, demo_snapshot)] [(cfg, m)] \<and> sc_enabled cfg \<and> m = encode_rfc5424 demo_snapshot cfg"
proof -
  obtain cfg where run: "forwards (snd (worker_turn demo_forwarder)) [(cfg, demo_snapshot)] [(cfg, encode_rfc5424 demo_snapshot cfg)]"
    using demo_run by blast
  show ?thesis using forwarder_sends_to_its_generation [OF run] run by auto
qed

text \<open>Octet counting read back, with the number of frames as fuel.\<close>

fun read_frames :: "nat \<Rightarrow> string \<Rightarrow> string list option" where
  "read_frames n [] = Some []"
| "read_frames 0 (c # s) = None"
| "read_frames (Suc n) (c # s) =
     (let ds = takeWhile is_digit (c # s); len = digits_val ds; body = drop (Suc (length ds)) (c # s)
      in if ds = [] \<or> length body < len then None
         else map_option ((#) (take len body)) (read_frames n (drop len body)))"

lemma read_frame: "read_frames (Suc n) (frame_tcp m @ s) = map_option ((#) m) (read_frames n s)"
proof -
  obtain c cs where eq: "show_nat (length m) = c # cs" by (cases "show_nat (length m)") auto
  have "takeWhile is_digit (show_nat (length m) @ '' '' @ m @ s) = show_nat (length m)"
    using show_nat_digits [of "length m"] by (simp add: takeWhile_append2 is_digit_def)
  then show ?thesis
    using digits_val_show_nat [of "length m"] eq by (simp add: frame_tcp_def Let_def)
qed

text \<open>
  The TCP framing loses nothing: a stream of framed messages splits back into exactly the
  messages, whatever bytes they contain.
\<close>

lemma frames_read_back:
  "read_frames (length ms) (concat (map frame_tcp ms)) = Some ms"
  by (induction ms) (simp_all add: read_frame)

end
