(* ===== verification/SyslogConfig.thy ===== *)
theory SyslogConfig
  imports Syslog Auth Restart
begin

text \<open>
  The configured application name of \<^verbatim>\<open>system_identity.py\<close>, and the settings of the remote syslog
  forwarder in \<^verbatim>\<open>remote_syslog.py\<close>: validation, reading, writing and applying them. What the
  operating system says of the host (Docker, host name, address) is the record \<open>host\<close>; \<^verbatim>\<open>str\<close> of a
  float is the parameter \<open>show_float\<close>.
\<close>

section \<open>The identity of the system\<close>

record host =
  in_docker :: bool
  host_dns_name :: string
  host_ip :: string

definition SETTING_APP_DNS_NAME :: string where "SETTING_APP_DNS_NAME = ''app_dns_name''"
definition DEFAULT_APP_DNS_NAME_DOCKER :: string where "DEFAULT_APP_DNS_NAME_DOCKER = ''apitodns.local''"
definition DOCKER_RUNTIME_LABEL :: string where
  "DOCKER_RUNTIME_LABEL = ''Detected Docker container runtime.''"

definition detect_system_dns_name :: "host \<Rightarrow> string" where
  "detect_system_dns_name h = (if in_docker h then ''Docker Container'' else host_dns_name h)"

definition default_app_dns_name :: "host \<Rightarrow> string" where
  "default_app_dns_name h = (if in_docker h then DEFAULT_APP_DNS_NAME_DOCKER else host_dns_name h)"

definition get_app_dns_name :: "env \<Rightarrow> host \<Rightarrow> db \<Rightarrow> string res" where
  "get_app_dns_name env h db =
     map_res (\<lambda>v. if strip v \<noteq> [] then strip v else default_app_dns_name h)
       (typed_str env db SETTING_APP_DNS_NAME)"

definition set_app_dns_name :: "env \<Rightarrow> string \<Rightarrow> db \<Rightarrow> (string \<times> db) res" where
  "set_app_dns_name env name db =
     rbind (validate_dns_hostname name) (\<lambda>cleaned.
       map_res (Pair cleaned) (set_typed_setting_by_key env SETTING_APP_DNS_NAME (VStr cleaned) db))"

definition detect_system_ip_address :: "host \<Rightarrow> string" where
  "detect_system_ip_address h = (if in_docker h then DOCKER_RUNTIME_LABEL else host_ip h)"

definition system_identity :: "env \<Rightarrow> host \<Rightarrow> db \<Rightarrow> (string \<times> string) list res" where
  "system_identity env h db =
     map_res (\<lambda>n. [(''system_dns_name'', n), (''system_ip_address'', detect_system_ip_address h)])
       (get_app_dns_name env h db)"

section \<open>Validation\<close>

definition MAX_QUEUE_SIZE :: int where "MAX_QUEUE_SIZE = 5000"

definition PLAINTEXT_WARNING :: string where
  "PLAINTEXT_WARNING =
     ''Plaintext UDP/TCP syslog exposes audit metadata on the network. '' @
     ''Prefer TLS, or enable '' @ [CHR 0x27] @ ''Allow insecure plaintext syslog'' @ [CHR 0x27] @
     '' only if you accept the risk.''"

definition or_text :: "string \<Rightarrow> string \<Rightarrow> string" where
  "or_text s d = (if s = [] then d else s)"

text \<open>The raw values of a form or of the settings table.\<close>

record syslog_view =
  sv_enabled :: bool
  sv_host :: string
  sv_port :: int
  sv_protocol :: string
  sv_facility :: string
  sv_minimum_level :: string
  sv_timeout :: pyfloat
  sv_queue_size :: int
  sv_allow_insecure_plaintext :: bool
  sv_hostname :: string

definition validate_syslog_config :: "syslog_view \<Rightarrow> syslog_config res" where
  "validate_syslog_config v =
     (let protocol = lower (strip (or_text (sv_protocol v) ''tls''));
          facility = lower (strip (or_text (sv_facility v) ''local0''));
          level = upper (strip (or_text (sv_minimum_level v) LOG_LEVEL_INFORMATIONAL));
          host = strip (sv_host v)
      in rbind (guard (protocol \<in> set SYSLOG_PROTOCOLS)
                 (ValueError ''Protocol must be tls, udp, or tcp.'')) (\<lambda>_.
         rbind (guard (facility \<in> set (map fst SYSLOG_FACILITY))
                 (ValueError (''Unsupported syslog facility: '' @ sv_facility v))) (\<lambda>_.
         rbind (guard (level \<in> set LOG_LEVEL_VALUES)
                 (ValueError (''Unsupported minimum level: '' @ sv_minimum_level v))) (\<lambda>_.
         rbind (guard (1 \<le> sv_port v \<and> sv_port v \<le> 65535)
                 (ValueError ''Port must be an integer between 1 and 65535.'')) (\<lambda>_.
         rbind (guard (\<not> (float_le (sv_timeout v) 0 \<or> float_gt (sv_timeout v) 30))
                 (ValueError ''Timeout must be between 0 (exclusive) and 30 seconds.'')) (\<lambda>_.
         rbind (guard (1 \<le> sv_queue_size v \<and> sv_queue_size v \<le> MAX_QUEUE_SIZE)
                 (ValueError ''Queue size must be an integer between 1 and 5000.'')) (\<lambda>_.
         rbind (guard (\<not> (sv_enabled v \<and> host = []))
                 (ValueError ''Host is required when remote syslog is enabled.'')) (\<lambda>_.
         rbind (guard (\<not> (sv_enabled v \<and> protocol \<in> set PLAINTEXT_PROTOCOLS \<and> \<not> sv_allow_insecure_plaintext v))
                 (ValueError PLAINTEXT_WARNING)) (\<lambda>_.
         Inr \<lparr>sc_enabled = sv_enabled v, sc_host = host, sc_port = sv_port v, sc_protocol = protocol,
              sc_facility = facility, sc_minimum_level = level, sc_timeout = sv_timeout v,
              sc_queue_size = nat (sv_queue_size v),
              sc_allow_insecure_plaintext = sv_allow_insecure_plaintext v,
              sc_hostname = sanitize_hostname (sv_hostname v), sc_generation = 0\<rparr>)))))))))"

definition view_of_config :: "syslog_config \<Rightarrow> syslog_view" where
  "view_of_config c = \<lparr>sv_enabled = sc_enabled c, sv_host = sc_host c, sv_port = sc_port c,
     sv_protocol = sc_protocol c, sv_facility = sc_facility c, sv_minimum_level = sc_minimum_level c,
     sv_timeout = sc_timeout c, sv_queue_size = int (sc_queue_size c),
     sv_allow_insecure_plaintext = sc_allow_insecure_plaintext c, sv_hostname = sc_hostname c\<rparr>"

section \<open>Reading, writing and applying the settings\<close>

definition SYSLOG_KEYS :: "string list" where
  "SYSLOG_KEYS = [''remote_syslog_enabled'', ''remote_syslog_host'', ''remote_syslog_port'',
     ''remote_syslog_protocol'', ''remote_syslog_facility'', ''remote_syslog_minimum_level'',
     ''remote_syslog_timeout'', ''remote_syslog_queue_size'', ''remote_syslog_allow_insecure_plaintext'']"

definition known_or :: "string list \<Rightarrow> string \<Rightarrow> string \<Rightarrow> string" where
  "known_or known d s = (if or_text s d \<in> set known then or_text s d else d)"

text \<open>The stored values as the code reads them, before validation; the dict it returns also
  lists the known facilities and protocols.\<close>

definition stored_syslog_view :: "env \<Rightarrow> db \<Rightarrow> syslog_view res" where
  "stored_syslog_view env db =
     rbind (typed_bool env db ''remote_syslog_enabled'') (\<lambda>enabled.
     rbind (typed_str env db ''remote_syslog_host'') (\<lambda>host.
     rbind (typed_int env db ''remote_syslog_port'' 6514) (\<lambda>port.
     rbind (typed_str env db ''remote_syslog_protocol'') (\<lambda>protocol.
     rbind (typed_str env db ''remote_syslog_facility'') (\<lambda>facility.
     rbind (typed_str env db ''remote_syslog_minimum_level'') (\<lambda>level.
     rbind (typed_str env db ''remote_syslog_timeout'') (\<lambda>timeout.
     rbind (typed_int env db ''remote_syslog_queue_size'' 1000) (\<lambda>queue_size.
     rbind (typed_bool env db ''remote_syslog_allow_insecure_plaintext'') (\<lambda>allow.
       Inr \<lparr>sv_enabled = enabled, sv_host = host, sv_port = port,
            sv_protocol = known_or SYSLOG_PROTOCOLS ''tls'' (lower (strip protocol)),
            sv_facility = known_or (map fst SYSLOG_FACILITY) ''local0'' (lower (strip facility)),
            sv_minimum_level = known_or LOG_LEVEL_VALUES LOG_LEVEL_INFORMATIONAL (upper (strip level)),
            sv_timeout = (if timeout = [] then Dec 5 0
              else case py_float timeout of Some x \<Rightarrow> x | None \<Rightarrow> Dec 5 0),
            sv_queue_size = queue_size, sv_allow_insecure_plaintext = allow,
            sv_hostname = []\<rparr>)))))))))"

definition get_remote_syslog_config :: "env \<Rightarrow> host \<Rightarrow> db \<Rightarrow> syslog_view res" where
  "get_remote_syslog_config env h db =
     rbind (stored_syslog_view env db) (\<lambda>raw.
     rbind (get_app_dns_name env h db) (\<lambda>name.
       case validate_syslog_config (raw\<lparr>sv_hostname := name\<rparr>) of
         Inr c \<Rightarrow> Inr (view_of_config c)
       | Inl e \<Rightarrow> Inr (raw\<lparr>sv_enabled := False, sv_hostname := name\<rparr>)))"

definition set_remote_syslog_config ::
  "env \<Rightarrow> host \<Rightarrow> (pyfloat \<Rightarrow> string) \<Rightarrow> syslog_view \<Rightarrow> db \<Rightarrow> (syslog_view \<times> db) res" where
  "set_remote_syslog_config env h show_float v db =
     rbind (get_app_dns_name env h db) (\<lambda>name.
     rbind (validate_syslog_config (v\<lparr>sv_hostname := name\<rparr>)) (\<lambda>c.
     rbind (put_typed_all env
       [(''remote_syslog_enabled'', VBool (sc_enabled c)),
        (''remote_syslog_host'', VStr (sc_host c)),
        (''remote_syslog_port'', VInt (sc_port c)),
        (''remote_syslog_protocol'', VStr (sc_protocol c)),
        (''remote_syslog_facility'', VStr (sc_facility c)),
        (''remote_syslog_minimum_level'', VStr (sc_minimum_level c)),
        (''remote_syslog_timeout'', VStr (show_float (sc_timeout c))),
        (''remote_syslog_queue_size'', VInt (int (sc_queue_size c))),
        (''remote_syslog_allow_insecure_plaintext'', VBool (sc_allow_insecure_plaintext c))] db) (\<lambda>db'.
     map_res (\<lambda>view. (view, db')) (get_remote_syslog_config env h db'))))"

definition apply_remote_syslog_config :: "env \<Rightarrow> host \<Rightarrow> db \<Rightarrow> forwarder \<Rightarrow> forwarder res" where
  "apply_remote_syslog_config env h db fw =
     rbind (get_remote_syslog_config env h db) (\<lambda>raw.
     rbind (get_app_dns_name env h db) (\<lambda>name.
     rbind (validate_syslog_config
       (raw\<lparr>sv_port := (if sv_port raw = 0 then 6514 else sv_port raw),
            sv_timeout := (if float_truthy (sv_timeout raw) then sv_timeout raw else Dec 5 0),
            sv_queue_size := (if sv_queue_size raw = 0 then 1000 else sv_queue_size raw),
            sv_hostname := or_text (sv_hostname raw) name\<rparr>)) (\<lambda>c.
     Inr (configure c fw))))"

section \<open>Properties\<close>

definition config_safe :: "syslog_config \<Rightarrow> bool" where
  "config_safe c \<longleftrightarrow> sc_protocol c \<in> set SYSLOG_PROTOCOLS \<and> sc_facility c \<in> set (map fst SYSLOG_FACILITY)
     \<and> sc_minimum_level c \<in> set LOG_LEVEL_VALUES \<and> 1 \<le> sc_port c \<and> sc_port c \<le> 65535
     \<and> 1 \<le> sc_queue_size c \<and> sc_queue_size c \<le> 5000
     \<and> (sc_enabled c \<longrightarrow> sc_host c \<noteq> []
          \<and> (sc_protocol c \<in> set PLAINTEXT_PROTOCOLS \<longrightarrow> sc_allow_insecure_plaintext c))"

lemma validate_Inr:
  "validate_syslog_config v = Inr c \<longleftrightarrow>
     lower (strip (or_text (sv_protocol v) ''tls'')) \<in> set SYSLOG_PROTOCOLS
     \<and> lower (strip (or_text (sv_facility v) ''local0'')) \<in> set (map fst SYSLOG_FACILITY)
     \<and> upper (strip (or_text (sv_minimum_level v) LOG_LEVEL_INFORMATIONAL)) \<in> set LOG_LEVEL_VALUES
     \<and> (1 \<le> sv_port v \<and> sv_port v \<le> 65535)
     \<and> \<not> (float_le (sv_timeout v) 0 \<or> float_gt (sv_timeout v) 30)
     \<and> (1 \<le> sv_queue_size v \<and> sv_queue_size v \<le> 5000)
     \<and> \<not> (sv_enabled v \<and> strip (sv_host v) = [])
     \<and> \<not> (sv_enabled v \<and> lower (strip (or_text (sv_protocol v) ''tls'')) \<in> set PLAINTEXT_PROTOCOLS
           \<and> \<not> sv_allow_insecure_plaintext v)
     \<and> c = \<lparr>sc_enabled = sv_enabled v, sc_host = strip (sv_host v), sc_port = sv_port v,
              sc_protocol = lower (strip (or_text (sv_protocol v) ''tls'')),
              sc_facility = lower (strip (or_text (sv_facility v) ''local0'')),
              sc_minimum_level = upper (strip (or_text (sv_minimum_level v) LOG_LEVEL_INFORMATIONAL)),
              sc_timeout = sv_timeout v, sc_queue_size = nat (sv_queue_size v),
              sc_allow_insecure_plaintext = sv_allow_insecure_plaintext v,
              sc_hostname = sanitize_hostname (sv_hostname v), sc_generation = 0\<rparr>"
  unfolding validate_syslog_config_def Let_def rbind_eq_Inr MAX_QUEUE_SIZE_def by (simp, blast)

lemma validate_safe: "validate_syslog_config v = Inr c \<Longrightarrow> config_safe c"
  unfolding validate_Inr config_safe_def by (elim conjE) (simp add: nat_le_iff Suc_le_eq)

text \<open>
  C34. Whatever the settings table holds, a forwarder that the application (re)configures from it
  never sends audit events in clear text unless the administrator allowed it, and its destination
  and queue are well formed.
\<close>

theorem applied_syslog_config_safe:
  assumes "apply_remote_syslog_config env h db fw = Inr fw'"
  shows "config_safe (fw_config fw') \<and> fw_generation fw' = Suc (fw_generation fw)"
proof -
  obtain v c where "validate_syslog_config v = Inr c" "fw' = configure c fw"
    using assms unfolding apply_remote_syslog_config_def rbind_eq_Inr by blast
  then show ?thesis
    using validate_safe [of v c] by (auto simp: configure_def config_safe_def Let_def)
qed

definition demo_host :: host where
  "demo_host = \<lparr>in_docker = False, host_dns_name = ''dns-gw'', host_ip = ''192.0.2.1''\<rparr>"

theorem applied_syslog_config_safe_witness:
  "config_safe (fw_config (projr (apply_remote_syslog_config demo_env demo_host empty_db initial_forwarder)))"
proof -
  have "apply_remote_syslog_config demo_env demo_host empty_db initial_forwarder
      = Inr (projr (apply_remote_syslog_config demo_env demo_host empty_db initial_forwarder))"
    by code_simp
  then show ?thesis using applied_syslog_config_safe by blast
qed

lemma known_names_stable:
  "p \<in> set SYSLOG_PROTOCOLS \<Longrightarrow> lower (strip p) = p \<and> p \<noteq> []"
  "f \<in> set (map fst SYSLOG_FACILITY) \<Longrightarrow> lower (strip f) = f \<and> f \<noteq> []"
  "l \<in> set LOG_LEVEL_VALUES \<Longrightarrow> upper (strip l) = l \<and> l \<noteq> []"
proof -
  have "list_all (\<lambda>p. lower (strip p) = p \<and> p \<noteq> []) SYSLOG_PROTOCOLS"
    "list_all (\<lambda>f. lower (strip f) = f \<and> f \<noteq> []) (map fst SYSLOG_FACILITY)"
    "list_all (\<lambda>l. upper (strip l) = l \<and> l \<noteq> []) LOG_LEVEL_VALUES"
    by code_simp+
  then show "p \<in> set SYSLOG_PROTOCOLS \<Longrightarrow> lower (strip p) = p \<and> p \<noteq> []"
    "f \<in> set (map fst SYSLOG_FACILITY) \<Longrightarrow> lower (strip f) = f \<and> f \<noteq> []"
    "l \<in> set LOG_LEVEL_VALUES \<Longrightarrow> upper (strip l) = l \<and> l \<noteq> []"
    unfolding list_all_iff by blast+
qed

lemma validate_again:
  assumes "validate_syslog_config (v\<lparr>sv_hostname := name\<rparr>) = Inr c"
  shows "validate_syslog_config (view_of_config c\<lparr>sv_hostname := name\<rparr>) = Inr c"
proof -
  have safe: "config_safe c" by (rule validate_safe [OF assms])
  have names: "lower (strip (or_text (sc_protocol c) ''tls'')) = sc_protocol c"
    "lower (strip (or_text (sc_facility c) ''local0'')) = sc_facility c"
    "upper (strip (or_text (sc_minimum_level c) LOG_LEVEL_INFORMATIONAL)) = sc_minimum_level c"
    using safe known_names_stable unfolding config_safe_def or_text_def by presburger+
  have c: "sc_host c = strip (sv_host v)" "sc_timeout c = sv_timeout v"
    "sc_hostname c = sanitize_hostname name" "sc_generation c = 0"
    "\<not> (float_le (sc_timeout c) 0 \<or> float_gt (sc_timeout c) 30)"
    using assms unfolding validate_Inr by simp_all
  show ?thesis
    unfolding validate_Inr view_of_config_def
    using safe c by (simp add: names config_safe_def) 
qed

lemma typed_of_value:
  "get_typed_setting_by_key env db k = Inr (VBool b) \<Longrightarrow> typed_bool env db k = Inr b"
  "get_typed_setting_by_key env db k = Inr (VStr s) \<Longrightarrow> typed_str env db k = Inr s"
  "get_typed_setting_by_key env db k = Inr (VInt i) \<Longrightarrow> typed_int env db k d = Inr i"
  by (simp_all add: typed_bool_def typed_str_def typed_int_def)

lemma canonical_simps [simp]:
  "canonical_value (VBool b) = VBool b" "canonical_value (VStr s) = VStr s" "canonical_value (VInt i) = VInt i"
  by (simp_all add: canonical_value_def)

definition key_type :: "string \<Rightarrow> value_type option" where
  "key_type k = map_option sp_value_type (get_spec k)"

lemma storable_simps:
  "storable (k, VBool b) \<longleftrightarrow> key_type k = Some TBool"
  "storable (k, VStr s) \<longleftrightarrow> key_type k = Some TStr"
  "storable (k, VInt i) \<longleftrightarrow> key_type k = Some TInt \<and> small_nat (nat \<bar>i\<bar>)"
  by (auto simp: storable_def key_type_def value_fits_def split: option.splits)

lemma syslog_key_types:
  "map key_type SYSLOG_KEYS = map Some [TBool, TStr, TInt, TStr, TStr, TStr, TStr, TInt, TBool]"
  by code_simp

lemma small_int: "\<bar>i\<bar> < 10 ^ 9 \<Longrightarrow> small_nat (nat \<bar>i\<bar>)"
  by (rule small_nat_less [of _ 9]) (auto simp: nat_less_iff)

lemma known_or_id: "s \<in> set known \<Longrightarrow> s \<noteq> [] \<Longrightarrow> known_or known d s = s"
  by (simp add: known_or_def or_text_def)

text \<open>
  Saving the syslog settings returns, and any later read gives, exactly the validated values
  (the stored decimal text of the timeout reads back to the same float); no other setting changes.
\<close>

lemma syslog_settings_read_back:
  assumes "fernet_ok env" and "get_app_dns_name env h db = Inr name"
    and "validate_syslog_config (v\<lparr>sv_hostname := name\<rparr>) = Inr c"
    and "py_float (show_float (sc_timeout c)) = Some (sc_timeout c)"
  shows "\<exists>db'. set_remote_syslog_config env h show_float v db = Inr (view_of_config c, db')
    \<and> get_remote_syslog_config env h db' = Inr (view_of_config c)
    \<and> (\<forall>key. key \<notin> set SYSLOG_KEYS \<longrightarrow> get_typed_setting_by_key env db' key = get_typed_setting_by_key env db key)"
proof -
  let ?kvs = "[(''remote_syslog_enabled'', VBool (sc_enabled c)), (''remote_syslog_host'', VStr (sc_host c)),
    (''remote_syslog_port'', VInt (sc_port c)), (''remote_syslog_protocol'', VStr (sc_protocol c)),
    (''remote_syslog_facility'', VStr (sc_facility c)),
    (''remote_syslog_minimum_level'', VStr (sc_minimum_level c)),
    (''remote_syslog_timeout'', VStr (show_float (sc_timeout c))),
    (''remote_syslog_queue_size'', VInt (int (sc_queue_size c))),
    (''remote_syslog_allow_insecure_plaintext'', VBool (sc_allow_insecure_plaintext c))]"
  have safe: "config_safe c" by (rule validate_safe [OF assms(3)])
  have small: "small_nat (nat \<bar>sc_port c\<bar>)" "small_nat (nat \<bar>int (sc_queue_size c)\<bar>)"
    by (rule small_int, use safe in \<open>simp add: config_safe_def\<close>)+
  have "list_all storable ?kvs"
    using small syslog_key_types by (simp add: storable_simps SYSLOG_KEYS_def)
  then obtain db' where put: "put_typed_all env ?kvs db = Inr db'"
    and mem: "\<forall>(k, v) \<in> set ?kvs. get_typed_setting_by_key env db' k = Inr (canonical_value v)"
    and other: "\<forall>k. k \<notin> fst ` set ?kvs \<longrightarrow> get_typed_setting_by_key env db' k = get_typed_setting_by_key env db k"
    by (rule put_typed_all_reads [OF assms(1)]) simp
  have "show_float (sc_timeout c) \<noteq> []" using assms(4) by (auto simp: py_float_def)
  have reads: "typed_bool env db' ''remote_syslog_enabled'' = Inr (sc_enabled c)"
    "typed_str env db' ''remote_syslog_host'' = Inr (sc_host c)"
    "typed_int env db' ''remote_syslog_port'' 6514 = Inr (sc_port c)"
    "typed_str env db' ''remote_syslog_protocol'' = Inr (sc_protocol c)"
    "typed_str env db' ''remote_syslog_facility'' = Inr (sc_facility c)"
    "typed_str env db' ''remote_syslog_minimum_level'' = Inr (sc_minimum_level c)"
    "typed_str env db' ''remote_syslog_timeout'' = Inr (show_float (sc_timeout c))"
    "typed_int env db' ''remote_syslog_queue_size'' 1000 = Inr (int (sc_queue_size c))"
    "typed_bool env db' ''remote_syslog_allow_insecure_plaintext'' = Inr (sc_allow_insecure_plaintext c)"
    using mem by (simp_all add: typed_of_value)
  with \<open>show_float (sc_timeout c) \<noteq> []\<close> have "stored_syslog_view env db' = Inr (view_of_config c\<lparr>sv_hostname := []\<rparr>)"
    using safe known_names_stable assms(4)
    by (auto simp: stored_syslog_view_def reads known_or_id view_of_config_def config_safe_def)
  moreover have "get_app_dns_name env h db' = Inr name"
    using other assms(2) by (simp add: get_app_dns_name_def typed_str_def SETTING_APP_DNS_NAME_def)
  ultimately have "get_remote_syslog_config env h db' = Inr (view_of_config c)"
    using validate_again [OF assms(3)] by (simp add: get_remote_syslog_config_def)
  moreover have "set_remote_syslog_config env h show_float v db = Inr (view_of_config c, db')"
    using assms(2,3) put calculation by (simp add: set_remote_syslog_config_def)
  moreover have "fst ` set ?kvs = set SYSLOG_KEYS" by (auto simp: SYSLOG_KEYS_def)
  ultimately show ?thesis using other by auto
qed

definition demo_view :: syslog_view where
  "demo_view = \<lparr>sv_enabled = True, sv_host = '' logs.example.com '', sv_port = 6514, sv_protocol = ''TLS'',
     sv_facility = ''auth'', sv_minimum_level = ''warning'', sv_timeout = Dec 25 (- 1), sv_queue_size = 10,
     sv_allow_insecure_plaintext = False, sv_hostname = []\<rparr>"

text \<open>A timeout of \<^verbatim>\<open>nan\<close> is neither at most 0 nor above 30, so it passes the check.\<close>

lemma nan_timeout_accepted:
  "\<exists>c. validate_syslog_config (view_of_config default_config\<lparr>sv_timeout := NaN\<rparr>) = Inr c \<and> sc_timeout c = NaN"
proof -
  have "validate_syslog_config (view_of_config default_config\<lparr>sv_timeout := NaN\<rparr>)
      = Inr (projr (validate_syslog_config (view_of_config default_config\<lparr>sv_timeout := NaN\<rparr>)))"
    by code_simp
  then show ?thesis by (auto simp: validate_Inr)
qed

end
