(* ===== verification/World.thy ===== *)
theory World
  imports SyslogConfig
begin

text \<open>
  The state that the request handlers share, and what surrounds the process. The state holds the
  database, the number of clock readings so far, the in-process marks of \<^verbatim>\<open>activity_logging.py\<close> and
  \<^verbatim>\<open>remote_syslog.py\<close>, and the transcript of every command sent to an SMTP server. The
  surroundings are the environment of the process, the host, and how SMTP servers answer.
\<close>

section \<open>SMTP as a transcript\<close>

record mail =
  ml_from :: string
  ml_to :: string
  ml_subject :: string
  ml_body :: string

text \<open>\<open>Connect server port implicit_tls\<close> is the constructor \<^verbatim>\<open>smtplib.SMTP\<close> or \<^verbatim>\<open>SMTP_SSL\<close>.\<close>

datatype smtp_cmd =
    Connect string int bool
  | Ehlo
  | StartTls
  | Login string string
  | SendMessage mail
  | Quit
  | Close

text \<open>What a command does: it succeeds, raises an \<^verbatim>\<open>smtplib.SMTPException\<close>, or raises another
  exception (a socket error, for instance).\<close>

datatype smtp_reply = Accepted | SmtpError string | OtherSmtpError string

type_synonym smtp_log = "smtp_cmd list"

section \<open>Surroundings and state\<close>

text \<open>\<open>o_smtp log\<close> is the answer to the last command of \<open>log\<close>, given everything sent before;
  \<open>o_field v f\<close> is what \<^verbatim>\<open>str.format\<close> makes of the text \<open>v\<close> under the rest \<open>f\<close> of a replacement
  field (attribute and index accesses, conversion, format specification).\<close>

record outside =
  o_env :: env
  o_host :: host
  o_smtp :: "smtp_log \<Rightarrow> smtp_reply"
  o_field :: "string \<Rightarrow> string \<Rightarrow> string res"

record core =
  c_db :: db
  c_ticks :: nat
  c_retention :: "int option"
  c_syslog :: forwarder
  c_mail :: smtp_log

definition initial_core :: "db \<Rightarrow> core" where
  "initial_core db = \<lparr>c_db = db, c_ticks = 0, c_retention = None, c_syslog = initial_forwarder, c_mail = []\<rparr>"

definition utc_now :: "outside \<Rightarrow> (core, int) run" where
  "utc_now out s = (Inr (clock (o_env out) (c_ticks s)), s\<lparr>c_ticks := Suc (c_ticks s)\<rparr>)"

text \<open>Reading the database with code that may raise, and changing it.\<close>

definition db_read :: "(db \<Rightarrow> 'a res) \<Rightarrow> (core, 'a) run" where
  "db_read f s = (f (c_db s), s)"

definition db_do :: "(db \<Rightarrow> ('a \<times> db) res) \<Rightarrow> (core, 'a) run" where
  "db_do f s = (case f (c_db s) of Inl e \<Rightarrow> (Inl e, s) | Inr (x, db') \<Rightarrow> (Inr x, s\<lparr>c_db := db'\<rparr>))"

definition db_write :: "(db \<Rightarrow> db res) \<Rightarrow> (core, unit) run" where
  "db_write f = db_do (\<lambda>db. map_res (Pair ()) (f db))"

definition db_modify :: "(db \<Rightarrow> db) \<Rightarrow> (core, unit) run" where
  "db_modify f = modify (\<lambda>s. s\<lparr>c_db := f (c_db s)\<rparr>)"

lemma utc_now_apply [simp]:
  "utc_now out s = (Inr (clock (o_env out) (c_ticks s)), s\<lparr>c_ticks := Suc (c_ticks s)\<rparr>)"
  by (simp add: utc_now_def)

lemma db_read_apply [simp]: "db_read f s = (f (c_db s), s)"
  by (simp add: db_read_def)

lemma db_modify_apply [simp]: "db_modify f s = (Inr (), s\<lparr>c_db := f (c_db s)\<rparr>)"
  by (simp add: db_modify_def)

lemma db_do_apply:
  "db_do f s = (case f (c_db s) of Inl e \<Rightarrow> (Inl e, s) | Inr (x, db') \<Rightarrow> (Inr x, s\<lparr>c_db := db'\<rparr>))"
  by (simp add: db_do_def)

lemma db_write_apply:
  "db_write f s = (case f (c_db s) of Inl e \<Rightarrow> (Inl e, s) | Inr db' \<Rightarrow> (Inr (), s\<lparr>c_db := db'\<rparr>))"
  by (simp add: db_write_def db_do_def split: sum.split)

lemma sbind_world [simp]:
  "sbind (utc_now out) f s = f (clock (o_env out) (c_ticks s)) (s\<lparr>c_ticks := Suc (c_ticks s)\<rparr>)"
  "sbind (db_modify g) k s = k () (s\<lparr>c_db := g (c_db s)\<rparr>)"
  by (simp_all add: sbind_def)

lemma sbind_db_read:
  "sbind (db_read g) f s = (case g (c_db s) of Inl e \<Rightarrow> (Inl e, s) | Inr x \<Rightarrow> f x s)"
  by (simp add: sbind_def split: sum.split)

lemma keeps_world [keeps_intro]:
  "(\<And>s. I s \<Longrightarrow> I (s\<lparr>c_ticks := Suc (c_ticks s)\<rparr>)) \<Longrightarrow> keeps I (utc_now out)"
  "keeps I (db_read h)"
  "(\<And>s. I s \<Longrightarrow> I (s\<lparr>c_db := g (c_db s)\<rparr>)) \<Longrightarrow> keeps I (db_modify g)"
  by (simp_all add: keeps_def)

definition demo_out :: outside where
  "demo_out = \<lparr>o_env = demo_env, o_host = demo_host, o_smtp = (\<lambda>_. Accepted),
     o_field = (\<lambda>v f. if startswith ''.'' f then Inl (OtherError ''AttributeError'' f) else Inr v)\<rparr>"

end
