(* ===== verification/Activity.thy ===== *)
theory Activity
  imports World
begin

text \<open>
  The activity log of \<^verbatim>\<open>activity_logging.py\<close>: levels and categories, redaction of details, the
  storage of an event (with the remote syslog queue and the retention cleanup it triggers) and the
  search. \<open>emit_core\<close> is \<^verbatim>\<open>emit_activity_event\<close> with \<^verbatim>\<open>evaluate_alerts=False\<close>; the alert rules are
  added in \<open>Alerting\<close>. The details of an event are JSON values, as every caller passes.
\<close>

section \<open>Settings\<close>

definition DETAILS_BYTE_CAP :: nat where "DETAILS_BYTE_CAP = 4096"
definition SETTING_LOG_LEVEL :: string where "SETTING_LOG_LEVEL = ''log_level''"
definition SETTING_RETENTION_DAYS :: string where "SETTING_RETENTION_DAYS = ''activity_retention_days''"
definition SETTING_LAST_RETENTION :: string where "SETTING_LAST_RETENTION = ''last_activity_retention_cleanup''"
definition DEFAULT_RETENTION_DAYS :: int where "DEFAULT_RETENTION_DAYS = 90"

definition get_log_level :: "env \<Rightarrow> db \<Rightarrow> string res" where
  "get_log_level env db =
     map_res (\<lambda>v. let raw = upper (strip v) in if raw \<in> set LOG_LEVEL_VALUES then raw else LOG_LEVEL_INFORMATIONAL)
       (typed_str env db SETTING_LOG_LEVEL)"

definition set_log_level :: "env \<Rightarrow> string \<Rightarrow> db \<Rightarrow> (string \<times> db) res" where
  "set_log_level env v db =
     (let cleaned = upper (strip v)
      in if cleaned \<notin> set LOG_LEVEL_VALUES then Inl (ValueError (''Unsupported log level: '' @ repr v))
         else map_res (Pair cleaned) (set_typed_setting_by_key env SETTING_LOG_LEVEL (VStr cleaned) db))"

definition get_retention_days :: "env \<Rightarrow> db \<Rightarrow> int res" where
  "get_retention_days env db =
     (case rbind (get_typed_setting_by_key env db SETTING_RETENTION_DAYS) value_int of
        Inr v \<Rightarrow> Inr (max 1 v)
      | Inl e \<Rightarrow> if is_value_error e \<or> is_type_error e then Inr DEFAULT_RETENTION_DAYS else Inl e)"

definition set_retention_days :: "env \<Rightarrow> int \<Rightarrow> db \<Rightarrow> (int \<times> db) res" where
  "set_retention_days env v db =
     map_res (Pair (max 1 v)) (set_typed_setting_by_key env SETTING_RETENTION_DAYS (VInt (max 1 v)) db)"

section \<open>Redaction\<close>

definition SENSITIVE_KEY_FRAGMENTS :: "string list" where
  "SENSITIVE_KEY_FRAGMENTS =
     [''password'', ''secret'', ''token'', ''api_key'', ''apikey'', ''authorization'', ''auth'',
      ''credential'', ''client_secret'', ''tsig'', ''encryption_key'']"

definition REDACTED :: string where "REDACTED = ''***redacted***''"
definition TRUNCATED :: string where "TRUNCATED = ''...[truncated]''"

definition key_is_sensitive :: "string \<Rightarrow> bool" where
  "key_is_sensitive key \<longleftrightarrow> list_ex (\<lambda>fragment. contains fragment (lower key)) SENSITIVE_KEY_FRAGMENTS"

fun redact_details :: "json \<Rightarrow> json" where
  "redact_details (JObj kvs) =
     JObj (map (\<lambda>(key, v). (key, if key_is_sensitive key then JStr REDACTED else redact_details v)) kvs)"
| "redact_details (JList xs) = JList (map redact_details xs)"
| "redact_details (JStr s) =
     (if DETAILS_BYTE_CAP < length s then JStr (take DETAILS_BYTE_CAP s @ TRUNCATED) else JStr s)"
| "redact_details j = j"

text \<open>A character below 128 takes one byte of UTF-8, one above takes two; a character cut in half
  by the cap is dropped (\<^verbatim>\<open>errors="ignore"\<close>).\<close>

definition utf8_len :: "string \<Rightarrow> nat" where
  "utf8_len s = (\<Sum>c\<leftarrow>s. if code c < 128 then 1 else 2)"

fun take_utf8 :: "nat \<Rightarrow> string \<Rightarrow> string" where
  "take_utf8 n [] = []"
| "take_utf8 n (c # s) =
     (let k = (if code c < 128 then 1 else 2) in if n < k then [] else c # take_utf8 (n - k) s)"

definition details_to_json :: "json option \<Rightarrow> string option" where
  "details_to_json details =
     (case details of
        None \<Rightarrow> None
      | Some d \<Rightarrow>
          (let encoded = dumps False (redact_details d)
           in Some (if DETAILS_BYTE_CAP < utf8_len encoded
                    then take_utf8 DETAILS_BYTE_CAP encoded @ TRUNCATED else encoded)))"

section \<open>Levels and categories\<close>

definition normalize_level :: "string \<Rightarrow> string" where
  "normalize_level level =
     (let cleaned = upper (strip level)
      in if cleaned \<in> set LOG_LEVEL_VALUES then cleaned else LOG_LEVEL_INFORMATIONAL)"

definition normalize_category :: "string option \<Rightarrow> string option" where
  "normalize_category category =
     (let cleaned = (case category of None \<Rightarrow> [] | Some c \<Rightarrow> lower (strip c))
      in if cleaned = [] then None else Some cleaned)"

definition infer_event_category :: "string \<Rightarrow> string option" where
  "infer_event_category event_type =
     (let normalized = lower (strip event_type)
      in if normalized = [] then None
         else if list_ex (\<lambda>p. startswith p normalized) SECURITY_EVENT_PREFIXES then Some LOG_CATEGORY_SECURITY
         else Some (takeWhile (\<lambda>c. c \<noteq> CHR ''.'') normalized))"

definition event_rank :: "string \<Rightarrow> int" where
  "event_rank level =
     (case map_of LOG_LEVEL_ORDER (normalize_level level) of Some n \<Rightarrow> n | None \<Rightarrow> 10)"

definition should_store_event :: "string \<Rightarrow> string \<Rightarrow> string option \<Rightarrow> bool" where
  "should_store_event event_level configured_level category \<longleftrightarrow>
     normalize_category category = Some LOG_CATEGORY_SECURITY
     \<or> event_rank configured_level \<le> event_rank event_level"

section \<open>Retention\<close>

text \<open>\<^verbatim>\<open>utc_now() - timedelta(days=days)\<close>: a \<^verbatim>\<open>timedelta\<close> holds at most 999999999 days, and a
  \<^verbatim>\<open>datetime\<close> starts at the year 1.\<close>

definition datetime_min :: int where
  "datetime_min = days (day_number 1 1 1)"

definition minus_days :: "int \<Rightarrow> int \<Rightarrow> int res" where
  "minus_days now n =
     (if 999999999 < n \<or> now - days n < datetime_min
      then Inl (OtherError ''OverflowError'' ''date value out of range'')
      else Inr (now - days n))"

definition retention_clean :: "outside \<Rightarrow> (core, nat) run" where
  "retention_clean out =
     sbind (db_read (get_retention_days (o_env out))) (\<lambda>n.
     sbind (utc_now out) (\<lambda>now.
     sbind (lift_res (minus_days now n)) (\<lambda>cutoff.
     sbind (gets (\<lambda>s. length (filter (\<lambda>r. al_timestamp r < cutoff) (activity_logs (c_db s))))) (\<lambda>removed.
     sbind (db_modify (\<lambda>db. db\<lparr>activity_logs := filter (\<lambda>r. \<not> al_timestamp r < cutoff) (activity_logs db)\<rparr>)) (\<lambda>_.
     sbind (utc_now out) (\<lambda>now'.
     sbind (db_write (set_typed_setting_by_key (o_env out) SETTING_LAST_RETENTION (VStr (iso_format now')))) (\<lambda>_.
     sbind (modify (\<lambda>s. s\<lparr>c_retention := Some now'\<rparr>)) (\<lambda>_.
     ret removed))))))))"

definition stored_throttle :: "outside \<Rightarrow> (core, bool) run" where
  "stored_throttle out =
     sbind (db_read (\<lambda>db. typed_str (o_env out) db SETTING_LAST_RETENTION)) (\<lambda>stored.
     case (if stored = [] then None else from_iso stored) of
       None \<Rightarrow> ret False
     | Some prev \<Rightarrow>
         sbind (utc_now out) (\<lambda>now.
         if now - prev < hours 24 then sbind (modify (\<lambda>s. s\<lparr>c_retention := Some prev\<rparr>)) (\<lambda>_. ret True)
         else ret False))"

definition run_retention_cleanup :: "outside \<Rightarrow> bool \<Rightarrow> (core, nat) run" where
  "run_retention_cleanup out force =
     (if force then retention_clean out
      else
        sbind (gets c_retention) (\<lambda>last_local.
        sbind (case last_local of
                 None \<Rightarrow> ret False
               | Some prev \<Rightarrow> sbind (utc_now out) (\<lambda>now. ret (now - prev < hours 24))) (\<lambda>recent.
        if recent then ret 0
        else sbind (stored_throttle out) (\<lambda>recent'. if recent' then ret 0 else retention_clean out))))"

section \<open>Emitting an event\<close>

record event =
  ev_type :: string
  ev_level :: string
  ev_category :: "string option"
  ev_status :: "string option"
  ev_actor_type :: "string option"
  ev_actor_id :: "string option"
  ev_actor_label :: "string option"
  ev_zone_name :: "string option"
  ev_record_name :: "string option"
  ev_message :: "string option"
  ev_details :: "json option"
  ev_request_method :: "string option"
  ev_request_path :: "string option"
  ev_request_status_code :: "int option"
  ev_request_ip :: "string option"

text \<open>The defaults of the keyword arguments.\<close>

definition plain_event :: "string \<Rightarrow> event" where
  "plain_event ty = \<lparr>ev_type = ty, ev_level = LOG_LEVEL_INFORMATIONAL, ev_category = None, ev_status = None,
     ev_actor_type = None, ev_actor_id = None, ev_actor_label = None, ev_zone_name = None,
     ev_record_name = None, ev_message = None, ev_details = None, ev_request_method = None,
     ev_request_path = None, ev_request_status_code = None, ev_request_ip = None\<rparr>"

definition event_category :: "event \<Rightarrow> string option" where
  "event_category ev =
     (case normalize_category (ev_category ev) of
        Some c \<Rightarrow> Some c
      | None \<Rightarrow> infer_event_category (ev_type ev))"

definition event_row :: "nat \<Rightarrow> int \<Rightarrow> event \<Rightarrow> activity_log" where
  "event_row i now ev = \<lparr>al_id = i, al_timestamp = now, al_level = normalize_level (ev_level ev),
     al_category = event_category ev, al_event_type = ev_type ev, al_status = ev_status ev,
     al_actor_type = ev_actor_type ev, al_actor_id = ev_actor_id ev, al_actor_label = ev_actor_label ev,
     al_zone_name = ev_zone_name ev, al_record_name = ev_record_name ev, al_message = ev_message ev,
     al_details_json = details_to_json (ev_details ev), al_request_method = ev_request_method ev,
     al_request_path = ev_request_path ev, al_request_status_code = ev_request_status_code ev,
     al_request_ip = ev_request_ip ev\<rparr>"

definition emit_core :: "outside \<Rightarrow> event \<Rightarrow> (core, activity_log option) run" where
  "emit_core out ev =
     sbind (db_read (get_log_level (o_env out))) (\<lambda>configured.
     if \<not> should_store_event (normalize_level (ev_level ev)) configured (event_category ev) then ret None
     else
       sbind (utc_now out) (\<lambda>now.
       sbind (gets (\<lambda>s. event_row (next_id al_id (activity_logs (c_db s))) now ev)) (\<lambda>row.
       sbind (db_modify (\<lambda>db. db\<lparr>activity_logs := activity_logs db @ [row]\<rparr>)) (\<lambda>_.
       sbind (modify (\<lambda>s. s\<lparr>c_syslog := enqueue (snapshot_of_row row) (c_syslog s)\<rparr>)) (\<lambda>_.
       sbind (catch (run_retention_cleanup out False) (\<lambda>_. ret 0)) (\<lambda>_.
       ret (Some row)))))))"

section \<open>Properties\<close>

text \<open>\<open>same_public a b\<close>: the two values differ at most below keys that are sensitive.\<close>

fun same_public :: "json \<Rightarrow> json \<Rightarrow> bool" where
  "same_public (JObj kvs) (JObj kvs') =
     list_all2 (\<lambda>p q. fst p = fst q \<and> (key_is_sensitive (fst p) \<or> same_public (snd p) (snd q))) kvs kvs'"
| "same_public (JList xs) (JList ys) = list_all2 same_public xs ys"
| "same_public a b = (a = b)"

lemma map_eq_list_all2: "map f xs = map f ys \<longleftrightarrow> list_all2 (\<lambda>x y. f x = f y) xs ys"
  by (induction xs arbitrary: ys) (auto simp: map_eq_Cons_conv list_all2_Cons1)

lemma redact_same_public: "same_public a b \<Longrightarrow> redact_details a = redact_details b"
proof (induction a b rule: same_public.induct)
  case (1 kvs kvs')
  have "list_all2 (\<lambda>p q. (\<lambda>(key, v). (key, if key_is_sensitive key then JStr REDACTED else redact_details v)) p
      = (\<lambda>(key, v). (key, if key_is_sensitive key then JStr REDACTED else redact_details v)) q) kvs kvs'"
    by (rule list.rel_mono_strong [OF 1(2) [unfolded same_public.simps]]) (use 1(1) in auto)
  then show ?case by (simp add: map_eq_list_all2)
next
  case (2 xs ys)
  have "list_all2 (\<lambda>x y. redact_details x = redact_details y) xs ys"
    by (rule list.rel_mono_strong [OF 2(2) [unfolded same_public.simps]]) (use 2(1) in auto)
  then show ?case by (simp add: map_eq_list_all2)
qed auto

lemma utf8_len_append [simp]: "utf8_len (s @ t) = utf8_len s + utf8_len t"
  by (simp add: utf8_len_def)

lemma utf8_len_take: "utf8_len (take_utf8 n s) \<le> n"
proof (induction n s rule: take_utf8.induct)
  case (2 n c s)
  then show ?case by (auto simp: utf8_len_def Let_def)
qed (simp add: utf8_len_def)

lemma utf8_len_truncated: "utf8_len TRUNCATED = 14"
  by code_simp

text \<open>
  C22. Two sets of details that differ only below sensitive keys (at any depth) are stored as the
  same text, so no value of such a key reaches the log; and the text has at most 4096 bytes, or
  4110 with the mark of a cut.
\<close>

theorem stored_details_hide_secrets:
  assumes "same_public d d'"
  shows "details_to_json (Some d) = details_to_json (Some d')
    \<and> utf8_len (the (details_to_json (Some d))) \<le> DETAILS_BYTE_CAP + 14"
proof -
  have "utf8_len (take_utf8 DETAILS_BYTE_CAP x) \<le> DETAILS_BYTE_CAP" for x by (rule utf8_len_take)
  then show ?thesis
    using redact_same_public [OF assms] by (auto simp: details_to_json_def Let_def utf8_len_truncated)
qed

lemma sensitive_example: "key_is_sensitive ''dns_password''"
  by code_simp

theorem stored_details_hide_secrets_witness:
  "details_to_json (Some (JObj [(''zone'', JObj [(''dns_password'', JStr ''hunter2'')])]))
     = details_to_json (Some (JObj [(''zone'', JObj [(''dns_password'', JInt 3)])]))"
  using stored_details_hide_secrets
    [of "JObj [(''zone'', JObj [(''dns_password'', JStr ''hunter2'')])]"
        "JObj [(''zone'', JObj [(''dns_password'', JInt 3)])]"]
  by (simp add: sensitive_example)

section \<open>Storage\<close>

lemma should_store_security:
  "should_store_event l c (Some LOG_CATEGORY_SECURITY)"
proof -
  have "normalize_category (Some LOG_CATEGORY_SECURITY) = Some LOG_CATEGORY_SECURITY" by code_simp
  then show ?thesis by (simp add: should_store_event_def)
qed

lemma normalize_category_again: "normalize_category c = Some n \<Longrightarrow> normalize_category (Some n) = Some n"
  by (auto simp: normalize_category_def Let_def split: if_splits option.splits)

subsection \<open>What emitting an event leaves alone\<close>

text \<open>\<open>log_blind f\<close>: \<open>f\<close> reads nothing of the activity log or the settings.\<close>

definition log_blind :: "(db \<Rightarrow> 'a) \<Rightarrow> bool" where
  "log_blind f \<longleftrightarrow> (\<forall>db x. f (db\<lparr>activity_logs := x\<rparr>) = f db) \<and> (\<forall>db x. f (db\<lparr>settings := x\<rparr>) = f db)"

lemma set_setting_blind: "log_blind f \<Longrightarrow> f (set_setting env k v db) = f db"
  by (simp add: log_blind_def set_setting_def split: option.split)

lemma log_blind_simps:
  "log_blind f \<Longrightarrow> f (db\<lparr>activity_logs := x\<rparr>) = f db" "log_blind f \<Longrightarrow> f (db\<lparr>settings := y\<rparr>) = f db"
  by (simp_all add: log_blind_def)

lemma set_typed_Inr:
  assumes "set_typed_setting_by_key env k v db = Inr db'"
  obtains k' raw where "db' = set_setting env k' raw db"
  using assms by (auto simp: set_typed_setting_by_key_def set_typed_setting_def rbind_eq_Inr map_res_eq_Inr)

lemma set_typed_blind: "log_blind f \<Longrightarrow> set_typed_setting_by_key env k v db = Inr db' \<Longrightarrow> f db' = f db"
  by (erule set_typed_Inr) (simp add: set_setting_blind)

lemma put_typed_all_blind: "log_blind f \<Longrightarrow> put_typed_all env kvs db = Inr db' \<Longrightarrow> f db' = f db"
  by (induction kvs arbitrary: db) (auto simp: rbind_eq_Inr set_typed_blind)

lemma keeps_db_write [keeps_intro]:
  "(\<And>s db'. I s \<Longrightarrow> g (c_db s) = Inr db' \<Longrightarrow> I (s\<lparr>c_db := db'\<rparr>)) \<Longrightarrow> keeps I (db_write g)"
  by (auto simp: keeps_def db_write_apply split: sum.splits)

lemma keeps_option [keeps_intro]:
  "(x = None \<Longrightarrow> keeps I m) \<Longrightarrow> (\<And>y. x = Some y \<Longrightarrow> keeps I (f y))
   \<Longrightarrow> keeps I (case x of None \<Rightarrow> m | Some y \<Rightarrow> f y)"
  by (cases x) simp_all

lemma keeps_retention:
  "log_blind f \<Longrightarrow> keeps (\<lambda>s. f (c_db s) = x) (run_retention_cleanup out force)"
  unfolding run_retention_cleanup_def retention_clean_def stored_throttle_def
  by (intro keeps_intro) (simp_all add: log_blind_simps set_typed_blind)

lemma keeps_emit_core:
  "log_blind f \<Longrightarrow> keeps (\<lambda>s. f (c_db s) = x) (emit_core out ev)"
  unfolding emit_core_def
  by (intro keeps_intro keeps_retention) (simp_all add: log_blind_simps)

lemma emit_core_frame:
  assumes "emit_core out ev s = (r, t)" and "log_blind f"
  shows "f (c_db t) = f (c_db s)"
  using keepsD2 [OF keeps_emit_core [OF assms(2)] refl assms(1)] .

lemma log_blind_tables [simp]:
  "log_blind users" "log_blind api_keys" "log_blind dns_zone_configs" "log_blind api_key_allowed_zones"
  "log_blind rate_limit_buckets" "log_blind alert_rules"
  by (simp_all add: log_blind_def)

subsection \<open>Which rows survive\<close>

lemma minus_days_Inr: "minus_days now n = Inr c \<Longrightarrow> c = now - days n"
  by (simp add: minus_days_def split: if_splits)

lemma get_retention_days_pos: "get_retention_days env db = Inr n \<Longrightarrow> 1 \<le> n"
  by (auto simp: get_retention_days_def DEFAULT_RETENTION_DAYS_def split: sum.splits if_splits)

lemma days_mono: "1 \<le> n \<Longrightarrow> days 1 \<le> days n"
  by (simp add: duration_defs)

lemma set_typed_logs: "set_typed_setting_by_key env k v db = Inr db' \<Longrightarrow> activity_logs db' = activity_logs db"
  by (erule set_typed_Inr) (simp add: set_setting_def split: option.split)

text \<open>The cleanup deletes exactly the rows older than the retention period.\<close>

lemma retention_clean_logs:
  assumes "retention_clean out s = (r, t)"
  obtains (untouched) "activity_logs (c_db t) = activity_logs (c_db s)"
  | (cut) n where "1 \<le> n" "get_retention_days (o_env out) (c_db s) = Inr n"
      "activity_logs (c_db t) = filter (\<lambda>r. clock (o_env out) (c_ticks s) - days n \<le> al_timestamp r) (activity_logs (c_db s))"
proof (cases "get_retention_days (o_env out) (c_db s)")
  case (Inl e)
  then show ?thesis using assms untouched by (simp add: retention_clean_def sbind_db_read)
next
  case (Inr n)
  let ?now = "clock (o_env out) (c_ticks s)"
  show ?thesis
  proof (cases "minus_days ?now n")
    case (Inl e)
    then show ?thesis using assms \<open>get_retention_days _ _ = _\<close> untouched
      by (auto simp: retention_clean_def sbind_db_read)
  next
    case (Inr c)
    have "activity_logs (c_db t) = filter (\<lambda>r. \<not> al_timestamp r < c) (activity_logs (c_db s))"
      using assms Inr \<open>get_retention_days _ _ = _\<close>
      by (auto simp: retention_clean_def sbind_db_read sbind_def [of "db_write _"] db_write_apply
          dest: set_typed_logs split: sum.splits)
    then show ?thesis
      using cut [OF get_retention_days_pos \<open>get_retention_days _ _ = _\<close>] minus_days_Inr [OF Inr] \<open>get_retention_days _ _ = _\<close>
      by (simp add: not_less)
  qed
qed


lemma stored_throttle_frame:
  assumes "stored_throttle out s = (r, t)"
  shows "c_db t = c_db s \<and> c_ticks s \<le> c_ticks t \<and> c_ticks t \<le> Suc (c_ticks s)"
  using assms
  by (auto simp: stored_throttle_def sbind_db_read split: sum.splits option.splits if_splits)

text \<open>The cleanup of one request at tick \<open>c_ticks s\<close> cannot delete a row that is not a day old.\<close>

lemma run_retention_keeps_row:
  assumes "run_retention_cleanup out force s = (r, t)" and "row \<in> set (activity_logs (c_db s))"
    and "\<forall>k \<le> 2. clock (o_env out) (c_ticks s + k) - days 1 \<le> al_timestamp row"
  shows "row \<in> set (activity_logs (c_db t))"
proof -
  have clean: "row \<in> set (activity_logs (c_db t))"
    if run: "retention_clean out u = (r', t)" and u: "c_db u = c_db s" "c_ticks s \<le> c_ticks u" "c_ticks u \<le> c_ticks s + 2"
    for u r'
  proof -
    have "clock (o_env out) (c_ticks u) - days 1 \<le> al_timestamp row"
      using assms(3) [rule_format, of "c_ticks u - c_ticks s"] u by simp
    then have "clock (o_env out) (c_ticks u) - days n \<le> al_timestamp row" if "1 \<le> n" for n
      using days_mono [OF that] by linarith
    then show ?thesis using retention_clean_logs [OF run] assms(2) u(1) by (smt (verit) mem_Collect_eq set_filter)
  qed
  show ?thesis
  proof (cases force)
    case True
    then show ?thesis using assms(1) clean [of s r] by (simp add: run_retention_cleanup_def)
  next
    case False
    have throttle: "row \<in> set (activity_logs (c_db t))"
      if "sbind (stored_throttle out) (\<lambda>recent'. if recent' then ret 0 else retention_clean out) u = (r, t)"
        and u: "c_db u = c_db s" "c_ticks s \<le> c_ticks u" "c_ticks u \<le> Suc (c_ticks s)" for u
      using that(1)
    proof (cases rule: sbind_cases)
      case (err e)
      then show ?thesis using stored_throttle_frame [of out u] u assms(2) by auto
    next
      case (ok x s')
      then show ?thesis using stored_throttle_frame [of out u] u assms(2) clean [of s' r]
        by (fastforce split: if_splits)
    qed
    show ?thesis
      using assms(1,2) throttle [of s] throttle [of "s\<lparr>c_ticks := Suc (c_ticks s)\<rparr>"] False
      by (auto simp: run_retention_cleanup_def sbind_assoc split: option.splits if_splits)
  qed
qed

text \<open>Reading the log level fails only when its stored value cannot be decrypted.\<close>

lemma emit_core_stores:
  assumes "emit_core out ev s = (r, t)"
    and "get_log_level (o_env out) (c_db s) = Inr l"
    and "should_store_event (normalize_level (ev_level ev)) l (event_category ev)"
    and "\<forall>k \<le> 3. clock (o_env out) (c_ticks s + k) < clock (o_env out) (c_ticks s) + days 1"
  shows "r = Inr (Some (event_row (next_id al_id (activity_logs (c_db s))) (clock (o_env out) (c_ticks s)) ev))
    \<and> event_row (next_id al_id (activity_logs (c_db s))) (clock (o_env out) (c_ticks s)) ev
        \<in> set (activity_logs (c_db t))"
proof -
  let ?row = "event_row (next_id al_id (activity_logs (c_db s))) (clock (o_env out) (c_ticks s)) ev"
  let ?u = "s\<lparr>c_ticks := Suc (c_ticks s), c_db := (c_db s)\<lparr>activity_logs := activity_logs (c_db s) @ [?row]\<rparr>,
      c_syslog := enqueue (snapshot_of_row ?row) (c_syslog s)\<rparr>"
  obtain r1 t1 where run: "run_retention_cleanup out False ?u = (r1, t1)" by fastforce
  have "\<forall>k \<le> 2. clock (o_env out) (c_ticks ?u + k) - days 1 \<le> al_timestamp ?row"
  proof (intro allI impI)
    fix k :: nat assume "k \<le> 2"
    then show "clock (o_env out) (c_ticks ?u + k) - days 1 \<le> al_timestamp ?row"
      using assms(4) [rule_format, of "Suc k"] by (simp add: event_row_def)
  qed
  then have "?row \<in> set (activity_logs (c_db t1))" using run_retention_keeps_row [OF run] by simp
  moreover have "(r, t) = (Inr (Some ?row), t1)"
    using assms(1-3) run by (cases r1) (simp_all add: emit_core_def sbind_db_read catch_def sbind_def [of "catch _ _"])
  ultimately show ?thesis by simp
qed

lemma infer_security:
  assumes "p \<in> set SECURITY_EVENT_PREFIXES" "startswith p (lower (strip ty))"
  shows "infer_event_category ty = Some LOG_CATEGORY_SECURITY"
proof -
  have "p \<noteq> []" using assms(1) by (auto simp: SECURITY_EVENT_PREFIXES_def)
  then show ?thesis using assms by (auto simp: infer_event_category_def Let_def list_ex_iff startswith_iff)
qed

text \<open>
  C31. An authentication, API-key or account event is always recorded, whatever its level and
  whatever threshold is configured: emitting it returns its row, and the row is in the log, under
  the category security, after the cleanup the call triggers (the handler taking less than a day).
\<close>

theorem security_event_recorded:
  assumes "emit_core out ev s = (r, t)" and "get_log_level (o_env out) (c_db s) = Inr l"
    and "p \<in> set SECURITY_EVENT_PREFIXES" and "startswith p (lower (strip (ev_type ev)))"
    and "ev_category ev = None"
    and "\<forall>k \<le> 3. clock (o_env out) (c_ticks s + k) < clock (o_env out) (c_ticks s) + days 1"
  shows "\<exists>row \<in> set (activity_logs (c_db t)). r = Inr (Some row)
    \<and> al_category row = Some LOG_CATEGORY_SECURITY \<and> al_event_type row = ev_type ev
    \<and> al_details_json row = details_to_json (ev_details ev)"
proof -
  have "normalize_category None = None" by (simp add: normalize_category_def)
  then have cat: "event_category ev = Some LOG_CATEGORY_SECURITY"
    using infer_security [OF assms(3,4)] assms(5) by (simp add: event_category_def)
  show ?thesis
    using emit_core_stores [OF assms(1,2) _ assms(6)] should_store_security cat
    by (auto simp: event_row_def)
qed

theorem security_event_recorded_witness:
  "\<exists>row \<in> set (activity_logs (c_db (snd (emit_core demo_out (plain_event ''auth.login_failed'') (initial_core empty_db))))).
     al_category row = Some LOG_CATEGORY_SECURITY"
proof -
  have level: "get_log_level (o_env demo_out) (c_db (initial_core empty_db)) = Inr LOG_LEVEL_INFORMATIONAL" by code_simp
  have pre: "''auth.'' \<in> set SECURITY_EVENT_PREFIXES" by (simp add: SECURITY_EVENT_PREFIXES_def)
  have ty: "startswith ''auth.'' (lower (strip (ev_type (plain_event ''auth.login_failed''))))" by code_simp
  have cat: "ev_category (plain_event ''auth.login_failed'') = None" by (simp add: plain_event_def)
  have clk: "\<forall>k \<le> 3. clock (o_env demo_out) (c_ticks (initial_core empty_db) + k)
      < clock (o_env demo_out) (c_ticks (initial_core empty_db)) + days 1"
    by (simp add: demo_out_def demo_env_def initial_core_def duration_defs)
  show ?thesis
    using security_event_recorded [OF surjective_pairing level pre ty cat clk] by blast
qed

text \<open>
  C32. A forced cleanup keeps exactly the rows within the retention period and reports how many it
  deleted; for the next 24 hours an event triggers no further cleanup in this process.
\<close>

theorem retention_exact_and_throttled:
  assumes "run_retention_cleanup out True s = (Inr n, t)"
    and "c_retention u = c_retention t"
    and "clock (o_env out) (c_ticks u) - clock (o_env out) (Suc (c_ticks s)) < hours 24"
  shows "(\<exists>d \<ge> 1. get_retention_days (o_env out) (c_db s) = Inr d
      \<and> activity_logs (c_db t) = filter (\<lambda>r. clock (o_env out) (c_ticks s) - days d \<le> al_timestamp r) (activity_logs (c_db s))
      \<and> n + length (activity_logs (c_db t)) = length (activity_logs (c_db s)))
    \<and> fst (run_retention_cleanup out False u) = Inr 0 \<and> c_db (snd (run_retention_cleanup out False u)) = c_db u"
proof -
  from assms(1) have run: "retention_clean out s = (Inr n, t)" by (simp add: run_retention_cleanup_def)
  let ?now = "clock (o_env out) (c_ticks s)"
  obtain d where d: "get_retention_days (o_env out) (c_db s) = Inr d"
    using run by (cases "get_retention_days (o_env out) (c_db s)") (auto simp: retention_clean_def sbind_db_read)
  obtain c where c: "minus_days ?now d = Inr c"
    using run d by (cases "minus_days ?now d") (auto simp: retention_clean_def sbind_db_read)
  have done_: "n = length (filter (\<lambda>r. al_timestamp r < c) (activity_logs (c_db s)))
      \<and> activity_logs (c_db t) = filter (\<lambda>r. \<not> al_timestamp r < c) (activity_logs (c_db s))
      \<and> c_retention t = Some (clock (o_env out) (Suc (c_ticks s)))"
    using run d c by (auto simp: retention_clean_def sbind_db_read sbind_def [of "db_write _"] db_write_apply
        dest: set_typed_logs split: sum.splits)
  then have "\<exists>d \<ge> 1. get_retention_days (o_env out) (c_db s) = Inr d
      \<and> activity_logs (c_db t) = filter (\<lambda>r. ?now - days d \<le> al_timestamp r) (activity_logs (c_db s))
      \<and> n + length (activity_logs (c_db t)) = length (activity_logs (c_db s))"
    using d get_retention_days_pos [OF d] minus_days_Inr [OF c]
      sum_length_filter_compl [of "\<lambda>r. al_timestamp r < c" "activity_logs (c_db s)"]
    by (simp add: not_less)
  moreover have "fst (run_retention_cleanup out False u) = Inr 0 \<and> c_db (snd (run_retention_cleanup out False u)) = c_db u"
    using done_ assms(2,3) by (simp add: run_retention_cleanup_def sbind_assoc)
  ultimately show ?thesis by blast
qed

text \<open>The cleanup cannot fail once the retention period is read and the cutoff is a date.\<close>

lemma retention_clean_returns:
  assumes "get_retention_days (o_env out) (c_db s) = Inr d"
    and "minus_days (clock (o_env out) (c_ticks s)) d = Inr c"
  obtains n t where "retention_clean out s = (Inr n, t)" "c_ticks t = c_ticks s + 2"
proof -
  have "str_spec SETTING_LAST_RETENTION" by (simp add: str_spec_def get_spec_def SETTING_LAST_RETENTION_def SETTING_SPECS_def setting_spec_of_def)
  then show ?thesis
    using assms that by (simp add: retention_clean_def sbind_db_read sbind_def [of "db_write _"] db_write_apply set_str)
qed

theorem retention_exact_and_throttled_witness:
  "\<exists>n t. run_retention_cleanup demo_out True (initial_core empty_db) = (Inr n, t)
    \<and> fst (run_retention_cleanup demo_out False t) = Inr 0"
proof -
  let ?s = "initial_core empty_db"
  have "get_retention_days (o_env demo_out) (c_db ?s) = Inr 90"
    "minus_days (clock (o_env demo_out) (c_ticks ?s)) 90 = Inr (- days 90)" by code_simp+
  then obtain n t where run: "retention_clean demo_out ?s = (Inr n, t)" "c_ticks t = c_ticks ?s + 2"
    by (rule retention_clean_returns)
  have "clock (o_env demo_out) (c_ticks t) - clock (o_env demo_out) (Suc (c_ticks ?s)) < hours 24"
    using run(2) by (simp add: demo_out_def demo_env_def duration_defs)
  moreover have "run_retention_cleanup demo_out True ?s = (Inr n, t)"
    using run(1) by (simp add: run_retention_cleanup_def)
  ultimately show ?thesis using retention_exact_and_throttled [of demo_out ?s n t t] by blast
qed

section \<open>Searching the log\<close>

text \<open>SQL \<^verbatim>\<open>lower(a) LIKE lower(b)\<close>, as \<^verbatim>\<open>ilike\<close> is compiled for SQLite: the per cent sign stands for
  any text, the underscore for any character. \<^verbatim>\<open>NULL\<close> matches nothing.\<close>

fun like :: "string \<Rightarrow> string \<Rightarrow> bool" where
  "like [] [] = True"
| "like [] (c # s) = False"
| "like (p # ps) [] = (p = CHR ''%'' \<and> like ps [])"
| "like (p # ps) (c # s) =
     (if p = CHR ''%'' then like ps (c # s) \<or> like (p # ps) s
      else (p = CHR ''_'' \<or> p = c) \<and> like ps s)"

definition ilike :: "string option \<Rightarrow> string \<Rightarrow> bool" where
  "ilike v pattern = (case v of None \<Rightarrow> False | Some s \<Rightarrow> like (lower pattern) (lower s))"

record log_query =
  lq_event_type :: "string option"
  lq_level :: "string option"
  lq_category :: "string option"
  lq_status :: "string option"
  lq_zone_name :: "string option"
  lq_actor :: "string option"
  lq_text_query :: "string option"
  lq_start :: "int option"
  lq_end :: "int option"

definition given :: "string option \<Rightarrow> (string \<Rightarrow> bool) \<Rightarrow> bool" where
  "given v p = (case v of None \<Rightarrow> True | Some [] \<Rightarrow> True | Some s \<Rightarrow> p s)"

text \<open>A category filter of white space only compares with \<^verbatim>\<open>NULL\<close> through \<^verbatim>\<open>IS NULL\<close>.\<close>

definition row_matches :: "log_query \<Rightarrow> activity_log \<Rightarrow> bool" where
  "row_matches q r \<longleftrightarrow>
     given (lq_event_type q) (\<lambda>v. al_event_type r = v)
     \<and> given (lq_level q) (\<lambda>v. al_level r = normalize_level v)
     \<and> given (lq_category q) (\<lambda>v. al_category r = normalize_category (Some v))
     \<and> given (lq_status q) (\<lambda>v. al_status r = Some v)
     \<and> given (lq_zone_name q) (\<lambda>v. al_zone_name r = Some v)
     \<and> given (lq_actor q) (\<lambda>v. let pat = ''%'' @ v @ ''%''
          in ilike (al_actor_label r) pat \<or> ilike (al_actor_id r) pat)
     \<and> given (lq_text_query q) (\<lambda>v. let pat = ''%'' @ v @ ''%''
          in ilike (al_message r) pat \<or> ilike (al_details_json r) pat \<or> ilike (Some (al_event_type r)) pat
             \<or> ilike (al_category r) pat \<or> ilike (al_zone_name r) pat \<or> ilike (al_actor_label r) pat)
     \<and> (case lq_start q of None \<Rightarrow> True | Some t \<Rightarrow> t \<le> al_timestamp r)
     \<and> (case lq_end q of None \<Rightarrow> True | Some t \<Rightarrow> al_timestamp r \<le> t)"

text \<open>\<^verbatim>\<open>ORDER BY timestamp DESC\<close>; rows of one time keep the order of the table.\<close>

definition newest_first :: "activity_log list \<Rightarrow> activity_log list" where
  "newest_first rows = sort_key (\<lambda>r. - al_timestamp r) rows"

definition query_activity_logs :: "log_query \<Rightarrow> nat \<Rightarrow> nat \<Rightarrow> db \<Rightarrow> activity_log list \<times> nat" where
  "query_activity_logs q limit offset db =
     (let all_rows = newest_first (filter (row_matches q) (activity_logs db))
      in (take limit (drop offset all_rows), length all_rows))"

lemma like_star_any: "like (CHR ''%'' # ps) s \<longleftrightarrow> (\<exists>u v. s = u @ v \<and> like ps v)"
proof (induction s)
  case (Cons c s)
  then show ?case by (auto simp: Cons_eq_append_conv)
qed auto

lemma like_literal:
  "CHR ''%'' \<notin> set w \<Longrightarrow> CHR ''_'' \<notin> set w \<Longrightarrow> like (w @ ps) s \<longleftrightarrow> (\<exists>v. s = w @ v \<and> like ps v)"
proof (induction w arbitrary: s)
  case (Cons x w)
  then show ?case by (cases s) auto
qed simp

lemma lower_wild: "lower_char c = CHR ''%'' \<longleftrightarrow> c = CHR ''%''" "lower_char c = CHR ''_'' \<longleftrightarrow> c = CHR ''_''"
  by (auto simp: code_inject [symmetric] case_codes char_class_defs)

definition plain_text :: "string \<Rightarrow> bool" where
  "plain_text w \<longleftrightarrow> w \<noteq> [] \<and> CHR ''%'' \<notin> set w \<and> CHR ''_'' \<notin> set w"

lemma ilike_plain:
  assumes "plain_text w"
  shows "ilike v (''%'' @ w @ ''%'') \<longleftrightarrow> (\<exists>s. v = Some s \<and> contains (lower w) (lower s))"
proof -
  have w: "CHR ''%'' \<notin> set (lower w)" "CHR ''_'' \<notin> set (lower w)"
    using assms by (auto simp: plain_text_def lower_def image_iff lower_wild dest: sym)
  have pat: "lower (''%'' @ w @ ''%'') = CHR ''%'' # lower w @ ''%''"
    by (simp add: lower_wild)
  have any: "like ''%'' s" for s using like_star_any [of "[]" s] by (metis append_Nil2 like.simps(1))
  have "like (CHR ''%'' # lower w @ ''%'') s \<longleftrightarrow> contains (lower w) s" for s
    by (auto simp: like_star_any [of "lower w @ ''%''"] like_literal [OF w] any contains_iff)
  then show ?thesis by (cases v) (simp_all only: ilike_def pat option.case, simp_all)
qed

definition text_query :: "string \<Rightarrow> log_query" where
  "text_query w = \<lparr>lq_event_type = None, lq_level = None, lq_category = None, lq_status = None,
     lq_zone_name = None, lq_actor = None, lq_text_query = Some w, lq_start = None, lq_end = None\<rparr>"

definition searched_fields :: "activity_log \<Rightarrow> string list" where
  "searched_fields r = List.map_filter id [al_message r, al_details_json r, Some (al_event_type r), al_category r,
     al_zone_name r, al_actor_label r]"

lemma row_matches_text:
  assumes "plain_text w"
  shows "row_matches (text_query w) r \<longleftrightarrow> (\<exists>s \<in> set (searched_fields r). contains (lower w) (lower s))"
proof -
  obtain c cs where "w = c # cs" using assms by (cases w) (auto simp: plain_text_def)
  then show ?thesis
    using ilike_plain [OF assms]
    by (auto simp: row_matches_def text_query_def given_def Let_def searched_fields_def map_filter_def)
qed

lemma pages_cover: "concat (map (\<lambda>p. take k (drop (p * k) xs)) [0..<n]) = take (n * k) xs"
proof (induction n)
  case (Suc n)
  then show ?case by (simp add: take_add add.commute [of k])
qed simp


definition demo_log :: db where
  "demo_log = empty_db\<lparr>activity_logs := [event_row 1 5 (plain_event ''auth.login_failed'')]\<rparr>"


end
