(* ===== verification/Template.thy ===== *)
theory Template
  imports PyText
begin

text \<open>
  Python's \<^verbatim>\<open>str.format_map\<close> on a mapping of strings whose missing keys read as the empty text
  (\<^verbatim>\<open>_SafeFormat\<close> of \<^verbatim>\<open>alerting.py\<close>). The grammar of replacement fields is that of CPython. What an
  attribute or index access, a conversion or a format specification makes of a value is the
  parameter \<open>field\<close>, which may raise.
\<close>

datatype piece = Lit char | Field string string | Bad

text \<open>The field name ends at the first colon, exclamation mark or closing brace outside square
  brackets; an opening brace there is an error.\<close>

fun name_scan :: "bool \<Rightarrow> string \<Rightarrow> (string \<times> char \<times> string) option" where
  "name_scan b [] = None"
| "name_scan True (c # s) =
     (case name_scan (c \<noteq> CHR '']'') s of None \<Rightarrow> None | Some (n, t, r) \<Rightarrow> Some (c # n, t, r))"
| "name_scan False (c # s) =
     (if c = CHR ''{'' then None
      else if c = CHR ''}'' \<or> c = CHR '':'' \<or> c = CHR ''!'' then Some ([], c, s)
      else case name_scan (c = CHR ''['') s of None \<Rightarrow> None | Some (n, t, r) \<Rightarrow> Some (c # n, t, r))"

text \<open>A format specification ends at the brace that closes the field; braces inside nest.\<close>

fun spec_scan :: "nat \<Rightarrow> string \<Rightarrow> (string \<times> string) option" where
  "spec_scan n [] = None"
| "spec_scan n (c # s) =
     (if c = CHR ''}'' \<and> n = 0 then Some ([], s)
      else case spec_scan (if c = CHR ''{'' then Suc n else if c = CHR ''}'' then n - 1 else n) s of
        None \<Rightarrow> None | Some (sp, r) \<Rightarrow> Some (c # sp, r))"

definition with_spec :: "string \<Rightarrow> string \<Rightarrow> string \<Rightarrow> (string \<times> string \<times> string) option" where
  "with_spec n conv s = (case spec_scan 0 s of None \<Rightarrow> None | Some (sp, r) \<Rightarrow> Some (n, conv @ CHR '':'' # sp, r))"

definition parse_field :: "string \<Rightarrow> (string \<times> string \<times> string) option" where
  "parse_field s =
     (case name_scan False s of
        None \<Rightarrow> None
      | Some (n, t, r) \<Rightarrow>
          if t = CHR ''}'' then Some (n, [], r)
          else if t = CHR '':'' then with_spec n [] r
          else case r of
            c # d # r' \<Rightarrow>
              if d = CHR ''}'' then Some (n, [CHR ''!'', c], r')
              else if d = CHR '':'' then with_spec n [CHR ''!'', c] r'
              else None
          | _ \<Rightarrow> None)"

lemma name_scan_shorter: "name_scan b s = Some (n, t, r) \<Longrightarrow> length r < length s"
  by (induction b s arbitrary: n rule: name_scan.induct) (fastforce split: if_splits option.splits)+

lemma spec_scan_shorter: "spec_scan k s = Some (n, r) \<Longrightarrow> length r < length s"
  by (induction k s arbitrary: n rule: spec_scan.induct) (fastforce split: if_splits option.splits)+

lemma parse_field_shorter:
  assumes "parse_field s = Some (n, f, r)"
  shows "length r < length s"
proof -
  obtain n' t r' where ns: "name_scan False s = Some (n', t, r')"
    using assms by (auto simp: parse_field_def split: option.splits)
  have spec: "length r < length u" if "with_spec a b u = Some (n, f, r)" for a b u
    using that spec_scan_shorter by (auto simp: with_spec_def split: option.splits)
  from assms ns have "length r \<le> length r'"
    by (auto simp: parse_field_def split: if_splits list.splits dest!: spec)
  with name_scan_shorter [OF ns] show ?thesis by simp
qed

function pieces :: "string \<Rightarrow> piece list" where
  "pieces [] = []"
| "pieces (c # s) =
     (if c = CHR ''}'' then (case s of d # s' \<Rightarrow> if d = CHR ''}'' then Lit c # pieces s' else [Bad] | [] \<Rightarrow> [Bad])
      else if c = CHR ''{'' then
        (if s = [] then [Bad]
         else if hd s = CHR ''{'' then Lit c # pieces (tl s)
         else case parse_field s of None \<Rightarrow> [Bad] | Some (n, f, r) \<Rightarrow> Field n f # pieces r)
      else Lit c # pieces s)"
  by pat_completeness auto
termination
  by (relation "measure length") (auto dest: parse_field_shorter)

text \<open>The text of a field. An empty or numeric name is a positional field, which \<^verbatim>\<open>format_map\<close>
  refuses.\<close>

definition field_text ::
  "(string \<Rightarrow> string \<Rightarrow> string res) \<Rightarrow> (string \<times> string) list \<Rightarrow> string \<Rightarrow> string \<Rightarrow> string res" where
  "field_text field vals n f =
     (let key = takeWhile (\<lambda>c. c \<noteq> CHR ''.'' \<and> c \<noteq> CHR ''['') n;
          rest = dropWhile (\<lambda>c. c \<noteq> CHR ''.'' \<and> c \<noteq> CHR ''['') n @ f;
          v = (case map_of vals key of None \<Rightarrow> [] | Some v \<Rightarrow> v)
      in if list_all is_digit key then Inl (ValueError ''Format string contains positional fields'')
         else if rest = [] then Inr v else field v rest)"

fun render_pieces ::
  "(string \<Rightarrow> string \<Rightarrow> string res) \<Rightarrow> (string \<times> string) list \<Rightarrow> piece list \<Rightarrow> string res" where
  "render_pieces field vals [] = Inr []"
| "render_pieces field vals (Lit c # ps) = rbind (render_pieces field vals ps) (\<lambda>t. Inr (c # t))"
| "render_pieces field vals (Field n f # ps) =
     rbind (field_text field vals n f) (\<lambda>v. rbind (render_pieces field vals ps) (\<lambda>t. Inr (v @ t)))"
| "render_pieces field vals (Bad # ps) = Inl (ValueError ''Single brace or unfinished field in format string'')"

definition format_map ::
  "(string \<Rightarrow> string \<Rightarrow> string res) \<Rightarrow> string \<Rightarrow> (string \<times> string) list \<Rightarrow> string res" where
  "format_map field template vals = render_pieces field vals (pieces template)"

lemma format_examples:
  "format_map field ''{{{zone}}} is {x}up'' [(''zone'', ''a.org'')] = Inr ''{a.org} is up''"
  "format_map (\<lambda>v f. Inr (v @ f)) ''{zone!r:>{w}}.'' [(''zone'', ''a'')] = Inr ''a!r:>{w}.''"
  "format_map field ''{0}'' vals = Inl (ValueError ''Format string contains positional fields'')"
  by code_simp+

end
