(* ===== verification/Alerting.thy ===== *)
theory Alerting
  imports Activity Template
begin

text \<open>
  The alerts of \<^verbatim>\<open>alerting.py\<close>: the SMTP settings and the check of the transport, a delivery as a
  run of SMTP commands with failover, the templates, and the evaluation of the rules for an event;
  and \<open>emit_activity_event\<close>, which is \<open>emit_core\<close> followed by that evaluation. The address and
  header parsing of \<^verbatim>\<open>email.message\<close> is modelled only in its refusal of line breaks.
\<close>

section \<open>SMTP settings\<close>

definition SMTP_SECURITY :: "string list" where "SMTP_SECURITY = [''none'', ''starttls'', ''ssl'']"
definition DEFAULT_SMTP_SECURITY :: string where "DEFAULT_SMTP_SECURITY = ''starttls''"

definition parse_csv :: "string \<Rightarrow> string list" where
  "parse_csv v = filter (\<lambda>p. p \<noteq> []) (map strip (split_char CHR '','' v))"

record smtp_config =
  sm_servers :: "string list"
  sm_port :: int
  sm_anonymous :: bool
  sm_username :: string
  sm_password :: string
  sm_from :: string
  sm_security :: string
  sm_timeout :: int
  sm_allow_insecure_auth :: bool

definition CREDENTIALS_WARNING :: string where
  "CREDENTIALS_WARNING =
     ''Credentialed SMTP requires STARTTLS or SSL. '' @
     ''Enable '' @ [CHR 0x27] @ ''Allow insecure cleartext SMTP authentication'' @ [CHR 0x27] @
     '' only if you accept the risk, '' @
     ''or use anonymous port-25 delivery without credentials.''"

definition validate_smtp_transport_security ::
  "bool \<Rightarrow> string \<Rightarrow> string \<Rightarrow> string \<Rightarrow> bool \<Rightarrow> string option" where
  "validate_smtp_transport_security anonymous username password security allow_insecure_auth =
     (let cleaned = lower (strip (or_text security DEFAULT_SMTP_SECURITY));
          uses_credentials = (\<not> anonymous \<and> (strip username \<noteq> [] \<or> strip password \<noteq> []))
      in if \<not> uses_credentials then None
         else if cleaned \<in> {''starttls'', ''ssl''} then None
         else if allow_insecure_auth then None
         else Some CREDENTIALS_WARNING)"

definition get_smtp_config :: "env \<Rightarrow> db \<Rightarrow> smtp_config res" where
  "get_smtp_config env db =
     rbind (typed_str env db ''smtp_servers'') (\<lambda>servers.
     rbind (typed_int env db ''smtp_port'' 587) (\<lambda>port.
     rbind (typed_bool env db ''smtp_anonymous'') (\<lambda>anonymous.
     rbind (typed_str env db ''smtp_security'') (\<lambda>security.
     rbind (typed_int env db ''smtp_timeout'' 10) (\<lambda>timeout.
     rbind (typed_str env db ''smtp_password'') (\<lambda>password.
     rbind (typed_str env db ''smtp_username'') (\<lambda>username.
     rbind (typed_str env db ''smtp_from'') (\<lambda>from_address.
     rbind (typed_bool env db ''smtp_allow_insecure_auth'') (\<lambda>allow.
       Inr \<lparr>sm_servers = parse_csv servers, sm_port = port, sm_anonymous = anonymous,
            sm_username = username, sm_password = password, sm_from = from_address,
            sm_security = known_or SMTP_SECURITY DEFAULT_SMTP_SECURITY (lower (strip security)),
            sm_timeout = timeout, sm_allow_insecure_auth = allow\<rparr>)))))))))"

text \<open>\<open>servers\<close> is the comma-separated text of the form.\<close>

definition set_smtp_config :: "env \<Rightarrow> string \<Rightarrow> smtp_config \<Rightarrow> bool \<Rightarrow> db \<Rightarrow> db res" where
  "set_smtp_config env servers c preserve_password_if_blank db =
     (let cleaned = lower (strip (or_text (sm_security c) DEFAULT_SMTP_SECURITY));
          security = (if cleaned \<in> set SMTP_SECURITY then cleaned else DEFAULT_SMTP_SECURITY);
          new_password = (sm_password c \<noteq> [] \<or> \<not> preserve_password_if_blank)
      in rbind (typed_str env db ''smtp_password'') (\<lambda>existing.
         case validate_smtp_transport_security (sm_anonymous c) (sm_username c)
                (if new_password then sm_password c else existing) security (sm_allow_insecure_auth c) of
           Some msg \<Rightarrow> Inl (ValueError msg)
         | None \<Rightarrow>
             put_typed_all env
               ([(''smtp_servers'', VStr servers), (''smtp_port'', VInt (sm_port c)),
                 (''smtp_anonymous'', VBool (sm_anonymous c)), (''smtp_username'', VStr (sm_username c))]
                @ (if new_password then [(''smtp_password'', VStr (sm_password c))] else [])
                @ [(''smtp_from'', VStr (sm_from c)), (''smtp_security'', VStr security),
                   (''smtp_timeout'', VInt (sm_timeout c)),
                   (''smtp_allow_insecure_auth'', VBool (sm_allow_insecure_auth c))]) db))"

section \<open>Delivery\<close>

definition smtp_do :: "outside \<Rightarrow> smtp_cmd \<Rightarrow> (core, unit) run" where
  "smtp_do out cmd s =
     (let log = c_mail s @ [cmd]
      in (case o_smtp out log of
            Accepted \<Rightarrow> Inr ()
          | SmtpError m \<Rightarrow> Inl (OtherError ''SMTPException'' m)
          | OtherSmtpError m \<Rightarrow> Inl (OtherError ''OSError'' m), s\<lparr>c_mail := log\<rparr>))"

text \<open>The \<^verbatim>\<open>finally\<close> clause: quit, or close when the server refuses to; another exception of the
  quit replaces the one under way.\<close>

definition smtp_quit :: "outside \<Rightarrow> (core, unit) run" where
  "smtp_quit out =
     catch (smtp_do out Quit) (\<lambda>e.
       if exc_name e = ''SMTPException'' then modify (\<lambda>s. s\<lparr>c_mail := c_mail s @ [Close]\<rparr>) else raise e)"

definition finally_do :: "('s, 'a) run \<Rightarrow> ('s, unit) run \<Rightarrow> ('s, 'a) run" where
  "finally_do body cleanup s =
     (case body s of (r, s1) \<Rightarrow> (case cleanup s1 of (Inl e, s2) \<Rightarrow> (Inl e, s2) | (Inr _, s2) \<Rightarrow> (r, s2)))"

definition session_body :: "outside \<Rightarrow> smtp_config \<Rightarrow> mail \<Rightarrow> (core, unit) run" where
  "session_body out c message =
     sbind (smtp_do out Ehlo) (\<lambda>_.
     sbind (if sm_security c = ''starttls''
            then sbind (smtp_do out StartTls) (\<lambda>_. smtp_do out Ehlo) else ret ()) (\<lambda>_.
     sbind (if \<not> sm_anonymous c \<and> sm_username c \<noteq> []
            then smtp_do out (Login (sm_username c) (sm_password c)) else ret ()) (\<lambda>_.
     smtp_do out (SendMessage message))))"

definition smtp_session :: "outside \<Rightarrow> smtp_config \<Rightarrow> string \<Rightarrow> mail \<Rightarrow> (core, unit) run" where
  "smtp_session out c server message =
     sbind (smtp_do out (Connect server (sm_port c) (sm_security c = ''ssl''))) (\<lambda>_.
     finally_do (session_body out c message) (smtp_quit out))"

type_synonym failures = "(string \<times> string) list"

fun try_servers ::
  "outside \<Rightarrow> smtp_config \<Rightarrow> mail \<Rightarrow> string list \<Rightarrow> failures \<Rightarrow> (core, bool \<times> failures) run" where
  "try_servers out c message [] failures s = (Inr (False, failures), s)"
| "try_servers out c message (server # servers) failures s =
     (case smtp_session out c server message s of
        (Inr _, t) \<Rightarrow> (Inr (True, failures), t)
      | (Inl e, t) \<Rightarrow> try_servers out c message servers (failures @ [(server, exc_str e)]) t)"

text \<open>\<^verbatim>\<open>len(value.splitlines()) > 1\<close>, which the default policy of \<^verbatim>\<open>EmailMessage\<close> refuses in a
  header.\<close>

definition two_lines :: "string \<Rightarrow> bool" where
  "two_lines s =
     (case dropWhile (\<lambda>c. \<not> is_line_break c) s of
        [] \<Rightarrow> False
      | c # r \<Rightarrow> (if c = CHR 0x0D \<and> r \<noteq> [] \<and> hd r = CHR 0x0A then tl r \<noteq> [] else r \<noteq> []))"

definition header_error :: py_exc where
  "header_error = ValueError ''Header values may not contain linefeed or carriage return characters''"

definition build_message :: "smtp_config \<Rightarrow> string list \<Rightarrow> string \<Rightarrow> string \<Rightarrow> mail res" where
  "build_message c recipients subject body =
     (let to_header = join '', '' recipients
      in if two_lines (sm_from c) \<or> two_lines to_header \<or> two_lines subject then Inl header_error
         else Inr \<lparr>ml_from = sm_from c, ml_to = to_header, ml_subject = subject, ml_body = body\<rparr>)"

definition send_alert_email ::
  "outside \<Rightarrow> string list \<Rightarrow> string \<Rightarrow> string \<Rightarrow> (core, bool \<times> failures) run" where
  "send_alert_email out recipients subject body =
     sbind (db_read (get_smtp_config (o_env out))) (\<lambda>c.
     if sm_servers c = [] then ret (False, [([], ''No SMTP servers configured'')])
     else if sm_from c = [] then ret (False, [([], ''SMTP from address is not configured'')])
     else if recipients = [] then ret (False, [([], ''No recipients on alert rule'')])
     else case validate_smtp_transport_security (sm_anonymous c) (sm_username c) (sm_password c)
                 (sm_security c) (sm_allow_insecure_auth c) of
            Some msg \<Rightarrow> ret (False, [([], msg)])
          | None \<Rightarrow>
              sbind (lift_res (build_message c recipients subject body)) (\<lambda>message.
              try_servers out c message (sm_servers c) []))"

section \<open>Templates\<close>

definition DEFAULT_SUBJECT_TEMPLATE :: string where
  "DEFAULT_SUBJECT_TEMPLATE = ''[api-to-dns] {level}: {event_type}''"

definition DEFAULT_BODY_TEMPLATE :: string where
  "DEFAULT_BODY_TEMPLATE =
     ''System: {system_dns_name} ({system_ip_address})'' @ [CHR 0x0A] @
     ''Timestamp: {timestamp}'' @ [CHR 0x0A] @
     ''Event: {event_type}'' @ [CHR 0x0A] @
     ''Level: {level}'' @ [CHR 0x0A] @
     ''Message: {message}'' @ [CHR 0x0A] @
     ''Zone Name: {zone_name}'' @ [CHR 0x0A] @
     ''Record: {record_name}'' @ [CHR 0x0A] @
     ''Details: {details}''"

definition opt_text :: "string option \<Rightarrow> string" where
  "opt_text v = (case v of None \<Rightarrow> [] | Some s \<Rightarrow> s)"

definition template_values_for_event :: "activity_log \<Rightarrow> (string \<times> string) list" where
  "template_values_for_event row =
     [(''event_type'', al_event_type row), (''level'', al_level row), (''category'', opt_text (al_category row)),
      (''timestamp'', iso_format (al_timestamp row)), (''message'', opt_text (al_message row)),
      (''status'', opt_text (al_status row)), (''actor_type'', opt_text (al_actor_type row)),
      (''actor_label'', opt_text (al_actor_label row)), (''actor_id'', opt_text (al_actor_id row)),
      (''zone_name'', opt_text (al_zone_name row)), (''record_name'', opt_text (al_record_name row)),
      (''details'',
        case opt_text (al_details_json row) of
          [] \<Rightarrow> []
        | t \<Rightarrow> (case json_loads t of Inr j \<Rightarrow> dumps False (sort_keys j) | Inl _ \<Rightarrow> t))]"

definition template_kept :: "py_exc \<Rightarrow> bool" where
  "template_kept e \<longleftrightarrow> is_value_error e \<or> exc_name e \<in> {''IndexError'', ''KeyError''}"

definition render_alert_template ::
  "(string \<Rightarrow> string \<Rightarrow> string res) \<Rightarrow> string \<Rightarrow> (string \<times> string) list \<Rightarrow> string res" where
  "render_alert_template field template vals =
     (if template = [] then Inr []
      else case format_map field template vals of
        Inr t \<Rightarrow> Inr t
      | Inl e \<Rightarrow> if template_kept e then Inr template else Inl e)"

section \<open>Rules\<close>

definition level_or :: "int \<Rightarrow> string \<Rightarrow> int" where
  "level_or d level = (case map_of LOG_LEVEL_ORDER (normalize_level level) of Some n \<Rightarrow> n | None \<Rightarrow> d)"

definition rule_selects :: "activity_log \<Rightarrow> alert_rule \<Rightarrow> bool" where
  "rule_selects row rule \<longleftrightarrow>
     \<not> (opt_text (ar_event_type rule) \<noteq> [] \<and> ar_event_type rule \<noteq> Some (al_event_type row))
     \<and> \<not> (opt_text (ar_category rule) \<noteq> []
           \<and> normalize_category (ar_category rule) \<noteq> normalize_category (al_category row))
     \<and> level_or 20 (ar_minimum_level rule) \<le> level_or 10 (al_level row)
     \<and> (opt_text (ar_message_contains rule) \<noteq> [] \<longrightarrow>
          contains (lower (opt_text (ar_message_contains rule)))
            (lower (join '' '' (filter (\<lambda>p. p \<noteq> []) [opt_text (al_message row), opt_text (al_details_json row)]))))"

text \<open>\<^verbatim>\<open>timedelta(minutes=m)\<close> holds less than \<open>10\<^sup>9\<close> days.\<close>

definition cooling_down :: "outside \<Rightarrow> alert_rule \<Rightarrow> (core, bool) run" where
  "cooling_down out rule =
     (case ar_last_triggered_at rule of
        None \<Rightarrow> ret False
      | Some prev \<Rightarrow>
          if ar_cooldown_minutes rule = 0 then ret False
          else if 1440 * 10 ^ 9 \<le> ar_cooldown_minutes rule
          then raise (OtherError ''OverflowError'' ''days out of range for timedelta'')
          else sbind (utc_now out) (\<lambda>now. ret (now - prev < minutes (max 0 (ar_cooldown_minutes rule)))))"

definition rule_label :: "alert_rule \<Rightarrow> string" where
  "rule_label rule = (if ar_name rule = [] then show_nat (ar_id rule) else repr (ar_name rule))"

definition email_failed_event :: "alert_rule \<Rightarrow> failures \<Rightarrow> event" where
  "email_failed_event rule failures = (plain_event ''alert.email_failed'')
     \<lparr>ev_level := LOG_LEVEL_ERROR, ev_status := Some ''error'', ev_actor_type := Some ''system'',
      ev_actor_label := Some (or_text (ar_name rule) ''alert''),
      ev_message := Some (''Alert '' @ rule_label rule @ '' could not be delivered''),
      ev_details := Some (JObj [(''rule_id'', JInt (int (ar_id rule))), (''rule_name'', JStr (ar_name rule)),
        (''failures'', JList (map (\<lambda>(server, err). JObj [(''server'', JStr server), (''error'', JStr err)]) failures))])\<rparr>"

definition email_sent_event :: "alert_rule \<Rightarrow> string list \<Rightarrow> event" where
  "email_sent_event rule recipients = (plain_event ''alert.email_sent'')
     \<lparr>ev_category := Some LOG_CATEGORY_ALERT, ev_status := Some ''success'', ev_actor_type := Some ''system'',
      ev_actor_label := Some (or_text (ar_name rule) ''alert''),
      ev_message := Some (''Alert '' @ rule_label rule @ '' delivered''),
      ev_details := Some (JObj [(''rule_id'', JInt (int (ar_id rule))), (''rule_name'', JStr (ar_name rule)),
        (''recipients'', JList (map JStr recipients))])\<rparr>"

definition mark_triggered :: "nat \<Rightarrow> int \<Rightarrow> db \<Rightarrow> db" where
  "mark_triggered i now db =
     db\<lparr>alert_rules := update_first (\<lambda>r. ar_id r = i) (\<lambda>r. r\<lparr>ar_last_triggered_at := Some now\<rparr>) (alert_rules db)\<rparr>"

definition trigger_rule :: "outside \<Rightarrow> (string \<times> string) list \<Rightarrow> alert_rule \<Rightarrow> (core, unit) run" where
  "trigger_rule out vals rule =
     (let recipients = parse_csv (ar_email_recipients rule) in
      sbind (lift_res (render_alert_template (o_field out)
        (or_text (ar_email_subject_template rule) DEFAULT_SUBJECT_TEMPLATE) vals)) (\<lambda>subject.
      sbind (lift_res (render_alert_template (o_field out)
        (or_text (ar_email_body_template rule) DEFAULT_BODY_TEMPLATE) vals)) (\<lambda>body.
      sbind (send_alert_email out recipients subject body) (\<lambda>(sent, failures).
      sbind (utc_now out) (\<lambda>now.
      sbind (db_modify (mark_triggered (ar_id rule) now)) (\<lambda>_.
      sbind (catch (emit_core out (if sent then email_sent_event rule recipients
                                   else email_failed_event rule failures)) (\<lambda>_. ret None)) (\<lambda>_.
      ret ())))))))"

fun evaluate_rules ::
  "outside \<Rightarrow> activity_log \<Rightarrow> (string \<times> string) list \<Rightarrow> alert_rule list \<Rightarrow> (core, alert_rule list) run" where
  "evaluate_rules out row vals [] = ret []"
| "evaluate_rules out row vals (rule # rules) =
     (if \<not> rule_selects row rule then evaluate_rules out row vals rules
      else
        sbind (cooling_down out rule) (\<lambda>cooling.
        if cooling then evaluate_rules out row vals rules
        else
          sbind (trigger_rule out vals rule) (\<lambda>_.
          sbind (evaluate_rules out row vals rules) (\<lambda>triggered. ret (rule # triggered)))))"

definition evaluate_alert_rules :: "outside \<Rightarrow> activity_log \<Rightarrow> (core, alert_rule list) run" where
  "evaluate_alert_rules out row =
     sbind (gets (\<lambda>s. filter ar_enabled (alert_rules (c_db s)))) (\<lambda>rules.
     if rules = [] then ret []
     else
       sbind (db_read (system_identity (o_env out) (o_host out))) (\<lambda>identity.
       evaluate_rules out row (identity @ template_values_for_event row) rules))"

section \<open>Emitting an event, with its alerts\<close>

definition emit_activity_event :: "outside \<Rightarrow> event \<Rightarrow> (core, activity_log option) run" where
  "emit_activity_event out ev =
     sbind (emit_core out ev) (\<lambda>stored.
     case stored of
       None \<Rightarrow> ret None
     | Some row \<Rightarrow>
         if ev_type ev = ''alert.email_failed'' then ret (Some row)
         else sbind (catch (sbind (evaluate_alert_rules out row) (\<lambda>_. ret ())) (\<lambda>_. ret ())) (\<lambda>_. ret (Some row)))"

section \<open>Credentials on the wire\<close>

text \<open>
  \<open>logins_protected reply sec sent cmds\<close>: after the transcript \<open>sent\<close>, on a connection that is
  encrypted when \<open>sec\<close> holds, the commands \<open>cmds\<close> send no user name or password (other than blank
  ones) on a connection that is neither opened with TLS nor upgraded by an accepted STARTTLS.
\<close>

fun logins_protected :: "(smtp_log \<Rightarrow> smtp_reply) \<Rightarrow> bool \<Rightarrow> smtp_log \<Rightarrow> smtp_log \<Rightarrow> bool" where
  "logins_protected reply sec sent [] = True"
| "logins_protected reply sec sent (c # cmds) =
     (case c of
        Connect server port tls \<Rightarrow> logins_protected reply tls (sent @ [c]) cmds
      | StartTls \<Rightarrow> logins_protected reply (sec \<or> reply (sent @ [c]) = Accepted) (sent @ [c]) cmds
      | Login user password \<Rightarrow>
          (sec \<or> strip user = [] \<and> strip password = []) \<and> logins_protected reply sec (sent @ [c]) cmds
      | _ \<Rightarrow> logins_protected reply sec (sent @ [c]) cmds)"

definition starts_connected :: "smtp_log \<Rightarrow> bool" where
  "starts_connected cmds \<longleftrightarrow> (case cmds of [] \<Rightarrow> True | c # _ \<Rightarrow> (\<exists>server port tls. c = Connect server port tls))"

lemma lp_starts: "starts_connected ys \<Longrightarrow> logins_protected reply sec sent ys = logins_protected reply sec' sent ys"
  by (cases ys) (auto simp: starts_connected_def)

lemma lp_compose:
  assumes "starts_connected ys"
  shows "logins_protected reply sec sent (xs @ ys)
    \<longleftrightarrow> logins_protected reply sec sent xs \<and> logins_protected reply False (sent @ xs) ys"
proof (induction xs arbitrary: sec sent)
  case Nil
  then show ?case using lp_starts [OF assms, of reply sec sent False] by simp
qed (auto split: smtp_cmd.splits)

definition may_login :: "smtp_config \<Rightarrow> bool" where
  "may_login c \<longleftrightarrow> sm_security c \<in> set SMTP_SECURITY
     \<and> (sm_security c = ''none'' \<longrightarrow> sm_anonymous c \<or> strip (sm_username c) = [] \<and> strip (sm_password c) = [])"

lemma lp_tail: "set ys \<subseteq> {Quit, Close} \<Longrightarrow> logins_protected reply sec sent (xs @ ys) = logins_protected reply sec sent xs"
proof (induction xs arbitrary: sec sent)
  case Nil
  then show ?case by (induction ys arbitrary: sent) auto
qed (auto split: smtp_cmd.splits)

lemma session_body_log:
  assumes "may_login c"
  shows "\<exists>new. c_mail (snd (session_body out c message s)) = c_mail s @ new
    \<and> logins_protected (o_smtp out) (sm_security c = ''ssl'') (c_mail s) new"
  using assms
  unfolding session_body_def sbind_def may_login_def SMTP_SECURITY_def
  by (auto simp: smtp_do_def Let_def split: smtp_reply.split)

lemma smtp_quit_log: "\<exists>tail. c_mail (snd (smtp_quit out s)) = c_mail s @ tail \<and> set tail \<subseteq> {Quit, Close}"
  by (auto simp: smtp_quit_def catch_def smtp_do_def Let_def split: smtp_reply.split)

lemma finally_snd: "snd (finally_do body cleanup s) = snd (cleanup (snd (body s)))"
  by (simp add: finally_do_def split: prod.split sum.split)

lemma session_log:
  assumes "may_login c"
  shows "\<exists>new. c_mail (snd (smtp_session out c server message s)) = c_mail s @ new
    \<and> starts_connected new \<and> logins_protected (o_smtp out) False (c_mail s) new"
proof -
  let ?con = "Connect server (sm_port c) (sm_security c = ''ssl'')"
  let ?u = "s\<lparr>c_mail := c_mail s @ [?con]\<rparr>"
  obtain new where new: "c_mail (snd (session_body out c message ?u)) = c_mail ?u @ new"
    "logins_protected (o_smtp out) (sm_security c = ''ssl'') (c_mail ?u) new"
    using session_body_log [OF assms] by blast
  obtain tail where tail: "c_mail (snd (smtp_quit out (snd (session_body out c message ?u))))
      = c_mail (snd (session_body out c message ?u)) @ tail" "set tail \<subseteq> {Quit, Close}"
    using smtp_quit_log by blast
  have fin: "c_mail (snd (finally_do (session_body out c message) (smtp_quit out) ?u))
      = c_mail s @ ?con # new @ tail"
    using new(1) tail(1) by (simp add: finally_snd)
  have "c_mail (snd (smtp_session out c server message s))
      \<in> {c_mail s @ [?con], c_mail s @ ?con # new @ tail}"
    using fin by (auto simp: smtp_session_def sbind_def smtp_do_def Let_def split: smtp_reply.split)
  moreover have "logins_protected (o_smtp out) False (c_mail s) (?con # new @ tail)"
    using new(2) lp_tail [OF tail(2)] by simp
  moreover have "starts_connected [?con]" "starts_connected (?con # new @ tail)"
    by (simp_all add: starts_connected_def)
  ultimately show ?thesis by fastforce
qed

lemma try_servers_log:
  assumes "may_login c"
  shows "\<exists>new. c_mail (snd (try_servers out c message servers failures s)) = c_mail s @ new
    \<and> starts_connected new \<and> logins_protected (o_smtp out) False (c_mail s) new"
proof (induction servers arbitrary: failures s)
  case Nil
  then show ?case by (simp add: starts_connected_def)
next
  case (Cons server servers)
  obtain r t where st: "smtp_session out c server message s = (r, t)" by fastforce
  obtain new where new: "c_mail t = c_mail s @ new" "starts_connected new"
    "logins_protected (o_smtp out) False (c_mail s) new"
    using session_log [OF assms, of out server message s] st by auto
  show ?case
  proof (cases r)
    case (Inl e)
    obtain new' where new': "c_mail (snd (try_servers out c message servers (failures @ [(server, exc_str e)]) t)) = c_mail t @ new'"
      "starts_connected new'" "logins_protected (o_smtp out) False (c_mail t) new'"
      using Cons.IH by blast
    have "starts_connected (new @ new')" using new(2) new'(2) by (cases new) (auto simp: starts_connected_def)
    moreover have "logins_protected (o_smtp out) False (c_mail s) (new @ new')"
      using new new' lp_compose [OF new'(2)] by simp
    ultimately show ?thesis using st Inl new(1) new'(1) by fastforce
  qed (use st new in fastforce)
qed

text \<open>
  C20. Whatever the SMTP servers answer, in whatever order they are tried and however a session
  breaks off, sending an alert never transmits the stored user name or password on a connection
  that is not encrypted, unless the administrator allowed it.
\<close>

theorem alert_mail_protects_credentials:
  assumes "send_alert_email out recipients subject body s = (r, t)"
    and "typed_bool (o_env out) (c_db s) ''smtp_allow_insecure_auth'' = Inr False"
  shows "\<exists>new. c_mail t = c_mail s @ new \<and> logins_protected (o_smtp out) False (c_mail s) new"
proof (cases "c_mail t = c_mail s")
  case False
  obtain c where c: "get_smtp_config (o_env out) (c_db s) = Inr c"
    using assms(1) False by (cases "get_smtp_config (o_env out) (c_db s)")
      (auto simp: send_alert_email_def sbind_db_read)
  have sec: "sm_security c \<in> set SMTP_SECURITY" "\<not> sm_allow_insecure_auth c"
    using c assms(2) by (auto simp: get_smtp_config_def rbind_eq_Inr known_or_def SMTP_SECURITY_def DEFAULT_SMTP_SECURITY_def)
  have guard: "validate_smtp_transport_security (sm_anonymous c) (sm_username c) (sm_password c)
      (sm_security c) (sm_allow_insecure_auth c) = None"
    using assms(1) False c by (auto simp: send_alert_email_def sbind_db_read split: if_splits option.splits)
  have words: "lower (strip ''none'') = ''none''" by code_simp
  have "may_login c"
    unfolding may_login_def using sec guard words
    by (auto simp: validate_smtp_transport_security_def Let_def or_text_def split: if_splits)
  moreover obtain message where "try_servers out c message (sm_servers c) [] s = (r, t)"
    using assms(1) False c guard
    by (cases "build_message c recipients subject body")
      (auto simp: send_alert_email_def sbind_db_read split: if_splits)
  ultimately show ?thesis using try_servers_log by (metis snd_conv)
qed auto

definition demo_smtp_config :: smtp_config where
  "demo_smtp_config = \<lparr>sm_servers = [], sm_port = 587, sm_anonymous = False, sm_username = ''bot'',
     sm_password = ''pw'', sm_from = ''bot@example.com'', sm_security = ''starttls'', sm_timeout = 10,
     sm_allow_insecure_auth = False\<rparr>"

definition demo_smtp_db :: db where
  "demo_smtp_db = projr (set_smtp_config demo_env ''mail1.example.com, mail2.example.com'' demo_smtp_config True empty_db)"

theorem alert_mail_protects_credentials_witness:
  "Login ''bot'' ''pw'' \<in> set (c_mail (snd (send_alert_email demo_out [''ops@example.com''] ''s'' ''b'' (initial_core demo_smtp_db))))
   \<and> (\<exists>new. c_mail (snd (send_alert_email demo_out [''ops@example.com''] ''s'' ''b'' (initial_core demo_smtp_db)))
          = [] @ new \<and> logins_protected (o_smtp demo_out) False [] new)"
proof
  have "typed_bool (o_env demo_out) (c_db (initial_core demo_smtp_db)) ''smtp_allow_insecure_auth'' = Inr False"
    by code_simp
  from alert_mail_protects_credentials [OF surjective_pairing this]
  show "\<exists>new. c_mail (snd (send_alert_email demo_out [''ops@example.com''] ''s'' ''b'' (initial_core demo_smtp_db)))
          = [] @ new \<and> logins_protected (o_smtp demo_out) False [] new"
    by (simp add: initial_core_def)
  show "Login ''bot'' ''pw'' \<in> set (c_mail (snd (send_alert_email demo_out [''ops@example.com''] ''s'' ''b'' (initial_core demo_smtp_db))))"
    by code_simp
qed

section \<open>What emitting an event leaves alone\<close>

definition event_blind :: "(db \<Rightarrow> 'a) \<Rightarrow> bool" where
  "event_blind f \<longleftrightarrow> log_blind f \<and> (\<forall>db x. f (db\<lparr>alert_rules := x\<rparr>) = f db)"

lemma event_blind_tables [simp]:
  "event_blind users" "event_blind api_keys" "event_blind dns_zone_configs"
  "event_blind api_key_allowed_zones" "event_blind rate_limit_buckets"
  by (simp_all add: event_blind_def log_blind_def)

lemma keeps_smtp_do: "keeps (\<lambda>s. f (c_db s) = x) (smtp_do out cmd)"
  by (simp add: keeps_def smtp_do_def Let_def)

lemma keeps_smtp_quit: "keeps (\<lambda>s. f (c_db s) = x) (smtp_quit out)"
  unfolding smtp_quit_def by (intro keeps_intro keeps_smtp_do) simp_all

lemma keeps_finally_do [keeps_intro]: "keeps I m \<Longrightarrow> keeps I q \<Longrightarrow> keeps I (finally_do m q)"
  by (simp add: keeps_def finally_snd)

lemma keeps_session: "keeps (\<lambda>s. f (c_db s) = x) (smtp_session out c server message)"
  unfolding smtp_session_def session_body_def by (intro keeps_intro keeps_smtp_do keeps_smtp_quit)

lemma keeps_try_servers: "keeps (\<lambda>s. f (c_db s) = x) (try_servers out c message servers failures)"
proof (induction servers arbitrary: failures)
  case (Cons server servers)
  show ?case
    using Cons keeps_session [of f x out c server message]
    by (auto simp: keeps_def split: prod.split sum.split)
qed (simp add: keeps_def)

lemma keeps_send_alert_email: "keeps (\<lambda>s. f (c_db s) = x) (send_alert_email out recipients subject body)"
  unfolding send_alert_email_def by (intro keeps_intro keeps_try_servers)

lemma keeps_trigger_rule:
  assumes "event_blind f"
  shows "keeps (\<lambda>s. f (c_db s) = x) (trigger_rule out vals rule)"
  using assms unfolding trigger_rule_def Let_def case_prod_beta'
  by (intro keeps_intro keeps_send_alert_email keeps_emit_core) (simp_all add: event_blind_def mark_triggered_def)

lemma keeps_evaluate_rules:
  assumes "event_blind f"
  shows "keeps (\<lambda>s. f (c_db s) = x) (evaluate_rules out row vals rules)"
proof (induction rules)
  case (Cons rule rules)
  show ?case
    unfolding evaluate_rules.simps cooling_down_def
    by (intro keeps_intro Cons.IH keeps_trigger_rule [OF assms]) simp_all
qed (simp add: keeps_def)

lemma keeps_emit [keeps_intro]:
  assumes "event_blind f"
  shows "keeps (\<lambda>s. f (c_db s) = x) (emit_activity_event out ev)"
  unfolding emit_activity_event_def evaluate_alert_rules_def
  by (intro keeps_intro keeps_emit_core keeps_evaluate_rules assms) (use assms in \<open>simp add: event_blind_def\<close>)

lemma emit_frame:
  assumes "emit_activity_event out ev s = (r, t)" and "event_blind f"
  shows "f (c_db t) = f (c_db s)"
  using keepsD2 [OF keeps_emit [OF assms(2)] refl assms(1)] .

text \<open>An error in the template of a rule that is not one of the three caught classes ends the
  evaluation: the rules behind it are not looked at.\<close>

lemma bad_template_stops_rules:
  assumes "rule_selects row rule" and "ar_last_triggered_at rule = None"
    and "format_map (o_field out) (ar_email_subject_template rule) vals = Inl e" and "\<not> template_kept e"
    and "ar_email_subject_template rule \<noteq> []"
  shows "evaluate_rules out row vals (rule # rules) s = (Inl e, s)"
proof -
  have "trigger_rule out vals rule s = (Inl e, s)"
    using assms(3-5) by (simp add: trigger_rule_def render_alert_template_def or_text_def Let_def)
  then show ?thesis using assms(1,2) by (simp add: cooling_down_def sbind_Inl)
qed

lemma bad_template_example:
  "format_map (o_field demo_out) ''{message.x}'' vals = Inl (OtherError ''AttributeError'' ''.x'')"
  "\<not> template_kept (OtherError ''AttributeError'' ''.x'')"
  by (code_simp, simp add: template_kept_def)

text \<open>The same happens to a header with two lines, as a message or zone name rendered into the subject
  may have.\<close>

lemma two_line_subject_refused:
  "two_lines subject \<Longrightarrow> build_message c recipients subject body = Inl header_error"
  by (simp add: build_message_def Let_def)

end
