(* ===== verification/Users.thy ===== *)
theory Users
  imports Alerting Csrf
begin

text \<open>
  The accounts: the handlers of \<^verbatim>\<open>routes/settings_users.py\<close> (change of one's own password, creation,
  disabling, enabling, deletion, password reset, roles) and the login and logout of
  \<^verbatim>\<open>routes/auth_pages.py\<close>, as runs over the shared state. The page a handler renders is reduced to
  its message, the form it fills again and the cookie it sets. A request is one atomic step.
\<close>

section \<open>Pages and events\<close>

record page =
  pg_message :: string
  pg_error :: bool
  pg_form :: "(string \<times> string list) option"
  pg_cookie :: "string option"

definition notice :: "string \<Rightarrow> page" where
  "notice msg = \<lparr>pg_message = msg, pg_error = False, pg_form = None, pg_cookie = None\<rparr>"

definition failure :: "string \<Rightarrow> page" where
  "failure msg = (notice msg)\<lparr>pg_error := True\<rparr>"

definition form_failure :: "string \<Rightarrow> string \<Rightarrow> string list \<Rightarrow> page" where
  "form_failure msg username roles = (failure msg)\<lparr>pg_form := Some (username, roles)\<rparr>"

definition user_event :: "string \<Rightarrow> string \<Rightarrow> string \<Rightarrow> string \<Rightarrow> (string \<times> json) list \<Rightarrow> event" where
  "user_event ty level actor msg details = (plain_event ty)
     \<lparr>ev_level := level, ev_status := Some ''success'', ev_actor_type := Some ''user'',
      ev_actor_label := Some actor, ev_message := Some msg, ev_details := Some (JObj details)\<rparr>"

definition target_details :: "string \<Rightarrow> nat \<Rightarrow> (string \<times> json) list" where
  "target_details username user_id =
     [(''target_username'', JStr username), (''target_user_id'', JInt (int user_id))]"

definition emit_then :: "outside \<Rightarrow> event \<Rightarrow> page \<Rightarrow> (core, page) run" where
  "emit_then out ev p = sbind (emit_activity_event out ev) (\<lambda>_. ret p)"

text \<open>The dependency \<^verbatim>\<open>require_role(role)\<close> of a route, then its body.\<close>

definition with_role :: "string \<Rightarrow> session \<Rightarrow> (string \<Rightarrow> (core, page) run) \<Rightarrow> (core, page) run" where
  "with_role role sess body = sbind (lift_res (require_role role (Some (se_roles sess)) (se_user sess))) body"

definition with_target :: "nat \<Rightarrow> (user_row \<Rightarrow> (core, page) run) \<Rightarrow> (core, page) run" where
  "with_target user_id body =
     sbind (gets (\<lambda>s. get_user (c_db s) user_id)) (\<lambda>target.
       case target of None \<Rightarrow> ret (failure ''User not found.'') | Some u \<Rightarrow> body u)"

definition guarded :: "string \<Rightarrow> user_row \<Rightarrow> (core, page) run \<Rightarrow> (core, page) run" where
  "guarded actor target body =
     sbind (gets (\<lambda>s. global_admin_guard_message (c_db s) actor target)) (\<lambda>g.
       case g of Some msg \<Rightarrow> ret (failure msg) | None \<Rightarrow> body)"

section \<open>Handlers\<close>

definition settings_self_password_change ::
  "outside \<Rightarrow> signer \<Rightarrow> session \<Rightarrow> string \<Rightarrow> string \<Rightarrow> string \<Rightarrow> (core, page) run" where
  "settings_self_password_change out sg sess current_password new_password confirm_password =
     (let user = se_user sess; env = o_env out in
      if new_password = [] then ret (failure ''A new password is required.'')
      else if new_password \<noteq> confirm_password then ret (failure ''New password and confirmation do not match.'')
      else
        sbind (gets (\<lambda>s. find_user (c_db s) user)) (\<lambda>target.
        case target of
          None \<Rightarrow> ret (failure ''Current password is incorrect.'')
        | Some u \<Rightarrow>
            if \<not> verify_pw env current_password (us_password_hash u)
            then ret (failure ''Current password is incorrect.'')
            else
              sbind (db_modify (\<lambda>db. bump_session_version (us_id u)
                (update_user (us_id u) (\<lambda>r. r\<lparr>us_password_hash := hash_pw env new_password\<rparr>) db))) (\<lambda>_.
              sbind (emit_activity_event out (user_event ''user.password_changed'' LOG_LEVEL_INFORMATIONAL user
                (''User '' @ repr user @ '' changed their own password'') [(''target_username'', JStr user)])) (\<lambda>_.
              sbind (utc_now out) (\<lambda>now.
              ret ((notice ''Password changed.'')\<lparr>pg_cookie :=
                Some (create_session_cookie sg (now div 1000000) user (us_session_version u + 1))\<rparr>))))))"

definition settings_user_create ::
  "outside \<Rightarrow> session \<Rightarrow> string \<Rightarrow> string \<Rightarrow> string list \<Rightarrow> (core, page) run" where
  "settings_user_create out sess username password roles =
     with_role ROLE_ACCOUNT_UPDATE sess (\<lambda>user.
       let normalized = strip username; selected = normalize_selected_roles roles; env = o_env out in
       if normalized = [] then ret (form_failure ''Username is required.'' username selected)
       else if password = [] then ret (form_failure ''Password is required.'' normalized selected)
       else
         sbind (gets (\<lambda>s. validate_role_assignment (c_db s) user selected None)) (\<lambda>assignment_error.
         case assignment_error of
           Some msg \<Rightarrow> ret (form_failure msg normalized selected)
         | None \<Rightarrow>
             sbind (gets (\<lambda>s. find_user (c_db s) normalized)) (\<lambda>existing.
             case existing of
               Some _ \<Rightarrow> ret (form_failure (''A user named '' @ repr normalized @ '' already exists.'') normalized selected)
             | None \<Rightarrow>
                 sbind (db_modify (\<lambda>db. db\<lparr>users := users db @
                   [\<lparr>us_id = next_id us_id (users db), us_username = normalized,
                     us_password_hash = hash_pw env password,
                     us_roles = serialize_roles selected, us_disabled = False, us_session_version = 0\<rparr>]\<rparr>)) (\<lambda>_.
                 emit_then out (user_event ''user.created'' LOG_LEVEL_INFORMATIONAL user
                     (''User '' @ repr normalized @ '' created'')
                     [(''target_username'', JStr normalized), (''roles'', JList (map JStr selected))])
                   (notice (''User '' @ repr normalized @ '' created.''))))))"

definition settings_user_disable :: "outside \<Rightarrow> session \<Rightarrow> nat \<Rightarrow> (core, page) run" where
  "settings_user_disable out sess user_id =
     with_role ROLE_ACCOUNT_UPDATE sess (\<lambda>user.
     with_target user_id (\<lambda>target.
     guarded user target (
       if us_disabled target then ret (failure (''User '' @ repr (us_username target) @ '' is already disabled.''))
       else
         sbind (gets (\<lambda>s. length (filter (\<lambda>u. \<not> us_disabled u) (users (c_db s))))) (\<lambda>enabled.
         if enabled \<le> 1 then ret (failure ''At least one enabled user account must remain.'')
         else if us_username target = user then ret (failure ''You cannot disable the user you are signed in as.'')
         else
           sbind (db_modify (\<lambda>db. bump_session_version user_id
             (update_user user_id (\<lambda>r. r\<lparr>us_disabled := True\<rparr>) db))) (\<lambda>_.
           emit_then out (user_event ''user.disabled'' LOG_LEVEL_WARNING user
               (''User '' @ repr (us_username target) @ '' disabled'') (target_details (us_username target) user_id))
             (notice (''User '' @ repr (us_username target) @ '' disabled.'')))))))"

definition settings_user_enable :: "outside \<Rightarrow> session \<Rightarrow> nat \<Rightarrow> (core, page) run" where
  "settings_user_enable out sess user_id =
     with_role ROLE_ACCOUNT_UPDATE sess (\<lambda>user.
     with_target user_id (\<lambda>target.
     guarded user target (
       if \<not> us_disabled target then ret (failure (''User '' @ repr (us_username target) @ '' is already enabled.''))
       else
         sbind (db_modify (update_user user_id (\<lambda>r. r\<lparr>us_disabled := False\<rparr>))) (\<lambda>_.
         emit_then out (user_event ''user.enabled'' LOG_LEVEL_INFORMATIONAL user
             (''User '' @ repr (us_username target) @ '' enabled'') (target_details (us_username target) user_id))
           (notice (''User '' @ repr (us_username target) @ '' enabled.''))))))"

definition settings_user_delete :: "outside \<Rightarrow> session \<Rightarrow> nat \<Rightarrow> (core, page) run" where
  "settings_user_delete out sess user_id =
     with_role ROLE_ACCOUNT_UPDATE sess (\<lambda>user.
     with_target user_id (\<lambda>target.
     guarded user target (
       sbind (gets (\<lambda>s. length (users (c_db s)))) (\<lambda>remaining.
       if remaining \<le> 1 then ret (failure ''At least one user account must remain.'')
       else if us_username target = user then ret (failure ''You cannot delete the user you are signed in as.'')
       else if \<not> us_disabled target then ret (failure ''Disable the user account before deleting it.'')
       else
         sbind (db_modify (\<lambda>db. db\<lparr>users := remove_first (\<lambda>u. us_id u = user_id) (users db)\<rparr>)) (\<lambda>_.
         emit_then out (user_event ''user.deleted'' LOG_LEVEL_WARNING user
             (''User '' @ repr (us_username target) @ '' deleted'') (target_details (us_username target) user_id))
           (notice (''User '' @ repr (us_username target) @ '' deleted.'')))))))"

definition settings_user_reset_password :: "outside \<Rightarrow> session \<Rightarrow> nat \<Rightarrow> string \<Rightarrow> string \<Rightarrow> (core, page) run" where
  "settings_user_reset_password out sess user_id password confirm_password =
     with_role ROLE_ACCOUNT_RESET_PASSWORD sess (\<lambda>user.
     if password = [] \<or> confirm_password = [] then ret (failure ''A new password is required.'')
     else if password \<noteq> confirm_password then ret (failure ''New password and confirmation do not match.'')
     else
       with_target user_id (\<lambda>target.
       guarded user target (
         if us_disabled target then ret (failure ''Enable the user account before resetting its password.'')
         else
           sbind (db_modify (\<lambda>db. bump_session_version user_id
             (update_user user_id (\<lambda>r. r\<lparr>us_password_hash := hash_pw (o_env out) password\<rparr>) db))) (\<lambda>_.
           emit_then out (user_event ''user.password_reset'' LOG_LEVEL_WARNING user
               (''Password reset for '' @ repr (us_username target)) (target_details (us_username target) user_id))
             (notice (''Password reset for '' @ repr (us_username target) @ ''.''))))))"

definition settings_user_update_roles :: "outside \<Rightarrow> session \<Rightarrow> nat \<Rightarrow> string list \<Rightarrow> (core, page) run" where
  "settings_user_update_roles out sess user_id roles =
     with_role ROLE_ACCOUNT_UPDATE sess (\<lambda>user.
     let selected = normalize_selected_roles roles in
     with_target user_id (\<lambda>target.
     guarded user target (
       if us_username target = user
       then ret (failure ''You cannot edit roles for the user you are signed in as.'')
       else
         sbind (gets (\<lambda>s. validate_role_assignment (c_db s) user selected
           (Some (parse_roles (Some (us_roles target)))))) (\<lambda>assignment_error.
         case assignment_error of
           Some msg \<Rightarrow> ret (failure msg)
         | None \<Rightarrow>
             if us_disabled target then ret (failure ''Enable the user account before editing its roles.'')
             else
               sbind (db_modify (\<lambda>db. bump_session_version user_id
                 (update_user user_id (\<lambda>r. r\<lparr>us_roles := serialize_roles selected\<rparr>) db))) (\<lambda>_.
               emit_then out (user_event ''user.roles_updated'' LOG_LEVEL_INFORMATIONAL user
                   (''Roles updated for '' @ repr (us_username target))
                   [(''target_username'', JStr (us_username target)), (''roles'', JList (map JStr selected))])
                 (notice (''Roles updated for '' @ repr (us_username target) @ ''.'')))))))"

section \<open>Login and logout\<close>

text \<open>\<open>dummy\<close> is the hash that a missing or disabled account is checked against.\<close>

definition login :: "outside \<Rightarrow> signer \<Rightarrow> string \<Rightarrow> string option \<Rightarrow> string \<Rightarrow> string \<Rightarrow> (core, page) run" where
  "login out sg dummy ip username password =
     sbind (gets (\<lambda>s. find_user (c_db s) username)) (\<lambda>found.
       let live = (case found of Some u \<Rightarrow> \<not> us_disabled u | None \<Rightarrow> False);
           password_ok = verify_pw (o_env out) password
             (case found of Some u \<Rightarrow> if us_disabled u then dummy else us_password_hash u | None \<Rightarrow> dummy);
           base = \<lparr>ev_type = ''auth.login_failed'', ev_level = LOG_LEVEL_WARNING, ev_category = None,
             ev_status = Some ''error'', ev_actor_type = Some ''user'', ev_actor_id = None,
             ev_actor_label = Some username, ev_zone_name = None, ev_record_name = None,
             ev_message = Some (''Failed login for '' @ repr username),
             ev_details = Some (JObj [(''reason'', JStr (if found \<noteq> None \<and> \<not> live then ''disabled'' else ''invalid_credentials''))]),
             ev_request_method = None, ev_request_path = None, ev_request_status_code = None, ev_request_ip = ip\<rparr>
       in if \<not> live \<or> \<not> password_ok
          then sbind (catch (emit_activity_event out base) (\<lambda>_. ret None)) (\<lambda>_. ret (failure ''Invalid credentials.''))
          else
            sbind (catch (emit_activity_event out ((plain_event ''auth.login_succeeded'')
              \<lparr>ev_status := Some ''success'', ev_actor_type := Some ''user'', ev_actor_label := Some username,
               ev_message := Some (''Successful login for '' @ repr username), ev_request_ip := ip\<rparr>)) (\<lambda>_. ret None)) (\<lambda>_.
            sbind (utc_now out) (\<lambda>now.
            ret ((notice [])\<lparr>pg_cookie := Some (create_session_cookie sg (now div 1000000) username
              (case found of Some u \<Rightarrow> us_session_version u | None \<Rightarrow> 0))\<rparr>))))"

definition logout :: "outside \<Rightarrow> signer \<Rightarrow> string option \<Rightarrow> string option \<Rightarrow> (core, page) run" where
  "logout out sg ip session_token =
     (case session_token of
        None \<Rightarrow> ret (notice [])
      | Some token \<Rightarrow>
          if token = [] then ret (notice [])
          else
            sbind (utc_now out) (\<lambda>now.
            case verify_session_cookie sg (now div 1000000) token of
              Inl _ \<Rightarrow> ret (notice [])
            | Inr (actor, version) \<Rightarrow>
                if actor = [] then ret (notice [])
                else
                  sbind (catch (emit_activity_event out ((plain_event ''auth.logout'')
                    \<lparr>ev_status := Some ''success'', ev_actor_type := Some ''user'', ev_actor_label := Some actor,
                     ev_message := Some (''Logout for '' @ repr actor), ev_request_ip := ip\<rparr>)) (\<lambda>_. ret None)) (\<lambda>_.
                  ret (notice []))))"

section \<open>An enabled administrator remains\<close>

text \<open>What the dependencies of a route establish: the session belongs to an enabled account, with
  its version and effective roles.\<close>

definition session_open :: "db \<Rightarrow> session \<Rightarrow> bool" where
  "session_open db sess \<longleftrightarrow>
     (case find_user db (se_user sess) of
        None \<Rightarrow> False
      | Some u \<Rightarrow> \<not> us_disabled u \<and> us_session_version u = se_version sess
          \<and> se_roles sess = effective_roles (parse_roles (Some (us_roles u))))"

lemma load_opens: "load_current_user sg now req db = Inr sess \<Longrightarrow> session_open db sess"
  by (auto simp: load_current_user_Inr session_open_def)

text \<open>One request that changes accounts, made under an open session, or a login or logout.\<close>

inductive account_step :: "outside \<Rightarrow> signer \<Rightarrow> core \<Rightarrow> core \<Rightarrow> bool" for out sg where
  password: "session_open (c_db s) sess \<Longrightarrow>
    account_step out sg s (snd (settings_self_password_change out sg sess old new confirm s))"
| create: "session_open (c_db s) sess \<Longrightarrow>
    account_step out sg s (snd (settings_user_create out sess username password roles s))"
| disable: "session_open (c_db s) sess \<Longrightarrow> account_step out sg s (snd (settings_user_disable out sess i s))"
| enable: "session_open (c_db s) sess \<Longrightarrow> account_step out sg s (snd (settings_user_enable out sess i s))"
| delete: "session_open (c_db s) sess \<Longrightarrow> account_step out sg s (snd (settings_user_delete out sess i s))"
| reset: "session_open (c_db s) sess \<Longrightarrow>
    account_step out sg s (snd (settings_user_reset_password out sess i password confirm s))"
| roles: "session_open (c_db s) sess \<Longrightarrow>
    account_step out sg s (snd (settings_user_update_roles out sess i roles s))"
| login: "account_step out sg s (snd (login out sg dummy ip username password s))"
| logout: "account_step out sg s (snd (logout out sg ip token s))"

inductive_cases account_stepE: "account_step out sg s t"

definition live_admin :: "user_row \<Rightarrow> bool" where
  "live_admin u \<longleftrightarrow> \<not> us_disabled u \<and> target_is_global_admin u"

definition accounts_ok :: "db \<Rightarrow> bool" where
  "accounts_ok db \<longleftrightarrow> users_ok db \<and> (\<exists>u \<in> set (users db). live_admin u)"

lemma accounts_ok_users: "users db' = users db \<Longrightarrow> accounts_ok db' = accounts_ok db"
  by (simp add: accounts_ok_def users_ok_def)

lemma target_is_global_admin_cong: "us_roles u = us_roles v \<Longrightarrow> target_is_global_admin u = target_is_global_admin v"
  by (simp add: target_is_global_admin_def)

text \<open>Events do not touch the accounts.\<close>

lemma emit_users [simp]: "users (c_db (snd (emit_activity_event out ev s))) = users (c_db s)"
  using emit_frame [OF surjective_pairing, of users] by simp

lemma snd_sbind_emit:
  "users (c_db (snd (sbind (emit_activity_event out ev) f s))) = users (c_db s)"
  if "\<And>x t. users (c_db (snd (f x t))) = users (c_db t)"
  using that by (auto simp: sbind_def split: prod.split sum.split dest: emit_frame [where f = users, OF _ event_blind_tables(1)])

lemma emit_then_users [simp]: "users (c_db (snd (emit_then out ev p s))) = users (c_db s)"
  unfolding emit_then_def by (rule snd_sbind_emit) simp

lemma get_user_Some: "get_user db i = Some u \<Longrightarrow> u \<in> set (users db) \<and> us_id u = i"
  by (auto simp: get_user_def dest: first_row_Some)

text \<open>Changing one account keeps the invariant when another account is a live administrator, or the
  changed one still is.\<close>

lemma accounts_ok_update:
  assumes ok: "accounts_ok db" and u: "get_user db i = Some u"
    and f: "\<And>r. us_id (f r) = us_id r" "\<And>r. us_username (f r) = us_username r"
    and keep: "live_admin u \<Longrightarrow> live_admin (f u) \<or> (\<exists>v \<in> set (users db). v \<noteq> u \<and> live_admin v)"
  shows "accounts_ok (update_user i f db)"
proof -
  have u': "u \<in> set (users db)" "us_id u = i" using get_user_Some [OF u] by auto
  have ids: "distinct (map us_id (users db))" using ok by (simp add: accounts_ok_def users_ok_def)
  have set: "set (users (update_user i f db)) = insert (f u) (set (users db) - {u})"
    using update_first_unique [OF ids u'(1), of f] u'(2) by (simp add: update_user_def)
  obtain w where w: "w \<in> set (users db)" "live_admin w" using ok by (auto simp: accounts_ok_def)
  have "\<exists>v \<in> set (users (update_user i f db)). live_admin v"
  proof (cases "w = u")
    case True
    then show ?thesis using keep w(2) unfolding set by blast
  next
    case False
    then show ?thesis using w unfolding set by blast
  qed
  moreover have "users_ok (update_user i f db)" using ok f by (simp add: accounts_ok_def users_ok_update)
  ultimately show ?thesis by (simp add: accounts_ok_def)
qed

lemma update_twice: "bump_session_version i (update_user i f db)
    = update_user i (\<lambda>u. (f u)\<lparr>us_session_version := us_session_version (f u) + 1\<rparr>) db"
  if "\<And>r. us_id (f r) = us_id r"
proof -
  have "update_first (\<lambda>u. us_id u = i) g (update_first (\<lambda>u. us_id u = i) f rows)
      = update_first (\<lambda>u. us_id u = i) (\<lambda>u. g (f u)) rows" for rows g
    using that by (induction rows) auto
  then show ?thesis by (simp add: bump_session_version_def update_user_def)
qed

text \<open>The actor of an open session who may manage a global administrator is one, and enabled.\<close>

lemma actor_is_live:
  assumes "session_open db sess" and "user_is_global_admin db (se_user sess)"
  obtains a where "a \<in> set (users db)" "us_username a = se_user sess" "live_admin a"
  using assms
  by (auto simp: session_open_def user_is_global_admin_def get_user_roles_def live_admin_def target_is_global_admin_def
      split: option.splits dest: find_user_Some)

lemma guard_None:
  "global_admin_guard_message db actor target = None \<longleftrightarrow> (target_is_global_admin target \<longrightarrow> user_is_global_admin db actor)"
  by (simp add: global_admin_guard_message_def)

lemma other_admin:
  assumes "session_open db sess" and "global_admin_guard_message db (se_user sess) u = None"
    and "us_username u \<noteq> se_user sess" and "live_admin u"
  shows "\<exists>v \<in> set (users db). v \<noteq> u \<and> live_admin v"
proof -
  have "user_is_global_admin db (se_user sess)" using assms(2,4) by (simp add: guard_None live_admin_def)
  then obtain a where "a \<in> set (users db)" "us_username a = se_user sess" "live_admin a"
    by (rule actor_is_live [OF assms(1)])
  then show ?thesis using assms(3) by (intro bexI [of _ a]) auto
qed


lemma users_update: "users (update_user i f db) = update_first (\<lambda>u. us_id u = i) f (users db)"
  by (simp add: update_user_def)

lemma bump_users_cong: "users db = users db' \<Longrightarrow> users (bump_session_version i db) = users (bump_session_version i db')"
  by (simp add: bump_session_version_def update_user_def)

lemma accounts_ok_tail [simp]:
  "accounts_ok (c_db (snd (emit_then out ev p s))) = accounts_ok (c_db s)"
  by (rule accounts_ok_users) simp

lemma with_role_snd: "snd (with_role role sess body s) = (if roles_satisfy (se_roles sess) role then snd (body (se_user sess) s) else s)"
  by (simp add: with_role_def require_role_def)

lemma with_target_snd:
  "snd (with_target i body s) = (case get_user (c_db s) i of None \<Rightarrow> s | Some u \<Rightarrow> snd (body u s))"
  by (simp add: with_target_def split: option.split)

lemma guarded_snd:
  "snd (guarded actor u body s) =
     (if global_admin_guard_message (c_db s) actor u = None then snd (body s) else s)"
  by (auto simp: guarded_def split: option.split)

lemmas handler_snd = with_role_snd with_target_snd guarded_snd Let_def

lemma accounts_ok_bump:
  assumes "accounts_ok db" and "get_user db i = Some u"
    and "\<And>r. us_id (f r) = us_id r" "\<And>r. us_username (f r) = us_username r"
    and "live_admin u \<Longrightarrow> live_admin (f u) \<or> (\<exists>v \<in> set (users db). v \<noteq> u \<and> live_admin v)"
  shows "accounts_ok (bump_session_version i (update_user i f db))"
  unfolding update_twice [OF assms(3)]
  by (rule accounts_ok_update [OF assms(1,2)]) (use assms in \<open>simp_all add: live_admin_def target_is_global_admin_def\<close>)

lemma disable_ok:
  assumes "accounts_ok (c_db s)" and "session_open (c_db s) sess"
  shows "accounts_ok (c_db (snd (settings_user_disable out sess i s)))"
  using assms other_admin [OF assms(2)]
  by (auto simp: settings_user_disable_def handler_snd split: option.splits intro!: accounts_ok_bump)

lemma roles_ok:
  assumes "accounts_ok (c_db s)" and "session_open (c_db s) sess"
  shows "accounts_ok (c_db (snd (settings_user_update_roles out sess i roles s)))"
  using assms other_admin [OF assms(2)]
  by (auto simp: settings_user_update_roles_def handler_snd split: option.splits intro!: accounts_ok_bump)

lemma reset_ok:
  assumes "accounts_ok (c_db s)"
  shows "accounts_ok (c_db (snd (settings_user_reset_password out sess i p c s)))"
  using assms
  by (auto simp: settings_user_reset_password_def handler_snd live_admin_def target_is_global_admin_def
      split: option.splits intro!: accounts_ok_bump)

lemma enable_ok:
  assumes "accounts_ok (c_db s)"
  shows "accounts_ok (c_db (snd (settings_user_enable out sess i s)))"
  using assms
  by (auto simp: settings_user_enable_def handler_snd live_admin_def
      split: option.splits intro!: accounts_ok_update)


lemma in_remove_first: "x \<in> set rows \<Longrightarrow> \<not> p x \<Longrightarrow> x \<in> set (remove_first p rows)"
  by (induction rows) auto

lemma accounts_ok_remove:
  assumes "accounts_ok db" and "u \<in> set (users db)" "us_id u = i" "us_disabled u"
  shows "accounts_ok (db\<lparr>users := remove_first (\<lambda>r. us_id r = i) (users db)\<rparr>)"
proof -
  obtain w where w: "w \<in> set (users db)" "live_admin w" using assms(1) by (auto simp: accounts_ok_def)
  have "us_id w \<noteq> i"
  proof
    assume "us_id w = i"
    then have "w = u" using assms(1-3) w(1)
      by (auto simp: accounts_ok_def users_ok_def distinct_map dest: inj_onD)
    then show False using w(2) assms(4) by (simp add: live_admin_def)
  qed
  then show ?thesis
    using assms(1) w in_remove_first [of w "users db" "\<lambda>r. us_id r = i"]
    by (auto simp: accounts_ok_def users_ok_def remove_first_distinct)
qed

lemma delete_ok:
  assumes "accounts_ok (c_db s)"
  shows "accounts_ok (c_db (snd (settings_user_delete out sess i s)))"
proof -
  have "accounts_ok (c_db s\<lparr>users := remove_first (\<lambda>u. us_id u = i) (users (c_db s))\<rparr>)"
    if "get_user (c_db s) i = Some u" "us_disabled u" for u
    using assms that get_user_Some [OF that(1)]
    by (intro accounts_ok_remove) auto
  then show ?thesis
    using assms by (auto simp: settings_user_delete_def handler_snd split: option.splits)
qed

lemma accounts_ok_append:
  assumes "accounts_ok db" and "find_user db (us_username r) = None" "us_id r = next_id us_id (users db)"
  shows "accounts_ok (db\<lparr>users := users db @ [r]\<rparr>)"
  using assms next_id_fresh [of _ "users db" us_id]
  by (fastforce simp: accounts_ok_def users_ok_def find_user_def first_row_def find_None_iff)

lemma create_ok:
  assumes "accounts_ok (c_db s)"
  shows "accounts_ok (c_db (snd (settings_user_create out sess username password roles s)))"
  using assms
  by (auto simp: settings_user_create_def handler_snd split: option.splits intro!: accounts_ok_append)

lemma password_ok:
  assumes "accounts_ok (c_db s)"
  shows "accounts_ok (c_db (snd (settings_self_password_change out sg sess old new confirm s)))"
proof -
  have "accounts_ok (bump_session_version (us_id u) (update_user (us_id u) (us_password_hash_update f) (c_db s)))"
    if "find_user (c_db s) name = Some u" for u name f
    using assms find_user_Some [OF that]
    by (intro accounts_ok_bump [where u = u])
      (auto simp: accounts_ok_def users_ok_def get_user_def live_admin_def target_is_global_admin_def
        first_row_unique)
  moreover have "accounts_ok (c_db (snd (sbind (emit_activity_event out ev)
       (\<lambda>_. sbind (utc_now out) (\<lambda>now. ret (p now))) t))) = accounts_ok (c_db t)" for ev t and p :: "int \<Rightarrow> page"
    by (rule accounts_ok_users, rule snd_sbind_emit) simp
  ultimately show ?thesis
    using assms by (auto simp: settings_self_password_change_def Let_def split: option.splits)
qed

lemma caught_users:
  "users (c_db (snd (sbind (catch (emit_activity_event out ev) (\<lambda>_. ret None)) f s))) = users (c_db s)"
  if "\<And>x t. users (c_db (snd (f x t))) = users (c_db t)"
proof -
  obtain r t where "emit_activity_event out ev s = (r, t)" by fastforce
  moreover from this have "users (c_db t) = users (c_db s)" using emit_users [of out ev s] by simp
  ultimately show ?thesis using that by (cases r) (simp_all add: sbind_def catch_def)
qed

lemma login_users: "users (c_db (snd (login out sg dummy ip username password s))) = users (c_db s)"
  by (simp add: login_def Let_def caught_users)

lemma logout_users: "users (c_db (snd (logout out sg ip token s))) = users (c_db s)"
  by (simp add: logout_def caught_users split: option.split sum.split)

lemma account_step_ok: "account_step out sg s t \<Longrightarrow> accounts_ok (c_db s) \<Longrightarrow> accounts_ok (c_db t)"
  by (erule account_stepE)
    (simp_all add: password_ok create_ok disable_ok enable_ok delete_ok reset_ok roles_ok
      accounts_ok_users [OF login_users] accounts_ok_users [OF logout_users])

text \<open>
  C3. Whatever sequence of account requests is made from a state with distinct ids and names and an
  enabled global administrator, the ids and names stay distinct and an enabled global administrator
  remains: the instance cannot lock its administrators out.
\<close>

theorem an_enabled_global_admin_remains:
  assumes "(account_step out sg)\<^sup>*\<^sup>* s t"
    and "users_ok (c_db s)" and "\<exists>u \<in> set (users (c_db s)). \<not> us_disabled u \<and> target_is_global_admin u"
  shows "users_ok (c_db t) \<and> (\<exists>u \<in> set (users (c_db t)). \<not> us_disabled u \<and> target_is_global_admin u)"
proof -
  have "accounts_ok (c_db s)" using assms(2,3) by (auto simp: accounts_ok_def live_admin_def)
  with assms(1) have "accounts_ok (c_db t)" by (induction rule: rtranclp_induct) (auto dest: account_step_ok)
  then show ?thesis by (auto simp: accounts_ok_def live_admin_def)
qed

definition admin_session :: session where
  "admin_session = \<lparr>se_user = ''admin'', se_version = 3, se_roles = ALL_ROLES\<rparr>"

lemma admin_demo:
  "target_is_global_admin demo_user" "effective_roles (parse_roles (Some (us_roles demo_user))) = ALL_ROLES"
  by code_simp+

theorem an_enabled_global_admin_remains_witness:
  "let t = snd (settings_user_create demo_out admin_session ''bob'' ''pw'' [ROLE_DNS_ZONES_READ] (initial_core demo_db))
   in users_ok (c_db t) \<and> (\<exists>u \<in> set (users (c_db t)). \<not> us_disabled u \<and> target_is_global_admin u)"
proof -
  let ?s = "initial_core demo_db"
  have "session_open (c_db ?s) admin_session"
    using admin_demo by (simp add: session_open_def initial_core_def find_user_def demo_db_def admin_session_def)
      (simp add: demo_user_def)
  then have "account_step demo_out demo_signer ?s
      (snd (settings_user_create demo_out admin_session ''bob'' ''pw'' [ROLE_DNS_ZONES_READ] ?s))"
    by (rule account_step.create)
  moreover have "users_ok (c_db ?s)" "\<exists>u \<in> set (users (c_db ?s)). \<not> us_disabled u \<and> target_is_global_admin u"
    using admin_demo by (simp_all add: initial_core_def users_ok_def demo_db_def) (simp add: demo_user_def)
  ultimately show ?thesis unfolding Let_def
    by (intro an_enabled_global_admin_remains [OF r_into_rtranclp])
qed

section \<open>A deleted account that is created again\<close>

lemma created_user:
  assumes t: "t = snd (settings_user_create out sess name password roles s)" and "stripped name"
    and "find_user (c_db s) name = None" "find_user (c_db t) name \<noteq> None"
  shows "\<exists>i h. find_user (c_db t) name = Some \<lparr>us_id = i, us_username = name, us_password_hash = h,
           us_roles = serialize_roles (normalize_selected_roles roles), us_disabled = False, us_session_version = 0\<rparr>"
proof -
  have same: "find_user (c_db (snd (emit_then out ev p s'))) name = find_user (c_db s') name" for ev p s'
    by (simp add: find_user_def)
  show ?thesis
    using assms(2-4) unfolding t
    by (auto simp: settings_user_create_def handler_snd same stripped_def split: if_splits option.splits)
      (auto simp: find_user_def first_row_append)
qed

text \<open>
  C27. Deleting an account and creating one of the same name revives its sessions: a cookie made for
  version 0 of the deleted account, and not older than the idle timeout, opens a session of the new
  account, with the new account's roles and without its password.
\<close>

theorem recreated_account_accepts_old_cookie:
  assumes "signer_ok sg" and "issued \<le> now" "now \<le> issued + SESSION_IDLE_TIMEOUT_SECONDS"
    and "stripped name" "name \<noteq> []" and "create_session_cookie sg issued name 0 \<noteq> []"
    and "t = snd (settings_user_create out sess name password roles s)"
    and "find_user (c_db s) name = None" "find_user (c_db t) name \<noteq> None"
  shows "load_current_user sg now (cookie_request (create_session_cookie sg issued name 0)) (c_db t)
    = Inr \<lparr>se_user = name, se_version = 0,
        se_roles = effective_roles (parse_roles (Some (serialize_roles (normalize_selected_roles roles))))\<rparr>"
proof -
  have "verify_session_cookie sg now (create_session_cookie sg issued name 0) = Inr (name, 0)"
    using assms(1-5) by (intro fresh_cookie_verifies) (simp_all add: small_nat_less [where k = 1])
  then show ?thesis
    using created_user [OF assms(7,4,8,9)] assms(6)
    unfolding load_current_user_Inr by (auto simp: cookie_request_def or_empty_def)
qed

lemma bob_created:
  "find_user (c_db (snd (settings_user_create demo_out admin_session ''bob'' ''pw'' [ROLE_GLOBAL_ADMIN]
     (initial_core demo_db)))) ''bob'' \<noteq> None"
proof -
  have "validate_role_assignment demo_db ''admin'' (normalize_selected_roles [ROLE_GLOBAL_ADMIN]) None = None"
    "roles_satisfy ALL_ROLES ROLE_ACCOUNT_UPDATE" "strip ''bob'' = ''bob''" "find_user demo_db ''bob'' = None"
    by code_simp+
  then show ?thesis
    by (simp add: settings_user_create_def handler_snd admin_session_def initial_core_def)
      (simp add: find_user_def demo_db_def first_row_append)
qed

theorem recreated_account_accepts_old_cookie_witness:
  "load_current_user demo_signer 5 (cookie_request (create_session_cookie demo_signer 1 ''bob'' 0))
     (c_db (snd (settings_user_create demo_out admin_session ''bob'' ''pw'' [ROLE_GLOBAL_ADMIN]
       (initial_core demo_db))))
    = Inr \<lparr>se_user = ''bob'', se_version = 0,
        se_roles = effective_roles (parse_roles (Some (serialize_roles (normalize_selected_roles [ROLE_GLOBAL_ADMIN]))))\<rparr>"
proof (rule recreated_account_accepts_old_cookie [OF signer_ok_demo _ _ _ _ _ refl _ bob_created])
  show "stripped ''bob''" by (simp add: stripped_def is_space_def)
  show "find_user (c_db (initial_core demo_db)) ''bob'' = None" by code_simp
qed (simp_all add: SESSION_IDLE_TIMEOUT_SECONDS_def create_session_cookie_def demo_signer_def)

end
