(* ===== verification/Plugins.thy ===== *)
theory Plugins
  imports Schemas
begin

text \<open>
  The provider plugins: the registration record and the client contract of \<^verbatim>\<open>plugins/base.py\<close>, the
  registry of \<^verbatim>\<open>plugins/__init__.py\<close> over the modules of the package, and \<^verbatim>\<open>dns_client.py\<close>. A client
  is a record of its three methods, each a run over the provider's state.
\<close>

section \<open>Registration\<close>

record plugin_field =
  pf_name :: string
  pf_label :: string
  pf_type :: string
  pf_placeholder :: string
  pf_autocomplete :: string
  pf_help :: string
  pf_default :: string
  pf_preserve_on_blank :: bool

definition plugin_field_of :: "string \<Rightarrow> string \<Rightarrow> plugin_field" where
  "plugin_field_of name label = \<lparr>pf_name = name, pf_label = label, pf_type = ''text'', pf_placeholder = [],
     pf_autocomplete = [], pf_help = [], pf_default = [], pf_preserve_on_blank = False\<rparr>"

definition DNS_ZONE_DOMAIN_FIELD :: plugin_field where
  "DNS_ZONE_DOMAIN_FIELD = (plugin_field_of ''dns_zone'' ''DNS zone (domain)'')
     \<lparr>pf_placeholder := ''example.com'',
      pf_help := ''DNS zone managed at the provider (e.g. example.com). Required for record operations.''\<rparr>"

record dns_plugin =
  pl_key :: string
  pl_label :: string
  pl_heading :: string
  pl_help_text :: string
  pl_fields :: "plugin_field list"

definition AZURE_PLUGIN :: dns_plugin where
  "AZURE_PLUGIN = \<lparr>pl_key = ''azure'', pl_label = ''Azure DNS (REST API)'', pl_heading = ''Azure DNS'',
     pl_help_text = ''Use an Azure service principal with permission to manage records in the zone. Target DNS Server and TSIG settings are not used for Azure DNS.'',
     pl_fields =
       [DNS_ZONE_DOMAIN_FIELD,
        (plugin_field_of ''azure_tenant_id'' ''Azure tenant ID'')\<lparr>pf_autocomplete := ''off''\<rparr>,
        (plugin_field_of ''azure_client_id'' ''Azure client ID (application ID)'')\<lparr>pf_autocomplete := ''off''\<rparr>,
        (plugin_field_of ''azure_client_secret'' ''Azure client secret'')
          \<lparr>pf_type := ''password'', pf_autocomplete := ''new-password'', pf_preserve_on_blank := True\<rparr>,
        (plugin_field_of ''azure_subscription_id'' ''Default subscription ID'')\<lparr>pf_autocomplete := ''off''\<rparr>,
        (plugin_field_of ''azure_resource_group'' ''Default resource group'')\<lparr>pf_autocomplete := ''off''\<rparr>]\<rparr>"

definition BIND_PLUGIN :: dns_plugin where
  "BIND_PLUGIN = \<lparr>pl_key = ''bind'', pl_label = ''BIND / RFC 2136 (TSIG)'', pl_heading = ''BIND / RFC 2136'',
     pl_help_text = ''Use a BIND server that accepts dynamic updates. Provide the TSIG key name, shared secret in base64, and the TSIG algorithm.'',
     pl_fields =
       [DNS_ZONE_DOMAIN_FIELD,
        (plugin_field_of ''dns_server'' ''Target DNS Server'')\<lparr>pf_placeholder := ''bind01.example.com or 192.0.2.10''\<rparr>,
        (plugin_field_of ''dns_username'' ''TSIG key name'')
          \<lparr>pf_autocomplete := ''off'', pf_placeholder := ''api-to-dns.''\<rparr>,
        (plugin_field_of ''dns_password'' ''TSIG secret (base64)'')
          \<lparr>pf_type := ''password'', pf_autocomplete := ''new-password'', pf_preserve_on_blank := True\<rparr>,
        (plugin_field_of ''dns_tsig_algorithm'' ''TSIG algorithm'')
          \<lparr>pf_placeholder := ''hmac-sha256'', pf_default := ''hmac-sha256''\<rparr>]\<rparr>"

definition CLOUDFLARE_PLUGIN :: dns_plugin where
  "CLOUDFLARE_PLUGIN = \<lparr>pl_key = ''cloudflare'', pl_label = ''Cloudflare DNS (REST API)'',
     pl_heading = ''Cloudflare DNS'',
     pl_help_text = ''Use a Cloudflare API token with Zone DNS Read and Edit permissions on the target zone. '' @
       ''Target DNS Server and TSIG settings are not used for Cloudflare DNS.'',
     pl_fields =
       [DNS_ZONE_DOMAIN_FIELD,
        (plugin_field_of ''cloudflare_api_token'' ''API token'')
          \<lparr>pf_type := ''password'', pf_autocomplete := ''new-password'', pf_preserve_on_blank := True,
           pf_help := ''Scoped Cloudflare API token with Zone:DNS Read and Edit on this zone.''\<rparr>,
        (plugin_field_of ''cloudflare_zone_id'' ''Zone ID (optional)'')
          \<lparr>pf_autocomplete := ''off'', pf_placeholder := ''Leave blank to look up by zone name'',
           pf_help := ''Skips the zone name lookup when set. Find it on the Cloudflare dashboard overview page.''\<rparr>,
        (plugin_field_of ''cloudflare_proxied'' ''Proxied (orange cloud)'')
          \<lparr>pf_type := ''checkbox'',
           pf_help := ''When checked, created or updated A, AAAA, and CNAME records use Cloudflare proxying.''\<rparr>]\<rparr>"

definition MICROSOFT_PLUGIN :: dns_plugin where
  "MICROSOFT_PLUGIN = \<lparr>pl_key = ''microsoft'', pl_label = ''Microsoft DNS (WinRM)'',
     pl_heading = ''Microsoft DNS (WinRM)'',
     pl_help_text = ''Use a DNS server or domain controller that accepts WinRM connections. '' @
       ''The account must have rights to manage records in the zone. '' @
       ''HTTPS WinRM validates the server certificate by default.'',
     pl_fields =
       [DNS_ZONE_DOMAIN_FIELD,
        (plugin_field_of ''dns_server'' ''Target DNS Server'')\<lparr>pf_placeholder := ''dc01.corp.local or 192.0.2.10''\<rparr>,
        (plugin_field_of ''dns_username'' ''Username'')
          \<lparr>pf_autocomplete := ''off'', pf_placeholder := ''DOMAIN'' @ [CHR 0x5C] @ ''dns-admin''\<rparr>,
        (plugin_field_of ''dns_password'' ''Password'')
          \<lparr>pf_type := ''password'', pf_autocomplete := ''new-password'', pf_preserve_on_blank := True\<rparr>,
        (plugin_field_of ''dns_winrm_ssl'' ''Use HTTPS WinRM (port 5986)'')\<lparr>pf_type := ''checkbox''\<rparr>,
        (plugin_field_of ''dns_winrm_insecure_tls'' ''Disable WinRM TLS certificate validation (insecure)'')
          \<lparr>pf_type := ''checkbox'',
           pf_help := ''WARNING: Disables certificate validation for HTTPS WinRM. '' @
             ''Use only for lab hosts with self-signed certificates. '' @
             ''Leave unchecked in production so the server certificate is verified.''\<rparr>]\<rparr>"

section \<open>Registry\<close>

text \<open>The modules of the package, with the \<^verbatim>\<open>PLUGIN\<close> each defines.\<close>

definition PLUGIN_MODULES :: "(string \<times> dns_plugin option) list" where
  "PLUGIN_MODULES =
     [(''azure'', Some AZURE_PLUGIN), (''base'', None), (''bind'', Some BIND_PLUGIN),
      (''cloudflare'', Some CLOUDFLARE_PLUGIN), (''microsoft'', Some MICROSOFT_PLUGIN), (''utils'', None)]"

fun collect_plugins ::
  "(string \<times> dns_plugin option) list \<Rightarrow> (string \<times> dns_plugin) list \<Rightarrow> (string \<times> dns_plugin) list res" where
  "collect_plugins [] found = Inr found"
| "collect_plugins ((module, plugin) # modules) found =
     (if module \<in> {''base'', ''utils''} \<or> startswith ''_'' module then collect_plugins modules found
      else case plugin of
        None \<Rightarrow> collect_plugins modules found
      | Some p \<Rightarrow>
          if pl_key p \<in> fst ` set found
          then Inl (ValueError (''Duplicate DNS provider plugin key: '' @ pl_key p))
          else collect_plugins modules (found @ [(pl_key p, p)]))"

definition discover_from :: "(string \<times> dns_plugin option) list \<Rightarrow> dns_plugin list res" where
  "discover_from modules =
     rbind (collect_plugins modules []) (\<lambda>found.
       Inr (map (\<lambda>k. the (map_of found k)) (str_sort (map fst found))))"

text \<open>The registry of this repository, in the order of the keys.\<close>

definition discover_plugins :: "dns_plugin list" where
  "discover_plugins = [AZURE_PLUGIN, BIND_PLUGIN, CLOUDFLARE_PLUGIN, MICROSOFT_PLUGIN]"

lemma discover_plugins_correct: "discover_from PLUGIN_MODULES = Inr discover_plugins"
  by (simp add: discover_from_def PLUGIN_MODULES_def discover_plugins_def startswith_def AZURE_PLUGIN_def
      BIND_PLUGIN_def CLOUDFLARE_PLUGIN_def MICROSOFT_PLUGIN_def)

definition find_plugin :: "string \<Rightarrow> dns_plugin option" where
  "find_plugin key = List.find (\<lambda>p. pl_key p = key) discover_plugins"

definition get_plugin :: "string \<Rightarrow> dns_plugin res" where
  "get_plugin key =
     (case find_plugin key of
        Some p \<Rightarrow> Inr p
      | None \<Rightarrow> Inl (ValueError (''Unknown DNS provider type: '' @ key @ ''. Available providers: '' @
          join '', '' (map pl_key discover_plugins) @ ''.'')))"

lemma plugin_keys: "map pl_key discover_plugins = [''azure'', ''bind'', ''cloudflare'', ''microsoft'']"
  by (simp add: discover_plugins_def AZURE_PLUGIN_def BIND_PLUGIN_def CLOUDFLARE_PLUGIN_def MICROSOFT_PLUGIN_def)

section \<open>Clients\<close>

text \<open>The settings of a zone, a dict of strings.\<close>

type_synonym zone_settings = "(string \<times> string) list"

text \<open>\<^verbatim>\<open>settings.get(key) or ""\<close>\<close>

definition setting_or_empty :: "zone_settings \<Rightarrow> string \<Rightarrow> string" where
  "setting_or_empty d key = (case map_of d key of None \<Rightarrow> [] | Some v \<Rightarrow> v)"

text \<open>The arguments of the methods are the record name, the record type, the server and the zone.\<close>

record 'p dns_client =
  cl_get_record :: "string \<Rightarrow> string option \<Rightarrow> string option \<Rightarrow> string option \<Rightarrow> ('p, dns_record_info list) run"
  cl_list_records :: "string option \<Rightarrow> string option \<Rightarrow> nat \<Rightarrow> string option \<Rightarrow> string option
    \<Rightarrow> ('p, dns_record_list_result) run"
  cl_create_or_update :: "dns_record_request \<Rightarrow> string option \<Rightarrow> string option \<Rightarrow> ('p, bool) run"

text \<open>\<open>connect provider settings\<close> is \<^verbatim>\<open>create_client\<close> of the plugin; it may refuse the settings.\<close>

type_synonym 'p connector = "string \<Rightarrow> zone_settings \<Rightarrow> 'p dns_client res"

definition provider_of :: "zone_settings \<Rightarrow> string" where
  "provider_of d =
     (let p = setting_or_empty d ''dns_provider_type'' in lower (strip (if p = [] then ''azure'' else p)))"

definition create_dns_client :: "'p connector \<Rightarrow> zone_settings \<Rightarrow> 'p dns_client res" where
  "create_dns_client connect d = rbind (get_plugin (provider_of d)) (\<lambda>p. connect (pl_key p) d)"

definition dns_provider_display_name :: "string \<Rightarrow> string" where
  "dns_provider_display_name key =
     (case find_plugin (lower (strip key)) of Some p \<Rightarrow> pl_label p | None \<Rightarrow> strip key)"

end
