(* ===== verification/ZoneService.thy ===== *)
theory ZoneService
  imports Plugins Auth PyTime
begin

text \<open>
  \<^verbatim>\<open>zone_service.py\<close>: the zone configurations and their encryption, the disabled plugins, the
  migration of the legacy settings, the links between API keys and zones, the look-up of a key and
  the configuration built from a form. A configuration is a JSON object of strings, as every writer
  of the code makes it; another value in it raises in the model (the code would raise later, where
  it uses the value as a string).
\<close>

section \<open>Names and settings\<close>

definition LEGACY_DNS_SETTING_NAMES :: "string list" where
  "LEGACY_DNS_SETTING_NAMES =
     [''dns_provider_type'', ''dns_server'', ''dns_zone'', ''dns_username'', ''dns_password'',
      ''dns_tsig_algorithm'', ''dns_winrm_ssl'', ''azure_tenant_id'', ''azure_client_id'',
      ''azure_client_secret'', ''azure_subscription_id'', ''azure_resource_group'']"

definition normalize_zone_name :: "string \<Rightarrow> string" where
  "normalize_zone_name zone = lower (rstrip_char CHR ''.'' (strip zone))"

definition ZONE_REQUIRED :: string where
  "ZONE_REQUIRED = ''DNS zone (domain) is required in the zone configuration.''"

definition provider_dns_zone :: "zone_settings \<Rightarrow> string res" where
  "provider_dns_zone d =
     (let zone = normalize_zone_name (setting_or_empty d ''dns_zone'')
      in if zone = [] then Inl (ValueError ZONE_REQUIRED) else Inr zone)"

definition get_known_dns_provider_keys :: "string list" where
  "get_known_dns_provider_keys = map pl_key discover_plugins"

section \<open>Disabled plugins\<close>

definition DISABLED_DNS_PLUGINS_SETTING :: string where
  "DISABLED_DNS_PLUGINS_SETTING = ''disabled_dns_plugins''"

text \<open>\<^verbatim>\<open>str(key)\<close> of an entry that is not a string is no plugin key.\<close>

definition known_keys :: "string list \<Rightarrow> string list" where
  "known_keys keys =
     filter (\<lambda>k. k \<in> set get_known_dns_provider_keys) (map (\<lambda>k. lower (strip k)) keys)"

definition get_disabled_dns_plugins :: "env \<Rightarrow> db \<Rightarrow> string list res" where
  "get_disabled_dns_plugins env db =
     (case get_typed_setting_by_key env db DISABLED_DNS_PLUGINS_SETTING of
        Inl e \<Rightarrow> if is_value_error e then Inr [] else Inl e
      | Inr (VJson (JList xs)) \<Rightarrow>
          Inr (known_keys (List.map_filter (\<lambda>x. case x of JStr k \<Rightarrow> Some k | _ \<Rightarrow> None) xs))
      | Inr _ \<Rightarrow> Inr [])"

definition set_disabled_dns_plugins :: "env \<Rightarrow> string list \<Rightarrow> db \<Rightarrow> db res" where
  "set_disabled_dns_plugins env plugin_keys db =
     (let cleaned = str_sort (remdups (known_keys plugin_keys))
      in if cleaned \<noteq> []
         then set_typed_setting_by_key env DISABLED_DNS_PLUGINS_SETTING (VJson (JList (map JStr cleaned))) db
         else Inr (delete_setting DISABLED_DNS_PLUGINS_SETTING db))"

definition disabled_error :: "string \<Rightarrow> py_exc" where
  "disabled_error provider = DnsProviderDisabledError (dns_provider_display_name provider
     @ '' is disabled. '' @ ''Enable it in Settings before using it for DNS operations.'')"

definition create_dns_client_from_settings ::
  "'p connector \<Rightarrow> env \<Rightarrow> zone_settings \<Rightarrow> db \<Rightarrow> 'p dns_client res" where
  "create_dns_client_from_settings connect env d db =
     rbind (get_disabled_dns_plugins env db) (\<lambda>disabled.
       if provider_of d \<in> set disabled then Inl (disabled_error (provider_of d))
       else create_dns_client connect d)"

definition dns_provider_options_with_state :: "env \<Rightarrow> db \<Rightarrow> (dns_plugin \<times> bool) list res" where
  "dns_provider_options_with_state env db =
     map_res (\<lambda>disabled. map (\<lambda>p. (p, pl_key p \<notin> set disabled)) discover_plugins) (get_disabled_dns_plugins env db)"

definition enabled_dns_provider_options :: "env \<Rightarrow> db \<Rightarrow> dns_plugin list res" where
  "enabled_dns_provider_options env db =
     map_res (\<lambda>options. map fst (filter snd options)) (dns_provider_options_with_state env db)"

section \<open>Stored zone configurations\<close>

fun insort_zone :: "dns_zone_config \<Rightarrow> dns_zone_config list \<Rightarrow> dns_zone_config list" where
  "insort_zone z [] = [z]"
| "insort_zone z (y # ys) =
     (if str_le (zc_zone_name z) (zc_zone_name y) then z # y # ys else y # insort_zone z ys)"

definition list_dns_zones :: "db \<Rightarrow> dns_zone_config list" where
  "list_dns_zones db = foldr insort_zone (dns_zone_configs db) []"

fun string_entry :: "string \<times> json \<Rightarrow> (string \<times> string) res" where
  "string_entry (k, JStr v) = Inr (k, v)"
| "string_entry (k, _) = Inl (OtherError ''AttributeError'' k)"

definition decode_zone_config :: "env \<Rightarrow> dns_zone_config \<Rightarrow> zone_settings res" where
  "decode_zone_config env z =
     rbind (decrypt env (zc_encrypted_config z)) (\<lambda>raw.
     rbind (json_loads raw) (\<lambda>j.
       case j of JObj kvs \<Rightarrow> traverse string_entry kvs | _ \<Rightarrow> Inl (OtherError ''AttributeError'' ''get'')))"

definition encode_zone_config_dict :: "env \<Rightarrow> zone_settings \<Rightarrow> string" where
  "encode_zone_config_dict env cfg = encrypt env (json_dumps (JObj (map (\<lambda>(k, v). (k, JStr v)) cfg)))"

definition zones_using_dns_provider :: "env \<Rightarrow> db \<Rightarrow> string \<Rightarrow> string list res" where
  "zones_using_dns_provider env db provider_key =
     map_res (\<lambda>zs. map fst (filter (\<lambda>(name, p). p = provider_key) zs))
       (traverse (\<lambda>z. map_res (\<lambda>d. (zc_zone_name z, provider_of d)) (decode_zone_config env z))
         (list_dns_zones db))"

definition legacy_or :: "env \<Rightarrow> db \<Rightarrow> string \<Rightarrow> string \<Rightarrow> (string \<times> string) res" where
  "legacy_or env db dflt name =
     map_res (\<lambda>v. (name, case v of None \<Rightarrow> dflt | Some [] \<Rightarrow> dflt | Some t \<Rightarrow> t)) (get_setting env db name)"

text \<open>The dict of the migration: the legacy \<^verbatim>\<open>dns_zone\<close> is not among its keys.\<close>

definition legacy_config :: "env \<Rightarrow> db \<Rightarrow> zone_settings res" where
  "legacy_config env db =
     rbind (legacy_or env db ''azure'' ''dns_provider_type'') (\<lambda>p.
     rbind (traverse (legacy_or env db [])
       [''dns_server'', ''dns_username'', ''dns_password'', ''dns_tsig_algorithm'', ''dns_winrm_ssl'',
        ''azure_tenant_id'', ''azure_client_id'', ''azure_client_secret'', ''azure_subscription_id'',
        ''azure_resource_group'']) (\<lambda>ps.
     Inr (p # ps)))"

fun add_links :: "nat list \<Rightarrow> nat \<Rightarrow> db \<Rightarrow> db" where
  "add_links [] zone_id db = db"
| "add_links (k # ks) zone_id db =
     add_links ks zone_id (db\<lparr>api_key_allowed_zones := api_key_allowed_zones db
       @ [\<lparr>az_id = next_id az_id (api_key_allowed_zones db), az_api_key_id = k, az_dns_zone_config_id = zone_id\<rparr>]\<rparr>)"

definition migrate_legacy_dns_settings_if_needed :: "env \<Rightarrow> db \<Rightarrow> db res" where
  "migrate_legacy_dns_settings_if_needed env db =
     (if dns_zone_configs db \<noteq> [] then Inr db
      else
        rbind (get_setting env db ''dns_zone'') (\<lambda>zone_raw.
        case zone_raw of
          None \<Rightarrow> Inr db
        | Some raw \<Rightarrow>
            if strip raw = [] then Inr db
            else
              rbind (legacy_config env db) (\<lambda>cfg.
              let row = \<lparr>zc_id = next_id zc_id (dns_zone_configs db), zc_zone_name = normalize_zone_name raw,
                         zc_encrypted_config = encode_zone_config_dict env cfg\<rparr>;
                  db1 = db\<lparr>dns_zone_configs := [row]\<rparr>;
                  db2 = add_links (map ak_id (filter ak_active (api_keys db1))) (zc_id row) db1
              in Inr (fold delete_setting LEGACY_DNS_SETTING_NAMES db2))))"

section \<open>API keys and zones\<close>

definition get_zone :: "db \<Rightarrow> nat \<Rightarrow> dns_zone_config option" where
  "get_zone db i = first_row (\<lambda>z. zc_id z = i) (dns_zone_configs db)"

definition api_key_allowed_zone_names :: "db \<Rightarrow> nat \<Rightarrow> string list" where
  "api_key_allowed_zone_names db key_id =
     str_sort (List.map_filter (\<lambda>l. map_option zc_zone_name (get_zone db (az_dns_zone_config_id l)))
       (filter (\<lambda>l. az_api_key_id l = key_id) (api_key_allowed_zones db)))"

definition api_key_count_for_zone :: "db \<Rightarrow> nat \<Rightarrow> nat" where
  "api_key_count_for_zone db zone_id =
     length (filter (\<lambda>l. az_dns_zone_config_id l = zone_id) (api_key_allowed_zones db))"

definition api_key_zone_count :: "db \<Rightarrow> nat \<Rightarrow> nat" where
  "api_key_zone_count db key_id =
     length (filter (\<lambda>l. az_api_key_id l = key_id) (api_key_allowed_zones db))"

definition is_api_key_dns_usage :: "activity_log \<Rightarrow> bool" where
  "is_api_key_dns_usage r \<longleftrightarrow> startswith ''dns.'' (al_event_type r)
     \<and> (case al_status r of None \<Rightarrow> False | Some st \<Rightarrow> lower st \<in> {''success'', ''not_found''})"

definition api_key_last_used_at :: "db \<Rightarrow> nat \<Rightarrow> int option" where
  "api_key_last_used_at db key_id =
     map_option al_timestamp (first_row is_api_key_dns_usage
       (sort_key (\<lambda>r. - al_timestamp r)
         (filter (\<lambda>r. al_actor_type r = Some ''api_key'' \<and> al_actor_id r = Some (show_nat key_id)) (activity_logs db))))"

definition format_api_key_last_used_label :: "int option \<Rightarrow> string" where
  "format_api_key_last_used_label last_used =
     (case last_used of None \<Rightarrow> ''Never used'' | Some t \<Rightarrow> iso_date t @ '' '' @ clock_hm t @ '' UTC'')"

record zone_public =
  zp_id :: nat
  zp_zone_name :: string
  zp_dns_zone :: string
  zp_provider_type :: string
  zp_provider_label :: string
  zp_dns_server :: string

definition dns_zone_public_dict :: "env \<Rightarrow> dns_zone_config \<Rightarrow> zone_public res" where
  "dns_zone_public_dict env z =
     map_res (\<lambda>cfg.
       let p = setting_or_empty cfg ''dns_provider_type''; provider_key = (if p = [] then ''azure'' else p)
       in \<lparr>zp_id = zc_id z, zp_zone_name = zc_zone_name z, zp_dns_zone = strip (setting_or_empty cfg ''dns_zone''),
           zp_provider_type = provider_key, zp_provider_label = dns_provider_display_name provider_key,
           zp_dns_server = setting_or_empty cfg ''dns_server''\<rparr>) (decode_zone_config env z)"

definition dns_zone_summary_dict :: "env \<Rightarrow> dns_zone_config \<Rightarrow> zone_summary res" where
  "dns_zone_summary_dict env z =
     rbind (decode_zone_config env z) (\<lambda>cfg.
     map_res (\<lambda>dz. \<lparr>zs_id = int (zc_id z), zs_zone_name = zc_zone_name z, zs_dns_zone = dz\<rparr>) (provider_dns_zone cfg))"

text \<open>What the pages show of a key: the stored prefix, never the hash.\<close>

record key_public =
  kp_id :: nat
  kp_label :: string
  kp_key :: string
  kp_access_mode :: string
  kp_active :: bool

definition api_key_public_dict :: "api_key_row \<Rightarrow> key_public" where
  "api_key_public_dict k =
     (let p = strip (case ak_key_prefix k of None \<Rightarrow> [] | Some q \<Rightarrow> q)
      in \<lparr>kp_id = ak_id k, kp_label = ak_label k, kp_key = (if p = [] then ''********'' else p),
          kp_access_mode = ak_access_mode k, kp_active = ak_active k\<rparr>)"

definition get_api_key :: "env \<Rightarrow> db \<Rightarrow> string \<Rightarrow> api_key_row option" where
  "get_api_key env db api_key =
     first_row (\<lambda>k. ak_key k = hash_api_key env api_key \<and> ak_active k) (api_keys db)"

section \<open>The configuration of a form\<close>

definition blank_preserve_secret :: "string \<Rightarrow> string \<Rightarrow> string" where
  "blank_preserve_secret new_val old_val = (if strip new_val = [] then old_val else new_val)"

definition field_value :: "zone_settings \<Rightarrow> zone_settings \<Rightarrow> plugin_field \<Rightarrow> string" where
  "field_value form ex f =
     (let name = pf_name f;
          v = (if pf_type f = ''checkbox'' then (if name \<in> fst ` set form then ''true'' else [])
               else strip (setting_or_empty form name))
      in if pf_preserve_on_blank f then blank_preserve_secret v (setting_or_empty ex name)
         else if v = [] \<and> pf_default f \<noteq> [] \<and> setting_or_empty ex name = [] then pf_default f
         else v)"

definition build_zone_config_from_form ::
  "zone_settings \<Rightarrow> zone_settings \<Rightarrow> dns_plugin list \<Rightarrow> zone_settings res" where
  "build_zone_config_from_form form ex plugins =
     (let p0 = setting_or_empty form ''dns_provider_type'';
          p1 = (if p0 = [] then setting_or_empty ex ''dns_provider_type'' else p0);
          provider = lower (strip (if p1 = [] then ''azure'' else p1))
      in case List.find (\<lambda>p. pl_key p = provider) plugins of
           None \<Rightarrow>
             if provider \<in> set get_known_dns_provider_keys
             then Inl (ValueError (dns_provider_display_name provider
               @ '' is disabled. Enable it in Settings before using it for a DNS zone.''))
             else Inl (ValueError (''Unknown DNS provider type: '' @ provider @ ''. Available providers: ''
               @ (let a = join '', '' (map pl_key plugins) in if a = [] then ''none'' else a) @ ''.''))
         | Some plugin \<Rightarrow>
             Inr (fold (\<lambda>f cfg. AList.update (pf_name f) (field_value form ex f) cfg) (pl_fields plugin)
                    [(''dns_provider_type'', provider)]))"

section \<open>Properties\<close>

lemma traverse_string_entry: "traverse string_entry (map (\<lambda>(k, v). (k, JStr v)) cfg) = Inr cfg"
  by (induction cfg) auto

lemma decode_encode:
  assumes "fernet_ok env" and "distinct (map fst cfg)" and "zc_encrypted_config z = encode_zone_config_dict env cfg"
  shows "decode_zone_config env z = Inr cfg"
proof -
  have "map fst (map (\<lambda>(k, v). (k, JStr v)) cfg) = map fst cfg" by (simp add: comp_def case_prod_beta')
  then have "json_ok (JObj (map (\<lambda>(k, v). (k, JStr v)) cfg))"
    using assms(2) by (simp only: json_ok.simps) auto
  then show ?thesis
    using assms(1,3) by (simp add: decode_zone_config_def encode_zone_config_dict_def fernet_okD json_loads_dumps
        traverse_string_entry)
qed

definition fill_fields :: "zone_settings \<Rightarrow> zone_settings \<Rightarrow> plugin_field list \<Rightarrow> zone_settings \<Rightarrow> zone_settings" where
  "fill_fields form ex fs cfg = fold (\<lambda>f cfg. AList.update (pf_name f) (field_value form ex f) cfg) fs cfg"

lemma fill_fields_simps [simp]:
  "fill_fields form ex [] cfg = cfg"
  "fill_fields form ex (f # fs) cfg = fill_fields form ex fs (AList.update (pf_name f) (field_value form ex f) cfg)"
  by (simp_all add: fill_fields_def)

lemma fill_fields_distinct: "distinct (map fst cfg) \<Longrightarrow> distinct (map fst (fill_fields form ex fs cfg))"
  by (induction fs arbitrary: cfg) (simp_all add: distinct_update)

lemma fill_fields_other:
  "k \<notin> pf_name ` set fs \<Longrightarrow> map_of (fill_fields form ex fs cfg) k = map_of cfg k"
  by (induction fs arbitrary: cfg) (simp_all add: update_conv')

lemma fill_fields_same:
  "distinct (map pf_name fs) \<Longrightarrow> f \<in> set fs \<Longrightarrow> map_of (fill_fields form ex fs cfg) (pf_name f) = Some (field_value form ex f)"
proof (induction fs arbitrary: cfg)
  case (Cons g gs)
  then show ?case by (cases "f = g") (auto simp: fill_fields_other update_conv')
qed simp

lemma plugin_field_names:
  "p \<in> set discover_plugins \<Longrightarrow> distinct (map pf_name (pl_fields p)) \<and> ''dns_provider_type'' \<notin> pf_name ` set (pl_fields p)"
  by (auto simp: discover_plugins_def AZURE_PLUGIN_def BIND_PLUGIN_def CLOUDFLARE_PLUGIN_def MICROSOFT_PLUGIN_def
      plugin_field_of_def DNS_ZONE_DOMAIN_FIELD_def)

lemma plugin_key_stable: "p \<in> set discover_plugins \<Longrightarrow> lower (strip (pl_key p)) = pl_key p \<and> pl_key p \<noteq> []"
proof -
  have "list_all (\<lambda>k. lower (strip k) = k \<and> k \<noteq> []) [''azure'', ''bind'', ''cloudflare'', ''microsoft'']" by code_simp
  moreover assume "p \<in> set discover_plugins"
  then have "pl_key p \<in> set [''azure'', ''bind'', ''cloudflare'', ''microsoft'']" using plugin_keys by (metis list.set_map imageI)
  ultimately show ?thesis unfolding list_all_iff by blast
qed

lemma build_Inr:
  assumes "build_zone_config_from_form form ex plugins = Inr cfg"
  obtains q where "q \<in> set plugins" "cfg = fill_fields form ex (pl_fields q) [(''dns_provider_type'', pl_key q)]"
proof -
  have found: "q \<in> set plugins \<and> pl_key q = k" if "List.find (\<lambda>p. pl_key p = k) plugins = Some q" for q k
    using first_row_Some [of "\<lambda>p. pl_key p = k" plugins q] that by (simp add: first_row_def)
  from assms obtain q k where "List.find (\<lambda>p. pl_key p = k) plugins = Some q"
    "cfg = fill_fields form ex (pl_fields q) [(''dns_provider_type'', k)]"
    unfolding build_zone_config_from_form_def Let_def fill_fields_def
    by (simp split: option.splits if_split_asm)
  then show ?thesis using that found by blast
qed

text \<open>
  C29. Saving the form of a zone: the stored configuration decodes to exactly what was built, it is of
  the chosen provider, and a secret field that was left blank keeps the secret already stored.
\<close>

theorem zone_form_keeps_secrets:
  assumes "fernet_ok env"
    and "build_zone_config_from_form form ex discover_plugins = Inr cfg"
    and "zc_encrypted_config z = encode_zone_config_dict env cfg"
    and "p \<in> set discover_plugins" and "pl_key p = provider_of cfg"
    and "f \<in> set (pl_fields p)" and "pf_preserve_on_blank f" and "pf_type f \<noteq> ''checkbox''"
  shows "decode_zone_config env z = Inr cfg
    \<and> setting_or_empty cfg (pf_name f) =
        (if strip (setting_or_empty form (pf_name f)) = [] then setting_or_empty ex (pf_name f)
         else strip (setting_or_empty form (pf_name f)))"
proof -
  obtain q provider where q: "q \<in> set discover_plugins" "pl_key q = provider"
    and cfg: "cfg = fill_fields form ex (pl_fields q) [(''dns_provider_type'', provider)]"
    using build_Inr [OF assms(2)] by metis
  have names: "distinct (map pf_name (pl_fields q))" "''dns_provider_type'' \<notin> pf_name ` set (pl_fields q)"
    using plugin_field_names [OF q(1)] by blast+
  have "map_of cfg ''dns_provider_type'' = Some provider"
    using fill_fields_other [OF names(2)] by (simp add: cfg)
  then have "provider_of cfg = provider"
    using plugin_key_stable [OF q(1)] q(2) by (auto simp: provider_of_def setting_or_empty_def)
  moreover have "inj_on pl_key (set discover_plugins)"
    using distinct_map [of pl_key discover_plugins] by (simp add: plugin_keys)
  ultimately have "p = q" using assms(4,5) q by (metis inj_onD)
  then have "map_of cfg (pf_name f) = Some (field_value form ex f)"
    using fill_fields_same [OF names(1)] assms(6) by (simp add: cfg)
  moreover have "distinct (map fst cfg)" unfolding cfg by (rule fill_fields_distinct) simp
  then have "decode_zone_config env z = Inr cfg" using decode_encode [OF assms(1) _ assms(3)] by blast
  ultimately show ?thesis
    using assms(7,8) by (simp add: field_value_def blank_preserve_secret_def setting_or_empty_def Let_def)
qed


definition demo_form :: zone_settings where
  "demo_form = [(''dns_provider_type'', ''Bind''), (''dns_zone'', '' example.org ''), (''dns_password'', '' '')]"

definition demo_stored :: zone_settings where
  "demo_stored = [(''dns_provider_type'', ''bind''), (''dns_password'', ''c2VjcmV0'')]"

definition dns_password_field :: plugin_field where
  "dns_password_field = (plugin_field_of ''dns_password'' ''TSIG secret (base64)'')
     \<lparr>pf_type := ''password'', pf_autocomplete := ''new-password'', pf_preserve_on_blank := True\<rparr>"

theorem zone_form_keeps_secrets_witness:
  "\<exists>cfg. decode_zone_config demo_env (\<lparr>zc_id = 1, zc_zone_name = ''example.org'',
        zc_encrypted_config = encode_zone_config_dict demo_env cfg\<rparr>) = Inr cfg
     \<and> setting_or_empty cfg ''dns_password'' = ''c2VjcmV0''"
proof -
  let ?cfg = "projr (build_zone_config_from_form demo_form demo_stored discover_plugins)"
  let ?z = "\<lparr>zc_id = 1, zc_zone_name = ''example.org'', zc_encrypted_config = encode_zone_config_dict demo_env ?cfg\<rparr>"
  have built: "build_zone_config_from_form demo_form demo_stored discover_plugins = Inr ?cfg"
    "pl_key BIND_PLUGIN = provider_of ?cfg" by code_simp+
  have field: "BIND_PLUGIN \<in> set discover_plugins" "dns_password_field \<in> set (pl_fields BIND_PLUGIN)"
    by (simp_all add: discover_plugins_def BIND_PLUGIN_def dns_password_field_def)
  have blank: "strip (setting_or_empty demo_form ''dns_password'') = []"
    "setting_or_empty demo_stored ''dns_password'' = ''c2VjcmV0''" by code_simp+
  have "zc_encrypted_config ?z = encode_zone_config_dict demo_env ?cfg" by simp
  from zone_form_keeps_secrets [OF fernet_ok_demo built(1) this field(1) built(2) field(2)] blank
  show ?thesis by (auto simp: dns_password_field_def plugin_field_of_def)
qed

lemma known_keys_idem: "known_keys (known_keys keys) = known_keys keys"
proof -
  have "list_all (\<lambda>k. lower (strip k) = k) [''azure'', ''bind'', ''cloudflare'', ''microsoft'']" by code_simp
  then have "lower (strip k) = k" if "k \<in> set (known_keys keys)" for k
    using that by (auto simp: known_keys_def get_known_dns_provider_keys_def plugin_keys)
  then have "map (\<lambda>k. lower (strip k)) (known_keys keys) = known_keys keys" by (simp add: map_idI)
  then have "known_keys (known_keys keys) = filter (\<lambda>k. k \<in> set get_known_dns_provider_keys) (known_keys keys)"
    by (simp add: known_keys_def [of "known_keys keys"])
  then show ?thesis by (simp add: known_keys_def)
qed

lemma set_known_keys: "set xs = set ys \<Longrightarrow> set (known_keys xs) = set (known_keys ys)"
  by (simp add: known_keys_def)

lemma disabled_spec: "get_spec DISABLED_DNS_PLUGINS_SETTING = Some (setting_spec_of ''disabled_dns_plugins'' TJson
    (Some ''[]'') False ''plugins'' ''Disabled DNS provider plugin keys.'')"
  by (simp add: DISABLED_DNS_PLUGINS_SETTING_def get_spec_def SETTING_SPECS_def setting_spec_of_def)

lemma get_disabled_of_list:
  "get_typed_setting_by_key env db DISABLED_DNS_PLUGINS_SETTING = Inr (VJson (JList (map JStr ks)))
   \<Longrightarrow> get_disabled_dns_plugins env db = Inr (known_keys ks)"
  by (simp add: get_disabled_dns_plugins_def map_filter_def comp_def)

lemma get_disabled_after_set:
  assumes "fernet_ok env" "settings_ok db" "set_disabled_dns_plugins env keys db = Inr db'"
  shows "\<exists>ks. get_disabled_dns_plugins env db' = Inr ks \<and> set ks = set (known_keys keys)"
proof (cases "known_keys keys = []")
  case True
  then have "db' = delete_setting DISABLED_DNS_PLUGINS_SETTING db" using assms(3) by (simp add: set_disabled_dns_plugins_def)
  then have "get_setting env db' DISABLED_DNS_PLUGINS_SETTING = Inr None" using st.get_del [OF assms(2)] by simp
  moreover have "json_loads ''[]'' = Inr (JList [])" by code_simp
  moreover have "strip ''[]'' \<noteq> []" by code_simp
  ultimately have "get_typed_setting_by_key env db' DISABLED_DNS_PLUGINS_SETTING = Inr (VJson (JList (map JStr [])))"
    using disabled_spec by (simp add: get_typed_setting_by_key_def require_spec_def get_typed_setting_def
        parse_typed_def parse_present_def setting_spec_of_def DISABLED_DNS_PLUGINS_SETTING_def)
  from get_disabled_of_list [OF this] True show ?thesis by (simp add: known_keys_def)
next
  case False
  let ?ks = "str_sort (remdups (known_keys keys))"
  have "?ks \<noteq> []" using False by (metis remdups_eq_nil_iff set_empty set_str_sort)
  then have set: "set_typed_setting_by_key env DISABLED_DNS_PLUGINS_SETTING (VJson (JList (map JStr ?ks))) db = Inr db'"
    using assms(3) by (simp add: set_disabled_dns_plugins_def)
  have "value_fits (setting_spec_of ''disabled_dns_plugins'' TJson (Some ''[]'') False ''plugins''
      ''Disabled DNS provider plugin keys.'') (VJson (JList (map JStr ?ks)))"
    by (simp add: value_fits_def setting_spec_of_def)
  from typed_put [OF assms(1) disabled_spec this, of db] set
  have "get_typed_setting_by_key env db' DISABLED_DNS_PLUGINS_SETTING = Inr (VJson (JList (map JStr ?ks)))"
    by (auto simp: canonical_value_def comp_def)
  from get_disabled_of_list [OF this] show ?thesis
    using set_known_keys [of ?ks "known_keys keys"] by (simp add: known_keys_idem)
qed

text \<open>
  C37. After plugins have been disabled in the settings, a client is refused for exactly the zones
  whose provider was named (up to case and white space); every other zone connects as before.
\<close>

theorem disabled_plugin_refused:
  assumes "fernet_ok env" and "settings_ok db"
    and "set_disabled_dns_plugins env keys db = Inr db'"
  shows "create_dns_client_from_settings connect env d db' =
    (if provider_of d \<in> set (known_keys keys) then Inl (disabled_error (provider_of d))
     else create_dns_client connect d)"
  using get_disabled_after_set [OF assms] by (auto simp: create_dns_client_from_settings_def)

theorem disabled_plugin_refused_witness:
  "\<exists>db'. create_dns_client_from_settings (\<lambda>_ _. Inl (RuntimeError [])) demo_env [(''dns_provider_type'', '' BIND'')] db'
     = Inl (disabled_error ''bind'')"
proof -
  have spec: "set_disabled_dns_plugins demo_env ['' Bind ''] empty_db
      = Inr (projr (set_disabled_dns_plugins demo_env ['' Bind ''] empty_db))"
    by code_simp
  have ok: "settings_ok empty_db" by (simp add: settings_ok_def empty_db_def)
  have "provider_of [(''dns_provider_type'', '' BIND'')] = ''bind''" "''bind'' \<in> set (known_keys ['' Bind ''])"
    by code_simp+
  then show ?thesis
    using disabled_plugin_refused [OF fernet_ok_demo ok spec, of "\<lambda>_ _. Inl (RuntimeError [])"
        "[(''dns_provider_type'', '' BIND'')]"] by auto
qed

lemma zones_add_links [simp]: "dns_zone_configs (add_links ks i db) = dns_zone_configs db"
  by (induction ks arbitrary: db) simp_all

lemma zones_delete_settings [simp]: "dns_zone_configs (fold delete_setting names db) = dns_zone_configs db"
  by (induction names arbitrary: db) (simp_all add: delete_setting_def)

lemma legacy_or_name: "legacy_or env db d name = Inr kv \<Longrightarrow> fst kv = name"
  by (auto simp: legacy_or_def map_res_def split: sum.splits)

lemma legacy_config_keys:
  assumes "legacy_config env db = Inr cfg"
  shows "map fst cfg = [''dns_provider_type'', ''dns_server'', ''dns_username'', ''dns_password'', ''dns_tsig_algorithm'',
    ''dns_winrm_ssl'', ''azure_tenant_id'', ''azure_client_id'', ''azure_client_secret'', ''azure_subscription_id'',
    ''azure_resource_group'']"
proof -
  have names: "traverse (legacy_or env db []) ns = Inr ps \<Longrightarrow> map fst ps = ns" for ns ps
    by (induction ns arbitrary: ps) (auto simp: rbind_eq_Inr dest: legacy_or_name)
  from assms obtain p ps where "legacy_or env db ''azure'' ''dns_provider_type'' = Inr p"
    "traverse (legacy_or env db []) [''dns_server'', ''dns_username'', ''dns_password'', ''dns_tsig_algorithm'',
       ''dns_winrm_ssl'', ''azure_tenant_id'', ''azure_client_id'', ''azure_client_secret'', ''azure_subscription_id'',
       ''azure_resource_group''] = Inr ps" "cfg = p # ps"
    unfolding legacy_config_def rbind_eq_Inr by blast
  then show ?thesis using names legacy_or_name by fastforce
qed

text \<open>
  The migration of the legacy settings produces one zone, linked to the active keys, whose
  configuration lacks the provider zone: every record operation on it, and its entry in the zone
  list of the API, ends in the error that the zone is required.
\<close>

lemma migrated_zone_has_no_dns_zone:
  assumes "fernet_ok env" and "dns_zone_configs db = []"
    and "get_setting env db ''dns_zone'' = Inr (Some raw)" and "strip raw \<noteq> []"
    and "migrate_legacy_dns_settings_if_needed env db = Inr db'"
  shows "\<exists>z d. dns_zone_configs db' = [z] \<and> zc_zone_name z = normalize_zone_name raw
    \<and> decode_zone_config env z = Inr d \<and> provider_dns_zone d = Inl (ValueError ZONE_REQUIRED)
    \<and> dns_zone_summary_dict env z = Inl (ValueError ZONE_REQUIRED)"
proof -
  obtain cfg where cfg: "legacy_config env db = Inr cfg"
    using assms(2-5) by (cases "legacy_config env db") (simp_all add: migrate_legacy_dns_settings_if_needed_def)
  let ?z = "\<lparr>zc_id = next_id zc_id (dns_zone_configs db), zc_zone_name = normalize_zone_name raw,
    zc_encrypted_config = encode_zone_config_dict env cfg\<rparr>"
  have zones: "dns_zone_configs db' = [?z]"
    using assms(2-5) cfg by (auto simp: migrate_legacy_dns_settings_if_needed_def Let_def)
  have keys: "map fst cfg = [''dns_provider_type'', ''dns_server'', ''dns_username'', ''dns_password'', ''dns_tsig_algorithm'',
    ''dns_winrm_ssl'', ''azure_tenant_id'', ''azure_client_id'', ''azure_client_secret'', ''azure_subscription_id'',
    ''azure_resource_group'']" by (rule legacy_config_keys [OF cfg])
  then have "distinct (map fst cfg)" by simp
  then have dec: "decode_zone_config env ?z = Inr cfg" by (rule decode_encode [OF assms(1)]) simp
  have "''dns_zone'' \<notin> fst ` set cfg" using arg_cong [OF keys, of set] by simp
  then have "setting_or_empty cfg ''dns_zone'' = []"
    by (simp add: setting_or_empty_def map_of_eq_None_iff [symmetric])
  then have "provider_dns_zone cfg = Inl (ValueError ZONE_REQUIRED)"
    by (simp add: provider_dns_zone_def normalize_zone_name_def Let_def)
  then show ?thesis using zones dec by (auto simp: dns_zone_summary_dict_def)
qed

end
