(* ===== verification/DnsMutation.thy ===== *)
theory DnsMutation
  imports ZoneService
begin

text \<open>
  \<^verbatim>\<open>dns_mutation.py\<close>: the preparation of a change of an RRset, the merge of a partial change, and the
  change itself with its 409 and 404 answers, as runs over the state of the provider behind a
  client. \<open>serves\<close> is what \<^verbatim>\<open>plugins/base.py\<close> asks of a client; under it the operations refine steps
  on a map from record names and types to RRsets.
\<close>

section \<open>Operations\<close>

datatype mutation_mode = Create | Replace | Patch | Delete

record mutation_outcome =
  mo_status :: string
  mo_action :: string
  mo_http_status :: int
  mo_record_name :: string
  mo_record_type :: string
  mo_values :: "string list"
  mo_dns_zone :: string

record prepared_mutation =
  pm_record_name :: string
  pm_record_type :: string
  pm_ttl :: int
  pm_values :: "string list"

definition prepare_mutation ::
  "string \<Rightarrow> string \<Rightarrow> int option \<Rightarrow> string list \<Rightarrow> string option \<Rightarrow> bool \<Rightarrow> bool \<Rightarrow> prepared_mutation res" where
  "prepare_mutation record_name record_type ttl values dns_zone require_values require_ttl =
     (let name = strip record_name
      in rbind (guard (name \<noteq> []) (ValueError ''record_name is required.'')) (\<lambda>_.
         rbind (normalize_mutable_record_type record_type) (\<lambda>rt.
         rbind (guard_mutation_allowed name rt dns_zone) (\<lambda>_.
         rbind (validate_ttl ttl require_ttl) (\<lambda>final_ttl.
         rbind (if require_values then normalize_record_values rt values else Inr []) (\<lambda>final_values.
         Inr \<lparr>pm_record_name = name, pm_record_type = rt, pm_ttl = final_ttl, pm_values = final_values\<rparr>))))))"

definition merge_patch ::
  "dns_record_info \<Rightarrow> int option \<Rightarrow> string list option \<Rightarrow> (int \<times> string list) res" where
  "merge_patch existing patch_ttl patch_values =
     (case (info_ttl existing, info_values existing) of
        (Some t, Some (v # vs)) \<Rightarrow>
          Inr (case patch_ttl of Some p \<Rightarrow> p | None \<Rightarrow> t, case patch_values of Some ps \<Rightarrow> ps | None \<Rightarrow> v # vs)
      | _ \<Rightarrow> Inl (PatchMergeError ''Could not read existing TTL and values for PATCH merge.''))"

definition record_exists_at_type ::
  "'p dns_client \<Rightarrow> zone_settings \<Rightarrow> string \<Rightarrow> string \<Rightarrow> ('p, bool) run" where
  "record_exists_at_type client d record_name record_type =
     sbind (lift_res (provider_dns_zone d)) (\<lambda>zone.
     sbind (cl_get_record client record_name (Some record_type) (map_of d ''dns_server'') (Some zone)) (\<lambda>records.
     ret (records \<noteq> [])))"

definition mutation_request ::
  "mutation_mode \<Rightarrow> string \<Rightarrow> string \<Rightarrow> string \<Rightarrow> int option \<Rightarrow> string list \<Rightarrow> dns_record_request" where
  "mutation_request mode zone_name record_name rt ttl values =
     (if mode = Delete
      then \<lparr>rq_zone_name = Some zone_name, rq_record_type = ''DELETE'', rq_record_name = record_name,
            rq_ttl = Some (case ttl of None \<Rightarrow> 300 | Some t \<Rightarrow> if t = 0 then 300 else t), rq_values = [rt]\<rparr>
      else \<lparr>rq_zone_name = Some zone_name, rq_record_type = rt, rq_record_name = record_name,
            rq_ttl = Some (case ttl of None \<Rightarrow> 300 | Some t \<Rightarrow> t), rq_values = values\<rparr>)"

definition mutation_refused :: "mutation_mode \<Rightarrow> bool \<Rightarrow> bool" where
  "mutation_refused mode exists \<longleftrightarrow> mode = Create \<and> exists \<or> mode \<in> {Replace, Delete} \<and> \<not> exists"

definition apply_rrset_mutation ::
  "'p dns_client \<Rightarrow> zone_settings \<Rightarrow> string \<Rightarrow> string \<Rightarrow> string \<Rightarrow> int option \<Rightarrow> string list \<Rightarrow> mutation_mode
   \<Rightarrow> ('p, mutation_outcome) run" where
  "apply_rrset_mutation client d zone_name record_name record_type ttl values mode =
     (let rt_upper = upper (strip record_type) in
      sbind (lift_res (provider_dns_zone d)) (\<lambda>provider_domain.
      sbind (record_exists_at_type client d record_name rt_upper) (\<lambda>exists.
      if mutation_refused mode exists
      then ret \<lparr>mo_status = ''error'',
             mo_action = (if mode = Create then ''record_already_exists'' else ''not_found''),
             mo_http_status = (if mode = Create then 409 else 404),
             mo_record_name = record_name, mo_record_type = rt_upper,
             mo_values = (if mode = Delete then [] else values), mo_dns_zone = provider_domain\<rparr>
      else
        sbind (lift_res (check_record_request
          (mutation_request mode zone_name record_name rt_upper ttl values))) (\<lambda>internal.
        sbind (cl_create_or_update client internal (map_of d ''dns_server'') (Some provider_domain)) (\<lambda>_.
        ret \<lparr>mo_status = ''success'',
             mo_action = (if mode = Delete then ''deleted'' else if mode = Create then ''created'' else ''updated''),
             mo_http_status = 200, mo_record_name = record_name, mo_record_type = rt_upper,
             mo_values = (if mode = Delete then [] else values), mo_dns_zone = provider_domain\<rparr>)))))"

definition apply_patch_mutation ::
  "'p dns_client \<Rightarrow> zone_settings \<Rightarrow> string \<Rightarrow> string \<Rightarrow> string \<Rightarrow> int option \<Rightarrow> string list option
   \<Rightarrow> ('p, mutation_outcome) run" where
  "apply_patch_mutation client d zone_name record_name record_type patch_ttl patch_values =
     (let rt_upper = upper (strip record_type) in
      sbind (lift_res (provider_dns_zone d)) (\<lambda>provider_domain.
      sbind (cl_get_record client record_name (Some rt_upper) (map_of d ''dns_server'') (Some provider_domain)) (\<lambda>records.
      let outcome = (\<lambda>status action http vals. \<lparr>mo_status = status, mo_action = action, mo_http_status = http,
            mo_record_name = record_name, mo_record_type = rt_upper, mo_values = vals, mo_dns_zone = provider_domain\<rparr>)
      in if records = []
         then ret (outcome ''error'' ''not_found'' 404 (case patch_values of None \<Rightarrow> [] | Some vs \<Rightarrow> vs))
         else
           sbind (lift_res (merge_patch (hd records) patch_ttl patch_values)) (\<lambda>(final_ttl, final_values).
           sbind (lift_res (check_record_request
             \<lparr>rq_zone_name = Some zone_name, rq_record_type = rt_upper, rq_record_name = record_name,
              rq_ttl = Some final_ttl, rq_values = final_values\<rparr>)) (\<lambda>internal.
           sbind (cl_create_or_update client internal (map_of d ''dns_server'') (Some provider_domain)) (\<lambda>_.
           ret (outcome ''success'' ''updated'' 200 final_values)))))))"

section \<open>The contract of a client\<close>

type_synonym rrsets = "string \<times> string \<rightharpoonup> int \<times> string list"

text \<open>
  \<open>serves client zone canon view\<close>: the state of the provider shows the RRsets \<open>view s\<close> of the zone,
  under the canonical spelling \<open>canon\<close> of the names. Reading changes nothing and reports the RRset
  first; a successful write stores it, and a successful synthetic \<^verbatim>\<open>DELETE\<close> removes it. Nothing is
  promised of a call that raises.
\<close>

definition serves :: "'p dns_client \<Rightarrow> string \<Rightarrow> (string \<Rightarrow> string) \<Rightarrow> ('p \<Rightarrow> rrsets) \<Rightarrow> bool" where
  "serves client zone canon view \<longleftrightarrow>
     (\<forall>name rt server s infos t.
        cl_get_record client name (Some rt) server (Some zone) s = (Inr infos, t) \<longrightarrow>
        view t = view s
        \<and> (case view s (canon name, rt) of
             None \<Rightarrow> infos = []
           | Some (ttl, vals) \<Rightarrow> infos \<noteq> [] \<and> info_ttl (hd infos) = Some ttl \<and> info_values (hd infos) = Some vals))
     \<and> (\<forall>q server s b t.
        cl_create_or_update client q server (Some zone) s = (Inr b, t) \<longrightarrow>
        view t =
          (if rq_record_type q = ''DELETE'' then (view s)((canon (rq_record_name q), hd (rq_values q)) := None)
           else (view s)((canon (rq_record_name q), rq_record_type q) \<mapsto>
                  (case rq_ttl q of None \<Rightarrow> 300 | Some t \<Rightarrow> t, rq_values q))))"

text \<open>The abstract change of a map of RRsets: the HTTP status and the new map.\<close>

fun rrset_step :: "mutation_mode \<Rightarrow> string \<times> string \<Rightarrow> int option \<Rightarrow> string list option \<Rightarrow> rrsets \<Rightarrow> int \<times> rrsets" where
  "rrset_step Create k ttl values m =
     (if m k \<noteq> None then (409, m)
      else (200, m(k \<mapsto> (case ttl of None \<Rightarrow> 300 | Some t \<Rightarrow> t, case values of None \<Rightarrow> [] | Some vs \<Rightarrow> vs))))"
| "rrset_step Replace k ttl values m =
     (if m k = None then (404, m)
      else (200, m(k \<mapsto> (case ttl of None \<Rightarrow> 300 | Some t \<Rightarrow> t, case values of None \<Rightarrow> [] | Some vs \<Rightarrow> vs))))"
| "rrset_step Delete k ttl values m = (if m k = None then (404, m) else (200, m(k := None)))"
| "rrset_step Patch k ttl values m =
     (case m k of
        None \<Rightarrow> (404, m)
      | Some (t0, vs0) \<Rightarrow>
          (200, m(k \<mapsto> (case ttl of None \<Rightarrow> t0 | Some t \<Rightarrow> t, case values of None \<Rightarrow> vs0 | Some vs \<Rightarrow> vs))))"

lemma serves_get:
  assumes "serves client zone canon view"
    and "cl_get_record client name (Some rt) server (Some zone) s = (Inr infos, t)"
  shows "view t = view s" and "infos = [] \<longleftrightarrow> view s (canon name, rt) = None"
    and "view s (canon name, rt) = Some (ttl, vals) \<Longrightarrow> info_ttl (hd infos) = Some ttl \<and> info_values (hd infos) = Some vals"
proof -
  have all: "view t = view s \<and> (case view s (canon name, rt) of
             None \<Rightarrow> infos = []
           | Some (ttl, vals) \<Rightarrow> infos \<noteq> [] \<and> info_ttl (hd infos) = Some ttl \<and> info_values (hd infos) = Some vals)"
    using assms unfolding serves_def by blast
  then show "view t = view s" by blast
  show "infos = [] \<longleftrightarrow> view s (canon name, rt) = None" using all by (auto split: option.splits)
  show "view s (canon name, rt) = Some (ttl, vals) \<Longrightarrow> info_ttl (hd infos) = Some ttl \<and> info_values (hd infos) = Some vals"
    using all by simp
qed

lemma serves_put:
  assumes "serves client zone canon view"
    and "cl_create_or_update client q server (Some zone) s = (Inr b, t)"
  shows "view t =
          (if rq_record_type q = ''DELETE'' then (view s)((canon (rq_record_name q), hd (rq_values q)) := None)
           else (view s)((canon (rq_record_name q), rq_record_type q) \<mapsto>
                  (case rq_ttl q of None \<Rightarrow> 300 | Some t \<Rightarrow> t, rq_values q)))"
  using assms unfolding serves_def by blast

lemma mutable_not_delete: "rt \<in> set MUTABLE_RECORD_TYPES \<Longrightarrow> rt \<noteq> ''DELETE''"
proof -
  have "''DELETE'' \<notin> set MUTABLE_RECORD_TYPES" by code_simp
  then show "rt \<in> set MUTABLE_RECORD_TYPES \<Longrightarrow> rt \<noteq> ''DELETE''" by blast
qed

lemma upper_strip_mutable: "rt \<in> set MUTABLE_RECORD_TYPES \<Longrightarrow> upper (strip rt) = rt"
proof -
  have "list_all (\<lambda>rt. upper (strip rt) = rt) MUTABLE_RECORD_TYPES" by code_simp
  then show "rt \<in> set MUTABLE_RECORD_TYPES \<Longrightarrow> upper (strip rt) = rt" by (simp add: list_all_iff)
qed

section \<open>Refinement\<close>

lemma record_exists_view:
  assumes "serves client zone canon view" and "provider_dns_zone d = Inr zone"
    and "record_exists_at_type client d name rt s = (Inr ex, t)"
  shows "view t = view s \<and> (ex \<longleftrightarrow> view s (canon name, rt) \<noteq> None)"
proof -
  obtain infos where get: "cl_get_record client name (Some rt) (map_of d ''dns_server'') (Some zone) s = (Inr infos, t)"
    and ex: "ex \<longleftrightarrow> infos \<noteq> []"
    using assms(2,3) by (auto simp: record_exists_at_type_def sbind_eq_Inr)
  show ?thesis using serves_get(1,2) [OF assms(1) get] ex by simp
qed

lemma rrset_refines:
  assumes "serves client zone canon view" and "provider_dns_zone d = Inr zone"
    and "upper (strip record_type) \<in> set MUTABLE_RECORD_TYPES" and "mode \<noteq> Patch"
    and "apply_rrset_mutation client d zone_name name record_type ttl values mode s = (Inr out, t)"
  shows "(mo_http_status out, view t)
    = rrset_step mode (canon name, upper (strip record_type)) ttl (Some values) (view s)"
proof -
  let ?rt = "upper (strip record_type)"
  let ?q = "mutation_request mode zone_name name ?rt ttl values"
  obtain ex u where ex: "record_exists_at_type client d name ?rt s = (Inr ex, u)"
    and run: "mutation_refused mode ex \<Longrightarrow> t = u \<and> mo_http_status out = (if mode = Create then 409 else 404)"
      "\<not> mutation_refused mode ex \<Longrightarrow> mo_http_status out = 200
        \<and> (\<exists>b. cl_create_or_update client ?q (map_of d ''dns_server'') (Some zone) u = (Inr b, t))"
    using assms(5)
    by (simp only: apply_rrset_mutation_def Let_def assms(2) sbind_simps, simp only: sbind_eq_Inr)
      (fastforce simp: sbind_eq_Inr check_record_request_Inr split: if_splits)
  note v = record_exists_view [OF assms(1,2) ex]
  show ?thesis
  proof (cases "mutation_refused mode ex")
    case True
    then show ?thesis using run(1) v assms(4) by (cases mode) (auto simp: mutation_refused_def)
  next
    case False
    then obtain b where put: "cl_create_or_update client ?q (map_of d ''dns_server'') (Some zone) u = (Inr b, t)"
      and out: "mo_http_status out = 200"
      using run(2) by blast
    show ?thesis
      using serves_put [OF assms(1) put] out v False assms(4) mutable_not_delete [OF assms(3)]
      by (cases mode) (auto simp: mutation_refused_def mutation_request_def)
  qed
qed

text \<open>
  C4. Under the contract of the client, a create, replace or delete that returns an outcome has
  taken exactly the step of the abstract map: 409 or 404 and nothing changed, or 200 and the one
  RRset stored or removed.
\<close>

theorem rrset_mutation_refines:
  assumes "serves client zone canon view" and "provider_dns_zone d = Inr zone"
    and "upper (strip record_type) \<in> set MUTABLE_RECORD_TYPES" and "mode \<noteq> Patch"
    and "apply_rrset_mutation client d zone_name name record_type ttl values mode s = (Inr out, t)"
  shows "(mo_http_status out, view t)
    = rrset_step mode (canon name, upper (strip record_type)) ttl (Some values) (view s)"
  using assms by (rule rrset_refines)

lemma patch_refines:
  assumes "serves client zone canon view" and "provider_dns_zone d = Inr zone"
    and "upper (strip record_type) \<in> set MUTABLE_RECORD_TYPES"
    and "apply_patch_mutation client d zone_name name record_type patch_ttl patch_values s = (Inr out, t)"
  shows "(mo_http_status out, view t)
    = rrset_step Patch (canon name, upper (strip record_type)) patch_ttl patch_values (view s)"
proof -
  let ?rt = "upper (strip record_type)"
  obtain infos u where get: "cl_get_record client name (Some ?rt) (map_of d ''dns_server'') (Some zone) s = (Inr infos, u)"
    and none: "infos = [] \<Longrightarrow> t = u \<and> mo_http_status out = 404"
    and some: "infos \<noteq> [] \<Longrightarrow> \<exists>ft fv b. merge_patch (hd infos) patch_ttl patch_values = Inr (ft, fv)
        \<and> mo_http_status out = 200
        \<and> cl_create_or_update client \<lparr>rq_zone_name = Some zone_name, rq_record_type = ?rt, rq_record_name = name,
              rq_ttl = Some ft, rq_values = fv\<rparr> (map_of d ''dns_server'') (Some zone) u = (Inr b, t)"
    using assms(4)
    by (simp only: apply_patch_mutation_def Let_def assms(2) sbind_simps, simp only: sbind_eq_Inr)
      (fastforce simp: sbind_eq_Inr check_record_request_Inr split: if_splits)
  note v = serves_get [OF assms(1) get]
  show ?thesis
  proof (cases "infos = []")
    case True
    then show ?thesis using none v(1,2) by simp
  next
    case False
    obtain t0 vs0 where k: "view s (canon name, ?rt) = Some (t0, vs0)" using v(2) False by auto
    obtain ft fv b where m: "merge_patch (hd infos) patch_ttl patch_values = Inr (ft, fv)" "mo_http_status out = 200"
      and put: "cl_create_or_update client \<lparr>rq_zone_name = Some zone_name, rq_record_type = ?rt, rq_record_name = name,
              rq_ttl = Some ft, rq_values = fv\<rparr> (map_of d ''dns_server'') (Some zone) u = (Inr b, t)"
      using some False by blast
    have "ft = (case patch_ttl of None \<Rightarrow> t0 | Some p \<Rightarrow> p)" "fv = (case patch_values of None \<Rightarrow> vs0 | Some ps \<Rightarrow> ps)"
      using m(1) v(3) [OF k] by (auto simp: merge_patch_def split: list.splits option.splits)
    then show ?thesis
      using serves_put [OF assms(1) put] m(2) v(1) k mutable_not_delete [OF assms(3)] by (auto split: option.splits)
  qed
qed

text \<open>
  C5. Under the contract of the client, a partial change that returns an outcome has replaced the
  TTL and the values that were given and kept the others, or answered 404 and changed nothing.
\<close>

theorem patch_mutation_refines:
  assumes "serves client zone canon view" and "provider_dns_zone d = Inr zone"
    and "upper (strip record_type) \<in> set MUTABLE_RECORD_TYPES"
    and "apply_patch_mutation client d zone_name name record_type patch_ttl patch_values s = (Inr out, t)"
  shows "(mo_http_status out, view t)
    = rrset_step Patch (canon name, upper (strip record_type)) patch_ttl patch_values (view s)"
  using assms by (rule patch_refines)

text \<open>A client of the contract: the state is the map itself.\<close>

definition map_client :: "rrsets dns_client" where
  "map_client = \<lparr>cl_get_record = (\<lambda>name rt server zone m. (Inr (case rt of None \<Rightarrow> [] | Some ty \<Rightarrow> (case m (lower name, ty) of
        None \<Rightarrow> [] | Some (ttl, vals) \<Rightarrow> [\<lparr>info_record_name = name, info_record_type = ty, info_ttl = Some ttl,
          info_values = Some vals\<rparr>])), m)),
     cl_list_records = (\<lambda>pattern rt limit server zone m. (Inl (ValueError ''listing is not supported''), m)),
     cl_create_or_update = (\<lambda>q server zone m. (Inr True,
        if rq_record_type q = ''DELETE'' then m((lower (rq_record_name q), hd (rq_values q)) := None)
        else m((lower (rq_record_name q), rq_record_type q) \<mapsto>
               (case rq_ttl q of None \<Rightarrow> 300 | Some t \<Rightarrow> t, rq_values q))))\<rparr>"

lemma serves_map_client: "serves map_client zone lower id"
  by (auto simp: serves_def map_client_def split: option.splits)

definition demo_zone :: zone_settings where
  "demo_zone = [(''dns_provider_type'', ''bind''), (''dns_zone'', ''Example.org.'')]"

lemma demo_zone_name: "provider_dns_zone demo_zone = Inr ''example.org''"
  by code_simp

theorem rrset_mutation_refines_witness:
  "\<exists>out t. apply_rrset_mutation map_client demo_zone ''example.org'' ''WWW'' ''A'' (Some 60) [''192.0.2.1''] Create Map.empty
      = (Inr out, t) \<and> (mo_http_status out, t) = rrset_step Create (''www'', ''A'') (Some 60) (Some [''192.0.2.1'']) Map.empty"
proof -
  have rt: "upper (strip ''A'') = ''A''" "upper (strip ''A'') \<in> set MUTABLE_RECORD_TYPES" "lower ''WWW'' = ''www''" by code_simp+
  obtain out t where run: "apply_rrset_mutation map_client demo_zone ''example.org'' ''WWW'' ''A'' (Some 60) [''192.0.2.1'']
      Create Map.empty = (Inr out, t)"
    by (simp add: apply_rrset_mutation_def Let_def demo_zone_name rt record_exists_at_type_def map_client_def sbind_def
        mutation_refused_def mutation_request_def check_record_request_def)
  show ?thesis
    using rrset_mutation_refines [OF serves_map_client demo_zone_name rt(2) _ run] run rt by auto
qed

theorem patch_mutation_refines_witness:
  "\<exists>out t. apply_patch_mutation map_client demo_zone ''example.org'' ''www'' ''A'' (Some 60) None
      [(''www'', ''A'') \<mapsto> (300, [''192.0.2.1''])] = (Inr out, t) \<and> t (''www'', ''A'') = Some (60, [''192.0.2.1''])"
proof -
  have rt: "upper (strip ''A'') = ''A''" "upper (strip ''A'') \<in> set MUTABLE_RECORD_TYPES" "lower ''www'' = ''www''" by code_simp+
  obtain out t where run: "apply_patch_mutation map_client demo_zone ''example.org'' ''www'' ''A'' (Some 60) None
      [(''www'', ''A'') \<mapsto> (300, [''192.0.2.1''])] = (Inr out, t)"
    using rt by (simp add: apply_patch_mutation_def Let_def demo_zone_name map_client_def sbind_def
        merge_patch_def check_record_request_def)
  show ?thesis
    using patch_mutation_refines [OF serves_map_client demo_zone_name rt(2) run] run rt by auto
qed

end
