(* ===== verification/DnsApi.thy ===== *)
theory DnsApi
  imports DnsMutation Alerting
begin

text \<open>
  The public DNS API: \<^verbatim>\<open>dns_api_service.py\<close> (the checks of a key and a zone, and the flow that the
  four writing routes share) and the routes of \<^verbatim>\<open>routes/dns_api.py\<close>. A run is over the state of the
  program and the state of the providers. FastAPI's parsing of a request is not modelled: a route
  takes the payload its schema accepted.
\<close>

section \<open>The two states\<close>

record 'p world =
  w_core :: core
  w_prov :: 'p

definition in_core :: "(core, 'a) run \<Rightarrow> ('p world, 'a) run" where
  "in_core m s = (case m (w_core s) of (r, c) \<Rightarrow> (r, s\<lparr>w_core := c\<rparr>))"

definition in_prov :: "('p, 'a) run \<Rightarrow> ('p world, 'a) run" where
  "in_prov m s = (case m (w_prov s) of (r, p) \<Rightarrow> (r, s\<lparr>w_prov := p\<rparr>))"

section \<open>Access of a key to a zone\<close>

definition ACCESS_DENIED :: py_exc where
  "ACCESS_DENIED = http_error 403 ''access_denied'' ''You do not have access or an invalid key was provided.''"

definition denied_event :: "string \<Rightarrow> string \<Rightarrow> event" where
  "denied_event ty msg = (plain_event ty)
     \<lparr>ev_level := LOG_LEVEL_WARNING, ev_status := Some ''error'', ev_actor_type := Some ''api_key'',
      ev_message := Some msg\<rparr>"

definition key_event :: "event \<Rightarrow> api_key_row \<Rightarrow> string option \<Rightarrow> string \<Rightarrow> event" where
  "key_event ev key zone record_name = ev
     \<lparr>ev_actor_id := Some (show_int (int (ak_id key))), ev_actor_label := Some (ak_label key),
      ev_zone_name := zone, ev_record_name := Some record_name\<rparr>"

definition refuse :: "outside \<Rightarrow> event \<Rightarrow> py_exc \<Rightarrow> (core, 'a) run" where
  "refuse out ev e = sbind (emit_activity_event out ev) (\<lambda>_. raise e)"

definition record_activity :: "outside \<Rightarrow> event \<Rightarrow> (core, unit) run" where
  "record_activity out ev = catch (sbind (emit_activity_event out ev) (\<lambda>_. ret ())) (\<lambda>_. ret ())"

record api_access =
  ax_key :: api_key_row
  ax_zone :: dns_zone_config
  ax_settings :: zone_settings
  ax_provider :: string

definition azure_missing :: "zone_settings \<Rightarrow> string option" where
  "azure_missing d =
     (if provider_of d \<noteq> ''azure'' then None
      else if setting_or_empty d ''azure_subscription_id'' = []
      then Some ''Azure subscription ID is required on the zone configuration.''
      else if setting_or_empty d ''azure_resource_group'' = []
      then Some ''Azure resource group is required on the zone configuration.''
      else None)"

definition key_allows_zone :: "db \<Rightarrow> api_key_row \<Rightarrow> dns_zone_config \<Rightarrow> bool" where
  "key_allows_zone db key zone \<longleftrightarrow>
     (\<exists>l \<in> set (api_key_allowed_zones db). az_api_key_id l = ak_id key \<and> az_dns_zone_config_id l = zc_id zone)"

definition resolve_dns_api_zone ::
  "outside \<Rightarrow> string \<Rightarrow> string \<Rightarrow> string \<Rightarrow> string \<Rightarrow> (core, api_access) run" where
  "resolve_dns_api_zone out api_key zone_name record_name endpoint =
     sbind (gets (\<lambda>s. get_api_key (o_env out) (c_db s) api_key)) (\<lambda>found.
     case found of
       None \<Rightarrow>
         refuse out ((denied_event ''dns.access_denied'' (''Invalid or revoked API key used on '' @ endpoint))
             \<lparr>ev_actor_label := Some ''invalid'',
              ev_details := Some (JObj [(''key_fingerprint'', JStr (api_key_fingerprint (o_env out) api_key))])\<rparr>)
           (HTTPException 401 (DText ''Invalid API key''))
     | Some key \<Rightarrow>
         if strip zone_name = [] then
           refuse out (key_event (denied_event ''dns.invalid_request'' (''zone_name is required on '' @ endpoint))
               key None record_name)
             (http_error 400 ''invalid_request'' ''zone_name is required on every request.'')
         else
           let canonical = normalize_zone_name zone_name in
           sbind (gets (\<lambda>s. first_row (\<lambda>z. zc_zone_name z = canonical) (dns_zone_configs (c_db s)))) (\<lambda>zone_row.
           case zone_row of
             None \<Rightarrow>
               refuse out (key_event (denied_event ''dns.access_denied'' (''Unknown DNS zone '' @ repr canonical))
                 key (Some canonical) record_name) ACCESS_DENIED
           | Some zone \<Rightarrow>
               sbind (gets (\<lambda>s. key_allows_zone (c_db s) key zone)) (\<lambda>perm.
               if \<not> perm then
                 refuse out (key_event (denied_event ''dns.access_denied''
                     (''API key '' @ repr (ak_label key) @ '' not allowed for zone '' @ repr canonical))
                   key (Some canonical) record_name) ACCESS_DENIED
               else
                 sbind (lift_res (decode_zone_config (o_env out) zone)) (\<lambda>d.
                 case azure_missing d of
                   Some msg \<Rightarrow>
                     refuse out (key_event (denied_event ''dns.invalid_request'' msg) key (Some canonical) record_name)
                       (http_error 400 ''invalid_request'' msg)
                 | None \<Rightarrow> ret \<lparr>ax_key = key, ax_zone = zone, ax_settings = d, ax_provider = provider_of d\<rparr>))))"

definition require_dns_api_key_write_access ::
  "outside \<Rightarrow> api_key_row \<Rightarrow> string \<Rightarrow> string \<Rightarrow> string \<Rightarrow> (core, unit) run" where
  "require_dns_api_key_write_access out key zone_name record_name endpoint =
     (if ak_access_mode key = API_KEY_ACCESS_READ_WRITE then ret ()
      else
        refuse out ((key_event (denied_event ''dns.access_denied''
              (''Read-only API key '' @ repr (ak_label key) @ '' denied on '' @ endpoint))
            key (Some zone_name) record_name)
            \<lparr>ev_details := Some (JObj [(''access_mode'', JStr (ak_access_mode key)),
               (''required_access_mode'', JStr API_KEY_ACCESS_READ_WRITE)])\<rparr>)
          ACCESS_DENIED)"

section \<open>The shared flow of the writing routes\<close>

record mutation_reply =
  my_status :: int
  my_body :: record_response

definition success_event :: "string \<Rightarrow> string \<Rightarrow> event" where
  "success_event ty msg = (denied_event ty msg)
     \<lparr>ev_level := LOG_LEVEL_INFORMATIONAL, ev_status := Some ''success''\<rparr>"

definition reply_of :: "dns_zone_config \<Rightarrow> mutation_outcome \<Rightarrow> mutation_reply" where
  "reply_of zone outcome =
     \<lparr>my_status = mo_http_status outcome,
      my_body = \<lparr>rr_status = mo_status outcome, rr_action = mo_action outcome, rr_zone_name = zc_zone_name zone,
        rr_dns_zone = mo_dns_zone outcome, rr_record_name = mo_record_name outcome,
        rr_record_type = mo_record_type outcome, rr_values = mo_values outcome\<rparr>\<rparr>"

text \<open>The event of an outcome: 409, 404 or the success.\<close>

definition outcome_event ::
  "api_access \<Rightarrow> string \<Rightarrow> string \<Rightarrow> string \<Rightarrow> nat \<Rightarrow> mutation_outcome \<Rightarrow> event" where
  "outcome_event ax record_name provider_domain rt n outcome =
     (let what = ''DNS record '' @ record_name @ ''.'' @ provider_domain;
          kind = [(''record_type'', JStr rt)]; prov = [(''provider'', JStr (ax_provider ax))];
          ev = (if mo_http_status outcome = 409 then
                  (denied_event ''dns.record_already_exists'' (what @ '' '' @ rt @ '' already exists''))
                    \<lparr>ev_details := Some (JObj (kind @ prov))\<rparr>
                else if mo_http_status outcome = 404 then
                  (denied_event ''dns.record_not_found'' (what @ '' '' @ rt @ '' not found''))
                    \<lparr>ev_details := Some (JObj (kind @ prov))\<rparr>
                else
                  (success_event (''dns.record_'' @ mo_action outcome) (what @ '' '' @ mo_action outcome))
                    \<lparr>ev_details := Some (JObj (kind @ [(''values_count'', JInt (int n))] @ prov))\<rparr>)
      in key_event ev (ax_key ax) (Some (zc_zone_name (ax_zone ax))) record_name)"

definition provider_failure ::
  "outside \<Rightarrow> api_access \<Rightarrow> string \<Rightarrow> json \<Rightarrow> py_exc \<Rightarrow> ('p world, 'a) run" where
  "provider_failure out ax record_name rt e =
     in_core (refuse out
       (key_event ((denied_event ''dns.provider_failed'' (sanitize_client_error_message e ''DNS provider error''))
          \<lparr>ev_level := LOG_LEVEL_ERROR, ev_details := Some (JObj [(''provider'', JStr (ax_provider ax)),
             (''record_type'', rt), (''exception_type'', JStr (exc_name e))])\<rparr>)
          (ax_key ax) (Some (zc_zone_name (ax_zone ax))) record_name)
       (http_exception_from_dns_error e))"

definition run_mutation ::
  "'p dns_client \<Rightarrow> api_access \<Rightarrow> prepared_mutation \<Rightarrow> mutation_mode \<Rightarrow> int option \<Rightarrow> string list option
   \<Rightarrow> ('p, mutation_outcome) run" where
  "run_mutation client ax pm mode patch_ttl patch_values =
     (let d = ax_settings ax; zone = zc_zone_name (ax_zone ax) in
      if mode = Patch then
        catch (apply_patch_mutation client d zone (pm_record_name pm) (pm_record_type pm)
            (if patch_ttl = None then None else Some (pm_ttl pm)) (if patch_values = None then None else Some (pm_values pm)))
          (\<lambda>e. case e of PatchMergeError msg \<Rightarrow> raise (http_error 502 ''dns_provider_failed'' msg) | _ \<Rightarrow> raise e)
      else
        apply_rrset_mutation client d zone (pm_record_name pm) (pm_record_type pm) (Some (pm_ttl pm)) (pm_values pm) mode)"

definition mutate_zone ::
  "outside \<Rightarrow> 'p connector \<Rightarrow> api_access \<Rightarrow> string \<Rightarrow> string \<Rightarrow> int option \<Rightarrow> string list \<Rightarrow> mutation_mode
   \<Rightarrow> int option \<Rightarrow> string list option \<Rightarrow> ('p world, mutation_reply) run" where
  "mutate_zone out connect ax record_name rt_upper ttl values mode patch_ttl patch_values =
     sbind (in_core (db_read (get_disabled_dns_plugins (o_env out)))) (\<lambda>disabled.
     sbind (lift_res (guard (ax_provider ax \<notin> set disabled) (disabled_error (ax_provider ax)))) (\<lambda>_.
     sbind (in_core (db_read (create_dns_client_from_settings connect (o_env out) (ax_settings ax)))) (\<lambda>client.
     sbind (lift_res (provider_dns_zone (ax_settings ax))) (\<lambda>provider_domain.
     sbind (lift_res (prepare_mutation record_name rt_upper
         (if mode = Patch then patch_ttl else ttl)
         (if mode \<in> {Delete, Patch} then (case patch_values of None \<Rightarrow> [] | Some vs \<Rightarrow> vs) else values)
         (Some provider_domain)
         (mode \<notin> {Delete, Patch} \<or> mode = Patch \<and> patch_values \<noteq> None)
         (mode = Replace))) (\<lambda>pm.
     sbind (in_prov (run_mutation client ax pm mode patch_ttl patch_values)) (\<lambda>outcome.
     sbind (in_core (emit_activity_event out (outcome_event ax record_name provider_domain
         (if mode = Patch then pm_record_type pm else rt_upper)
         (length (if mode = Patch then mo_values outcome else values)) outcome))) (\<lambda>_.
     ret (reply_of (ax_zone ax) outcome))))))))"

definition apply_dns_mutation ::
  "outside \<Rightarrow> 'p connector \<Rightarrow> string option \<Rightarrow> string option \<Rightarrow> string \<Rightarrow> string \<Rightarrow> int option \<Rightarrow> string list
   \<Rightarrow> mutation_mode \<Rightarrow> string \<Rightarrow> int option \<Rightarrow> string list option \<Rightarrow> ('p world, mutation_reply) run" where
  "apply_dns_mutation out connect api_key zone_name record_name record_type ttl values mode endpoint
     patch_ttl patch_values =
     (if or_empty api_key = [] then
        sbind (in_core (record_activity out (denied_event ''dns.access_denied'' (''API key missing on '' @ endpoint))))
          (\<lambda>_. raise (HTTPException 401 (DText ''API key is required'')))
      else
        let rt_upper = upper (strip record_type) in
        sbind (in_core (resolve_dns_api_zone out (or_empty api_key) (or_empty zone_name) record_name endpoint)) (\<lambda>ax.
        sbind (in_core (require_dns_api_key_write_access out (ax_key ax) (zc_zone_name (ax_zone ax)) record_name
            endpoint)) (\<lambda>_.
        catch (mutate_zone out connect ax record_name rt_upper ttl values mode patch_ttl patch_values)
          (\<lambda>e. if is_http_exception e then raise e else provider_failure out ax record_name (JStr rt_upper) e))))"

section \<open>Routes\<close>

definition keycheck :: "env \<Rightarrow> db \<Rightarrow> string option \<Rightarrow> string option \<Rightarrow> int \<times> string" where
  "keycheck env db x_api_key authorization =
     (case api_key_from_headers x_api_key authorization of
        None \<Rightarrow> (401, ''failure'')
      | Some k \<Rightarrow> if k = [] \<or> get_api_key env db k = None then (401, ''failure'') else (200, ''success''))"

definition test_zone_record_lookup ::
  "'p connector \<Rightarrow> env \<Rightarrow> zone_settings \<Rightarrow> string \<Rightarrow> string option \<Rightarrow> ('p world, dns_record_info list) run" where
  "test_zone_record_lookup connect env d record_name record_type =
     sbind (in_core (db_read (create_dns_client_from_settings connect env d))) (\<lambda>client.
     sbind (lift_res (provider_dns_zone d)) (\<lambda>zone.
     in_prov (cl_get_record client record_name record_type (map_of d ''dns_server'') (Some zone))))"

definition lookup_message :: "string \<Rightarrow> string \<Rightarrow> string option \<Rightarrow> dns_record_info list \<Rightarrow> string" where
  "lookup_message record_name zone lookup_type records =
     (let at = '' at '' @ repr record_name @ '' in zone '' @ repr zone @ ''.'' in
      if records \<noteq> [] then ''Found '' @ show_int (int (length records)) @ '' record(s)'' @ at
      else case lookup_type of
        Some t \<Rightarrow> ''No '' @ t @ '' record found'' @ at
      | None \<Rightarrow> ''No supported records found'' @ at)"

definition get_dns_record ::
  "outside \<Rightarrow> 'p connector \<Rightarrow> string \<Rightarrow> string \<Rightarrow> string option \<Rightarrow> string option \<Rightarrow> string option
   \<Rightarrow> ('p world, get_response) run" where
  "get_dns_record out connect zone_name record_name record_type x_api_key authorization =
     (let api_key = or_empty (api_key_from_headers x_api_key authorization);
          ty = (case record_type of None \<Rightarrow> JNull | Some t \<Rightarrow> JStr t) in
      if api_key = [] then
        sbind (in_core (record_activity out (denied_event ''dns.access_denied'' ''API key missing on GET /dns-record'')))
          (\<lambda>_. raise (HTTPException 401 (DText ''API key is required'')))
      else
        sbind (in_core (resolve_dns_api_zone out api_key zone_name record_name ''GET /dns-record'')) (\<lambda>ax.
        sbind (lift_res (provider_dns_zone (ax_settings ax))) (\<lambda>provider_domain.
        sbind (catch
          (sbind (lift_res (normalize_lookup_record_type record_type)) (\<lambda>lookup_type.
           sbind (test_zone_record_lookup connect (o_env out) (ax_settings ax) record_name lookup_type) (\<lambda>records.
           ret (lookup_type, records))))
          (\<lambda>e. if is_value_error e then
                 in_core (refuse out (key_event (denied_event ''dns.invalid_request'' (exc_str e)) (ax_key ax)
                     (Some (zc_zone_name (ax_zone ax))) record_name)
                   (http_error 400 ''invalid_request'' (exc_str e)))
               else if is_http_exception e then raise e
               else provider_failure out ax record_name ty e)) (\<lambda>(lookup_type, records).
        let status = (if records \<noteq> [] then ''success'' else ''not_found'') in
        sbind (in_core (emit_activity_event out (key_event
          ((success_event ''dns.record_lookup'' (lookup_message record_name provider_domain lookup_type records))
             \<lparr>ev_status := Some status, ev_details := Some (JObj [(''provider'', JStr (ax_provider ax)),
                (''record_type'', ty), (''records_found'', JInt (int (length records)))])\<rparr>)
          (ax_key ax) (Some (zc_zone_name (ax_zone ax))) record_name))) (\<lambda>_.
        ret \<lparr>gr_status = status, gr_zone_name = zc_zone_name (ax_zone ax), gr_dns_zone = provider_domain,
             gr_record_name = record_name, gr_records = records\<rparr>)))))"

definition create_dns_record ::
  "outside \<Rightarrow> 'p connector \<Rightarrow> create_request \<Rightarrow> string option \<Rightarrow> string option \<Rightarrow> ('p world, mutation_reply) run" where
  "create_dns_record out connect payload x_api_key authorization =
     apply_dns_mutation out connect (api_key_from_headers x_api_key authorization) (cr_zone_name payload)
       (cr_record_name payload) (cr_record_type payload) (cr_ttl payload) (cr_values payload) Create
       ''POST /dns-record'' None None"

definition replace_dns_record ::
  "outside \<Rightarrow> 'p connector \<Rightarrow> replace_request \<Rightarrow> string option \<Rightarrow> string option \<Rightarrow> ('p world, mutation_reply) run" where
  "replace_dns_record out connect payload x_api_key authorization =
     apply_dns_mutation out connect (api_key_from_headers x_api_key authorization) (rp_zone_name payload)
       (rp_record_name payload) (rp_record_type payload) (Some (rp_ttl payload)) (rp_values payload) Replace
       ''PUT /dns-record'' None None"

definition patch_dns_record ::
  "outside \<Rightarrow> 'p connector \<Rightarrow> patch_request \<Rightarrow> string option \<Rightarrow> string option \<Rightarrow> ('p world, mutation_reply) run" where
  "patch_dns_record out connect payload x_api_key authorization =
     apply_dns_mutation out connect (api_key_from_headers x_api_key authorization) (pt_zone_name payload)
       (pt_record_name payload) (pt_record_type payload) None [] Patch ''PATCH /dns-record''
       (pt_ttl payload) (pt_values payload)"

definition delete_dns_record ::
  "outside \<Rightarrow> 'p connector \<Rightarrow> string \<Rightarrow> string \<Rightarrow> string \<Rightarrow> string option \<Rightarrow> string option
   \<Rightarrow> ('p world, mutation_reply) run" where
  "delete_dns_record out connect zone_name record_name record_type x_api_key authorization =
     (case normalize_public_record_type record_type of
        Inl e \<Rightarrow> raise (http_error 400 ''invalid_request'' (exc_str e))
      | Inr ty \<Rightarrow>
          apply_dns_mutation out connect (api_key_from_headers x_api_key authorization) (Some zone_name)
            record_name ty None [] Delete ''DELETE /dns-record'' None None)"

section \<open>Who may write\<close>

definition may_write :: "env \<Rightarrow> db \<Rightarrow> string \<Rightarrow> string \<Rightarrow> bool" where
  "may_write env db raw_key zone_name \<longleftrightarrow>
     (\<exists>k \<in> set (api_keys db). \<exists>z \<in> set (dns_zone_configs db). \<exists>d ds.
        ak_key k = hash_api_key env raw_key \<and> ak_active k \<and> ak_access_mode k = API_KEY_ACCESS_READ_WRITE
        \<and> zc_zone_name z = normalize_zone_name zone_name \<and> key_allows_zone db k z
        \<and> decode_zone_config env z = Inr d
        \<and> get_disabled_dns_plugins env db = Inr ds \<and> provider_of d \<notin> set ds)"

lemma in_core_apply: "in_core m s = (fst (m (w_core s)), s\<lparr>w_core := snd (m (w_core s))\<rparr>)"
  by (simp add: in_core_def split: prod.split)

lemma in_prov_apply: "in_prov m s = (fst (m (w_prov s)), s\<lparr>w_prov := snd (m (w_prov s))\<rparr>)"
  by (simp add: in_prov_def split: prod.split)

lemma sbind_in_core:
  "sbind (in_core m) f s =
     (case m (w_core s) of (Inl e, c) \<Rightarrow> (Inl e, s\<lparr>w_core := c\<rparr>) | (Inr x, c) \<Rightarrow> f x (s\<lparr>w_core := c\<rparr>))"
  by (simp add: sbind_def in_core_apply split: prod.split sum.split)

lemma refuse_fails: "refuse out ev e s = (r, t) \<Longrightarrow> \<exists>e'. r = Inl e'"
  by (auto simp: refuse_def sbind_def raise_def split: prod.splits sum.splits)

lemma refuse_not_Inr [simp]: "refuse out ev e s \<noteq> (Inr x, t)"
  using refuse_fails by fastforce

lemma resolve_Inr:
  "resolve_dns_api_zone out raw zone name ep s = (Inr ax, t) \<Longrightarrow>
     t = s \<and> get_api_key (o_env out) (c_db s) raw = Some (ax_key ax)
     \<and> first_row (\<lambda>z. zc_zone_name z = normalize_zone_name zone) (dns_zone_configs (c_db s)) = Some (ax_zone ax)
     \<and> key_allows_zone (c_db s) (ax_key ax) (ax_zone ax)
     \<and> decode_zone_config (o_env out) (ax_zone ax) = Inr (ax_settings ax)
     \<and> azure_missing (ax_settings ax) = None \<and> ax_provider ax = provider_of (ax_settings ax)"
  by (auto simp: resolve_dns_api_zone_def Let_def sbind_eq_Inr ret_def split: option.splits if_splits)

lemma write_access_Inr:
  "require_dns_api_key_write_access out k z name ep s = (Inr u, t) \<longleftrightarrow> t = s \<and> ak_access_mode k = API_KEY_ACCESS_READ_WRITE"
  by (auto simp: require_dns_api_key_write_access_def ret_def)

text \<open>What runs on the program's state leaves the providers alone.\<close>

lemma keeps_in_core [keeps_intro]: "keeps (\<lambda>s. w_prov s = p) (in_core m)"
  by (simp add: keeps_def in_core_apply)

lemma mutate_zone_reaches:
  assumes "mutate_zone out connect ax name rt ttl values mode pt pv s = (r, t)" and "w_prov t \<noteq> w_prov s"
  shows "\<exists>ds. get_disabled_dns_plugins (o_env out) (c_db (w_core s)) = Inr ds \<and> ax_provider ax \<notin> set ds"
proof (rule ccontr)
  assume no: "\<not> ?thesis"
  have "w_prov t = w_prov s"
    using assms(1) no
    by (cases "get_disabled_dns_plugins (o_env out) (c_db (w_core s))")
      (auto simp: mutate_zone_def sbind_in_core guard_def)
  then show False using assms(2) by simp
qed

lemma in_core_refuse: "in_core (refuse out ev e) s = (r, t) \<Longrightarrow> w_prov t = w_prov s \<and> (\<exists>e'. r = Inl e')"
  using refuse_fails [OF surjective_pairing, of out ev e "w_core s"] by (auto simp: in_core_apply)

lemma provider_failure_same: "provider_failure out ax name rt e s = (r, t) \<Longrightarrow> w_prov t = w_prov s \<and> (\<exists>e'. r = Inl e')"
  unfolding provider_failure_def by (rule in_core_refuse)

text \<open>Either the checks refuse the request and no provider is reached, or the change of the zone is
  run on the state the request found.\<close>

lemma apply_reaches:
  assumes run: "apply_dns_mutation out connect key zone name rt ttl values mode ep pt pv s = (r, t)"
  shows "w_prov t = w_prov s \<and> (\<exists>e. r = Inl e) \<or>
    (\<exists>ax rm u. resolve_dns_api_zone out (or_empty key) (or_empty zone) name ep (w_core s) = (Inr ax, w_core s)
       \<and> ak_access_mode (ax_key ax) = API_KEY_ACCESS_READ_WRITE
       \<and> mutate_zone out connect ax name (upper (strip rt)) ttl values mode pt pv s = (rm, u)
       \<and> w_prov t = w_prov u \<and> (\<forall>x. r = Inr x \<longrightarrow> rm = Inr x))"
proof (cases "or_empty key = []")
  case True
  then show ?thesis using run by (auto simp: apply_dns_mutation_def sbind_in_core raise_def split: prod.splits sum.splits)
next
  case key: False
  obtain ra c where res: "resolve_dns_api_zone out (or_empty key) (or_empty zone) name ep (w_core s) = (ra, c)" by fastforce
  show ?thesis
  proof (cases ra)
    case (Inl e)
    then show ?thesis using run key res by (auto simp: apply_dns_mutation_def sbind_in_core Let_def)
  next
    case (Inr ax)
    then have c: "c = w_core s" using res resolve_Inr by blast
    obtain rw c' where acc: "require_dns_api_key_write_access out (ax_key ax) (zc_zone_name (ax_zone ax)) name ep
        (w_core s) = (rw, c')" by fastforce
    show ?thesis
    proof (cases rw)
      case (Inl e)
      then show ?thesis using run key res Inr c acc by (auto simp: apply_dns_mutation_def sbind_in_core Let_def)
    next
      case rw: (Inr u)
      note w = acc [unfolded rw write_access_Inr]
      obtain rm u' where m: "mutate_zone out connect ax name (upper (strip rt)) ttl values mode pt pv s = (rm, u')" by fastforce
      have "w_prov t = w_prov u' \<and> (\<forall>x. r = Inr x \<longrightarrow> rm = Inr x)"
        using run key res Inr c acc rw w m
        by (cases rm) (auto simp: apply_dns_mutation_def sbind_in_core Let_def catch_def raise_def split: if_splits
            dest: provider_failure_same)
      then show ?thesis using res Inr c w m by blast
    qed
  qed
qed

lemma apply_needs_key:
  assumes run: "apply_dns_mutation out connect key zone name rt ttl values mode ep pt pv s = (r, t)"
    and changed: "w_prov t \<noteq> w_prov s"
  shows "may_write (o_env out) (c_db (w_core s)) (or_empty key) (or_empty zone)"
proof -
  obtain ax rm u where res: "resolve_dns_api_zone out (or_empty key) (or_empty zone) name ep (w_core s) = (Inr ax, w_core s)"
    and mode: "ak_access_mode (ax_key ax) = API_KEY_ACCESS_READ_WRITE"
    and m: "mutate_zone out connect ax name (upper (strip rt)) ttl values mode pt pv s = (rm, u)"
    and same: "w_prov t = w_prov u"
    using apply_reaches [OF run] changed by blast
  show ?thesis
    using mutate_zone_reaches [OF m] changed same resolve_Inr [OF res] mode
    by (fastforce simp: may_write_def get_api_key_def dest: first_row_Some)
qed

text \<open>The four writing routes, with the payload each takes.\<close>

datatype write_request = Post create_request | Put replace_request | PatchRequest patch_request
  | DeleteRequest string string string

fun serve_write :: "outside \<Rightarrow> 'p connector \<Rightarrow> write_request \<Rightarrow> string option \<Rightarrow> string option
    \<Rightarrow> ('p world, mutation_reply) run" where
  "serve_write out connect (Post q) = create_dns_record out connect q"
| "serve_write out connect (Put q) = replace_dns_record out connect q"
| "serve_write out connect (PatchRequest q) = patch_dns_record out connect q"
| "serve_write out connect (DeleteRequest zone name rt) = delete_dns_record out connect zone name rt"

fun write_zone_of :: "write_request \<Rightarrow> string" where
  "write_zone_of (Post q) = or_empty (cr_zone_name q)"
| "write_zone_of (Put q) = or_empty (rp_zone_name q)"
| "write_zone_of (PatchRequest q) = or_empty (pt_zone_name q)"
| "write_zone_of (DeleteRequest zone name rt) = zone"

text \<open>
  C1. A writing request of the public API reaches a provider only when its key is the key of an active
  row with read-write access that is linked to the configured zone the request names, and the
  provider of that zone is not disabled. Whatever else the request is, no provider's state changes.
\<close>

theorem provider_reached_needs_key:
  assumes "serve_write out connect q x_api_key authorization s = (r, t)" and "w_prov t \<noteq> w_prov s"
  shows "may_write (o_env out) (c_db (w_core s)) (or_empty (api_key_from_headers x_api_key authorization)) (write_zone_of q)"
proof -
  note run = assms(1) and need = apply_needs_key [OF _ assms(2)]
  show ?thesis
  proof (cases q)
    case (Post p)
    show ?thesis using need [OF run [unfolded Post serve_write.simps create_dns_record_def]] Post by simp
  next
    case (Put p)
    show ?thesis using need [OF run [unfolded Put serve_write.simps replace_dns_record_def]] Put by simp
  next
    case (PatchRequest p)
    show ?thesis using need [OF run [unfolded PatchRequest serve_write.simps patch_dns_record_def]] PatchRequest by simp
  next
    case (DeleteRequest zone name rt)
    obtain ty where ty: "normalize_public_record_type rt = Inr ty"
      using assms unfolding DeleteRequest serve_write.simps delete_dns_record_def raise_def
      by (cases "normalize_public_record_type rt") auto
    show ?thesis
      using need [OF run [unfolded DeleteRequest serve_write.simps delete_dns_record_def ty sum.case]] DeleteRequest
      by (simp add: or_empty_def)
  qed
qed

section \<open>From a request to the RRset\<close>

text \<open>The contract for every client the connector makes.\<close>

definition all_serve :: "'p connector \<Rightarrow> (string \<Rightarrow> string \<Rightarrow> string) \<Rightarrow> (string \<Rightarrow> 'p \<Rightarrow> rrsets) \<Rightarrow> bool" where
  "all_serve connect canon view \<longleftrightarrow>
     (\<forall>p d client zone. connect p d = Inr client \<and> provider_dns_zone d = Inr zone
        \<longrightarrow> serves client zone (canon zone) (view zone))"

lemma prepare_type: "prepare_mutation name rt ttl values dz rv rq = Inr pm \<Longrightarrow> pm_record_type pm \<in> set MUTABLE_RECORD_TYPES"
  by (auto simp: prepare_mutation_def Let_def rbind_eq_Inr normalize_mutable_record_type_def split: if_splits)

lemma client_connected: "create_dns_client_from_settings connect env d db = Inr client \<Longrightarrow> \<exists>p. connect p d = Inr client"
  by (auto simp: create_dns_client_from_settings_def create_dns_client_def rbind_eq_Inr split: if_splits)

lemma sbind_in_prov:
  "sbind (in_prov m) f s =
     (case m (w_prov s) of (Inl e, p) \<Rightarrow> (Inl e, s\<lparr>w_prov := p\<rparr>) | (Inr x, p) \<Rightarrow> f x (s\<lparr>w_prov := p\<rparr>))"
  by (simp add: sbind_def in_prov_apply split: prod.split sum.split)

lemma run_mutation_refines:
  assumes "serves client zone canon view" and "provider_dns_zone (ax_settings ax) = Inr zone"
    and "pm_record_type pm \<in> set MUTABLE_RECORD_TYPES"
    and "run_mutation client ax pm mode pt pv p = (Inr out, p')"
  shows "(mo_http_status out, view p')
    = rrset_step mode (canon (pm_record_name pm), pm_record_type pm)
        (if mode = Patch \<and> pt = None then None else Some (pm_ttl pm))
        (if mode = Patch \<and> pv = None then None else Some (pm_values pm)) (view p)"
proof (cases "mode = Patch")
  case True
  have "apply_patch_mutation client (ax_settings ax) (zc_zone_name (ax_zone ax)) (pm_record_name pm) (pm_record_type pm)
      (if pt = None then None else Some (pm_ttl pm)) (if pv = None then None else Some (pm_values pm)) p = (Inr out, p')"
    using assms(4) True by (auto simp: run_mutation_def Let_def catch_def raise_def split: prod.splits sum.splits py_exc.splits)
  from patch_refines [OF assms(1,2) _ this] show ?thesis
    using True assms(3) by (simp add: upper_strip_mutable)
next
  case False
  have "apply_rrset_mutation client (ax_settings ax) (zc_zone_name (ax_zone ax)) (pm_record_name pm) (pm_record_type pm)
      (Some (pm_ttl pm)) (pm_values pm) mode p = (Inr out, p')"
    using assms(4) False by (simp add: run_mutation_def Let_def)
  from rrset_refines [OF assms(1,2) _ False this] show ?thesis
    using False assms(3) by (simp add: upper_strip_mutable)
qed

lemma mutate_zone_Inr:
  assumes "mutate_zone out connect ax name rt ttl values mode pt pv s = (Inr reply, t)"
  obtains client dz pm outcome where
    "create_dns_client_from_settings connect (o_env out) (ax_settings ax) (c_db (w_core s)) = Inr client"
    "provider_dns_zone (ax_settings ax) = Inr dz"
    "prepare_mutation name rt (if mode = Patch then pt else ttl)
         (if mode \<in> {Delete, Patch} then (case pv of None \<Rightarrow> [] | Some vs \<Rightarrow> vs) else values) (Some dz)
         (mode \<notin> {Delete, Patch} \<or> mode = Patch \<and> pv \<noteq> None) (mode = Replace) = Inr pm"
    "run_mutation client ax pm mode pt pv (w_prov s) = (Inr outcome, w_prov t)"
    "my_status reply = mo_http_status outcome"
proof -
  obtain ds where ds: "get_disabled_dns_plugins (o_env out) (c_db (w_core s)) = Inr ds" "ax_provider ax \<notin> set ds"
    using assms by (cases "get_disabled_dns_plugins (o_env out) (c_db (w_core s))")
      (auto simp: mutate_zone_def sbind_in_core guard_def split: if_splits)
  obtain client where c: "create_dns_client_from_settings connect (o_env out) (ax_settings ax) (c_db (w_core s)) = Inr client"
    using assms ds by (cases "create_dns_client_from_settings connect (o_env out) (ax_settings ax) (c_db (w_core s))")
      (auto simp: mutate_zone_def sbind_in_core)
  obtain dz where dz: "provider_dns_zone (ax_settings ax) = Inr dz"
    using assms ds c by (cases "provider_dns_zone (ax_settings ax)") (auto simp: mutate_zone_def sbind_in_core)
  let ?prep = "prepare_mutation name rt (if mode = Patch then pt else ttl)
         (if mode \<in> {Delete, Patch} then (case pv of None \<Rightarrow> [] | Some vs \<Rightarrow> vs) else values) (Some dz)
         (mode \<notin> {Delete, Patch} \<or> mode = Patch \<and> pv \<noteq> None) (mode = Replace)"
  obtain pm where pm: "?prep = Inr pm"
    using assms ds c dz by (cases ?prep) (simp_all add: mutate_zone_def sbind_in_core)
  obtain ro p where run: "run_mutation client ax pm mode pt pv (w_prov s) = (ro, p)" by fastforce
  have "\<exists>outcome. ro = Inr outcome \<and> my_status reply = mo_http_status outcome \<and> w_prov t = p"
    using assms ds c dz pm run
    by (cases ro) (auto simp: mutate_zone_def sbind_in_core sbind_in_prov ret_def reply_of_def split: prod.splits sum.splits)
  then show ?thesis using that [OF c dz pm] run by blast
qed

text \<open>
  C2. When every client keeps the contract, a writing request that is answered has changed the zone it
  names by exactly the step of the abstract map of RRsets for the prepared name, type, TTL and
  values, and the answer's status is the status of that step.
\<close>

theorem api_write_refines:
  assumes "all_serve connect canon view"
    and "apply_dns_mutation out connect key zone name rt ttl values mode ep pt pv s = (Inr reply, t)"
  shows "\<exists>z \<in> set (dns_zone_configs (c_db (w_core s))). \<exists>d dz pm.
    zc_zone_name z = normalize_zone_name (or_empty zone) \<and> decode_zone_config (o_env out) z = Inr d
    \<and> provider_dns_zone d = Inr dz
    \<and> prepare_mutation name (upper (strip rt)) (if mode = Patch then pt else ttl)
         (if mode \<in> {Delete, Patch} then (case pv of None \<Rightarrow> [] | Some vs \<Rightarrow> vs) else values) (Some dz)
         (mode \<notin> {Delete, Patch} \<or> mode = Patch \<and> pv \<noteq> None) (mode = Replace) = Inr pm
    \<and> (my_status reply, view dz (w_prov t))
      = rrset_step mode (canon dz (pm_record_name pm), pm_record_type pm)
          (if mode = Patch \<and> pt = None then None else Some (pm_ttl pm))
          (if mode = Patch \<and> pv = None then None else Some (pm_values pm)) (view dz (w_prov s))"
proof -
  obtain ax u where res: "resolve_dns_api_zone out (or_empty key) (or_empty zone) name ep (w_core s) = (Inr ax, w_core s)"
    and m: "mutate_zone out connect ax name (upper (strip rt)) ttl values mode pt pv s = (Inr reply, u)"
    and same: "w_prov t = w_prov u"
    using apply_reaches [OF assms(2)] by blast
  note z = resolve_Inr [OF res]
  from m obtain client dz pm outcome where
    c: "create_dns_client_from_settings connect (o_env out) (ax_settings ax) (c_db (w_core s)) = Inr client"
    and dz: "provider_dns_zone (ax_settings ax) = Inr dz"
    and pm: "prepare_mutation name (upper (strip rt)) (if mode = Patch then pt else ttl)
         (if mode \<in> {Delete, Patch} then (case pv of None \<Rightarrow> [] | Some vs \<Rightarrow> vs) else values) (Some dz)
         (mode \<notin> {Delete, Patch} \<or> mode = Patch \<and> pv \<noteq> None) (mode = Replace) = Inr pm"
    and run: "run_mutation client ax pm mode pt pv (w_prov s) = (Inr outcome, w_prov u)"
    and status: "my_status reply = mo_http_status outcome"
    by (rule mutate_zone_Inr)
  have "serves client dz (canon dz) (view dz)"
    using assms(1) client_connected [OF c] dz by (auto simp: all_serve_def)
  from run_mutation_refines [OF this dz prepare_type [OF pm] run]
  have step: "(my_status reply, view dz (w_prov t)) = rrset_step mode (canon dz (pm_record_name pm), pm_record_type pm)
          (if mode = Patch \<and> pt = None then None else Some (pm_ttl pm))
          (if mode = Patch \<and> pv = None then None else Some (pm_values pm)) (view dz (w_prov s))"
    by (simp only: status same)
  have "ax_zone ax \<in> set (dns_zone_configs (c_db (w_core s)))" "zc_zone_name (ax_zone ax) = normalize_zone_name (or_empty zone)"
    using z first_row_Some by fastforce+
  then show ?thesis using z dz pm step by blast
qed

text \<open>The instance of the witnesses: one zone, one key that may write, and the map as the provider.\<close>

definition demo_connect :: "rrsets connector" where
  "demo_connect p d = Inr map_client"

definition demo_key :: api_key_row where
  "demo_key = \<lparr>ak_id = 1, ak_label = ''ci'', ak_key = hash_api_key demo_env ''k'', ak_key_prefix = None,
     ak_access_mode = API_KEY_ACCESS_READ_WRITE, ak_active = True, ak_created_at = 0\<rparr>"

definition demo_row :: dns_zone_config where
  "demo_row = \<lparr>zc_id = 1, zc_zone_name = ''example.org'',
     zc_encrypted_config = encode_zone_config_dict demo_env demo_zone\<rparr>"

definition demo_core :: core where
  "demo_core = initial_core (empty_db\<lparr>api_keys := [demo_key], dns_zone_configs := [demo_row],
     api_key_allowed_zones := [\<lparr>az_id = 1, az_api_key_id = 1, az_dns_zone_config_id = 1\<rparr>]\<rparr>)"

definition demo_world :: "rrsets world" where
  "demo_world = \<lparr>w_core = demo_core, w_prov = Map.empty\<rparr>"

definition demo_post :: create_request where
  "demo_post = \<lparr>cr_zone_name = Some ''example.org'', cr_record_type = ''A'', cr_record_name = ''www'',
     cr_ttl = Some 60, cr_values = [''192.0.2.1'']\<rparr>"

lemma demo_resolves: "resolve_dns_api_zone demo_out ''k'' ''example.org'' ''www'' ep demo_core
  = (Inr \<lparr>ax_key = demo_key, ax_zone = demo_row, ax_settings = demo_zone, ax_provider = ''bind''\<rparr>, demo_core)"
proof -
  have "decode_zone_config demo_env demo_row = Inr demo_zone"
    by (rule decode_encode) (simp_all add: demo_row_def demo_zone_def)
  moreover have "strip ''example.org'' \<noteq> []" "normalize_zone_name ''example.org'' = ''example.org''"
    "provider_of demo_zone = ''bind''" by code_simp+
  moreover have "azure_missing demo_zone = None" by code_simp
  ultimately show ?thesis
    by (simp add: resolve_dns_api_zone_def demo_core_def initial_core_def demo_out_def get_api_key_def demo_key_def
        key_allows_zone_def demo_row_def Let_def ret_def)
qed

lemma catch_ret_Inr: "\<exists>x t. catch m (\<lambda>_. ret y) s = (Inr x, t)"
  by (auto simp: catch_def ret_def split: prod.split sum.split)

text \<open>Recording an event raises only when the configured log level cannot be read.\<close>

lemma emit_returns:
  assumes "get_log_level (o_env out) (c_db s) = Inr l"
  shows "\<exists>x t. emit_activity_event out ev s = (Inr x, t)"
proof -
  have "\<exists>x t. emit_core out ev s = (Inr x, t)"
    using assms by (simp add: emit_core_def sbind_db_read sbind_eq_Inr ret_def) (metis catch_ret_Inr)
  then obtain x t where core: "emit_core out ev s = (Inr x, t)" by blast
  show ?thesis
  proof (cases x)
    case None
    then show ?thesis using core by (simp add: emit_activity_event_def sbind_Inr ret_def)
  next
    case (Some row)
    then show ?thesis
      using core catch_ret_Inr [of "sbind (evaluate_alert_rules out row) (\<lambda>_. ret ())" "()" t]
      by (auto simp: emit_activity_event_def sbind_Inr ret_def)
  qed
qed

lemma demo_settings:
  "get_disabled_dns_plugins demo_env (c_db demo_core) = Inr []"
  "get_log_level demo_env (c_db demo_core) = Inr LOG_LEVEL_INFORMATIONAL"
proof -
  have "get_typed_setting demo_env (c_db demo_core) = get_typed_setting demo_env empty_db"
    by (rule ext) (simp add: get_typed_setting_def get_setting_def demo_core_def initial_core_def)
  then have same: "get_typed_setting_by_key demo_env (c_db demo_core) k = get_typed_setting_by_key demo_env empty_db k" for k
    by (simp add: get_typed_setting_by_key_def)
  have "get_disabled_dns_plugins demo_env empty_db = Inr []" by code_simp
  then show "get_disabled_dns_plugins demo_env (c_db demo_core) = Inr []"
    by (simp add: get_disabled_dns_plugins_def same)
  have "get_log_level demo_env empty_db = Inr LOG_LEVEL_INFORMATIONAL" by code_simp
  then show "get_log_level demo_env (c_db demo_core) = Inr LOG_LEVEL_INFORMATIONAL"
    by (simp add: get_log_level_def typed_str_def same)
qed

lemma demo_mutation_run: "run_mutation map_client \<lparr>ax_key = demo_key, ax_zone = demo_row, ax_settings = demo_zone, ax_provider = ''bind''\<rparr>
    \<lparr>pm_record_name = ''www'', pm_record_type = ''A'', pm_ttl = 60, pm_values = [''192.0.2.1'']\<rparr> Create None None Map.empty
  = (Inr \<lparr>mo_status = ''success'', mo_action = ''created'', mo_http_status = 200, mo_record_name = ''www'',
       mo_record_type = ''A'', mo_values = [''192.0.2.1''], mo_dns_zone = ''example.org''\<rparr>,
     [(''www'', ''A'') \<mapsto> (60, [''192.0.2.1''])])"
proof -
  have rt: "upper (strip ''A'') = ''A''" "lower_char CHR ''w'' = CHR ''w''" by code_simp+
  show ?thesis
    by (simp add: run_mutation_def Let_def apply_rrset_mutation_def demo_zone_name rt record_exists_at_type_def
        map_client_def sbind_def mutation_refused_def mutation_request_def check_record_request_def ret_def)
qed

lemma demo_prepared: "prepare_mutation ''www'' ''A'' (Some 60) [''192.0.2.1''] (Some ''example.org'') True False
  = Inr \<lparr>pm_record_name = ''www'', pm_record_type = ''A'', pm_ttl = 60, pm_values = [''192.0.2.1'']\<rparr>"
  by code_simp

lemma demo_post_runs:
  "\<exists>reply t. apply_dns_mutation demo_out demo_connect (Some ''k'') (Some ''example.org'') ''www'' ''A'' (Some 60)
     [''192.0.2.1''] Create ep None None demo_world = (Inr reply, t)
   \<and> my_status reply = 200 \<and> w_prov t = [(''www'', ''A'') \<mapsto> (60, [''192.0.2.1''])]"
proof -
  let ?ax = "\<lparr>ax_key = demo_key, ax_zone = demo_row, ax_settings = demo_zone, ax_provider = ''bind''\<rparr>"
  let ?m = "mutate_zone demo_out demo_connect ?ax ''www'' ''A'' (Some 60) [''192.0.2.1''] Create None None"
  have rt: "upper (strip ''A'') = ''A''" "provider_of demo_zone = ''bind''" by code_simp+
  have env: "o_env demo_out = demo_env" by (simp add: demo_out_def)
  have client: "create_dns_client_from_settings demo_connect demo_env demo_zone (c_db demo_core) = Inr map_client"
    using demo_settings(1) rt(2) by (simp add: create_dns_client_from_settings_def create_dns_client_def get_plugin_def
        find_plugin_def discover_plugins_def AZURE_PLUGIN_def BIND_PLUGIN_def demo_connect_def)
  have log: "get_log_level (o_env demo_out) (c_db demo_core) = Inr LOG_LEVEL_INFORMATIONAL"
    using demo_settings(2) env by simp
  obtain X C where emit: "\<And>ev. emit_activity_event demo_out ev demo_core = (Inr (X ev), C ev)"
    using emit_returns [OF log] by metis
  have "\<exists>reply t. ?m demo_world = (Inr reply, t) \<and> my_status reply = 200
      \<and> w_prov t = [(''www'', ''A'') \<mapsto> (60, [''192.0.2.1''])]"
    by (simp add: mutate_zone_def sbind_in_core sbind_in_prov env demo_world_def demo_settings(1) client demo_zone_name
        demo_prepared demo_mutation_run ret_def reply_of_def emit)
  then obtain reply t where m: "?m demo_world = (Inr reply, t)" "my_status reply = 200"
      "w_prov t = [(''www'', ''A'') \<mapsto> (60, [''192.0.2.1''])]" by blast
  then have "catch ?m h demo_world = (Inr reply, t)" for h by (simp add: catch_Inr)
  moreover have "ak_access_mode demo_key = API_KEY_ACCESS_READ_WRITE" by (simp add: demo_key_def)
  ultimately show ?thesis
    using m(2,3) by (auto simp: apply_dns_mutation_def or_empty_def Let_def rt sbind_in_core demo_world_def demo_resolves
        require_dns_api_key_write_access_def ret_def)
qed

lemma all_serve_demo: "all_serve demo_connect (\<lambda>_. lower) (\<lambda>_. id)"
  by (simp add: all_serve_def demo_connect_def serves_map_client)

theorem api_write_refines_witness:
  "\<exists>reply t d dz (pm :: prepared_mutation). apply_dns_mutation demo_out demo_connect (Some ''k'') (Some ''example.org'') ''www'' ''A''
      (Some 60) [''192.0.2.1''] Create ''POST /dns-record'' None None demo_world = (Inr reply, t)
    \<and> provider_dns_zone d = Inr dz
    \<and> (my_status reply, w_prov t) = rrset_step Create (lower (pm_record_name pm), pm_record_type pm)
          (Some (pm_ttl pm)) (Some (pm_values pm)) (Map.empty)"
proof -
  obtain reply t where run: "apply_dns_mutation demo_out demo_connect (Some ''k'') (Some ''example.org'') ''www'' ''A''
      (Some 60) [''192.0.2.1''] Create ''POST /dns-record'' None None demo_world = (Inr reply, t)"
    using demo_post_runs by blast
  then obtain d dz and pm :: prepared_mutation where "provider_dns_zone d = Inr dz"
    and "(my_status reply, w_prov t) = rrset_step Create (lower (pm_record_name pm), pm_record_type pm)
          (Some (pm_ttl pm)) (Some (pm_values pm)) (w_prov demo_world)"
    using api_write_refines [OF all_serve_demo run] by (simp only: simp_thms if_False mutation_mode.distinct id_apply) (elim bexE exE conjE, erule that)
  then show ?thesis using run by (fastforce simp: demo_world_def simp del: rrset_step.simps)
qed

theorem provider_reached_needs_key_witness:
  "may_write demo_env (c_db demo_core) ''k'' ''example.org''"
proof -
  obtain reply t where run: "apply_dns_mutation demo_out demo_connect (Some ''k'') (Some ''example.org'') ''www'' ''A''
      (Some 60) [''192.0.2.1''] Create ''POST /dns-record'' None None demo_world = (Inr reply, t)"
    and changed: "w_prov t \<noteq> w_prov demo_world"
    using demo_post_runs [of "''POST /dns-record''"] by (auto simp: demo_world_def)
  have "api_key_from_headers (Some ''k'') None = Some ''k''" by code_simp
  then have "serve_write demo_out demo_connect (Post demo_post) (Some ''k'') None demo_world = (Inr reply, t)"
    using run by (simp add: create_dns_record_def demo_post_def)
  from provider_reached_needs_key [OF this changed] show ?thesis
    by (simp add: demo_world_def demo_out_def demo_post_def api_key_from_headers_def or_empty_def)
qed

end
