(* ===== verification/PyJson.thy ===== *)
theory PyJson
  imports Settings PyFloat
begin

text \<open>
  How the code reads decoded JSON: \<^verbatim>\<open>dict.get\<close>, \<^verbatim>\<open>a or b\<close>, \<^verbatim>\<open>str\<close>, \<^verbatim>\<open>int\<close> and iteration over a value of any
  JSON type, with the exceptions that a value of another type raises.
\<close>

section \<open>JSON values as Python reads them\<close>

type_synonym dict = "(string \<times> json) list"

definition jget :: "dict \<Rightarrow> string \<Rightarrow> json" where
  "jget d k = (case map_of d k of None \<Rightarrow> JNull | Some v \<Rightarrow> v)"

definition json_or :: "json \<Rightarrow> json \<Rightarrow> json" where
  "json_or a b = (if json_truthy a then a else b)"

text \<open>\<^verbatim>\<open>str(x)\<close>, and \<^verbatim>\<open>repr(x)\<close> inside a container.\<close>

fun json_repr :: "json \<Rightarrow> string" where
  "json_repr JNull = ''None''"
| "json_repr (JBool b) = (if b then ''True'' else ''False'')"
| "json_repr (JInt i) = show_int i"
| "json_repr (JFloat t) = t"
| "json_repr (JStr s) = repr s"
| "json_repr (JList xs) = ''['' @ join '', '' (map json_repr xs) @ '']''"
| "json_repr (JObj kvs) = ''{'' @ join '', '' (map (\<lambda>(k, v). repr k @ '': '' @ json_repr v) kvs) @ ''}''"

definition json_text :: "json \<Rightarrow> string" where
  "json_text j = (case j of JStr s \<Rightarrow> s | _ \<Rightarrow> json_repr j)"

fun trunc_float :: "pyfloat \<Rightarrow> int res" where
  "trunc_float (Dec m e) = Inr (if 0 \<le> e then m * 10 ^ nat e else sgn m * (\<bar>m\<bar> div 10 ^ nat (- e)))"
| "trunc_float (Inf _) = Inl (OtherError ''OverflowError'' ''cannot convert float infinity to integer'')"
| "trunc_float NaN = Inl (ValueError ''cannot convert float NaN to integer'')"

fun json_int :: "json \<Rightarrow> int res" where
  "json_int (JInt i) = Inr i"
| "json_int (JBool b) = Inr (if b then 1 else 0)"
| "json_int (JStr s) = str_int s"
| "json_int (JFloat t) = (case py_float t of None \<Rightarrow> type_error | Some x \<Rightarrow> trunc_float x)"
| "json_int _ = type_error"

text \<open>Iterating over a value, and a value that must be a dict to be read with \<^verbatim>\<open>get\<close>.\<close>

fun json_iter :: "json \<Rightarrow> json list res" where
  "json_iter (JList xs) = Inr xs"
| "json_iter (JObj kvs) = Inr (map (\<lambda>(k, v). JStr k) kvs)"
| "json_iter (JStr s) = Inr (map (\<lambda>c. JStr [c]) s)"
| "json_iter _ = type_error"

fun as_dict :: "json \<Rightarrow> dict res" where
  "as_dict (JObj kvs) = Inr kvs"
| "as_dict _ = Inl (OtherError ''AttributeError'' ''get'')"

definition dicts_of :: "json list \<Rightarrow> dict list" where
  "dicts_of = List.map_filter (\<lambda>j. case j of JObj kvs \<Rightarrow> Some kvs | _ \<Rightarrow> None)"

lemma jget_Cons [simp]: "jget ((k', x) # d) k = (if k = k' then x else jget d k)"
  and jget_Nil [simp]: "jget [] k = JNull"
  by (simp_all add: jget_def)

end
