(* ===== verification/Cloudflare.thy ===== *)
theory Cloudflare
  imports PluginUtils PyJson DnsMutation
begin

text \<open>
  The Cloudflare plugin, \<^verbatim>\<open>plugins/cloudflare.py\<close>: names, values and request bodies, the requests of
  the client, the synchronisation of an RRset, and the paged listing of a zone. The HTTP service is
  a parameter: a run over its state for every request. The listing loop is a partial function, so
  that a listing that never ends is \<open>None\<close>.
\<close>

section \<open>Names and values\<close>

definition truthy :: "string option \<Rightarrow> bool" where
  "truthy v = (case v of None \<Rightarrow> False | Some s \<Rightarrow> lower (strip s) \<in> {''1'', ''true'', ''yes'', ''on''})"

definition fqdn :: "string \<Rightarrow> string \<Rightarrow> string" where
  "fqdn zone_name record_name =
     (let z = rstrip_char CHR ''.'' (strip zone_name); r = rstrip_char CHR ''.'' (strip record_name) in
      if r = [] \<or> r = ''@'' then z
      else if endswith (lower (CHR ''.'' # z)) (lower r) \<or> lower r = lower z then r
      else r @ ''.'' @ z)"

definition relative_name :: "string \<Rightarrow> string \<Rightarrow> string" where
  "relative_name zone_name full =
     (let z = rstrip_char CHR ''.'' (strip zone_name); f = rstrip_char CHR ''.'' (strip full) in
      if lower f = lower z then ''@''
      else if endswith (lower (CHR ''.'' # z)) (lower f)
      then (let p = take (length f - length (CHR ''.'' # z)) f in if p = [] then ''@'' else p)
      else f)"

definition normalize_txt_value :: "string \<Rightarrow> string" where
  "normalize_txt_value value =
     (let v = strip value in if 2 \<le> length v \<and> quoted v then butlast (tl v) else v)"

definition cloudflare_txt_content :: "string \<Rightarrow> string" where
  "cloudflare_txt_content value = CHR 0x22 # normalize_txt_value value @ [CHR 0x22]"

definition canonical_from_row :: "string \<Rightarrow> dict \<Rightarrow> string res" where
  "canonical_from_row record_type row =
     (let rt = upper record_type;
          text_or = (\<lambda>d k. json_text (json_or (jget d k) (JStr [])));
          int_or = (\<lambda>d k. json_int (json_or (jget d k) (JInt 0)))
      in if rt = ''MX'' then rbind (int_or row ''priority'') (\<lambda>p. format_mx p (text_or row ''content''))
         else if rt = ''SRV'' then
           rbind (as_dict (json_or (jget row ''data'') (JObj []))) (\<lambda>data.
           rbind (if jget data ''priority'' \<noteq> JNull then json_int (jget data ''priority'') else int_or row ''priority'') (\<lambda>p.
           rbind (int_or data ''weight'') (\<lambda>w.
           rbind (int_or data ''port'') (\<lambda>q.
           format_srv p w q (json_text (json_or (jget data ''target'') (json_or (jget row ''content'') (JStr []))))))))
         else if rt = ''CAA'' then
           (if json_truthy (jget row ''data'') then
              rbind (as_dict (jget row ''data'')) (\<lambda>data.
              rbind (int_or data ''flags'') (\<lambda>f. format_caa f (text_or data ''tag'') (text_or data ''value'')))
            else map_res hd (normalize_record_values ''CAA'' [text_or row ''content'']))
         else if rt = ''TXT'' then Inr (normalize_txt_value (text_or row ''content''))
         else if rt \<in> {''CNAME'', ''NS'', ''PTR''} then normalize_hostname False (text_or row ''content'')
         else Inr (text_or row ''content''))"

section \<open>Requests\<close>

text \<open>\<open>hs_json = None\<close> is a body that is not JSON; an exception of class \<^verbatim>\<open>HTTPError\<close> stands for
  \<^verbatim>\<open>httpx.HTTPError\<close> and its subclasses.\<close>

record http_response =
  hs_status :: int
  hs_json :: "json option"

type_synonym 'p http = "string \<Rightarrow> string \<Rightarrow> dict \<Rightarrow> json option \<Rightarrow> ('p, http_response) run"

record cloudflare =
  cf_zone_id :: "string option"
  cf_proxied :: bool

definition first_error_message :: "json \<Rightarrow> string option res" where
  "first_error_message body =
     (case body of
        JObj d \<Rightarrow>
          (case json_or (jget d ''errors'') (JList []) of
             JList (JObj e # _) \<Rightarrow>
               Inr (if json_truthy (jget e ''message'') then Some (json_text (jget e ''message'')) else None)
           | JList _ \<Rightarrow> Inr None
           | JStr _ \<Rightarrow> Inr None
           | JObj _ \<Rightarrow> Inl (KeyError ''0'')
           | _ \<Rightarrow> type_error)
      | _ \<Rightarrow> Inr None)"

definition cf_request :: "'p http \<Rightarrow> string \<Rightarrow> string \<Rightarrow> dict \<Rightarrow> json option \<Rightarrow> ('p, dict) run" where
  "cf_request http meth path params json_body =
     sbind (catch (http meth path params json_body)
       (\<lambda>e. if exc_name e = ''HTTPError'' then raise (RuntimeError (''Cloudflare API request failed: '' @ exc_str e))
            else raise e)) (\<lambda>response.
     case hs_json response of
       None \<Rightarrow> raise (RuntimeError (''Cloudflare API returned non-JSON response (HTTP ''
                @ show_int (hs_status response) @ '').''))
     | Some body \<Rightarrow>
         let failed = sbind (lift_res (first_error_message body)) (\<lambda>m.
               raise (RuntimeError (''Cloudflare API error: ''
                 @ (case m of Some t \<Rightarrow> t | None \<Rightarrow> ''HTTP '' @ show_int (hs_status response)))))
         in (case body of
               JObj d \<Rightarrow> if json_truthy (jget d ''success'') then ret d else failed
             | _ \<Rightarrow> failed))"

fun find_zone :: "string \<Rightarrow> json list \<Rightarrow> string option res" where
  "find_zone zone_name [] = Inr None"
| "find_zone zone_name (row # rows) =
     rbind (as_dict row) (\<lambda>d.
       let name = (case map_of d ''name'' of None \<Rightarrow> [] | Some n \<Rightarrow> json_text n) in
       if lower (rstrip_char CHR ''.'' name) = lower zone_name \<and> json_truthy (jget d ''id'')
       then Inr (Some (json_text (jget d ''id''))) else find_zone zone_name rows)"

definition resolve_zone_id :: "'p http \<Rightarrow> cloudflare \<Rightarrow> string \<Rightarrow> ('p, string) run" where
  "resolve_zone_id http cf zone_name =
     (case cf_zone_id cf of
        Some i \<Rightarrow> ret i
      | None \<Rightarrow>
          sbind (cf_request http ''GET'' ''/zones'' [(''name'', JStr zone_name)] None) (\<lambda>body.
          sbind (lift_res (rbind (json_iter (json_or (jget body ''result'') (JList []))) (find_zone zone_name))) (\<lambda>found.
          case found of
            Some i \<Rightarrow> ret i
          | None \<Rightarrow> raise (ValueError (''Cloudflare zone '' @ repr zone_name @ '' not found for this API token.'')))))"

definition records_path :: "string \<Rightarrow> string" where
  "records_path zone_id = ''/zones/'' @ zone_id @ ''/dns_records''"

definition record_path :: "string \<Rightarrow> string \<Rightarrow> string" where
  "record_path zone_id record_id = records_path zone_id @ ''/'' @ record_id"

definition list_rrset :: "'p http \<Rightarrow> string \<Rightarrow> string \<Rightarrow> string \<Rightarrow> ('p, dict list) run" where
  "list_rrset http zone_id full record_type =
     sbind (cf_request http ''GET'' (records_path zone_id) [(''name'', JStr full), (''type'', JStr record_type)] None) (\<lambda>body.
     sbind (lift_res (json_iter (json_or (jget body ''result'') (JList [])))) (\<lambda>rows.
     ret (dicts_of rows)))"

definition srv_parts :: "string \<Rightarrow> string \<times> string \<times> string" where
  "srv_parts full =
     (let labels = split_char CHR ''.'' (rstrip_char CHR ''.'' (dropWhile (\<lambda>c. c = CHR ''.'') full)) in
      if 3 \<le> length labels \<and> startswith ''_'' (labels ! 0) \<and> startswith ''_'' (labels ! 1)
      then (labels ! 0, labels ! 1, join ''.'' (drop 2 labels))
      else (''_service'', ''_tcp'', full))"

definition record_body :: "cloudflare \<Rightarrow> string \<Rightarrow> string \<Rightarrow> string \<Rightarrow> int \<Rightarrow> dict res" where
  "record_body cf full record_type value ttl =
     map_res (\<lambda>fields. [(''type'', JStr record_type), (''name'', JStr full), (''ttl'', JInt ttl)] @ fields
         @ (if record_type \<in> {''A'', ''AAAA'', ''CNAME''} then [(''proxied'', JBool (cf_proxied cf))] else []))
       (if record_type = ''TXT'' then Inr [(''content'', JStr (cloudflare_txt_content value))]
        else if record_type = ''MX'' then
          map_res (\<lambda>(priority, exchange). [(''content'', JStr exchange), (''priority'', JInt priority)]) (parse_mx value)
        else if record_type = ''SRV'' then
          map_res (\<lambda>(priority, weight, port, target).
            case srv_parts full of (service, proto, name) \<Rightarrow>
              [(''data'', JObj [(''priority'', JInt priority), (''weight'', JInt weight), (''port'', JInt port),
                 (''target'', JStr target), (''service'', JStr service), (''proto'', JStr proto), (''name'', JStr name)])])
            (parse_srv value)
        else if record_type = ''CAA'' then
          map_res (\<lambda>(flags, tag, v).
            [(''data'', JObj [(''flags'', JInt flags), (''tag'', JStr tag),
               (''value'', JStr (if quoted v \<and> 2 \<le> length v then butlast (tl v) else v))])])
            (parse_caa value)
        else Inr [(''content'', JStr value)])"

definition create_record :: "'p http \<Rightarrow> cloudflare \<Rightarrow> string \<Rightarrow> string \<Rightarrow> string \<Rightarrow> int \<Rightarrow> string \<Rightarrow> ('p, unit) run" where
  "create_record http cf zone_id full record_type ttl value =
     sbind (lift_res (record_body cf full record_type value ttl)) (\<lambda>b.
     sbind (cf_request http ''POST'' (records_path zone_id) [] (Some (JObj b))) (\<lambda>_. ret ()))"

definition update_record ::
  "'p http \<Rightarrow> cloudflare \<Rightarrow> string \<Rightarrow> string \<Rightarrow> string \<Rightarrow> int \<Rightarrow> string \<Rightarrow> string \<Rightarrow> ('p, unit) run" where
  "update_record http cf zone_id full record_type ttl record_id value =
     sbind (lift_res (record_body cf full record_type value ttl)) (\<lambda>b.
     sbind (cf_request http ''PUT'' (record_path zone_id record_id) [] (Some (JObj b))) (\<lambda>_. ret ()))"

definition delete_record :: "'p http \<Rightarrow> string \<Rightarrow> string \<Rightarrow> ('p, unit) run" where
  "delete_record http zone_id record_id =
     sbind (cf_request http ''DELETE'' (record_path zone_id record_id) [] None) (\<lambda>_. ret ())"

text \<open>\<^verbatim>\<open>str(row["id"])\<close>\<close>

definition row_id :: "dict \<Rightarrow> string res" where
  "row_id row = (case map_of row ''id'' of None \<Rightarrow> Inl (KeyError ''id'') | Some j \<Rightarrow> Inr (json_text j))"

fun delete_rows :: "'p http \<Rightarrow> string \<Rightarrow> dict list \<Rightarrow> ('p, unit) run" where
  "delete_rows http zone_id [] = ret ()"
| "delete_rows http zone_id (row # rows) =
     sbind (lift_res (row_id row)) (\<lambda>i.
     sbind (delete_record http zone_id i) (\<lambda>_. delete_rows http zone_id rows))"

section \<open>The synchronisation of an RRset\<close>

text \<open>The split of the existing rows into the ones kept for a desired value, in the order they were
  found, and the stale ones.\<close>

fun classify_rows ::
  "string \<Rightarrow> string list \<Rightarrow> dict list \<Rightarrow> (string \<times> dict) list \<Rightarrow> dict list \<Rightarrow> ((string \<times> dict) list \<times> dict list) res" where
  "classify_rows record_type desired [] kept stale = Inr (kept, stale)"
| "classify_rows record_type desired (row # rows) kept stale =
     rbind (canonical_from_row record_type row) (\<lambda>content.
       if content \<in> set desired \<and> content \<notin> fst ` set kept
       then classify_rows record_type desired rows (kept @ [(content, row)]) stale
       else classify_rows record_type desired rows kept (stale @ [row]))"

fun write_values ::
  "'p http \<Rightarrow> cloudflare \<Rightarrow> string \<Rightarrow> string \<Rightarrow> string \<Rightarrow> int \<Rightarrow> (string \<times> dict) list \<Rightarrow> string list \<Rightarrow> ('p, unit) run" where
  "write_values http cf zone_id full record_type ttl kept [] = ret ()"
| "write_values http cf zone_id full record_type ttl kept (content # contents) =
     sbind (case map_of kept content of
         Some row \<Rightarrow> sbind (lift_res (row_id row)) (\<lambda>i. update_record http cf zone_id full record_type ttl i content)
       | None \<Rightarrow> create_record http cf zone_id full record_type ttl content) (\<lambda>_.
     write_values http cf zone_id full record_type ttl kept contents)"

definition sync_records ::
  "'p http \<Rightarrow> cloudflare \<Rightarrow> string \<Rightarrow> string \<Rightarrow> string \<Rightarrow> int \<Rightarrow> string list \<Rightarrow> dict list \<Rightarrow> ('p, unit) run" where
  "sync_records http cf zone_id full record_type ttl desired existing =
     (if record_type = ''CNAME'' then
        (case existing of
           [] \<Rightarrow> create_record http cf zone_id full record_type ttl (hd desired)
         | first # rest \<Rightarrow>
             sbind (lift_res (row_id first)) (\<lambda>i.
             sbind (update_record http cf zone_id full record_type ttl i (hd desired)) (\<lambda>_.
             delete_rows http zone_id rest)))
      else
        sbind (lift_res (classify_rows record_type desired existing [] [])) (\<lambda>(kept, stale).
        sbind (delete_rows http zone_id stale) (\<lambda>_.
        write_values http cf zone_id full record_type ttl kept desired)))"

section \<open>The methods of the client\<close>

definition IGNORES_SERVER :: py_exc where
  "IGNORES_SERVER = ValueError (''Cloudflare DNS ignores per-server host settings; ''
     @ ''use the Cloudflare fields on the zone configuration.'')"

definition ZONE_DOMAIN_REQUIRED :: py_exc where
  "ZONE_DOMAIN_REQUIRED = ValueError ''DNS zone (domain) is required in the zone configuration.''"

definition unsupported_type :: "string \<Rightarrow> py_exc" where
  "unsupported_type rt = ValueError (''Unsupported record type for Cloudflare: '' @ rt)"

definition cf_create_or_update ::
  "'p http \<Rightarrow> cloudflare \<Rightarrow> dns_record_request \<Rightarrow> string option \<Rightarrow> string option \<Rightarrow> ('p, bool) run" where
  "cf_create_or_update http cf payload dns_server dns_zone =
     (let zone_name = rstrip_char CHR ''.'' (strip (or_empty dns_zone));
          record_type = upper (rq_record_type payload);
          ttl = (case rq_ttl payload of None \<Rightarrow> 300 | Some t \<Rightarrow> if t = 0 then 300 else t);
          full = fqdn zone_name (rq_record_name payload)
      in if or_empty dns_server \<noteq> [] then raise IGNORES_SERVER
         else if zone_name = [] then raise ZONE_DOMAIN_REQUIRED
         else
           sbind (resolve_zone_id http cf zone_name) (\<lambda>zone_id.
           if record_type = ''DELETE'' then
             (let inner = upper (strip (hd (rq_values payload))) in
              if inner \<notin> set MUTABLE_RECORD_TYPES then raise (unsupported_type inner)
              else
                sbind (list_rrset http zone_id full inner) (\<lambda>existing.
                if existing = [] then ret False
                else sbind (delete_rows http zone_id existing) (\<lambda>_. ret True)))
           else if record_type \<notin> set MUTABLE_RECORD_TYPES then raise (unsupported_type record_type)
           else
             sbind (list_rrset http zone_id full record_type) (\<lambda>existing.
             sbind (lift_res (normalize_record_values record_type (rq_values payload))) (\<lambda>desired.
             sbind (sync_records http cf zone_id full record_type ttl desired existing) (\<lambda>_.
             ret (existing \<noteq> []))))))"

text \<open>The smallest TTL of the rows that have a numeric one; \<^verbatim>\<open>bool\<close> is a subclass of \<^verbatim>\<open>int\<close>.\<close>

definition row_ttls :: "dict list \<Rightarrow> int list res" where
  "row_ttls rows = traverse json_int (filter (\<lambda>j. case j of JInt _ \<Rightarrow> True | JBool _ \<Rightarrow> True | JFloat _ \<Rightarrow> True | _ \<Rightarrow> False)
     (map (\<lambda>r. jget r ''ttl'') rows))"

definition rows_to_info :: "string \<Rightarrow> string \<Rightarrow> dict list \<Rightarrow> dns_record_info res" where
  "rows_to_info display_name record_type rows =
     rbind (row_ttls rows) (\<lambda>ttls.
     rbind (traverse (canonical_from_row record_type) rows) (\<lambda>vals.
     Inr \<lparr>info_record_name = display_name, info_record_type = record_type,
          info_ttl = (if ttls = [] then None else Some (Min (set ttls))), info_values = Some vals\<rparr>))"

fun get_types ::
  "'p http \<Rightarrow> string \<Rightarrow> string \<Rightarrow> string \<Rightarrow> string list \<Rightarrow> dns_record_info list \<Rightarrow> ('p, dns_record_info list) run" where
  "get_types http zone_id full display_name [] results = ret results"
| "get_types http zone_id full display_name (rt # rts) results =
     (if rt \<notin> set LOOKUP_RECORD_TYPES then get_types http zone_id full display_name rts results
      else
        sbind (list_rrset http zone_id full rt) (\<lambda>rows.
        if rows = [] then get_types http zone_id full display_name rts results
        else sbind (lift_res (rows_to_info display_name rt rows)) (\<lambda>info.
          get_types http zone_id full display_name rts (results @ [info]))))"

definition cf_get_record ::
  "'p http \<Rightarrow> cloudflare \<Rightarrow> string \<Rightarrow> string option \<Rightarrow> string option \<Rightarrow> string option \<Rightarrow> ('p, dns_record_info list) run" where
  "cf_get_record http cf record_name record_type dns_server dns_zone =
     (if or_empty dns_server \<noteq> [] then raise IGNORES_SERVER
      else if or_empty dns_zone = [] then raise ZONE_DOMAIN_REQUIRED
      else
        let zone_name = rstrip_char CHR ''.'' (strip (or_empty dns_zone)); full = fqdn zone_name record_name in
        sbind (lift_res (lookup_record_types_to_query record_type)) (\<lambda>types.
        sbind (resolve_zone_id http cf zone_name) (\<lambda>zone_id.
        get_types http zone_id full (relative_name zone_name full) types [])))"

section \<open>The paged listing\<close>

type_synonym grouped = "((string \<times> string) \<times> dict list) list"

record list_query =
  lq_zone_name :: string
  lq_pattern :: "string option"
  lq_type :: "string option"
  lq_limit :: nat

text \<open>The rows of one page added to the groups so far; the flags are \<^verbatim>\<open>truncated\<close> and
  \<^verbatim>\<open>appended_existing\<close>.\<close>

fun add_rows :: "list_query \<Rightarrow> dict list \<Rightarrow> grouped \<Rightarrow> bool \<Rightarrow> bool \<Rightarrow> grouped \<times> bool \<times> bool" where
  "add_rows q [] groups truncated appended = (groups, truncated, appended)"
| "add_rows q (row # rows) groups truncated appended =
     (let row_type = upper (json_text (json_or (jget row ''type'') (JStr [])));
          display_name = relative_name (lq_zone_name q) (json_text (json_or (jget row ''name'') (JStr [])));
          key = (display_name, row_type)
      in if row_type \<notin> set LOOKUP_RECORD_TYPES
            \<or> (case lq_type q of None \<Rightarrow> False | Some t \<Rightarrow> row_type \<noteq> t)
            \<or> \<not> record_name_matches (lq_pattern q) display_name
         then add_rows q rows groups truncated appended
         else if key \<in> fst ` set groups
         then add_rows q rows (map (\<lambda>(k, rs). (k, if k = key then rs @ [row] else rs)) groups) truncated True
         else if lq_limit q \<le> length groups then add_rows q rows groups True appended
         else add_rows q rows (groups @ [(key, [row])]) truncated True)"

definition page_params :: "nat \<Rightarrow> string option \<Rightarrow> dict" where
  "page_params page requested_type =
     [(''page'', JInt (int page)), (''per_page'', JInt 100), (''order'', JStr ''name''), (''direction'', JStr ''asc'')]
     @ (case requested_type of None \<Rightarrow> [] | Some t \<Rightarrow> [(''type'', JStr t)])"

text \<open>One page: the new groups, \<^verbatim>\<open>truncated\<close>, and whether the loop ends.\<close>

definition list_page ::
  "'p http \<Rightarrow> string \<Rightarrow> list_query \<Rightarrow> nat \<Rightarrow> grouped \<Rightarrow> bool \<Rightarrow> ('p, grouped \<times> bool \<times> bool) run" where
  "list_page http zone_id q page groups truncated =
     sbind (cf_request http ''GET'' (records_path zone_id) (page_params page (lq_type q)) None) (\<lambda>body.
     sbind (lift_res (json_iter (json_or (jget body ''result'') (JList [])))) (\<lambda>result.
     let rows = dicts_of result in
     (case add_rows q rows groups truncated False of
        (groups', truncated', appended) \<Rightarrow>
          sbind (lift_res (as_dict (json_or (jget body ''result_info'') (JObj [])))) (\<lambda>info.
          sbind (lift_res (json_int (json_or (jget info ''total_pages'') (JInt 0)))) (\<lambda>total_pages.
          ret (groups', truncated', truncated' \<and> \<not> appended \<or> rows = [] \<or> total_pages \<noteq> 0 \<and> total_pages \<le> int page
            \<or> total_pages = 0 \<and> length rows < 100))))))"

partial_function (option) list_pages ::
  "'p http \<Rightarrow> string \<Rightarrow> list_query \<Rightarrow> nat \<Rightarrow> grouped \<Rightarrow> bool \<Rightarrow> 'p \<Rightarrow> ((grouped \<times> bool) res \<times> 'p) option" where
  "list_pages http zone_id q page groups truncated s =
     (case list_page http zone_id q page groups truncated s of
        (Inl e, s') \<Rightarrow> Some (Inl e, s')
      | (Inr (groups', truncated', end_of_list), s') \<Rightarrow>
          if end_of_list then Some (Inr (groups', truncated'), s')
          else list_pages http zone_id q (Suc page) groups' truncated' s')"

text \<open>\<^verbatim>\<open>list_records\<close>; \<open>None\<close> when the loop does not end.\<close>

definition cf_list_records ::
  "'p http \<Rightarrow> cloudflare \<Rightarrow> string option \<Rightarrow> string option \<Rightarrow> nat \<Rightarrow> string option \<Rightarrow> string option \<Rightarrow> 'p
   \<Rightarrow> (dns_record_list_result res \<times> 'p) option" where
  "cf_list_records http cf name_pattern record_type limit dns_server dns_zone s =
     (if or_empty dns_server \<noteq> [] then Some (Inl IGNORES_SERVER, s)
      else if or_empty dns_zone = [] then Some (Inl ZONE_DOMAIN_REQUIRED, s)
      else
        let zone_name = rstrip_char CHR ''.'' (strip (or_empty dns_zone));
            q = \<lparr>lq_zone_name = zone_name, lq_pattern = name_pattern,
                 lq_type = (if or_empty record_type = [] then None else map_option upper record_type),
                 lq_limit = max 1 limit\<rparr>
        in (case resolve_zone_id http cf zone_name s of
              (Inl e, s1) \<Rightarrow> Some (Inl e, s1)
            | (Inr zone_id, s1) \<Rightarrow>
                (case list_pages http zone_id q 1 [] False s1 of
                   None \<Rightarrow> None
                 | Some (Inl e, s2) \<Rightarrow> Some (Inl e, s2)
                 | Some (Inr (groups, truncated), s2) \<Rightarrow>
                     Some (map_res (\<lambda>infos. \<lparr>lr_records = infos, lr_truncated = truncated\<rparr>)
                       (traverse (\<lambda>((name, rt), rows). rows_to_info name rt rows) groups), s2))))"

definition new_cloudflare :: "string \<Rightarrow> string option \<Rightarrow> bool \<Rightarrow> cloudflare res" where
  "new_cloudflare api_token zone_id proxied =
     (if api_token = [] then Inl (ValueError ''Cloudflare DNS requires an API token (zone DNS Edit/Read).'')
      else Inr \<lparr>cf_zone_id = (let z = strip (or_empty zone_id) in if z = [] then None else Some z), cf_proxied = proxied\<rparr>)"

text \<open>\<^verbatim>\<open>create_client\<close>: \<open>http token\<close> is the service under the token. In the record of methods a listing
  that does not end shows as a timeout.\<close>

definition cloudflare_create_client :: "(string \<Rightarrow> 'p http) \<Rightarrow> zone_settings \<Rightarrow> 'p dns_client res" where
  "cloudflare_create_client http d =
     (let token = setting_or_empty d ''cloudflare_api_token'' in
      map_res (\<lambda>cf. \<lparr>cl_get_record = cf_get_record (http token) cf,
          cl_list_records = (\<lambda>pattern rt limit server zone s.
            case cf_list_records (http token) cf pattern rt limit server zone s of
              Some r \<Rightarrow> r | None \<Rightarrow> (Inl (OtherError ''TimeoutError'' []), s)),
          cl_create_or_update = cf_create_or_update (http token) cf\<rparr>)
        (new_cloudflare token (Some (setting_or_empty d ''cloudflare_zone_id'')) (truthy (map_of d ''cloudflare_proxied''))))"

section \<open>The service\<close>

text \<open>\<open>cf_service http zone_id rows\<close>: what Cloudflare documents of the DNS records of a zone. \<open>rows s\<close>
  are the records, each with an id of its own. A request that is reported successful has listed the
  records of the name and type, appended a record with a fresh id, replaced the record of the id,
  or removed it. Nothing is promised of a request that fails.\<close>

definition row_matches :: "string \<Rightarrow> string \<Rightarrow> dict \<Rightarrow> bool" where
  "row_matches full rt row \<longleftrightarrow> lower (json_text (jget row ''name'')) = lower full \<and> jget row ''type'' = JStr rt"

definition ids_ok :: "dict list \<Rightarrow> bool" where
  "ids_ok rows \<longleftrightarrow> distinct (map row_id rows) \<and> (\<forall>r \<in> set rows. \<exists>i. row_id r = Inr i)"

definition cf_service :: "'p http \<Rightarrow> string \<Rightarrow> ('p \<Rightarrow> dict list) \<Rightarrow> bool" where
  "cf_service http zone_id rows \<longleftrightarrow>
     (\<forall>s. ids_ok (rows s))
     \<and> (\<forall>full rt s b t. cf_request http ''GET'' (records_path zone_id) [(''name'', JStr full), (''type'', JStr rt)] None s
           = (Inr b, t) \<longrightarrow> rows t = rows s
           \<and> jget b ''result'' = JList (map JObj (filter (row_matches full rt) (rows s))))
     \<and> (\<forall>b s r t. cf_request http ''POST'' (records_path zone_id) [] (Some (JObj b)) s = (Inr r, t) \<longrightarrow>
           (\<exists>i. rows t = rows s @ [(''id'', JStr i) # b]))
     \<and> (\<forall>i b s r t. cf_request http ''PUT'' (record_path zone_id i) [] (Some (JObj b)) s = (Inr r, t) \<longrightarrow>
           rows t = map (\<lambda>x. if row_id x = Inr i then (''id'', JStr i) # b else x) (rows s))
     \<and> (\<forall>i s r t. cf_request http ''DELETE'' (record_path zone_id i) [] None s = (Inr r, t) \<longrightarrow>
           rows t = filter (\<lambda>x. row_id x \<noteq> Inr i) (rows s))"

lemma service_ids: "cf_service http z rows \<Longrightarrow> ids_ok (rows s)"
  by (simp add: cf_service_def)

lemma dicts_of_JObj [simp]: "dicts_of (map JObj ds) = ds"
  by (induction ds) (simp_all add: dicts_of_def List.map_filter_simps)

lemma service_list:
  assumes "cf_service http z rows" and "list_rrset http z full rt s = (Inr ds, t)"
  shows "rows t = rows s \<and> ds = filter (row_matches full rt) (rows s)"
proof -
  obtain b where req: "cf_request http ''GET'' (records_path z) [(''name'', JStr full), (''type'', JStr rt)] None s = (Inr b, t)"
    and ds: "\<exists>js. json_iter (json_or (jget b ''result'') (JList [])) = Inr js \<and> ds = dicts_of js"
    using assms(2) by (auto simp: list_rrset_def sbind_eq_Inr ret_def)
  have "rows t = rows s" "jget b ''result'' = JList (map JObj (filter (row_matches full rt) (rows s)))"
    using assms(1) req unfolding cf_service_def by blast+
  then show ?thesis using ds by (auto simp: json_or_def split: if_splits) (simp add: dicts_of_def)
qed

lemma service_create:
  assumes "cf_service http z rows" and "create_record http cf z full rt ttl v s = (Inr u, t)"
  shows "\<exists>i b. record_body cf full rt v ttl = Inr b \<and> rows t = rows s @ [(''id'', JStr i) # b]"
proof -
  obtain b r where "record_body cf full rt v ttl = Inr b"
    and "cf_request http ''POST'' (records_path z) [] (Some (JObj b)) s = (Inr r, t)"
    using assms(2) by (auto simp: create_record_def sbind_eq_Inr ret_def)
  moreover have "\<exists>i. rows t = rows s @ [(''id'', JStr i) # b]"
    using assms(1) calculation(2) unfolding cf_service_def by blast
  ultimately show ?thesis by blast
qed

lemma service_update:
  assumes "cf_service http z rows" and "update_record http cf z full rt ttl i v s = (Inr u, t)"
  shows "\<exists>b. record_body cf full rt v ttl = Inr b
    \<and> rows t = map (\<lambda>x. if row_id x = Inr i then (''id'', JStr i) # b else x) (rows s)"
proof -
  obtain b r where "record_body cf full rt v ttl = Inr b"
    and "cf_request http ''PUT'' (record_path z i) [] (Some (JObj b)) s = (Inr r, t)"
    using assms(2) by (auto simp: update_record_def sbind_eq_Inr ret_def)
  moreover have "rows t = map (\<lambda>x. if row_id x = Inr i then (''id'', JStr i) # b else x) (rows s)"
    using assms(1) calculation(2) unfolding cf_service_def by blast
  ultimately show ?thesis by blast
qed

lemma service_delete_rows:
  assumes "cf_service http z rows" and "delete_rows http z ds s = (Inr u, t)"
  shows "rows t = filter (\<lambda>x. row_id x \<notin> row_id ` set ds) (rows s)"
  using assms(2)
proof (induction ds arbitrary: s)
  case Nil
  then show ?case by (simp add: ret_def)
next
  case (Cons d ds)
  obtain i r s1 where i: "row_id d = Inr i"
    and req: "cf_request http ''DELETE'' (record_path z i) [] None s = (Inr r, s1)"
    and rest: "delete_rows http z ds s1 = (Inr u, t)"
    using Cons.prems by (auto simp: sbind_eq_Inr delete_record_def ret_def)
  have "rows s1 = filter (\<lambda>x. row_id x \<noteq> Inr i) (rows s)"
    using assms(1) req unfolding cf_service_def by blast
  then show ?case using Cons.IH [OF rest] i by (auto simp: conj_commute intro: filter_cong)
qed

section \<open>A written row reads back\<close>

definition plain_value :: "string \<Rightarrow> string \<Rightarrow> bool" where
  "plain_value rt v \<longleftrightarrow> rt \<in> {''A'', ''AAAA'', ''CNAME'', ''NS'', ''PTR'', ''MX'', ''SRV''}
     \<or> rt = ''TXT'' \<and> \<not> (2 \<le> length v \<and> quoted v)"

definition row_good :: "string \<Rightarrow> int \<Rightarrow> string \<Rightarrow> dict \<Rightarrow> bool" where
  "row_good rt ttl v row \<longleftrightarrow> canonical_from_row rt row = Inr v \<and> jget row ''ttl'' = JInt ttl"

lemma upper_plain:
  "upper_char CHR ''A'' = CHR ''A''" "upper_char CHR ''C'' = CHR ''C''" "upper_char CHR ''E'' = CHR ''E''" "upper_char CHR ''M'' = CHR ''M''"
  "upper_char CHR ''N'' = CHR ''N''" "upper_char CHR ''P'' = CHR ''P''" "upper_char CHR ''R'' = CHR ''R''" "upper_char CHR ''S'' = CHR ''S''"
  "upper_char CHR ''T'' = CHR ''T''" "upper_char CHR ''V'' = CHR ''V''" "upper_char CHR ''X'' = CHR ''X''"
  "strip ''A'' = ''A''" "strip ''AAAA'' = ''AAAA''" "strip ''CNAME'' = ''CNAME''" "strip ''NS'' = ''NS''"
  "strip ''PTR'' = ''PTR''" "strip ''MX'' = ''MX''" "strip ''SRV'' = ''SRV''" "strip ''TXT'' = ''TXT''"
  by code_simp+

lemma quoted_text: "normalize_txt_value (CHR 0x22 # w @ [CHR 0x22]) = w"
proof -
  have "stripped (CHR 0x22 # w @ [CHR 0x22])" by (simp add: stripped_def is_space_def)
  then show ?thesis by (simp add: normalize_txt_value_def quoted_def startswith_def endswith_def suffix_def)
qed

lemma text_field [simp]: "json_text (json_or (JStr v) (JStr [])) = v"
  by (simp add: json_or_def json_text_def)

lemma json_text_JStr [simp]: "json_text (JStr v) = v"
  by (simp add: json_text_def)

lemma int_field [simp]: "json_int (json_or (JInt p) (JInt 0)) = Inr p"
  by (simp add: json_or_def)

lemma written_content:
  assumes "record_body cf full rt v ttl = Inr b" and "rt \<in> {''A'', ''AAAA'', ''CNAME'', ''NS'', ''PTR''}"
  shows "jget b ''content'' = JStr v"
  using assms by (auto simp: record_body_def)

lemma written_row:
  assumes b: "record_body cf full rt v ttl = Inr b"
  shows "row_matches full rt ((''id'', JStr i) # b)" and "row_id ((''id'', JStr i) # b) = Inr i"
    and "jget ((''id'', JStr i) # b) ''ttl'' = JInt ttl"
proof -
  obtain fields where "b = [(''type'', JStr rt), (''name'', JStr full), (''ttl'', JInt ttl)] @ fields"
    using b by (auto simp: record_body_def map_res_def split: sum.splits)
  then show "row_matches full rt ((''id'', JStr i) # b)" "row_id ((''id'', JStr i) # b) = Inr i"
    "jget ((''id'', JStr i) # b) ''ttl'' = JInt ttl"
    by (simp_all add: row_matches_def row_id_def json_text_def)
qed

lemma written_canonical:
  assumes b: "record_body cf full rt v ttl = Inr b" and v: "normalize_record_value rt v = Inr v" and "plain_value rt v"
  shows "canonical_from_row rt ((''id'', JStr i) # b) = Inr v"
proof -
  have rts: "rt \<in> {''A'', ''AAAA'', ''CNAME'', ''NS'', ''PTR'', ''MX'', ''SRV'', ''TXT''}" and rt: "upper (strip rt) = rt" "upper rt = rt"
    using assms(3) by (auto simp: plain_value_def upper_plain)
  show ?thesis
    using v
  proof (cases rule: normalize_record_value_cases)
    case (ip4 a)
    then have "rt = ''A''" by (simp add: rt)
    then show ?thesis using written_content [OF b] by (simp add: canonical_from_row_def Let_def upper_plain)
  next
    case (ip6 a)
    then have "rt = ''AAAA''" by (simp add: rt)
    then show ?thesis using written_content [OF b] by (simp add: canonical_from_row_def Let_def upper_plain)
  next
    case host
    then have rth: "rt \<in> {''CNAME'', ''NS'', ''PTR''}" by (simp add: rt HOST_TYPES_def)
    then have "normalize_hostname False v = Inr v" using host(2) by (auto simp: normalize_hostname_Inr)
    then show ?thesis
      using rth written_content [OF b] by (auto simp: canonical_from_row_def Let_def upper_plain)
  next
    case raw
    then have "rt = ''TXT''" using rts by (auto simp: rt)
    moreover from this have "normalize_txt_value v = v"
      using assms(3) raw(2) by (auto simp: plain_value_def normalize_txt_value_def Let_def)
    ultimately show ?thesis using b
      by (auto simp: canonical_from_row_def Let_def upper_plain record_body_def map_res_def cloudflare_txt_content_def
          quoted_text)
  next
    case (mx p h)
    note p = parse_mx_Inr [OF mx(2)]
    then have v: "parse_mx v = Inr (p, h)" using parse_mx_print [of p h] mx(3) by simp
    have "rt = ''MX''" using mx(1) by (simp add: rt)
    moreover from this b v have "b = [(''type'', JStr rt), (''name'', JStr full), (''ttl'', JInt ttl), (''content'', JStr h), (''priority'', JInt p)]"
      by (simp add: record_body_def map_res_def)
    ultimately show ?thesis using p mx(3)
      by (simp add: canonical_from_row_def Let_def upper_plain format_mx_def)
  next
    case (srv p q r h)
    note p = parse_srv_Inr [OF srv(2)]
    then have v: "parse_srv v = Inr (p, q, r, h)" using parse_srv_print [of p q r h] srv(3) by simp
    have h: "h \<noteq> []" using p by (auto simp: normalize_hostname_Inr)
    have "rt = ''SRV''" using srv(1) by (simp add: rt)
    moreover from this b v obtain more where "b = [(''type'', JStr rt), (''name'', JStr full), (''ttl'', JInt ttl),
        (''data'', JObj ([(''priority'', JInt p), (''weight'', JInt q), (''port'', JInt r), (''target'', JStr h)] @ more))]"
      by (auto simp: record_body_def map_res_def split: prod.splits)
    ultimately show ?thesis using p h srv(3)
      by (simp add: canonical_from_row_def Let_def upper_plain format_srv_def json_or_def json_text_def)
  next
    case (caa f t c)
    then show ?thesis using rts by (auto simp: rt)
  qed
qed

lemma written_good:
  assumes "record_body cf full rt v ttl = Inr b" and "normalize_record_value rt v = Inr v" and "plain_value rt v"
  shows "row_good rt ttl v ((''id'', JStr i) # b)"
  using written_canonical [OF assms] written_row(3) [OF assms(1)] by (simp add: row_good_def)

section \<open>The synchronisation reaches the desired RRset\<close>

definition kept_ok :: "string \<Rightarrow> string list \<Rightarrow> (string \<times> dict) list \<Rightarrow> bool" where
  "kept_ok rt desired kept \<longleftrightarrow> distinct (map fst kept)
     \<and> (\<forall>c r. (c, r) \<in> set kept \<longrightarrow> c \<in> set desired \<and> canonical_from_row rt r = Inr c)"

lemma kept_ok_snoc:
  assumes "kept_ok rt desired kept" and "canonical_from_row rt row = Inr c" "c \<in> set desired" "c \<notin> fst ` set kept"
  shows "kept_ok rt desired (kept @ [(c, row)])"
  using assms by (auto simp: kept_ok_def)

lemma classify_rows_spec:
  assumes "classify_rows rt desired rows kept stale = Inr (kept', stale')" and "kept_ok rt desired kept"
  shows "kept_ok rt desired kept' \<and> set (map snd kept') \<union> set stale' = set (map snd kept) \<union> set stale \<union> set rows
    \<and> (distinct (map snd kept @ stale @ rows) \<longrightarrow> distinct (map snd kept' @ stale'))"
  using assms
proof (induction rows arbitrary: kept stale)
  case (Cons row rows)
  obtain c where c: "canonical_from_row rt row = Inr c" using Cons.prems(1) by (auto simp: rbind_eq_Inr)
  show ?case
  proof (cases "c \<in> set desired \<and> c \<notin> fst ` set kept")
    case True
    then have run: "classify_rows rt desired rows (kept @ [(c, row)]) stale = Inr (kept', stale')"
      using Cons.prems(1) c by simp
    from True c Cons.prems(2) have "kept_ok rt desired (kept @ [(c, row)])" by (intro kept_ok_snoc) auto
    from Cons.IH [OF run this] show ?thesis by auto
  next
    case False
    then have run: "classify_rows rt desired rows kept (stale @ [row]) = Inr (kept', stale')"
      using Cons.prems(1) c by (simp only: classify_rows.simps rbind_simps if_False)
    from Cons.IH [OF run Cons.prems(2)] show ?thesis by auto
  qed
qed simp

text \<open>\<open>P\<close> are the values already written: every matching row carries one of them or is a kept row that
  still waits, and each of them is there.\<close>

definition sync_inv ::
  "(dict \<Rightarrow> bool) \<Rightarrow> (string \<Rightarrow> dict \<Rightarrow> bool) \<Rightarrow> (string \<times> dict) list \<Rightarrow> dict list \<Rightarrow> string set \<Rightarrow> dict list \<Rightarrow> bool" where
  "sync_inv m good kept R0 P R \<longleftrightarrow>
     filter (\<lambda>r. \<not> m r) R = filter (\<lambda>r. \<not> m r) R0
     \<and> (\<forall>r \<in> set R. m r \<longrightarrow> (\<exists>c \<in> P. good c r) \<or> (\<exists>c. c \<notin> P \<and> (c, r) \<in> set kept))
     \<and> (\<forall>c \<in> P. \<exists>r \<in> set R. m r \<and> good c r)
     \<and> (\<forall>c row. (c, row) \<in> set kept \<longrightarrow>
          (if c \<in> P then \<exists>r \<in> set R. m r \<and> row_id r = row_id row \<and> good c r else row \<in> set R \<and> m row))"

lemma sync_invD:
  assumes "sync_inv m good kept R0 P R"
  shows "filter (\<lambda>r. \<not> m r) R = filter (\<lambda>r. \<not> m r) R0"
    and "r \<in> set R \<Longrightarrow> m r \<Longrightarrow> (\<exists>c \<in> P. good c r) \<or> (\<exists>c. c \<notin> P \<and> (c, r) \<in> set kept)"
    and "c \<in> P \<Longrightarrow> \<exists>r \<in> set R. m r \<and> good c r"
    and "(c, row) \<in> set kept \<Longrightarrow> c \<in> P \<Longrightarrow> \<exists>r \<in> set R. m r \<and> row_id r = row_id row \<and> good c r"
    and "(c, row) \<in> set kept \<Longrightarrow> c \<notin> P \<Longrightarrow> row \<in> set R \<and> m row"
  using assms by (simp_all add: sync_inv_def)

lemma sync_inv_create:
  assumes inv: "sync_inv m good kept R0 P R" and new: "m n" "good c n" and c: "c \<notin> fst ` set kept"
  shows "sync_inv m good kept R0 (insert c P) (R @ [n])"
proof -
  note I = sync_invD [OF inv]
  have other: "c' \<noteq> c" if "(c', r) \<in> set kept" for c' r using c that by force
  show ?thesis
    unfolding sync_inv_def
  proof (intro conjI ballI allI impI)
    show "filter (\<lambda>r. \<not> m r) (R @ [n]) = filter (\<lambda>r. \<not> m r) R0" using I(1) new by simp
  next
    fix r assume r: "r \<in> set (R @ [n])" "m r"
    show "(\<exists>c \<in> insert c P. good c r) \<or> (\<exists>c'. c' \<notin> insert c P \<and> (c', r) \<in> set kept)"
    proof (cases "r = n")
      case False
      then show ?thesis using r I(2) [of r] other by auto
    qed (use new in auto)
  next
    fix c' assume "c' \<in> insert c P"
    then show "\<exists>r \<in> set (R @ [n]). m r \<and> good c' r" using new I(3) [of c'] by auto
  next
    fix c' row assume k: "(c', row) \<in> set kept"
    show "if c' \<in> insert c P then \<exists>r \<in> set (R @ [n]). m r \<and> row_id r = row_id row \<and> good c' r
        else row \<in> set (R @ [n]) \<and> m row"
      using other [OF k] I(4,5) [OF k] by auto
  qed
qed

lemma sync_inv_update:
  assumes inv: "sync_inv m good kept R0 P R" and kept: "(c, row) \<in> set kept" and i: "row_id row = Inr i"
    and new: "m n" "good c n" "row_id n = Inr i"
    and ids: "distinct (map row_id R)" and keys: "distinct (map fst kept)"
    and can: "\<And>c r. good c r \<Longrightarrow> can r = Some c" "\<And>c r. (c, r) \<in> set kept \<Longrightarrow> can r = Some c"
    and kids: "\<And>c' r'. (c', r') \<in> set kept \<Longrightarrow> row_id r' = Inr i \<Longrightarrow> r' = row"
  shows "sync_inv m good kept R0 (insert c P) (map (\<lambda>x. if row_id x = Inr i then n else x) R)"
proof -
  note I = sync_invD [OF inv]
  let ?R = "map (\<lambda>x. if row_id x = Inr i then n else x) R"
  obtain r1 where r1: "r1 \<in> set R" "m r1" "row_id r1 = Inr i" "can r1 = Some c"
    using I(4,5) [OF kept] can(1) can(2) [OF kept] i by (cases "c \<in> P") auto
  have only: "x = r1" if "x \<in> set R" "row_id x = Inr i" for x
    using ids that r1 by (simp add: distinct_map inj_on_def)
  have same: "r' = row" if "(c, r') \<in> set kept" for r'
    by (rule eq_key_imp_eq_value [OF keys that kept])
  have n: "n \<in> set ?R" using r1(1,3) by (auto intro: image_eqI [of _ _ r1])
  have old: "x \<in> set ?R" if "x \<in> set R" "row_id x \<noteq> Inr i" for x using that by (auto intro: image_eqI [of _ _ x])
  show ?thesis
    unfolding sync_inv_def
  proof (intro conjI ballI allI impI)
    have "filter (\<lambda>r. \<not> m r) (map (\<lambda>x. if row_id x = Inr i then n else x) xs) = filter (\<lambda>r. \<not> m r) xs"
      if "set xs \<subseteq> set R" for xs
      using that only r1(2) new(1) by (induction xs) auto
    then show "filter (\<lambda>r. \<not> m r) ?R = filter (\<lambda>r. \<not> m r) R0" using I(1) by simp
  next
    fix r assume r: "r \<in> set ?R" "m r"
    show "(\<exists>c \<in> insert c P. good c r) \<or> (\<exists>c'. c' \<notin> insert c P \<and> (c', r) \<in> set kept)"
    proof (cases "r = n")
      case False
      then have "r \<in> set R" "row_id r \<noteq> Inr i" using r(1) by auto
      moreover have "c' \<noteq> c" if "(c', r) \<in> set kept" for c'
        using that calculation(2) same i by auto
      ultimately show ?thesis using I(2) [of r] r(2) by blast
    qed (use new in auto)
  next
    fix c' assume c': "c' \<in> insert c P"
    show "\<exists>r \<in> set ?R. m r \<and> good c' r"
    proof (cases "c' = c")
      case False
      then obtain r where r: "r \<in> set R" "m r" "good c' r" using I(3) c' by blast
      then have "row_id r \<noteq> Inr i" using only can(1) [OF r(3)] r1(4) False by auto
      then show ?thesis using r old by blast
    qed (use n new in auto)
  next
    fix c' row' assume k: "(c', row') \<in> set kept"
    show "if c' \<in> insert c P then \<exists>r \<in> set ?R. m r \<and> row_id r = row_id row' \<and> good c' r
        else row' \<in> set ?R \<and> m row'"
    proof (cases "c' = c")
      case True
      then show ?thesis using k same n new i by auto
    next
      case False
      then have ne: "row_id row' \<noteq> Inr i" using kids [OF k] can(2) [OF k] can(2) [OF kept] by auto
      show ?thesis
      proof (cases "c' \<in> P")
        case True
        then obtain r where "r \<in> set R" "m r" "row_id r = row_id row'" "good c' r" using I(4) [OF k] by blast
        then have "r \<in> set ?R \<and> m r \<and> row_id r = row_id row' \<and> good c' r" using old [of r] ne by simp
        then show ?thesis using True by (simp only: insert_iff simp_thms if_True) blast
      next
        case no: False
        then have "row' \<in> set ?R \<and> m row'" using I(5) [OF k] old [of row'] ne by blast
        then show ?thesis using no False by (simp only: insert_iff simp_thms if_False)
      qed
    qed
  qed
qed

lemma write_values_spec:
  assumes service: "cf_service http z rows"
    and "write_values http cf z full rt ttl kept cs s = (Inr u, t)"
    and "sync_inv (row_matches full rt) (row_good rt ttl) kept R0 P (rows s)"
    and kept: "kept_ok rt desired kept" "inj_on row_id (snd ` set kept)"
    and cs: "\<forall>c \<in> set cs. normalize_record_value rt c = Inr c \<and> plain_value rt c"
  shows "sync_inv (row_matches full rt) (row_good rt ttl) kept R0 (P \<union> set cs) (rows t)"
  using assms(2,3) cs
proof (induction cs arbitrary: s P)
  case Nil
  then show ?case by (simp add: ret_def)
next
  case (Cons c cs)
  have c: "normalize_record_value rt c = Inr c" "plain_value rt c" using Cons.prems(3) by auto
  have "\<exists>s1 u1. sync_inv (row_matches full rt) (row_good rt ttl) kept R0 (insert c P) (rows s1)
      \<and> write_values http cf z full rt ttl kept cs s1 = (Inr u1, t)"
  proof (cases "map_of kept c")
    case None
    then obtain s1 where "create_record http cf z full rt ttl c s = (Inr (), s1)"
      and rest: "write_values http cf z full rt ttl kept cs s1 = (Inr u, t)"
      using Cons.prems(1) by (auto simp: sbind_eq_Inr)
    then obtain i b where b: "record_body cf full rt c ttl = Inr b" "rows s1 = rows s @ [(''id'', JStr i) # b]"
      using service_create [OF service] by blast
    have "c \<notin> fst ` set kept" using None by (simp add: map_of_eq_None_iff)
    from sync_inv_create [OF Cons.prems(2) written_row(1) [OF b(1)] written_good [OF b(1) c] this]
    show ?thesis using rest b(2) by metis
  next
    case (Some row)
    then obtain i s1 where i: "row_id row = Inr i" and upd: "update_record http cf z full rt ttl i c s = (Inr (), s1)"
      and rest: "write_values http cf z full rt ttl kept cs s1 = (Inr u, t)"
      using Cons.prems(1) by (auto simp: sbind_eq_Inr)
    then obtain b where b: "record_body cf full rt c ttl = Inr b"
      "rows s1 = map (\<lambda>x. if row_id x = Inr i then (''id'', JStr i) # b else x) (rows s)"
      using service_update [OF service] by blast
    have k: "(c, row) \<in> set kept" using Some by (rule map_of_SomeD)
    have "sync_inv (row_matches full rt) (row_good rt ttl) kept R0 (insert c P)
        (map (\<lambda>x. if row_id x = Inr i then (''id'', JStr i) # b else x) (rows s))"
    proof (rule sync_inv_update [OF Cons.prems(2) k i written_row(1) [OF b(1)] written_good [OF b(1) c]
          written_row(2) [OF b(1)], where can = "\<lambda>r. case canonical_from_row rt r of Inr v \<Rightarrow> Some v | Inl _ \<Rightarrow> None"])
      show "distinct (map row_id (rows s))" using service_ids [OF service] by (simp add: ids_ok_def)
      show "distinct (map fst kept)" using kept by (simp add: kept_ok_def)
    next
      fix c' r' assume k': "(c', r') \<in> set kept" "row_id r' = Inr i"
      have "r' \<in> snd ` set kept" "row \<in> snd ` set kept" using k k'(1) by force+
      then show "r' = row" using inj_onD [OF kept(2), of r' row] k'(2) i by simp
    qed (use kept in \<open>auto simp: row_good_def kept_ok_def\<close>)
    then show ?thesis using rest b(2) by metis
  qed
  then obtain s1 u1 where "sync_inv (row_matches full rt) (row_good rt ttl) kept R0 (insert c P) (rows s1)"
    and "write_values http cf z full rt ttl kept cs s1 = (Inr u1, t)" by blast
  from Cons.IH [OF _ this(1)] this(2) show ?case using Cons.prems(3) by simp
qed

text \<open>What a synchronisation promises: the rows of the name and type carry exactly the desired values
  under the TTL, and the other rows are as before.\<close>

definition synced :: "string \<Rightarrow> string \<Rightarrow> int \<Rightarrow> string list \<Rightarrow> dict list \<Rightarrow> dict list \<Rightarrow> bool" where
  "synced full rt ttl desired R0 R \<longleftrightarrow>
     filter (\<lambda>r. \<not> row_matches full rt r) R = filter (\<lambda>r. \<not> row_matches full rt r) R0
     \<and> (\<forall>r \<in> set R. row_matches full rt r \<longrightarrow> (\<exists>c \<in> set desired. row_good rt ttl c r))
     \<and> (\<forall>c \<in> set desired. \<exists>r \<in> set R. row_matches full rt r \<and> row_good rt ttl c r)"

lemma sync_inv_synced:
  assumes "sync_inv (row_matches full rt) (row_good rt ttl) kept R0 (set desired) R" and "kept_ok rt desired kept"
  shows "synced full rt ttl desired R0 R"
  unfolding synced_def
proof (intro conjI ballI impI)
  note I = sync_invD [OF assms(1)]
  show "filter (\<lambda>r. \<not> row_matches full rt r) R = filter (\<lambda>r. \<not> row_matches full rt r) R0" by (rule I(1))
  show "\<exists>c \<in> set desired. row_good rt ttl c r" if "r \<in> set R" "row_matches full rt r" for r
    using I(2) [OF that] assms(2) by (auto simp: kept_ok_def)
  show "\<exists>r \<in> set R. row_matches full rt r \<and> row_good rt ttl c r" if "c \<in> set desired" for c
    using I(3) [OF that] .
qed

lemma keeps_non_matching:
  assumes ids: "ids_ok R" and sub: "\<And>x. x \<in> ds \<Longrightarrow> x \<in> set R \<and> m x"
  shows "filter (\<lambda>r. \<not> m r) (filter (\<lambda>x. row_id x \<notin> row_id ` ds) R) = filter (\<lambda>r. \<not> m r) R"
proof -
  have "row_id x \<notin> row_id ` ds" if "x \<in> set R" "\<not> m x" for x
    using ids sub that by (auto simp: ids_ok_def distinct_map inj_on_def)
  then show ?thesis by (auto intro: filter_cong)
qed

lemma delete_then_inv:
  assumes ids: "ids_ok R" and kept: "kept_ok rt desired kept"
    and set: "set (map snd kept) \<union> set stale = set (filter (row_matches full rt) R)"
    and dist: "distinct (map snd kept @ stale)"
  shows "sync_inv (row_matches full rt) (row_good rt ttl) kept R {} (filter (\<lambda>x. row_id x \<notin> row_id ` set stale) R)"
  unfolding sync_inv_def
proof (intro conjI ballI allI impI)
  let ?R = "filter (\<lambda>x. row_id x \<notin> row_id ` set stale) R"
  have inj: "x = y" if "x \<in> set R" "y \<in> set R" "row_id x = row_id y" for x y
    using ids that by (simp add: ids_ok_def distinct_map inj_on_def)
  have sub: "x \<in> set R \<and> row_matches full rt x" if "x \<in> snd ` set kept \<or> x \<in> set stale" for x
    using set that by auto
  show "filter (\<lambda>r. \<not> row_matches full rt r) ?R = filter (\<lambda>r. \<not> row_matches full rt r) R"
    by (rule keeps_non_matching [OF ids]) (use sub in blast)
  fix r assume r: "r \<in> set ?R" "row_matches full rt r"
  then have "r \<in> set (filter (row_matches full rt) R)" "r \<notin> set stale" by auto
  then have "r \<in> snd ` set kept" using set by auto
  then show "(\<exists>c \<in> {}. row_good rt ttl c r) \<or> (\<exists>c. c \<notin> {} \<and> (c, r) \<in> set kept)" by auto
next
  let ?R = "filter (\<lambda>x. row_id x \<notin> row_id ` set stale) R"
  fix c row assume k: "(c, row) \<in> set kept"
  then have row: "row \<in> snd ` set kept" by force
  then have in_R: "row \<in> set R" "row_matches full rt row" using set by auto
  have "row_id row \<noteq> row_id x" if "x \<in> set stale" for x
  proof
    assume "row_id row = row_id x"
    moreover have "x \<in> set R" using set that by auto
    ultimately have "row = x" using ids in_R(1) by (simp add: ids_ok_def distinct_map inj_on_def)
    then show False using dist row that by auto
  qed
  then have "row \<in> set ?R" using in_R(1) by auto
  then show "if c \<in> {} then \<exists>r \<in> set ?R. row_matches full rt r \<and> row_id r = row_id row \<and> row_good rt ttl c r
      else row \<in> set ?R \<and> row_matches full rt row" using in_R(2) by simp
qed simp

lemma sync_records_plain:
  assumes service: "cf_service http z rows" and "rt \<noteq> ''CNAME''"
    and run: "sync_records http cf z full rt ttl desired (filter (row_matches full rt) (rows s)) s = (Inr u, t)"
    and ok: "\<forall>c \<in> set desired. normalize_record_value rt c = Inr c \<and> plain_value rt c"
  shows "synced full rt ttl desired (rows s) (rows t)"
proof -
  let ?E = "filter (row_matches full rt) (rows s)"
  obtain kept stale s1 where cl: "classify_rows rt desired ?E [] [] = Inr (kept, stale)"
    and del: "delete_rows http z stale s = (Inr (), s1)"
    and wr: "write_values http cf z full rt ttl kept desired s1 = (Inr u, t)"
    using run assms(2) by (auto simp: sync_records_def sbind_eq_Inr)
  have ids: "ids_ok (rows s)" by (rule service_ids [OF service])
  have "kept_ok rt desired []" by (simp add: kept_ok_def)
  note spec = classify_rows_spec [OF cl this]
  have kept: "kept_ok rt desired kept" and set: "set (map snd kept) \<union> set stale = set ?E"
    and dist: "distinct (map snd kept @ stale)"
    using spec ids by (simp_all add: ids_ok_def distinct_map)
  have "sync_inv (row_matches full rt) (row_good rt ttl) kept (rows s) {} (rows s1)"
    using delete_then_inv [OF ids kept set dist] service_delete_rows [OF service del] by simp
  moreover have "inj_on row_id (snd ` set kept)"
  proof (rule inj_on_subset)
    show "inj_on row_id (set (rows s))" using ids by (simp add: ids_ok_def distinct_map)
    have "snd ` set kept \<subseteq> set ?E" using equalityD1 [OF set] by simp
    then show "snd ` set kept \<subseteq> set (rows s)" by auto
  qed
  ultimately have "sync_inv (row_matches full rt) (row_good rt ttl) kept (rows s) ({} \<union> set desired) (rows t)"
    using write_values_spec [OF service wr _ kept] ok by blast
  then show ?thesis using sync_inv_synced kept by simp
qed

lemma filter_replace:
  assumes "\<And>x. x \<in> set xs \<Longrightarrow> row_id x = Inr i \<Longrightarrow> m x" and "m n"
  shows "filter (\<lambda>r. \<not> m r) (map (\<lambda>x. if row_id x = Inr i then n else x) xs) = filter (\<lambda>r. \<not> m r) xs"
  using assms by (induction xs) auto

lemma sync_records_cname:
  assumes service: "cf_service http z rows"
    and run: "sync_records http cf z full ''CNAME'' ttl [v] (filter (row_matches full ''CNAME'') (rows s)) s = (Inr u, t)"
    and ok: "normalize_record_value ''CNAME'' v = Inr v"
  shows "synced full ''CNAME'' ttl [v] (rows s) (rows t)"
proof (cases "filter (row_matches full ''CNAME'') (rows s)")
  case Nil
  then obtain i b where b: "record_body cf full ''CNAME'' v ttl = Inr b" "rows t = rows s @ [(''id'', JStr i) # b]"
    using run service_create [OF service] by (fastforce simp: sync_records_def)
  have "row_good ''CNAME'' ttl v ((''id'', JStr i) # b)"
    using written_good [OF b(1) ok] by (simp add: plain_value_def)
  then show ?thesis using b(2) written_row(1) [OF b(1)] Nil by (auto simp: synced_def filter_empty_conv)
next
  case (Cons first rest)
  let ?m = "row_matches full ''CNAME''"
  obtain i s1 where i: "row_id first = Inr i" and upd: "update_record http cf z full ''CNAME'' ttl i v s = (Inr (), s1)"
    and del: "delete_rows http z rest s1 = (Inr u, t)"
    using run unfolding Cons by (auto simp: sync_records_def sbind_eq_Inr)
  obtain b where b: "record_body cf full ''CNAME'' v ttl = Inr b"
      "rows s1 = map (\<lambda>x. if row_id x = Inr i then (''id'', JStr i) # b else x) (rows s)"
    using service_update [OF service upd] by blast
  let ?n = "(''id'', JStr i) # b"
  have n: "row_good ''CNAME'' ttl v ?n" "?m ?n" "row_id ?n = Inr i"
    using written_good [OF b(1) ok] written_row [OF b(1)] by (simp_all add: plain_value_def)
  have ids: "distinct (map row_id (rows s))" using service_ids [OF service] by (simp add: ids_ok_def)
  have dist: "distinct (map row_id (filter ?m (rows s)))" using ids by (simp add: distinct_map_filter)
  have rest: "x \<in> set (rows s)" "?m x" "row_id x \<noteq> Inr i" if "x \<in> set rest" for x
  proof -
    have "x \<in> set (filter ?m (rows s))" using that Cons by simp
    then show "x \<in> set (rows s)" "?m x" by auto
    show "row_id x \<noteq> Inr i" using dist that i unfolding Cons by (auto simp: image_iff)
  qed
  have first: "first \<in> set (rows s)" "?m first"
    using arg_cong [OF Cons, of set] by auto
  have only: "x = first" if "x \<in> set (rows s)" "row_id x = Inr i" for x
    using ids that first(1) i by (simp add: distinct_map inj_on_def)
  have t: "rows t = filter (\<lambda>x. row_id x \<notin> row_id ` set rest) (rows s1)" by (rule service_delete_rows [OF service del])
  have others: "filter (\<lambda>r. \<not> ?m r) (rows t) = filter (\<lambda>r. \<not> ?m r) (rows s)"
  proof -
    have "x \<in> set (rows s1) \<and> ?m x" if "x \<in> set rest" for x
      using rest [OF that] b(2) by (auto intro: image_eqI [of _ _ x])
    then have "filter (\<lambda>r. \<not> ?m r) (rows t) = filter (\<lambda>r. \<not> ?m r) (rows s1)"
      unfolding t by (intro keeps_non_matching service_ids [OF service]) blast
    also have "\<dots> = filter (\<lambda>r. \<not> ?m r) (rows s)"
      unfolding b(2) using only first(2) n(2) by (intro filter_replace) auto
    finally show ?thesis .
  qed
  have eq: "r = ?n" if "r \<in> set (rows t)" "?m r" for r
  proof (rule ccontr)
    assume "r \<noteq> ?n"
    then have r: "r \<in> set (rows s)" "row_id r \<noteq> Inr i" "row_id r \<notin> row_id ` set rest" using that(1) t b(2) by auto
    then have "r \<in> set (filter ?m (rows s))" "r \<noteq> first" using that(2) i by auto
    then show False using r(3) Cons by auto
  qed
  have mem: "?n \<in> set (rows t)"
  proof -
    have "Inr i \<notin> row_id ` set rest" using rest(3) by (metis imageE)
    then show ?thesis using first(1) i n(3) unfolding t b(2) by (auto intro!: image_eqI [of _ _ first])
  qed
  show ?thesis
    unfolding synced_def
  proof (intro conjI ballI impI)
    show "\<exists>c \<in> set [v]. row_good ''CNAME'' ttl c r" if "r \<in> set (rows t)" "?m r" for r using eq [OF that] n(1) by simp
    show "\<exists>r \<in> set (rows t). ?m r \<and> row_good ''CNAME'' ttl c r" if "c \<in> set [v]" for c using that mem n(1,2) by auto
  qed (rule others)
qed

lemma sync_records_spec:
  assumes "cf_service http z rows"
    and "sync_records http cf z full rt ttl desired (filter (row_matches full rt) (rows s)) s = (Inr u, t)"
    and "\<forall>c \<in> set desired. normalize_record_value rt c = Inr c \<and> plain_value rt c"
    and "rt = ''CNAME'' \<Longrightarrow> length desired = 1"
  shows "synced full rt ttl desired (rows s) (rows t)"
proof (cases "rt = ''CNAME''")
  case True
  then obtain v where "desired = [v]" using assms(4) by (cases desired) auto
  then show ?thesis using sync_records_cname assms True by auto
next
  case False
  then show ?thesis using sync_records_plain [OF assms(1) _ assms(2,3)] by simp
qed

section \<open>Reading after writing\<close>

lemma Min_constant: "xs \<noteq> [] \<Longrightarrow> Min (set (map (\<lambda>r. c) xs)) = c"
  by (cases xs) (auto simp: image_constant_conv)

lemma synced_info:
  assumes sync: "synced full rt ttl desired R0 R" and ne: "desired \<noteq> []"
  shows "filter (row_matches full rt) R \<noteq> []
    \<and> (\<exists>vals. rows_to_info name rt (filter (row_matches full rt) R)
        = Inr \<lparr>info_record_name = name, info_record_type = rt, info_ttl = Some ttl, info_values = Some vals\<rparr>
      \<and> set vals = set desired)"
proof -
  let ?E = "filter (row_matches full rt) R"
  have good: "\<exists>c \<in> set desired. row_good rt ttl c r" if "r \<in> set ?E" for r
    using sync that by (auto simp: synced_def)
  have all: "\<exists>r \<in> set ?E. row_good rt ttl c r" if "c \<in> set desired" for c
    using sync that by (auto simp: synced_def)
  have E: "?E \<noteq> []" 
  proof -
    obtain c where "c \<in> set desired" using ne by (cases desired) auto
    then obtain r where "r \<in> set ?E" using all by blast
    then show ?thesis by (rule length_greater_0_conv [THEN iffD1, OF length_pos_if_in_set])
  qed
  have ttl: "map (\<lambda>r. jget r ''ttl'') ?E = map (\<lambda>r. JInt ttl) ?E" using good by (auto simp: row_good_def)
  have ttls: "row_ttls ?E = Inr (map (\<lambda>r. ttl) ?E)"
    unfolding row_ttls_def ttl by (simp add: traverse_Inr_iff list_all2_map1 list_all2_map2 list_all2_same filter_map comp_def)
  define vals where "vals = map (\<lambda>r. projr (canonical_from_row rt r)) ?E"
  have "traverse (canonical_from_row rt) ?E = Inr vals"
    using good by (fastforce simp: traverse_Inr_iff vals_def list_all2_map2 list_all2_same row_good_def)
  moreover have "set vals = set desired"
  proof (intro equalityI subsetI)
    show "v \<in> set desired" if "v \<in> set vals" for v
      using that good by (fastforce simp: vals_def row_good_def)
    show "v \<in> set vals" if "v \<in> set desired" for v using all [OF that] by (force simp: vals_def row_good_def)
  qed
  ultimately show ?thesis using E ttls Min_constant [OF E] by (simp add: rows_to_info_def del: set_map set_filter)
qed

lemma query_one_type: "rt \<in> set MUTABLE_RECORD_TYPES \<Longrightarrow> lookup_record_types_to_query (Some rt) = Inr [rt]"
proof -
  have "list_all (\<lambda>rt. lookup_record_types_to_query (Some rt) = Inr [rt]) MUTABLE_RECORD_TYPES" by code_simp
  then show "rt \<in> set MUTABLE_RECORD_TYPES \<Longrightarrow> lookup_record_types_to_query (Some rt) = Inr [rt]" by (simp add: list_all_iff)
qed


text \<open>A service of the contract for the witness: the state is the list of rows of the zone ''z''.\<close>

definition demo_rows :: "dict list \<Rightarrow> dict list" where
  "demo_rows s = (if ids_ok s then s else [])"

definition fresh_id :: "dict list \<Rightarrow> string" where
  "fresh_id R = replicate (Suc (sum_list (map (\<lambda>r. length (projr (row_id r))) R))) CHR ''x''"

definition demo_http :: "dict list http" where
  "demo_http meth path params body s =
     (let R = demo_rows s;
          ok = (\<lambda>j R'. (Inr \<lparr>hs_status = 200, hs_json = Some (JObj [(''success'', JBool True), (''result'', j)])\<rparr>, R'));
          i = drop (length (records_path ''z'') + 1) path;
          b = (case body of Some (JObj d) \<Rightarrow> d | _ \<Rightarrow> [])
      in if meth = ''GET'' then
           ok (JList (map JObj (filter (row_matches (json_text (jget params ''name'')) (json_text (jget params ''type''))) R))) R
         else if meth = ''POST'' then ok JNull (R @ [(''id'', JStr (fresh_id R)) # b])
         else if meth = ''PUT'' then ok JNull (map (\<lambda>x. if row_id x = Inr i then (''id'', JStr i) # b else x) R)
         else ok JNull (filter (\<lambda>x. row_id x \<noteq> Inr i) R))"

lemma ids_ok_demo [simp]: "ids_ok (demo_rows s)" "demo_rows (demo_rows s) = demo_rows s"
  by (simp_all add: demo_rows_def ids_ok_def)

lemma row_id_JStr [simp]: "row_id ((''id'', JStr i) # b) = Inr i"
  by (simp add: row_id_def)

lemma fresh_id_fresh: "r \<in> set R \<Longrightarrow> row_id r \<noteq> Inr (fresh_id R)"
proof
  assume r: "r \<in> set R" "row_id r = Inr (fresh_id R)"
  have "length (projr (row_id r)) \<le> sum_list (map (\<lambda>r. length (projr (row_id r))) R)"
    using r(1) by (intro member_le_sum_list) auto
  then show False using r(2) by (simp add: fresh_id_def)
qed

lemma demo_request: "cf_request demo_http meth path params body s =
    (Inr [(''success'', JBool True), (''result'', if meth = ''GET''
        then JList (map JObj (filter (row_matches (json_text (jget params ''name'')) (json_text (jget params ''type''))) (demo_rows s)))
        else JNull)], snd (demo_http meth path params body s))"
  by (simp add: cf_request_def demo_http_def Let_def catch_def sbind_def ret_def)

lemma ids_ok_replace:
  assumes "ids_ok R"
  shows "ids_ok (map (\<lambda>x. if row_id x = Inr i then (''id'', JStr i) # b else x) R)"
proof -
  have "map row_id (map (\<lambda>x. if row_id x = Inr i then (''id'', JStr i) # b else x) R) = map row_id R"
    by (induction R) auto
  then have "distinct (map row_id (map (\<lambda>x. if row_id x = Inr i then (''id'', JStr i) # b else x) R))"
    using assms by (simp only: ids_ok_def)
  then show ?thesis using assms unfolding ids_ok_def by auto
qed

lemma demo_service: "cf_service demo_http ''z'' demo_rows"
  unfolding cf_service_def demo_request
proof (intro conjI allI impI)
  fix b s r t
  assume "(Inr [(''success'', JBool True), (''result'', if ''POST'' = ''GET''
        then JList (map JObj (filter (row_matches (json_text (jget [] ''name'')) (json_text (jget [] ''type''))) (demo_rows s)))
        else JNull)], snd (demo_http ''POST'' (records_path ''z'') [] (Some (JObj b)) s)) = (Inr r, t)"
  then have "t = demo_rows s @ [(''id'', JStr (fresh_id (demo_rows s))) # b]" by (simp add: demo_http_def Let_def)
  moreover have "ids_ok (demo_rows s @ [(''id'', JStr (fresh_id (demo_rows s))) # b])"
    using ids_ok_demo(1) [of s] fresh_id_fresh by (fastforce simp: ids_ok_def)
  ultimately show "\<exists>i. demo_rows t = demo_rows s @ [(''id'', JStr i) # b]" by (auto simp: demo_rows_def)
next
  fix i s r t
  assume "(Inr [(''success'', JBool True), (''result'', if ''DELETE'' = ''GET''
        then JList (map JObj (filter (row_matches (json_text (jget [] ''name'')) (json_text (jget [] ''type''))) (demo_rows s)))
        else JNull)], snd (demo_http ''DELETE'' (record_path ''z'' i) [] None s)) = (Inr r, t)"
  then have "t = filter (\<lambda>x. row_id x \<noteq> Inr i) (demo_rows s)" by (simp add: demo_http_def Let_def record_path_def)
  moreover have "ids_ok (filter (\<lambda>x. row_id x \<noteq> Inr i) (demo_rows s))"
    using ids_ok_demo(1) [of s] by (auto simp: ids_ok_def distinct_map_filter)
  ultimately show "demo_rows t = filter (\<lambda>x. row_id x \<noteq> Inr i) (demo_rows s)" by (simp add: demo_rows_def)
next
  fix i b s r t
  assume "(Inr [(''success'', JBool True), (''result'', if ''PUT'' = ''GET''
        then JList (map JObj (filter (row_matches (json_text (jget [] ''name'')) (json_text (jget [] ''type''))) (demo_rows s)))
        else JNull)], snd (demo_http ''PUT'' (record_path ''z'' i) [] (Some (JObj b)) s)) = (Inr r, t)"
  then have "t = map (\<lambda>x. if row_id x = Inr i then (''id'', JStr i) # b else x) (demo_rows s)"
    by (simp add: demo_http_def Let_def record_path_def)
  then show "demo_rows t = map (\<lambda>x. if row_id x = Inr i then (''id'', JStr i) # b else x) (demo_rows s)"
    using ids_ok_replace [OF ids_ok_demo(1) [of s]] by (simp add: demo_rows_def)
qed (auto simp: demo_http_def Let_def)

definition demo_cf :: cloudflare where
  "demo_cf = \<lparr>cf_zone_id = Some ''z'', cf_proxied = False\<rparr>"

definition demo_write :: dns_record_request where
  "demo_write = \<lparr>rq_zone_name = None, rq_record_type = ''TXT'', rq_record_name = ''www'', rq_ttl = Some 60, rq_values = [''v1'']\<rparr>"


section \<open>The listing ends\<close>

text \<open>Every page that the service reports successful states the number of pages, which is at least 1
  and never more than \<open>N\<close>.\<close>

definition pages_bounded :: "'p http \<Rightarrow> string \<Rightarrow> int \<Rightarrow> bool" where
  "pages_bounded http zone_id N \<longleftrightarrow>
     (\<forall>page ty s b t. cf_request http ''GET'' (records_path zone_id) (page_params page ty) None s = (Inr b, t) \<longrightarrow>
        (\<exists>info n. jget b ''result_info'' = JObj info \<and> jget info ''total_pages'' = JInt n \<and> 1 \<le> n \<and> n \<le> N))"

lemma add_rows_bound:
  "add_rows q rows groups tr app = (groups', tr', app') \<Longrightarrow> length groups \<le> lq_limit q \<Longrightarrow> length groups' \<le> lq_limit q"
  by (induction q rows groups tr app rule: add_rows.induct) (auto simp: Let_def split: if_splits)

lemma list_page_Inr:
  assumes "list_page http z q page groups tr s = (Inr (groups', tr', fin), t)" and "length groups \<le> lq_limit q"
  shows "length groups' \<le> lq_limit q"
    and "pages_bounded http z N \<Longrightarrow> N \<le> int page \<Longrightarrow> fin"
proof -
  obtain b s1 js where
    req: "cf_request http ''GET'' (records_path z) (page_params page (lq_type q)) None s = (Inr b, s1)"
    and js: "json_iter (json_or (jget b ''result'') (JList [])) = Inr js"
    and rest: "(case add_rows q (dicts_of js) groups tr False of (groups', tr', app) \<Rightarrow>
          sbind (lift_res (as_dict (json_or (jget b ''result_info'') (JObj [])))) (\<lambda>info.
          sbind (lift_res (json_int (json_or (jget info ''total_pages'') (JInt 0)))) (\<lambda>n.
          ret (groups', tr', tr' \<and> \<not> app \<or> dicts_of js = [] \<or> n \<noteq> 0 \<and> n \<le> int page \<or> n = 0 \<and> length (dicts_of js) < 100)))) s1
        = (Inr (groups', tr', fin), t)"
    using assms(1) by (auto simp: list_page_def sbind_eq_Inr Let_def)
  obtain g1 t1 app where add1: "add_rows q (dicts_of js) groups tr False = (g1, t1, app)" by (rule prod_cases3)
  let ?rows = "dicts_of js"
  obtain info n where add: "add_rows q ?rows groups tr False = (groups', tr', app)"
    and info: "as_dict (json_or (jget b ''result_info'') (JObj [])) = Inr info"
    and n: "json_int (json_or (jget info ''total_pages'') (JInt 0)) = Inr n"
    and fin: "fin \<longleftrightarrow> tr' \<and> \<not> app \<or> ?rows = [] \<or> n \<noteq> 0 \<and> n \<le> int page \<or> n = 0 \<and> length ?rows < 100"
    using rest add1 by (auto simp: sbind_eq_Inr ret_def)
  show "length groups' \<le> lq_limit q" by (rule add_rows_bound [OF add assms(2)])
  show fin if b': "pages_bounded http z N" and N: "N \<le> int page"
  proof -
    obtain info' m where m: "jget b ''result_info'' = JObj info'" "jget info' ''total_pages'' = JInt m" "1 \<le> m" "m \<le> N"
      using b' req unfolding pages_bounded_def by blast
    then have "info' \<noteq> []" by (auto simp: jget_def)
    then have "info = info'" using info m(1) by (simp add: json_or_def)
    then have "n = m" using n m(2,3) by (simp add: json_or_def)
    then show fin using fin m(3,4) N by simp
  qed
qed

lemma list_pages_returns:
  assumes "pages_bounded http z N" and "length groups \<le> lq_limit q"
  shows "\<exists>r t. list_pages http z q page groups tr s = Some (r, t)
    \<and> (\<forall>g b. r = Inr (g, b) \<longrightarrow> length g \<le> lq_limit q)"
  using assms(2)
proof (induction "nat (N - int page)" arbitrary: page groups tr s rule: less_induct)
  case less
  obtain r1 s1 where pg: "list_page http z q page groups tr s = (r1, s1)" by fastforce
  show ?case
  proof (cases r1)
    case (Inl e)
    then show ?thesis using pg by (subst list_pages.simps) simp
  next
    case (Inr x)
    obtain g b fin where x: "x = (g, b, fin)" by (cases x) auto
    have bound: "length g \<le> lq_limit q" and fin: "N \<le> int page \<Longrightarrow> fin"
      using list_page_Inr [OF pg [unfolded Inr x] less.prems] assms(1) by blast+
    show ?thesis
    proof (cases fin)
      case True
      then show ?thesis using pg Inr x bound by (subst list_pages.simps) simp
    next
      case False
      then have "int page < N" using fin by linarith
      then have "nat (N - int (Suc page)) < nat (N - int page)" by simp
      from less.hyps [OF this bound, of b s1] show ?thesis
        using pg Inr x False by (subst list_pages.simps) simp
    qed
  qed
qed

text \<open>
  C38. The paged listing of a zone returns as soon as the service states a bounded number of pages, for
  every pattern, type and limit, and its result has at most as many RRsets as the limit allows.
\<close>

theorem cloudflare_listing_returns:
  assumes "\<And>z. pages_bounded http z N"
  shows "\<exists>r t. cf_list_records http cf pattern rt limit server zone s = Some (r, t)
    \<and> (\<forall>result. r = Inr result \<longrightarrow> length (lr_records result) \<le> max 1 limit)"
proof (cases "or_empty server \<noteq> [] \<or> or_empty zone = []")
  case True
  then show ?thesis by (auto simp: cf_list_records_def)
next
  case False
  let ?zone = "rstrip_char CHR ''.'' (strip (or_empty zone))"
  let ?q = "\<lparr>lq_zone_name = ?zone, lq_pattern = pattern,
     lq_type = (if or_empty rt = [] then None else map_option upper rt), lq_limit = max 1 limit\<rparr>"
  obtain r1 s1 where res: "resolve_zone_id http cf ?zone s = (r1, s1)" by fastforce
  show ?thesis
  proof (cases r1)
    case (Inl e)
    then show ?thesis using False res by (simp add: cf_list_records_def Let_def)
  next
    case (Inr z)
    obtain r t where pages: "list_pages http z ?q 1 [] False s1 = Some (r, t)"
      and bound: "\<And>g b. r = Inr (g, b) \<Longrightarrow> length g \<le> max 1 limit"
      using list_pages_returns [OF assms, of "[]" ?q z 1 False s1] by auto
    show ?thesis
    proof (cases r)
      case (Inl e)
      then show ?thesis using False res Inr pages by (simp add: cf_list_records_def Let_def)
    next
      case r: (Inr x)
      obtain g b where x: "x = (g, b)" by (cases x)
      have "length (lr_records result) \<le> max 1 limit"
        if "map_res (\<lambda>infos. \<lparr>lr_records = infos, lr_truncated = b\<rparr>)
             (traverse (\<lambda>((name, rt), rows). rows_to_info name rt rows) g) = Inr result" for result
        using that bound r x by (auto simp: map_res_def split: sum.splits dest!: traverse_length)
      then show ?thesis using False res Inr pages r x by (simp add: cf_list_records_def Let_def)
    qed
  qed
qed

definition one_page_http :: "unit http" where
  "one_page_http meth path params body s =
     (Inr \<lparr>hs_status = 200, hs_json = Some (JObj [(''success'', JBool True),
        (''result'', JList [JObj [(''name'', JStr ''www.example.org''), (''type'', JStr ''A''), (''ttl'', JInt 300),
                                  (''content'', JStr ''192.0.2.1'')]]),
        (''result_info'', JObj [(''total_pages'', JInt 1)])])\<rparr>, s)"

theorem cloudflare_listing_returns_witness:
  "\<exists>r t. cf_list_records one_page_http \<lparr>cf_zone_id = Some ''z'', cf_proxied = False\<rparr> None None 5 None (Some ''example.org'') ()
      = Some (r, t) \<and> (\<forall>result. r = Inr result \<longrightarrow> length (lr_records result) \<le> max 1 5)"
  by (rule cloudflare_listing_returns [where N = 1])
    (simp add: pages_bounded_def cf_request_def one_page_http_def catch_def sbind_def ret_def jget_def)

section \<open>Values that do not read back\<close>

text \<open>A quoted CAA value without a space, and a quoted TXT value, are normalised with their quotes and
  read back without them, so that a synchronisation never finds the row it wrote: it deletes it and
  creates it again.\<close>

definition quoted_word :: string where
  "quoted_word = CHR 0x22 # ''ca.example'' @ [CHR 0x22]"

lemma quoted_caa_not_recognised:
  "normalize_record_value ''CAA'' (''0 issue '' @ quoted_word) = Inr (''0 issue '' @ quoted_word)"
  "map_res (\<lambda>b. canonical_from_row ''CAA'' ((''id'', JStr ''1'') # b))
     (record_body demo_cf ''example.org'' ''CAA'' (''0 issue '' @ quoted_word) 60) = Inr (Inr ''0 issue ca.example'')"
  by code_simp+

lemma quoted_txt_not_recognised:
  "normalize_record_value ''TXT'' quoted_word = Inr quoted_word"
  "map_res (\<lambda>b. canonical_from_row ''TXT'' ((''id'', JStr ''1'') # b))
     (record_body demo_cf ''example.org'' ''TXT'' quoted_word 60) = Inr (Inr ''ca.example'')"
  by code_simp+

end
