(* ===== verification/Browser.thy ===== *)
theory Browser
  imports PluginUtils DnsApi Users
begin

text \<open>
  The DNS browser of the admin interface: \<^verbatim>\<open>dns_browser_service.py\<close> and \<^verbatim>\<open>routes/dns_browser.py\<close>, over the state of
  the program and the state of the providers. FastAPI's parsing is not modelled; the validators of the
  payloads are.
\<close>

section \<open>Payloads\<close>

definition DNS_BROWSER_RECORD_LIMIT :: nat where "DNS_BROWSER_RECORD_LIMIT = 100"

record admin_mutation =
  am_record_name :: string
  am_record_type :: string
  am_ttl :: "int option"
  am_values :: "string list"

definition check_admin_mutation :: "admin_mutation \<Rightarrow> admin_mutation res" where
  "check_admin_mutation q =
     rbind (normalize_mutable_record_type (am_record_type q)) (\<lambda>ty.
     let name = strip (am_record_name q) in
     rbind (guard (name \<noteq> []) (ValueError ''record_name is required.'')) (\<lambda>_.
     rbind (validate_ttl (am_ttl q) False) (\<lambda>ttl.
     rbind (normalize_record_values ty (am_values q)) (\<lambda>vals.
     Inr \<lparr>am_record_name = name, am_record_type = ty, am_ttl = Some ttl, am_values = vals\<rparr>))))"

record admin_delete =
  ad_record_name :: string
  ad_record_type :: string

definition check_admin_delete :: "admin_delete \<Rightarrow> admin_delete res" where
  "check_admin_delete q =
     rbind (normalize_mutable_record_type (ad_record_type q)) (\<lambda>ty.
     let name = strip (ad_record_name q) in
     rbind (guard (name \<noteq> []) (ValueError ''record_name is required.'')) (\<lambda>_.
     Inr \<lparr>ad_record_name = name, ad_record_type = ty\<rparr>))"

section \<open>The page\<close>

definition zone_not_found :: py_exc where
  "zone_not_found = HTTPException 404 (DText ''DNS zone not found'')"

definition find_zone_row :: "db \<Rightarrow> nat \<Rightarrow> dns_zone_config res" where
  "find_zone_row db zone_id = (case get_zone db zone_id of None \<Rightarrow> Inl zone_not_found | Some z \<Rightarrow> Inr z)"

record 'p admin_zone =
  az_row :: dns_zone_config
  az_settings :: zone_settings
  az_client :: "'p dns_client"

definition resolve_admin_zone :: "'p connector \<Rightarrow> env \<Rightarrow> nat \<Rightarrow> db \<Rightarrow> 'p admin_zone res" where
  "resolve_admin_zone connect env zone_id db =
     rbind (find_zone_row db zone_id) (\<lambda>row.
     rbind (decode_zone_config env row) (\<lambda>d.
     map_res (\<lambda>client. \<lparr>az_row = row, az_settings = d, az_client = client\<rparr>)
       (create_dns_client_from_settings connect env d db)))"

record browser_page =
  bp_user :: string
  bp_zone :: zone_public
  bp_zone_id :: nat
  bp_can_update_records :: bool
  bp_record_type_options :: "record_type_option list"
  bp_page_title :: string
  bp_page_subtitle :: string
  bp_cloudflare_proxy_enabled :: bool

definition browser_page_context :: "env \<Rightarrow> nat \<Rightarrow> string \<Rightarrow> bool \<Rightarrow> db \<Rightarrow> browser_page res" where
  "browser_page_context env zone_id user can_update db =
     rbind (find_zone_row db zone_id) (\<lambda>row.
     rbind (dns_zone_public_dict env row) (\<lambda>view.
     rbind (decode_zone_config env row) (\<lambda>d.
     Inr \<lparr>bp_user = user, bp_zone = view, bp_zone_id = zone_id, bp_can_update_records = can_update,
          bp_record_type_options = record_type_options, bp_page_title = ''DNS Browser'',
          bp_page_subtitle = zp_zone_name view,
          bp_cloudflare_proxy_enabled = (provider_of d = ''cloudflare''
            \<and> lower (strip (setting_or_empty d ''cloudflare_proxied'')) \<in> {''1'', ''true'', ''yes'', ''on''})\<rparr>)))"

section \<open>Lookups\<close>

record admin_lookup =
  lu_status :: string
  lu_zone_name :: string
  lu_dns_zone :: string
  lu_record_name :: string
  lu_record_type :: "string option"
  lu_records :: "dns_record_info list"
  lu_truncated :: bool
  lu_match_mode :: string
  lu_message :: "string option"

definition browser_event :: "string \<Rightarrow> string \<Rightarrow> string \<Rightarrow> string \<Rightarrow> string \<Rightarrow> string \<Rightarrow> string \<Rightarrow> (string \<times> json) list \<Rightarrow> event" where
  "browser_event ty level status actor zone record_name msg details = (user_event ty level actor msg details)
     \<lparr>ev_status := Some status, ev_zone_name := Some zone, ev_record_name := Some record_name\<rparr>"

definition status_error :: "string \<Rightarrow> py_exc" where
  "status_error msg = HTTPException 400 (DObj [(''status'', ''error''), (''message'', msg)])"

definition match_mode_of :: "string \<Rightarrow> string" where
  "match_mode_of name = (if name = [] then ''browse'' else if has_dns_glob (Some name) then ''glob'' else ''exact'')"

text \<open>The records a client finds, and whether more were left out.\<close>

definition find_records ::
  "'p dns_client \<Rightarrow> zone_settings \<Rightarrow> string \<Rightarrow> string \<Rightarrow> string option \<Rightarrow> ('p, dns_record_info list \<times> bool) run" where
  "find_records client d dns_zone name lookup_type =
     (if match_mode_of name = ''exact'' then
        sbind (cl_get_record client name lookup_type (map_of d ''dns_server'') (Some dns_zone)) (\<lambda>records. ret (records, False))
      else
        sbind (cl_list_records client (if name = [] then None else Some name) lookup_type DNS_BROWSER_RECORD_LIMIT
            (map_of d ''dns_server'') (Some dns_zone)) (\<lambda>result.
        ret (lr_records result, lr_truncated result)))"

definition lookup_admin_records ::
  "outside \<Rightarrow> 'p connector \<Rightarrow> nat \<Rightarrow> string option \<Rightarrow> string option \<Rightarrow> string \<Rightarrow> ('p world, admin_lookup) run" where
  "lookup_admin_records out connect zone_id record_name record_type actor =
     (let name = strip (or_empty record_name); mode = match_mode_of name in
      sbind (lift_res (case normalize_lookup_record_type record_type of
          Inl e \<Rightarrow> Inl (if is_value_error e then status_error (exc_str e) else e) | Inr ty \<Rightarrow> Inr ty)) (\<lambda>lookup_type.
      sbind (in_core (db_read (resolve_admin_zone connect (o_env out) zone_id))) (\<lambda>ctx.
      let d = az_settings ctx; provider = provider_of d; zone = zc_zone_name (az_row ctx);
          ty = (case lookup_type of None \<Rightarrow> JNull | Some t \<Rightarrow> JStr t) in
      sbind (lift_res (provider_dns_zone d)) (\<lambda>dns_zone.
      sbind (catch (in_prov (find_records (az_client ctx) d dns_zone name lookup_type))
        (\<lambda>e. in_core (refuse out
           (browser_event ''dns.browser_lookup_failed'' LOG_LEVEL_ERROR ''error'' actor zone name
              (sanitize_client_error_message e ''DNS provider error'')
              [(''provider'', JStr provider), (''record_type'', ty), (''dns_zone'', JStr dns_zone),
               (''match_mode'', JStr mode), (''exception_type'', JStr (exc_name e))])
           (http_exception_from_dns_error e)))) (\<lambda>(records, truncated).
      let status = (if records \<noteq> [] then ''success'' else ''not_found'') in
      sbind (in_core (emit_activity_event out
        (browser_event ''dns.browser_lookup'' LOG_LEVEL_INFORMATIONAL status actor zone name
           (''DNS browser '' @ mode @ '' lookup for '' @ (if name = [] then ''*'' else name) @ '' in '' @ zone)
           [(''provider'', JStr provider), (''dns_zone'', JStr dns_zone), (''record_type'', ty),
            (''record_count'', JInt (int (length records))), (''match_mode'', JStr mode), (''truncated'', JBool truncated)]))) (\<lambda>_.
      ret \<lparr>lu_status = status, lu_zone_name = zone, lu_dns_zone = dns_zone, lu_record_name = name,
           lu_record_type = lookup_type, lu_records = records, lu_truncated = truncated, lu_match_mode = mode,
           lu_message = (if records \<noteq> [] then None
             else if mode = ''browse'' then Some ''No records found in this zone.'' else Some ''No matching records found.'')\<rparr>))))))"

section \<open>Changes\<close>

record browser_reply =
  br_http_status :: int
  br_status :: string
  br_action :: string
  br_zone_name :: string
  br_dns_zone :: string
  br_record_name :: string
  br_record_type :: string
  br_values :: "string list"
  br_message :: "string option"

definition browser_reply_of :: "string \<Rightarrow> mutation_outcome \<Rightarrow> browser_reply" where
  "browser_reply_of zone outcome =
     \<lparr>br_http_status = mo_http_status outcome, br_status = mo_status outcome, br_action = mo_action outcome, br_zone_name = zone,
      br_dns_zone = mo_dns_zone outcome, br_record_name = mo_record_name outcome, br_record_type = mo_record_type outcome,
      br_values = mo_values outcome,
      br_message = (if mo_status outcome = ''success'' then None
        else if mo_action outcome = ''record_already_exists'' then Some ''Record already exists.'' else Some ''Record not found.'')\<rparr>"

definition event_suffix :: "string \<Rightarrow> string" where
  "event_suffix action = (if action = ''record_already_exists'' then ''already_exists'' else action)"

definition browser_outcome_event :: "string \<Rightarrow> string \<Rightarrow> string \<Rightarrow> string \<Rightarrow> mutation_outcome \<Rightarrow> event" where
  "browser_outcome_event actor zone provider dns_zone outcome =
     browser_event (''dns.browser_record_'' @ event_suffix (mo_action outcome))
       (if mo_status outcome = ''success'' then LOG_LEVEL_INFORMATIONAL else LOG_LEVEL_WARNING) (mo_status outcome) actor zone
       (mo_record_name outcome)
       (''DNS browser '' @ mo_action outcome @ '' '' @ mo_record_name outcome @ ''/'' @ mo_record_type outcome @ '' in '' @ zone)
       [(''provider'', JStr provider), (''dns_zone'', JStr dns_zone), (''record_type'', JStr (mo_record_type outcome)),
        (''provider_label'', JStr (dns_provider_display_name provider)), (''values_count'', JInt (int (length (mo_values outcome))))]"

definition mode_name :: "mutation_mode \<Rightarrow> string" where
  "mode_name mode = (case mode of Create \<Rightarrow> ''create'' | Replace \<Rightarrow> ''replace'' | Delete \<Rightarrow> ''delete'' | Patch \<Rightarrow> ''patch'')"

text \<open>The body of the \<^verbatim>\<open>try\<close>.\<close>

definition change_records ::
  "outside \<Rightarrow> 'p connector \<Rightarrow> dns_zone_config \<Rightarrow> zone_settings \<Rightarrow> string \<Rightarrow> mutation_mode \<Rightarrow> string \<Rightarrow> string
   \<Rightarrow> int option \<Rightarrow> string list \<Rightarrow> ('p world, mutation_outcome) run" where
  "change_records out connect row d dns_zone mode record_name record_type ttl values =
     sbind (lift_res (prepare_mutation record_name record_type ttl values (Some dns_zone) (mode \<noteq> Delete) False)) (\<lambda>pm.
     sbind (in_core (db_read (create_dns_client_from_settings connect (o_env out) d))) (\<lambda>client.
     in_prov (apply_rrset_mutation client d (zc_zone_name row) (pm_record_name pm) (pm_record_type pm) (Some (pm_ttl pm))
       (pm_values pm) mode)))"

definition change_failed ::
  "outside \<Rightarrow> string \<Rightarrow> string \<Rightarrow> string \<Rightarrow> string \<Rightarrow> string \<Rightarrow> mutation_mode \<Rightarrow> py_exc \<Rightarrow> (core, 'a) run" where
  "change_failed out actor zone provider record_name record_type mode e =
     (let details = [(''provider'', JStr provider), (''record_type'', JStr record_type), (''mode'', JStr (mode_name mode))] in
      if is_http_exception e then raise e
      else if is_value_error e then
        refuse out (browser_event ''dns.browser_invalid_request'' LOG_LEVEL_WARNING ''error'' actor zone record_name (exc_str e) details)
          (status_error (exc_str e))
      else
        refuse out (browser_event ''dns.browser_provider_failed'' LOG_LEVEL_ERROR ''error'' actor zone record_name
            (sanitize_client_error_message e ''DNS provider error'') (details @ [(''exception_type'', JStr (exc_name e))]))
          (http_exception_from_dns_error e))"

definition mutate_admin_record ::
  "outside \<Rightarrow> 'p connector \<Rightarrow> nat \<Rightarrow> mutation_mode \<Rightarrow> string \<Rightarrow> string \<Rightarrow> int option \<Rightarrow> string list \<Rightarrow> string
   \<Rightarrow> ('p world, browser_reply) run" where
  "mutate_admin_record out connect zone_id mode record_name record_type ttl values actor =
     sbind (in_core (db_read (\<lambda>db. find_zone_row db zone_id))) (\<lambda>row.
     sbind (lift_res (decode_zone_config (o_env out) row)) (\<lambda>d.
     sbind (lift_res (provider_dns_zone d)) (\<lambda>dns_zone.
     sbind (catch (change_records out connect row d dns_zone mode record_name record_type ttl values)
        (\<lambda>e. in_core (change_failed out actor (zc_zone_name row) (provider_of d) record_name record_type mode e))) (\<lambda>outcome.
     sbind (in_core (emit_activity_event out (browser_outcome_event actor (zc_zone_name row) (provider_of d) dns_zone outcome))) (\<lambda>_.
     ret (browser_reply_of (zc_zone_name row) outcome))))))"

section \<open>Routes\<close>

text \<open>A route takes the payload that its validator accepted.\<close>

definition as_zone_editor :: "session \<Rightarrow> (string \<Rightarrow> ('p world, 'a) run) \<Rightarrow> ('p world, 'a) run" where
  "as_zone_editor sess body =
     sbind (lift_res (require_role ROLE_DNS_ZONES_UPDATE (Some (se_roles sess)) (se_user sess))) body"

definition dns_browser_page :: "outside \<Rightarrow> session \<Rightarrow> nat \<Rightarrow> ('p world, browser_page) run" where
  "dns_browser_page out sess zone_id =
     as_zone_editor sess (\<lambda>user. in_core (db_read (browser_page_context (o_env out) zone_id user True)))"

datatype search_reply = Found admin_lookup | SearchError int string

definition search_records ::
  "outside \<Rightarrow> 'p connector \<Rightarrow> session \<Rightarrow> nat \<Rightarrow> string option \<Rightarrow> string option \<Rightarrow> ('p world, search_reply) run" where
  "search_records out connect sess zone_id record_name record_type =
     as_zone_editor sess (\<lambda>user.
     catch (sbind (lookup_admin_records out connect zone_id record_name record_type user) (\<lambda>l. ret (Found l)))
       (\<lambda>e. case http_exception_from_dns_error e of
          HTTPException status (DObj kvs) \<Rightarrow>
            ret (SearchError status (case map_of kvs ''message'' of
                Some m \<Rightarrow> if m = [] then sanitize_client_error_message e ''DNS lookup failed'' else m
              | None \<Rightarrow> sanitize_client_error_message e ''DNS lookup failed''))
        | mapped \<Rightarrow> raise mapped))"

definition create_record_route :: "outside \<Rightarrow> 'p connector \<Rightarrow> session \<Rightarrow> nat \<Rightarrow> admin_mutation \<Rightarrow> ('p world, browser_reply) run" where
  "create_record_route out connect sess zone_id payload =
     as_zone_editor sess (mutate_admin_record out connect zone_id Create (am_record_name payload) (am_record_type payload)
       (am_ttl payload) (am_values payload))"

definition replace_record_route :: "outside \<Rightarrow> 'p connector \<Rightarrow> session \<Rightarrow> nat \<Rightarrow> admin_mutation \<Rightarrow> ('p world, browser_reply) run" where
  "replace_record_route out connect sess zone_id payload =
     as_zone_editor sess (mutate_admin_record out connect zone_id Replace (am_record_name payload) (am_record_type payload)
       (am_ttl payload) (am_values payload))"

definition delete_record_route :: "outside \<Rightarrow> 'p connector \<Rightarrow> session \<Rightarrow> nat \<Rightarrow> admin_delete \<Rightarrow> ('p world, browser_reply) run" where
  "delete_record_route out connect sess zone_id payload =
     as_zone_editor sess (mutate_admin_record out connect zone_id Delete (ad_record_name payload) (ad_record_type payload) None [])"

section \<open>What a change needs and does\<close>

lemma change_failed_fails: "change_failed out actor zone provider name rt mode e s = (r, t) \<Longrightarrow> \<exists>e'. r = Inl e'"
  by (auto simp: change_failed_def Let_def raise_def dest: refuse_fails split: if_splits)

lemma change_failed_not_Inr [simp]: "fst (change_failed out actor zone provider name rt mode e s) \<noteq> Inr x"
  using change_failed_fails [OF surjective_pairing] by (metis Inr_Inl_False)

text \<open>A change that passes the checks is run on the state of the provider that the request found.\<close>

lemma admin_change:
  assumes "mutate_admin_record out connect zone_id mode name rt ttl values actor s = (r, t)"
    and "get_zone (c_db (w_core s)) zone_id = Some row" and "decode_zone_config (o_env out) row = Inr d"
    and "provider_dns_zone d = Inr dz" and "prepare_mutation name rt ttl values (Some dz) (mode \<noteq> Delete) False = Inr pm"
    and "create_dns_client_from_settings connect (o_env out) d (c_db (w_core s)) = Inr client"
  obtains ro where "apply_rrset_mutation client d (zc_zone_name row) (pm_record_name pm) (pm_record_type pm) (Some (pm_ttl pm))
        (pm_values pm) mode (w_prov s) = (ro, w_prov t)"
    and "\<And>reply. r = Inr reply \<Longrightarrow> \<exists>outcome. ro = Inr outcome \<and> reply = browser_reply_of (zc_zone_name row) outcome"
proof -
  obtain ro p where run: "apply_rrset_mutation client d (zc_zone_name row) (pm_record_name pm) (pm_record_type pm) (Some (pm_ttl pm))
      (pm_values pm) mode (w_prov s) = (ro, p)" by fastforce
  have "change_records out connect row d dz mode name rt ttl values s = (ro, s\<lparr>w_prov := p\<rparr>)"
    using assms(5,6) run by (simp add: change_records_def sbind_in_core in_prov_apply)
  then have "w_prov t = p \<and> (\<forall>reply. r = Inr reply \<longrightarrow> (\<exists>outcome. ro = Inr outcome \<and> reply = browser_reply_of (zc_zone_name row) outcome))"
    using assms(1-4)
    by (cases ro) (auto simp: mutate_admin_record_def sbind_in_core find_zone_row_def catch_def sbind_def in_core_apply ret_def
        split: prod.splits sum.splits dest: change_failed_fails)
  then show ?thesis using run by (intro that [of ro]) auto
qed

lemma admin_refused:
  assumes "mutate_admin_record out connect zone_id mode name rt ttl values actor s = (r, t)" and "w_prov t \<noteq> w_prov s"
  obtains row d dz pm client where "get_zone (c_db (w_core s)) zone_id = Some row" and "decode_zone_config (o_env out) row = Inr d"
    and "provider_dns_zone d = Inr dz" and "prepare_mutation name rt ttl values (Some dz) (mode \<noteq> Delete) False = Inr pm"
    and "create_dns_client_from_settings connect (o_env out) d (c_db (w_core s)) = Inr client"
proof -
  obtain row d dz where z: "get_zone (c_db (w_core s)) zone_id = Some row" "decode_zone_config (o_env out) row = Inr d"
      "provider_dns_zone d = Inr dz"
    using assms
    by (cases "get_zone (c_db (w_core s)) zone_id"; cases "decode_zone_config (o_env out) (the (get_zone (c_db (w_core s)) zone_id))";
        cases "provider_dns_zone (projr (decode_zone_config (o_env out) (the (get_zone (c_db (w_core s)) zone_id))))")
      (auto simp: mutate_admin_record_def sbind_in_core find_zone_row_def)
  let ?m = "change_records out connect row d dz mode name rt ttl values"
  have "w_prov t = w_prov (snd (?m s))"
    using assms(1) z by (auto simp: mutate_admin_record_def sbind_in_core find_zone_row_def catch_def sbind_def in_core_apply ret_def
        split: prod.splits sum.splits)
  then have changed: "w_prov (snd (?m s)) \<noteq> w_prov s" using assms(2) by simp
  obtain pm where pm: "prepare_mutation name rt ttl values (Some dz) (mode \<noteq> Delete) False = Inr pm"
    using changed by (cases "prepare_mutation name rt ttl values (Some dz) (mode \<noteq> Delete) False") (auto simp: change_records_def)
  obtain client where "create_dns_client_from_settings connect (o_env out) d (c_db (w_core s)) = Inr client"
    using changed pm by (cases "create_dns_client_from_settings connect (o_env out) d (c_db (w_core s))")
      (auto simp: change_records_def sbind_in_core)
  then show ?thesis using that z pm by blast
qed

text \<open>The three writing routes.\<close>

datatype browser_write = CreateRecord admin_mutation | ReplaceRecord admin_mutation | DeleteRecord admin_delete

fun serve_browser :: "outside \<Rightarrow> 'p connector \<Rightarrow> session \<Rightarrow> nat \<Rightarrow> browser_write \<Rightarrow> ('p world, browser_reply) run" where
  "serve_browser out connect sess zone_id (CreateRecord q) = create_record_route out connect sess zone_id q"
| "serve_browser out connect sess zone_id (ReplaceRecord q) = replace_record_route out connect sess zone_id q"
| "serve_browser out connect sess zone_id (DeleteRecord q) = delete_record_route out connect sess zone_id q"

lemma as_zone_editor_Inr:
  "as_zone_editor sess body s = (r, t) \<Longrightarrow> (\<exists>e. r = Inl e \<and> t = s) \<or> roles_satisfy (se_roles sess) ROLE_DNS_ZONES_UPDATE \<and> body (se_user sess) s = (r, t)"
  by (auto simp: as_zone_editor_def require_role_def split: if_splits)

lemma serve_browser_runs:
  assumes "serve_browser out connect sess zone_id q s = (r, t)" and "w_prov t \<noteq> w_prov s"
  obtains mode name rt ttl vals where "roles_satisfy (se_roles sess) ROLE_DNS_ZONES_UPDATE"
    and "mutate_admin_record out connect zone_id mode name rt ttl vals (se_user sess) s = (r, t)"
  using assms
  by (cases q) (auto simp: create_record_route_def replace_record_route_def delete_record_route_def dest!: as_zone_editor_Inr)

text \<open>
  C18. The DNS browser changes the state of a provider only in a session with the role to update zones, for
  a configured zone whose provider is not disabled.
\<close>

theorem browser_change_needs_role:
  assumes "serve_browser out connect sess zone_id q s = (r, t)" and "w_prov t \<noteq> w_prov s"
  shows "roles_satisfy (se_roles sess) ROLE_DNS_ZONES_UPDATE \<and> (\<exists>row d disabled.
    get_zone (c_db (w_core s)) zone_id = Some row \<and> decode_zone_config (o_env out) row = Inr d
    \<and> get_disabled_dns_plugins (o_env out) (c_db (w_core s)) = Inr disabled \<and> provider_of d \<notin> set disabled)"
proof -
  obtain mode name rt ttl vals where role: "roles_satisfy (se_roles sess) ROLE_DNS_ZONES_UPDATE"
    and run: "mutate_admin_record out connect zone_id mode name rt ttl vals (se_user sess) s = (r, t)"
    by (rule serve_browser_runs [OF assms])
  obtain row d dz pm client where "get_zone (c_db (w_core s)) zone_id = Some row" "decode_zone_config (o_env out) row = Inr d"
    "create_dns_client_from_settings connect (o_env out) d (c_db (w_core s)) = Inr client"
    by (rule admin_refused [OF run assms(2)])
  then show ?thesis using role by (auto simp: create_dns_client_from_settings_def rbind_eq_Inr split: if_splits)
qed

section \<open>The browser and the public API\<close>

lemma ttl_given: "validate_ttl ttl b = Inr v \<Longrightarrow> validate_ttl ttl False = Inr v"
  by (auto simp: validate_ttl_def split: option.splits if_splits)

lemma prepare_agrees:
  assumes "prepare_mutation name (upper (strip rt)) ttl (if mode = Delete then [] else values) dz (mode \<noteq> Delete) b = Inr pm"
  shows "prepare_mutation name rt ttl values dz (mode \<noteq> Delete) False = Inr pm"
proof -
  have rt: "normalize_mutable_record_type (upper (strip rt)) = Inr ty \<Longrightarrow> normalize_mutable_record_type rt = Inr ty" for ty
    by (auto simp: normalize_mutable_record_type_def Let_def upper_strip_mutable split: if_splits)
  show ?thesis using assms by (auto simp: prepare_mutation_def Let_def rbind_eq_Inr split: if_splits dest: ttl_given rt)
qed

lemma browser_agrees:
  assumes "apply_dns_mutation out connect key zone name rt ttl values mode ep None None s = (Inr reply, t)" and "mode \<noteq> Patch"
    and "distinct (map zc_zone_name (dns_zone_configs (c_db (w_core s))))"
    and "get_zone (c_db (w_core s)) zone_id = Some row" and "zc_zone_name row = normalize_zone_name (or_empty zone)"
    and "mutate_admin_record out connect zone_id mode name rt ttl values actor s = (r, u)"
  shows "w_prov u = w_prov t \<and> (\<forall>answer. r = Inr answer \<longrightarrow> br_http_status answer = my_status reply)"
proof -
  obtain ax u' where res: "resolve_dns_api_zone out (or_empty key) (or_empty zone) name ep (w_core s) = (Inr ax, w_core s)"
    and m: "mutate_zone out connect ax name (upper (strip rt)) ttl values mode None None s = (Inr reply, u')"
    and same: "w_prov t = w_prov u'"
    using apply_reaches [OF assms(1)] by blast
  note z = resolve_Inr [OF res]
  have "ax_zone ax \<in> set (dns_zone_configs (c_db (w_core s)))" "zc_zone_name (ax_zone ax) = zc_zone_name row"
    using z first_row_Some assms(5) by fastforce+
  moreover have "row \<in> set (dns_zone_configs (c_db (w_core s)))" using assms(4) unfolding get_zone_def by (blast dest: first_row_Some)
  ultimately have row: "ax_zone ax = row" using assms(3) by (auto simp: distinct_map dest: inj_onD)
  from m obtain client dz pm outcome where
    c: "create_dns_client_from_settings connect (o_env out) (ax_settings ax) (c_db (w_core s)) = Inr client"
    and dz: "provider_dns_zone (ax_settings ax) = Inr dz"
    and pm: "prepare_mutation name (upper (strip rt)) ttl (if mode = Delete then [] else values) (Some dz) (mode \<noteq> Delete) (mode = Replace) = Inr pm"
    and run: "run_mutation client ax pm mode None None (w_prov s) = (Inr outcome, w_prov u')"
    and status: "my_status reply = mo_http_status outcome"
    by (rule mutate_zone_Inr) (use assms(2) in \<open>auto split: if_splits\<close>)
  have "apply_rrset_mutation client (ax_settings ax) (zc_zone_name row) (pm_record_name pm) (pm_record_type pm) (Some (pm_ttl pm))
      (pm_values pm) mode (w_prov s) = (Inr outcome, w_prov u')"
    using run assms(2) by (simp add: run_mutation_def Let_def row)
  moreover have "decode_zone_config (o_env out) row = Inr (ax_settings ax)" using z row by simp
  moreover from admin_change [OF assms(6,4) this dz prepare_agrees [OF pm] c] obtain ro
    where "apply_rrset_mutation client (ax_settings ax) (zc_zone_name row) (pm_record_name pm) (pm_record_type pm) (Some (pm_ttl pm))
        (pm_values pm) mode (w_prov s) = (ro, w_prov u)"
      and "\<And>answer. r = Inr answer \<Longrightarrow> \<exists>outcome. ro = Inr outcome \<and> answer = browser_reply_of (zc_zone_name row) outcome" by blast
  ultimately show ?thesis using status same by (auto simp: browser_reply_of_def)
qed

text \<open>
  C19. A create, replace or delete that the public API answers and the same request in the DNS browser, made
  in the same state for the zone of that name, leave the providers in the same state, and the browser
  answers with the status of the API.
\<close>

theorem browser_and_api_agree:
  assumes "apply_dns_mutation out connect key zone name rt ttl values mode ep None None s = (Inr reply, t)" and "mode \<noteq> Patch"
    and "distinct (map zc_zone_name (dns_zone_configs (c_db (w_core s))))"
    and "get_zone (c_db (w_core s)) zone_id = Some row" and "zc_zone_name row = normalize_zone_name (or_empty zone)"
    and "mutate_admin_record out connect zone_id mode name rt ttl values actor s = (r, u)"
  shows "w_prov u = w_prov t \<and> (\<forall>answer. r = Inr answer \<longrightarrow> br_http_status answer = my_status reply)"
  by (rule browser_agrees [OF assms])

section \<open>Witnesses\<close>

definition demo_change :: admin_mutation where
  "demo_change = \<lparr>am_record_name = ''www'', am_record_type = ''A'', am_ttl = Some 60, am_values = [''192.0.2.1'']\<rparr>"

lemma demo_found: "get_zone (c_db (w_core demo_world)) 1 = Some demo_row" "decode_zone_config (o_env demo_out) demo_row = Inr demo_zone"
proof -
  show "get_zone (c_db (w_core demo_world)) 1 = Some demo_row"
    by (simp add: get_zone_def demo_world_def demo_core_def initial_core_def demo_row_def)
  show "decode_zone_config (o_env demo_out) demo_row = Inr demo_zone"
    by (rule decode_encode) (simp_all add: demo_out_def demo_row_def demo_zone_def)
qed

lemma demo_changes:
  assumes "mutate_admin_record demo_out demo_connect 1 Create ''www'' ''A'' (Some 60) [''192.0.2.1''] actor demo_world = (r, t)"
  shows "w_prov t = [(''www'', ''A'') \<mapsto> (60, [''192.0.2.1''])]"
proof -
  obtain reply u where api: "apply_dns_mutation demo_out demo_connect (Some ''k'') (Some ''example.org'') ''www'' ''A'' (Some 60)
      [''192.0.2.1''] Create [] None None demo_world = (Inr reply, u)" "w_prov u = [(''www'', ''A'') \<mapsto> (60, [''192.0.2.1''])]"
    using demo_post_runs by blast
  have "distinct (map zc_zone_name (dns_zone_configs (c_db (w_core demo_world))))"
    by (simp add: demo_world_def demo_core_def initial_core_def)
  moreover have "zc_zone_name demo_row = normalize_zone_name (or_empty (Some ''example.org''))"
    unfolding demo_row_def or_empty_def by (simp, code_simp)
  ultimately show ?thesis using browser_agrees [OF api(1) _ _ demo_found(1) _ assms] api(2) by simp
qed

theorem browser_change_needs_role_witness:
  "roles_satisfy (se_roles admin_session) ROLE_DNS_ZONES_UPDATE \<and> (\<exists>row d disabled.
    get_zone (c_db (w_core demo_world)) 1 = Some row \<and> decode_zone_config (o_env demo_out) row = Inr d
    \<and> get_disabled_dns_plugins (o_env demo_out) (c_db (w_core demo_world)) = Inr disabled \<and> provider_of d \<notin> set disabled)"
proof -
  obtain r t where run: "serve_browser demo_out demo_connect admin_session 1 (CreateRecord demo_change) demo_world = (r, t)" by fastforce
  have "roles_satisfy (se_roles admin_session) ROLE_DNS_ZONES_UPDATE" by code_simp
  then have "mutate_admin_record demo_out demo_connect 1 Create ''www'' ''A'' (Some 60) [''192.0.2.1''] ''admin'' demo_world = (r, t)"
    using run by (simp add: create_record_route_def as_zone_editor_def require_role_def demo_change_def) (simp add: admin_session_def)
  then have "w_prov t \<noteq> w_prov demo_world" using demo_changes by (fastforce simp: demo_world_def)
  from browser_change_needs_role [OF run this] show ?thesis .
qed

theorem browser_and_api_agree_witness:
  "\<exists>reply t r u. apply_dns_mutation demo_out demo_connect (Some ''k'') (Some ''example.org'') ''www'' ''A'' (Some 60)
      [''192.0.2.1''] Create [] None None demo_world = (Inr reply, t)
    \<and> mutate_admin_record demo_out demo_connect 1 Create ''www'' ''A'' (Some 60) [''192.0.2.1''] ''admin'' demo_world = (r, u)
    \<and> w_prov u = w_prov t \<and> (\<forall>answer. r = Inr answer \<longrightarrow> br_http_status answer = my_status reply)"
proof -
  obtain reply t where api: "apply_dns_mutation demo_out demo_connect (Some ''k'') (Some ''example.org'') ''www'' ''A'' (Some 60)
      [''192.0.2.1''] Create [] None None demo_world = (Inr reply, t)"
    using demo_post_runs by blast
  obtain r u where run: "mutate_admin_record demo_out demo_connect 1 Create ''www'' ''A'' (Some 60) [''192.0.2.1''] ''admin'' demo_world
      = (r, u)" by fastforce
  have "distinct (map zc_zone_name (dns_zone_configs (c_db (w_core demo_world))))"
    by (simp add: demo_world_def demo_core_def initial_core_def)
  moreover have "zc_zone_name demo_row = normalize_zone_name (or_empty (Some ''example.org''))"
    unfolding demo_row_def or_empty_def by (simp, code_simp)
  ultimately show ?thesis using browser_and_api_agree [OF api _ _ demo_found(1) _ run] api run by fastforce
qed

end
