(* ===== verification/Base64.thy ===== *)
theory Base64
  imports Prelude PyStr
begin

text \<open>
  \<^verbatim>\<open>base64\<close> of the standard library on byte strings: \<^verbatim>\<open>b64encode\<close>, \<^verbatim>\<open>urlsafe_b64encode\<close> and \<^verbatim>\<open>b64decode\<close> with
  and without \<^verbatim>\<open>validate\<close>, the latter as the state machine of \<^verbatim>\<open>binascii.a2b_base64\<close>. Its main lemma is the
  round trip.
\<close>

definition b64_alphabet :: string where
  "b64_alphabet = ''ABCDEFGHIJKLMNOPQRSTUVWXYZabcdefghijklmnopqrstuvwxyz0123456789+/''"

definition b64_char :: "nat \<Rightarrow> char" where
  "b64_char n = b64_alphabet ! n"

definition b64_value :: "char \<Rightarrow> nat option" where
  "b64_value c = List.find (\<lambda>n. b64_char n = c) [0..<64]"

fun b64encode :: "string \<Rightarrow> string" where
  "b64encode [] = []"
| "b64encode [a] = [b64_char (code a div 4), b64_char (code a mod 4 * 16), CHR ''='', CHR ''='']"
| "b64encode [a, b] =
     [b64_char (code a div 4), b64_char (code a mod 4 * 16 + code b div 16), b64_char (code b mod 16 * 4), CHR ''='']"
| "b64encode (a # b # c # r) =
     [b64_char (code a div 4), b64_char (code a mod 4 * 16 + code b div 16),
      b64_char (code b mod 16 * 4 + code c div 64), b64_char (code c mod 64)] @ b64encode r"

definition urlsafe_b64encode :: "string \<Rightarrow> string" where
  "urlsafe_b64encode s =
     map (\<lambda>c. if c = CHR ''+'' then CHR ''-'' else if c = CHR ''/'' then CHR ''_'' else c) (b64encode s)"

definition b64_error :: "string \<Rightarrow> 'a res" where
  "b64_error m = Inl (ValueError m)"

definition cons_byte :: "nat \<Rightarrow> string res \<Rightarrow> string res" where
  "cons_byte n r = map_res (\<lambda>s. chr n # s) r"

text \<open>\<open>q\<close> is the position in the group of four, \<open>l\<close> the bits left over, \<open>p\<close> the padding characters seen since
  the last digit, \<open>started\<close> whether padding was seen at all.\<close>

fun a2b :: "bool \<Rightarrow> bool \<Rightarrow> nat \<Rightarrow> nat \<Rightarrow> nat \<Rightarrow> string \<Rightarrow> string res" where
  "a2b strict started q l p [] =
     (if q = 0 then Inr []
      else if q = 1 then b64_error ''Invalid base64-encoded string''
      else b64_error ''Incorrect padding'')"
| "a2b strict started q l p (c # cs) =
     (if c = CHR ''='' then
        (if 2 \<le> q \<and> 4 \<le> q + Suc p then
           (if strict \<and> cs \<noteq> [] then b64_error ''Excess data after padding'' else Inr [])
         else a2b strict True q l (if 2 \<le> q then Suc p else p) cs)
      else
        case b64_value c of
          None \<Rightarrow> if strict then b64_error ''Only base64 data is allowed'' else a2b strict started q l p cs
        | Some v \<Rightarrow>
            if strict \<and> started then b64_error ''Discontinuous padding not allowed''
            else if q = 0 then a2b strict started 1 v 0 cs
            else if q = 1 then cons_byte (l * 4 + v div 16) (a2b strict started 2 (v mod 16) 0 cs)
            else if q = 2 then cons_byte (l * 16 + v div 4) (a2b strict started 3 (v mod 4) 0 cs)
            else cons_byte (l * 64 + v) (a2b strict started 0 0 0 cs))"

definition b64decode :: "bool \<Rightarrow> string \<Rightarrow> string res" where
  "b64decode validate s =
     (if \<not> list_all (\<lambda>c. code c < 128) s then b64_error ''string argument should contain only ASCII characters''
      else if validate \<and> (case s of [] \<Rightarrow> False | c # _ \<Rightarrow> c = CHR ''='') then b64_error ''Leading padding not allowed''
      else a2b validate False 0 0 0 s)"

lemma b64_digit: "n < 64 \<Longrightarrow> b64_value (b64_char n) = Some n \<and> b64_char n \<noteq> CHR ''='' \<and> code (b64_char n) < 128"
proof -
  have "list_all (\<lambda>n. b64_value (b64_char n) = Some n \<and> b64_char n \<noteq> CHR ''='' \<and> code (b64_char n) < 128) [0..<64]"
    by code_simp
  moreover assume "n < 64"
  ultimately show ?thesis by (simp add: list_all_iff)
qed

lemma code_lt: "code c < 256"
  by (simp add: code_def)

lemma chr_code [simp]: "chr (code c) = c"
  by (simp add: chr_def code_def)

lemma byte_parts: "code a div 4 < 64" "code a div 16 < 16" "code a div 64 < 4" "code a div 16 div 16 = 0" "code a div 64 div 4 = 0"
  using code_lt [of a] by (simp_all add: less_mult_imp_div_less div_eq_0_iff)

lemma six_bits: "(x :: nat) < 4 \<Longrightarrow> y < 16 \<Longrightarrow> x * 16 + y < 64" "(x :: nat) < 16 \<Longrightarrow> y < 4 \<Longrightarrow> x * 4 + y < 64"
  by simp_all

lemma b64_bounds:
  "code a div 4 < 64" "code a mod 4 * 16 + code b div 16 < 64" "code a mod 4 * 16 < 64" "code b mod 16 * 4 + code c div 64 < 64"
  "code b mod 16 * 4 < 64" "code c mod 64 < 64"
  using six_bits(1) [of "code a mod 4" "code b div 16"] six_bits(1) [of "code a mod 4" 0]
    six_bits(2) [of "code b mod 16" "code c div 64"] six_bits(2) [of "code b mod 16" 0]
  by (simp_all add: byte_parts)

lemmas b64_digits = b64_bounds [THEN b64_digit]

lemma b64_bytes:
  "code a div 4 * 4 + (code a mod 4 * 16 + x) div 16 = code a + x div 16"
  "(code a mod 4 * 16 + code b div 16) mod 16 * 16 + (code b mod 16 * 4 + y) div 4 = code b + y div 4"
  "(code b mod 16 * 4 + code c div 64) mod 4 * 64 + code c mod 64 = code c"
proof -
  have "(code a mod 4 * 16 + x) div 16 = code a mod 4 + x div 16" by simp
  then show "code a div 4 * 4 + (code a mod 4 * 16 + x) div 16 = code a + x div 16" by simp
  have "(code a mod 4 * 16 + code b div 16) mod 16 = code b div 16" using byte_parts(2) [of b] by simp
  moreover have "(code b mod 16 * 4 + y) div 4 = code b mod 16 + y div 4" by simp
  ultimately show "(code a mod 4 * 16 + code b div 16) mod 16 * 16 + (code b mod 16 * 4 + y) div 4 = code b + y div 4" by simp
  have "(code b mod 16 * 4 + code c div 64) mod 4 = code c div 64" using byte_parts(3) [of c] by simp
  then show "(code b mod 16 * 4 + code c div 64) mod 4 * 64 + code c mod 64 = code c" by simp
qed

lemma a2b_b64encode: "a2b strict False 0 0 0 (b64encode s) = Inr s"
proof (induction s rule: b64encode.induct)
  case (2 a)
  then show ?case
    using b64_digits(1,3) [of a] b64_bytes(1) [of a 0] by (simp add: cons_byte_def)
next
  case (3 a b)
  show ?case
    using byte_parts(4) [of b] b64_digits(1) [of a] b64_digits(2) [of a b] b64_digits(5) [of b] b64_bytes(1) [of a "code b div 16"] b64_bytes(2) [of a b 0] by (simp add: cons_byte_def)
next
  case (4 a b c r)
  show ?case
    using 4 byte_parts(4) [of b] byte_parts(5) [of c] b64_digits(1) [of a] b64_digits(2) [of a b] b64_digits(4) [of b c] b64_digits(6) [of c] b64_bytes(1) [of a "code b div 16"] b64_bytes(2) [of a b "code c div 64"] b64_bytes(3) [of b c]
    by (simp add: cons_byte_def)
qed simp

lemma b64encode_ascii: "c \<in> set (b64encode s) \<Longrightarrow> code c < 128"
  by (induction s rule: b64encode.induct) (use b64_digits in \<open>auto simp: code_def [of "CHR ''=''"]\<close>)

lemma b64decode_b64encode [simp]: "b64decode v (b64encode s) = Inr s"
proof (cases s)
  case (Cons a t)
  then obtain u where "b64encode s = b64_char (code a div 4) # u"
    by (cases t; cases "tl t") auto
  then show ?thesis
    using a2b_b64encode [of v s] b64encode_ascii [of _ s] b64_digits(1) [of a] by (auto simp: b64decode_def list_all_iff)
qed (simp add: b64decode_def)

end
