(* ===== verification/JsonText.thy ===== *)
theory JsonText
  imports Json
begin

text \<open>
  The other layouts of \<^verbatim>\<open>json.dumps\<close>: \<^verbatim>\<open>separators=(",", ":")\<close> and \<^verbatim>\<open>indent=2\<close>. Both are instances of one
  printer, whose first argument is the white space before an item at a depth; it reads back as well.
\<close>

fun dumps_ws :: "(nat \<Rightarrow> string) \<Rightarrow> string \<Rightarrow> nat \<Rightarrow> json \<Rightarrow> string" where
  "dumps_ws nl kw d (JList xs) =
     (if xs = [] then ''[]''
      else CHR ''['' # nl (Suc d) @ join (CHR '','' # nl (Suc d)) (map (dumps_ws nl kw (Suc d)) xs) @ nl d @ '']'')"
| "dumps_ws nl kw d (JObj kvs) =
     (if kvs = [] then ''{}''
      else CHR ''{'' # nl (Suc d) @ join (CHR '','' # nl (Suc d))
          (map (\<lambda>(k, v). json_quote True k @ CHR '':'' # kw @ dumps_ws nl kw (Suc d) v) kvs) @ nl d @ ''}'')"
| "dumps_ws nl kw d j = dumps True j"

definition json_dumps_compact :: "json \<Rightarrow> string" where
  "json_dumps_compact = dumps_ws (\<lambda>_. []) [] 0"

definition indent2 :: "nat \<Rightarrow> string" where
  "indent2 d = CHR 0x0A # replicate (2 * d) CHR '' ''"

definition json_dumps_indent :: "json \<Rightarrow> string" where
  "json_dumps_indent = dumps_ws indent2 '' '' 0"

section \<open>Reading back\<close>

definition blank :: "string \<Rightarrow> bool" where
  "blank w \<longleftrightarrow> list_all (\<lambda>c. code c \<in> {32, 9, 10, 13}) w \<and> (w = [] \<or> hd w = CHR 0x0A)"

definition reads :: "json \<Rightarrow> string \<Rightarrow> bool" where
  "reads j s \<longleftrightarrow> (\<exists>c cs. s = c # cs \<and> code c \<notin> {32, 9, 10, 13} \<and> c \<noteq> CHR '']'')
     \<and> (\<forall>n r. 2 * length s \<le> n \<longrightarrow> num_end r \<longrightarrow> p_val n (s @ r) = Some (j, r))"

lemma readsD: "reads j s \<Longrightarrow> 2 * length s \<le> n \<Longrightarrow> num_end r \<Longrightarrow> p_val n (s @ r) = Some (j, r)"
  by (simp add: reads_def)

lemma reads_skip: "reads j s \<Longrightarrow> skip_ws (s @ r) = s @ r"
  by (auto simp: reads_def)

lemma skip_blanks: "list_all (\<lambda>c. code c \<in> {32, 9, 10, 13}) w \<Longrightarrow> skip_ws (w @ s) = skip_ws s"
  unfolding skip_ws_def list_all_iff by (intro dropWhile_append2) auto

lemma skip_blank: "blank w \<Longrightarrow> skip_ws (w @ s) = skip_ws s"
  by (simp add: blank_def skip_blanks)

lemma num_end_blank: "blank w \<Longrightarrow> num_end s \<Longrightarrow> num_end (w @ s)"
  by (cases w) (auto simp: blank_def)

lemma reads_elems:
  assumes "list_all2 reads xs ss" and "xs \<noteq> []" and "blank w" and "blank e"
    and "2 * length (join (CHR '','' # w) ss) + 1 \<le> m"
  shows "p_elems m (join (CHR '','' # w) ss @ e @ CHR '']'' # r) = Some (xs, r)"
  using assms
proof (induction xs ss arbitrary: m rule: list_all2_induct)
  case (Cons x xs s ss)
  obtain m' where m: "m = Suc m'" using Cons.prems(4) by (cases m) auto
  show ?case
  proof (cases ss)
    case Nil
    have "num_end (e @ CHR '']'' # r)" using Cons.prems(3) by (simp add: num_end_blank)
    then have "p_val m' (s @ e @ CHR '']'' # r) = Some (x, e @ CHR '']'' # r)"
      using Cons.hyps(1) Cons.prems(4) m Nil by (intro readsD) simp_all
    then show ?thesis
      using Nil Cons.hyps(2) m skip_blank [OF Cons.prems(3)] by simp
  next
    case (Cons t ts)
    then obtain y ys where xs: "xs = y # ys" "reads y t" using Cons.hyps(2) by (cases xs) auto
    let ?j = "join (CHR '','' # w) ss"
    have len: "2 * length s \<le> m'" "2 * length ?j + 1 \<le> m'"
      using Cons.prems(4) m Cons by simp_all
    have j: "\<exists>z. ?j = t @ z" using Cons by (cases ts) auto
    then have skip: "skip_ws (?j @ z) = ?j @ z" for z using reads_skip [OF xs(2)] by auto
    have "p_elems m' (?j @ e @ CHR '']'' # r) = Some (xs, r)"
      using Cons.IH [OF _ Cons.prems(2,3) len(2)] xs(1) by simp
    moreover have "p_val m' (s @ CHR '','' # w @ ?j @ e @ CHR '']'' # r) = Some (x, CHR '','' # w @ ?j @ e @ CHR '']'' # r)"
      using Cons.hyps(1) len(1) by (intro readsD) simp_all
    moreover have "join (CHR '','' # w) (s # ss) = s @ CHR '','' # w @ ?j" using Cons by simp
    ultimately show ?thesis
      using m skip skip_blank [OF Cons.prems(2)] by simp
  qed
qed simp

definition reads_member :: "string \<Rightarrow> string \<times> json \<Rightarrow> string \<Rightarrow> bool" where
  "reads_member kw kv s \<longleftrightarrow> (\<exists>t. s = json_quote True (fst kv) @ CHR '':'' # kw @ t \<and> reads (snd kv) t)"

lemma reads_members:
  assumes "list_all2 (reads_member kw) kvs ss" and "kvs \<noteq> []" and "blank w" and "blank e"
    and "list_all (\<lambda>c. code c \<in> {32, 9, 10, 13}) kw" and "2 * length (join (CHR '','' # w) ss) + 1 \<le> m"
  shows "p_members m (join (CHR '','' # w) ss @ e @ CHR ''}'' # r) = Some (kvs, r)"
  using assms
proof (induction kvs ss arbitrary: m rule: list_all2_induct)
  case (Cons kv kvs s ss)
  obtain m' where m: "m = Suc m'" using Cons.prems(5) by (cases m) auto
  obtain k x where kv: "kv = (k, x)" by (cases kv)
  obtain t where s: "s = json_quote True k @ CHR '':'' # kw @ t" "reads x t"
    using Cons.hyps(1) kv by (auto simp: reads_member_def)
  have s': "s = CHR 0x22 # tl (json_quote True k) @ CHR '':'' # kw @ t" using s json_quote_Cons [of True k] by simp
  have skip: "skip_ws (CHR '':'' # z) = CHR '':'' # z" "skip_ws (kw @ t @ z) = t @ z" for z
    using skip_blanks [OF Cons.prems(4)] reads_skip [OF s(2)] by (simp_all add: code_def)
  have head: "p_members m (s @ z) = Option.bind (p_val m' (t @ z)) (\<lambda>(x, r).
       case expect CHR ''}'' (skip_ws r) of
         Some r' \<Rightarrow> Some ([(k, x)], r')
       | None \<Rightarrow> Option.bind (expect CHR '','' (skip_ws r)) (\<lambda>r'.
           map_option (\<lambda>(kvs, z). ((k, x) # kvs, z)) (p_members m' (skip_ws r'))))" for z
    using m p_chars_json_quote [of True k] by (simp add: s' skip)
  show ?case
  proof (cases ss)
    case Nil
    have "num_end (e @ CHR ''}'' # r)" using Cons.prems(3) by (simp add: num_end_blank)
    then have "p_val m' (t @ e @ CHR ''}'' # r) = Some (x, e @ CHR ''}'' # r)"
      using s Cons.prems(5) m Nil by (intro readsD) simp_all
    then show ?thesis
      using Nil Cons.hyps(2) skip_blank [OF Cons.prems(3)] kv by (simp add: head)
  next
    case (Cons u us)
    then obtain kv2 kvs2 where kvs: "kvs = kv2 # kvs2" "reads_member kw kv2 u" using Cons.hyps(2) by (cases kvs) auto
    let ?j = "join (CHR '','' # w) ss"
    have len: "2 * length t \<le> m'" "2 * length ?j + 1 \<le> m'"
      using Cons.prems(5) m Cons s by simp_all
    have "\<exists>z. ?j = CHR 0x22 # z" using Cons kvs(2) by (cases us) (auto simp: reads_member_def json_quote_def)
    then have skip': "skip_ws (?j @ z) = ?j @ z" for z by (auto simp: code_def)
    have "p_members m' (?j @ e @ CHR ''}'' # r) = Some (kvs, r)"
      using Cons.IH [OF _ Cons.prems(2,3,4) len(2)] kvs(1) by simp
    moreover have "p_val m' (t @ CHR '','' # w @ ?j @ e @ CHR ''}'' # r) = Some (x, CHR '','' # w @ ?j @ e @ CHR ''}'' # r)"
      using s(2) len(1) by (intro readsD) simp_all
    moreover have "join (CHR '','' # w) (s # ss) = s @ CHR '','' # w @ ?j" using Cons by simp
    ultimately show ?thesis
      using skip' skip_blank [OF Cons.prems(2)] kv by (simp add: head)
  qed
qed simp

lemma reads_dumps: "json_ok j \<Longrightarrow> reads j (dumps True j)"
  unfolding reads_def using p_val_dumps [of j True] by (auto elim!: dumps_hd [of j True])

lemma reads_list:
  assumes "list_all2 reads xs ss" and "xs \<noteq> []" and "blank w" and "blank e"
  shows "reads (JList xs) (CHR ''['' # w @ join (CHR '','' # w) ss @ e @ '']'')"
  unfolding reads_def
proof (intro conjI allI impI)
  fix n r
  let ?j = "join (CHR '','' # w) ss"
  assume n: "2 * length (CHR ''['' # w @ ?j @ e @ '']'') \<le> n"
  then obtain m where m: "n = Suc m" by (cases n) auto
  obtain y ys t ts where "xs = y # ys" "ss = t # ts" "reads y t" using assms(1,2) by (cases xs; cases ss) auto
  then obtain c u where u: "?j = c # u" "code c \<notin> {32, 9, 10, 13}" "c \<noteq> CHR '']''"
    by (cases ts) (auto simp: reads_def)
  have "p_elems m (?j @ e @ CHR '']'' # r) = Some (xs, r)"
    using n m by (intro reads_elems assms) simp
  then show "p_val n ((CHR ''['' # w @ ?j @ e @ '']'') @ r) = Some (JList xs, r)"
    using m skip_blank [OF assms(3)] u by simp
qed (auto simp: code_def)

lemma reads_obj:
  assumes "list_all2 (reads_member kw) kvs ss" and "kvs \<noteq> []" and "distinct (map fst kvs)" and "blank w" and "blank e"
    and "list_all (\<lambda>c. code c \<in> {32, 9, 10, 13}) kw"
  shows "reads (JObj kvs) (CHR ''{'' # w @ join (CHR '','' # w) ss @ e @ ''}'')"
  unfolding reads_def
proof (intro conjI allI impI)
  fix n r
  let ?j = "join (CHR '','' # w) ss"
  assume n: "2 * length (CHR ''{'' # w @ ?j @ e @ ''}'') \<le> n"
  then obtain m where m: "n = Suc m" by (cases n) auto
  obtain kv kvs' t ts where "kvs = kv # kvs'" "ss = t # ts" "reads_member kw kv t" using assms(1,2) by (cases kvs; cases ss) auto
  then obtain u where u: "?j = CHR 0x22 # u" by (cases ts) (auto simp: reads_member_def json_quote_def)
  have "p_members m (?j @ e @ CHR ''}'' # r) = Some (kvs, r)"
    using n m by (intro reads_members [OF assms(1,2,4,5,6)]) simp
  then show "p_val n ((CHR ''{'' # w @ ?j @ e @ ''}'') @ r) = Some (JObj kvs, r)"
    using m skip_blank [OF assms(4)] u make_dict_distinct [OF assms(3)] by (simp add: code_def)
qed (auto simp: code_def)

lemma reads_dumps_ws:
  assumes "\<And>d. blank (nl d)" and "list_all (\<lambda>c. code c \<in> {32, 9, 10, 13}) kw"
  shows "json_ok j \<Longrightarrow> reads j (dumps_ws nl kw d j)"
proof (induction j arbitrary: d)
  case (JList xs)
  show ?case
  proof (cases "xs = []")
    case True
    then show ?thesis using reads_dumps [of "JList []"] by simp
  next
    case False
    have "list_all2 reads xs (map (dumps_ws nl kw (Suc d)) xs)"
      using JList by (auto simp: list_all2_conv_all_nth)
    from reads_list [OF this False assms(1,1)] show ?thesis using False by simp
  qed
next
  case (JObj kvs)
  show ?case
  proof (cases "kvs = []")
    case True
    then show ?thesis using reads_dumps [of "JObj []"] by simp
  next
    case False
    have "reads_member kw kv (json_quote True (fst kv) @ CHR '':'' # kw @ dumps_ws nl kw (Suc d) (snd kv))" if "kv \<in> set kvs" for kv
      using that JObj.IH [of kv "snd kv" "Suc d"] JObj.prems by (auto simp: reads_member_def snds.simps)
    then have all: "list_all2 (reads_member kw) kvs
        (map (\<lambda>(k, v). json_quote True k @ CHR '':'' # kw @ dumps_ws nl kw (Suc d) v) kvs)"
      by (auto simp: list_all2_conv_all_nth case_prod_beta)
    have "distinct (map fst kvs)" using JObj.prems by simp
    from reads_obj [OF all False this assms(1,1,2)] show ?thesis using False by simp
  qed
qed (use reads_dumps [of JNull] reads_dumps [of "JBool b" for b] reads_dumps [of "JInt i" for i] reads_dumps [of "JStr t" for t]
    in \<open>simp_all del: dumps.simps add: dumps_ws.simps\<close>)

lemma reads_loads: "reads j s \<Longrightarrow> json_loads s = Inr j"
  using readsD [of j s "2 * length s + 2" "[]"] reads_skip [of j s "[]"] by (simp add: json_loads_def)

lemma blank_indent2: "blank (indent2 d)"
  by (simp add: blank_def indent2_def list_all_iff code_def)

lemma json_loads_compact: "json_ok j \<Longrightarrow> json_loads (json_dumps_compact j) = Inr j"
  unfolding json_dumps_compact_def by (intro reads_loads reads_dumps_ws) (simp_all add: blank_def)

lemma json_loads_indent: "json_ok j \<Longrightarrow> json_loads (json_dumps_indent j) = Inr j"
  unfolding json_dumps_indent_def by (intro reads_loads reads_dumps_ws blank_indent2) (simp add: code_def)

end
