(* ===== verification/EnvSecrets.thy ===== *)
theory EnvSecrets
  imports Auth PyText "HOL-Library.AList"
begin

text \<open>
  The secrets that outlive a restart, \<^verbatim>\<open>env_bootstrap.py\<close>: the durable file, the project's \<^verbatim>\<open>.env\<close> and the
  environment of the process. Where the files are is not modelled; \<open>valid\<close> is whether \<^verbatim>\<open>Fernet\<close> accepts a
  key.
\<close>

definition SECRET_KEYS :: "string list" where
  "SECRET_KEYS = [''SECRET_KEY'', ''ENCRYPTION_KEY'']"

text \<open>The text of the durable file, the text of \<^verbatim>\<open>.env\<close> when it is a writable file, and \<^verbatim>\<open>os.environ\<close>.\<close>

record secrets_disk =
  sd_durable :: "string option"
  sd_project :: "string option"
  sd_environ :: "string \<Rightarrow> string option"

section \<open>Reading\<close>

definition parse_env_line :: "string \<Rightarrow> (string \<times> string) option" where
  "parse_env_line line =
     (let stripped = strip line in
      if stripped = [] \<or> startswith ''#'' stripped \<or> CHR ''='' \<notin> set stripped then None
      else
        let key = strip (before_char CHR ''='' stripped) in
        if key \<in> set SECRET_KEYS
        then Some (key, strip_char CHR 0x27 (strip_char CHR 0x22 (strip (after_char CHR ''='' stripped))))
        else None)"

definition parse_env_file :: "string option \<Rightarrow> (string \<times> string) list" where
  "parse_env_file file =
     (case file of
        None \<Rightarrow> []
      | Some text \<Rightarrow> fold (\<lambda>(k, v). AList.update k v) (List.map_filter parse_env_line (splitlines text)) [])"

definition validate_persisted_secret :: "(string \<Rightarrow> bool) \<Rightarrow> string \<Rightarrow> string \<Rightarrow> string res" where
  "validate_persisted_secret valid name value =
     (let cleaned = strip value in
      if cleaned = [] then Inl (ValueError (name @ '' is empty.''))
      else if list_ex (\<lambda>c. code c < 32 \<or> code c = 127) cleaned
      then Inl (ValueError (name @ '' contains control characters.''))
      else if name = ''ENCRYPTION_KEY'' \<and> \<not> valid cleaned
      then Inl (ValueError ''ENCRYPTION_KEY is not a valid Fernet key.'')
      else Inr cleaned)"

definition persisted_secrets :: "(string \<Rightarrow> bool) \<Rightarrow> string option \<Rightarrow> (string \<times> string) list" where
  "persisted_secrets valid file =
     List.map_filter (\<lambda>(k, v).
       if v = [] then None
       else case validate_persisted_secret valid k v of Inr c \<Rightarrow> Some (k, c) | Inl _ \<Rightarrow> None) (parse_env_file file)"

definition apply_persisted_secrets :: "(string \<Rightarrow> bool) \<Rightarrow> secrets_disk \<Rightarrow> secrets_disk" where
  "apply_persisted_secrets valid d =
     d\<lparr>sd_environ := fold (\<lambda>(k, v) e. e(k \<mapsto> v)) (persisted_secrets valid (sd_durable d)) (sd_environ d)\<rparr>"

text \<open>\<^verbatim>\<open>shlex.quote\<close>\<close>

definition shell_safe :: "char \<Rightarrow> bool" where
  "shell_safe c \<longleftrightarrow> is_alnum c \<or> c \<in> set ''_@%+=:,./-''"

definition shell_quote :: "string \<Rightarrow> string" where
  "shell_quote s =
     (if s = [] then [CHR 0x27, CHR 0x27]
      else if list_all shell_safe s then s
      else [CHR 0x27] @ concat (map (\<lambda>c. if c = CHR 0x27 then [CHR 0x27, CHR 0x22, CHR 0x27, CHR 0x22, CHR 0x27] else [c]) s)
        @ [CHR 0x27])"

definition shell_export_persisted_secrets :: "(string \<Rightarrow> bool) \<Rightarrow> string option \<Rightarrow> string" where
  "shell_export_persisted_secrets valid file =
     join [CHR 0x0A] (map (\<lambda>(k, v). ''export '' @ k @ ''='' @ shell_quote v) (persisted_secrets valid file))"

section \<open>Writing\<close>

definition env_line :: "string \<times> string \<Rightarrow> string" where
  "env_line kv = fst kv @ CHR ''='' # snd kv"

text \<open>One line of \<^verbatim>\<open>.env\<close>: the new line, and the key it sets.\<close>

definition replace_env_line :: "(string \<times> string) list \<Rightarrow> string \<Rightarrow> string \<times> string option" where
  "replace_env_line replacements line =
     (if startswith ''#'' (strip line) \<or> CHR ''='' \<notin> set line then (line, None)
      else
        let key = strip (before_char CHR ''='' line) in
        case map_of replacements key of
          Some v \<Rightarrow> (env_line (key, v), Some key)
        | None \<Rightarrow> (line, None))"

definition update_env_text :: "(string \<times> string) list \<Rightarrow> string \<Rightarrow> string" where
  "update_env_text replacements text =
     (let updated = map (replace_env_line replacements) (splitlines text);
          seen = List.map_filter snd updated;
          missing = filter (\<lambda>kv. fst kv \<notin> set seen) replacements
      in join [CHR 0x0A] (map fst updated @ map env_line missing) @ [CHR 0x0A])"

definition secrets_body :: "string \<Rightarrow> string \<Rightarrow> string" where
  "secrets_body sk ek = env_line (''SECRET_KEY'', sk) @ CHR 0x0A # env_line (''ENCRYPTION_KEY'', ek) @ [CHR 0x0A]"

definition write_application_secrets ::
  "(string \<Rightarrow> bool) \<Rightarrow> bool \<Rightarrow> string \<Rightarrow> string \<Rightarrow> (secrets_disk, unit) run" where
  "write_application_secrets valid pytest secret_key encryption_key =
     sbind (lift_res (validate_persisted_secret valid ''SECRET_KEY'' secret_key)) (\<lambda>sk.
     sbind (lift_res (validate_persisted_secret valid ''ENCRYPTION_KEY'' encryption_key)) (\<lambda>ek.
     modify (\<lambda>d. d\<lparr>sd_durable := Some (secrets_body sk ek),
        sd_environ := (sd_environ d)(''SECRET_KEY'' \<mapsto> sk, ''ENCRYPTION_KEY'' \<mapsto> ek),
        sd_project := (if pytest then sd_project d
          else map_option (update_env_text [(''SECRET_KEY'', sk), (''ENCRYPTION_KEY'', ek)]) (sd_project d))\<rparr>)))"

section \<open>Reading back\<close>

text \<open>A value that a line gives back: no quotes at its ends, and no line break inside.\<close>

definition plain_secret :: "string \<Rightarrow> bool" where
  "plain_secret s \<longleftrightarrow> stripped s \<and> s \<noteq> [] \<and> list_all (\<lambda>c. 32 \<le> code c \<and> code c < 127) s
     \<and> hd s \<notin> {CHR 0x22, CHR 0x27} \<and> last s \<notin> {CHR 0x22, CHR 0x27}"

lemma strip_char_ends: "s = [] \<or> hd s \<noteq> c \<and> last s \<noteq> c \<Longrightarrow> strip_char c s = s"
proof (cases "s = []")
  case False
  moreover assume "s = [] \<or> hd s \<noteq> c \<and> last s \<noteq> c"
  ultimately have "dropWhile (\<lambda>d. d = c) s = s" "dropWhile (\<lambda>x. x = c) (rev s) = rev s"
    by (simp_all add: dropWhile_eq_self_iff hd_rev)
  then show ?thesis by (simp add: strip_char_def rstrip_char_def)
qed (simp add: strip_char_def rstrip_char_def)

lemma plain_secret_no_break: "plain_secret s \<Longrightarrow> list_all (\<lambda>c. \<not> is_line_break c) s"
  by (auto simp: plain_secret_def list_all_iff is_line_break_def Let_def)

lemma key_chars: "k \<in> set SECRET_KEYS \<Longrightarrow>
    k \<noteq> [] \<and> stripped k \<and> CHR ''='' \<notin> set k \<and> hd k \<noteq> CHR ''#'' \<and> list_all (\<lambda>c. \<not> is_line_break c) k \<and> \<not> is_space (hd k)"
  by (auto simp: SECRET_KEYS_def stripped_def is_space_def is_line_break_def code_def)

lemma before_after_env_line:
  "CHR ''='' \<notin> set k \<Longrightarrow> before_char CHR ''='' (env_line (k, v)) = k"
  "CHR ''='' \<notin> set k \<Longrightarrow> after_char CHR ''='' (env_line (k, v)) = v"
  by (induction k) (auto simp: env_line_def before_char_def after_char_def)

lemma parse_env_line_written:
  assumes "k \<in> set SECRET_KEYS" and "plain_secret v"
  shows "parse_env_line (env_line (k, v)) = Some (k, v)"
proof -
  note k = key_chars [OF assms(1)]
  have "stripped (env_line (k, v))"
    using k assms(2) by (auto simp: stripped_def env_line_def plain_secret_def)
  moreover have "strip_char CHR 0x22 v = v" "strip_char CHR 0x27 v = v"
    using assms(2) by (auto simp: plain_secret_def intro!: strip_char_ends)
  moreover have "\<not> startswith ''#'' (env_line (k, v))" "env_line (k, v) \<noteq> []" "CHR ''='' \<in> set (env_line (k, v))"
    using k by (cases k; simp add: env_line_def startswith_def)+
  ultimately show ?thesis
    using k assms before_after_env_line [of k v] by (simp add: parse_env_line_def plain_secret_def)
qed

lemma validated_secret:
  assumes "validate_persisted_secret valid name value = Inr c"
  shows "c = strip value \<and> c \<noteq> [] \<and> stripped c \<and> list_all (\<lambda>c. 32 \<le> code c \<and> code c \<noteq> 127) c
    \<and> (name = ''ENCRYPTION_KEY'' \<longrightarrow> valid c)"
  using assms by (auto simp: validate_persisted_secret_def Let_def list_ex_iff list_all_iff split: if_splits)

lemma env_line_no_break:
  "k \<in> set SECRET_KEYS \<Longrightarrow> plain_secret v \<Longrightarrow> list_all (\<lambda>c. \<not> is_line_break c) (env_line (k, v))"
  using key_chars [of k] plain_secret_no_break [of v] by (simp add: env_line_def is_line_break_def [of "CHR ''=''"] code_def)

lemma parse_secrets_body:
  assumes "plain_secret sk" and "plain_secret ek"
  shows "parse_env_file (Some (secrets_body sk ek)) = [(''SECRET_KEY'', sk), (''ENCRYPTION_KEY'', ek)]"
proof -
  have keys: "''SECRET_KEY'' \<in> set SECRET_KEYS" "''ENCRYPTION_KEY'' \<in> set SECRET_KEYS" by (simp_all add: SECRET_KEYS_def)
  have "splitlines (secrets_body sk ek) = [env_line (''SECRET_KEY'', sk), env_line (''ENCRYPTION_KEY'', ek)]"
    using env_line_no_break [OF keys(1) assms(1)] env_line_no_break [OF keys(2) assms(2)]
    by (simp add: secrets_body_def)
  then show ?thesis
    using parse_env_line_written [OF keys(1) assms(1)] parse_env_line_written [OF keys(2) assms(2)]
    by (simp add: parse_env_file_def map_filter_simps)
qed

text \<open>In the last line that sets a key, the value of the file.\<close>

lemma parse_env_file_lookup:
  "map_of (parse_env_file (Some text)) k = map_of (rev (List.map_filter parse_env_line (splitlines text))) k"
proof -
  have "map_of (fold (\<lambda>(k, v). AList.update k v) kvs m) = map_of m ++ map_of (rev kvs)" for kvs m :: "(string \<times> string) list"
    by (induction kvs arbitrary: m) (auto simp: update_conv' map_add_upd_left fun_eq_iff map_add_def split: option.split)
  then show ?thesis by (simp add: parse_env_file_def)
qed

lemma rstrip_keeps: "\<not> is_space c \<Longrightarrow> rstrip (u @ c # w) = u @ c # rstrip w"
proof (cases "\<exists>x \<in> set w. \<not> is_space x")
  case True
  then show ?thesis by (auto simp: rstrip_def dropWhile_append1)
next
  case False
  then have "dropWhile is_space (rev w @ z) = dropWhile is_space z" for z by (intro dropWhile_append2) simp
  from this [of "[]"] this show "\<not> is_space c \<Longrightarrow> ?thesis" by (simp add: rstrip_def)
qed

lemma before_char_first: "c \<notin> set u \<Longrightarrow> before_char c (u @ c # w) = u"
  by (induction u) (auto simp: before_char_def)

lemma before_char_strip: "strip (before_char CHR ''='' (strip s)) = strip (before_char CHR ''='' s)"
proof -
  have eq: "\<not> is_space CHR ''=''" by (simp add: is_space_def code_def)
  have l: "before_char CHR ''='' (lstrip t) = lstrip (before_char CHR ''='' t)" for t
    using eq by (induction t) (auto simp: before_char_def lstrip_def)
  have r: "before_char CHR ''='' (rstrip t) = before_char CHR ''='' t" if "CHR ''='' \<in> set t" for t
  proof -
    from split_list_first [OF that] obtain u w where t: "t = u @ CHR ''='' # w" "CHR ''='' \<notin> set u" by blast
    then show ?thesis using rstrip_keeps [OF eq, of u w] by (simp add: before_char_first)
  qed
  have none: "before_char CHR ''='' t = t" if "CHR ''='' \<notin> set t" for t
    using that by (auto simp: before_char_def takeWhile_eq_all_conv)
  have idem: "strip (lstrip t) = strip t" for t
    by (simp add: strip_def lstrip_def dropWhile_idem)
  show ?thesis
  proof (cases "CHR ''='' \<in> set s")
    case True
    then have "CHR ''='' \<in> set (lstrip s)"
      using eq by (induction s) (auto simp: lstrip_def)
    then show ?thesis by (simp add: strip_def [of s] r l idem)
  next
    case False
    moreover from this have "CHR ''='' \<notin> set (strip s)" using set_strip [of s] by blast
    ultimately show ?thesis by (simp add: none)
  qed
qed

lemma parse_replaced:
  assumes "\<And>k v. (k, v) \<in> set replacements \<Longrightarrow> k \<in> set SECRET_KEYS \<and> plain_secret v" and "distinct (map fst replacements)"
    and "(k, v) \<in> set replacements" and "parse_env_line (fst (replace_env_line replacements line)) = Some (k, w)"
  shows "w = v"
proof (cases "snd (replace_env_line replacements line)")
  case None
  then have "parse_env_line line = Some (k, w)" and same: "fst (replace_env_line replacements line) = line"
    using assms(4) by (auto simp: replace_env_line_def Let_def split: if_splits option.splits)
  then have p: "\<not> startswith ''#'' (strip line)" "CHR ''='' \<in> set (strip line)" "k = strip (before_char CHR ''='' line)"
    by (auto simp: parse_env_line_def Let_def before_char_strip split: if_splits)
  then have "map_of replacements k = None"
    using None set_strip [of line] by (auto simp: replace_env_line_def Let_def split: if_splits option.splits)
  then show ?thesis using assms(3) by (auto simp: map_of_eq_None_iff image_iff)
next
  case (Some k')
  then obtain v' where v': "map_of replacements k' = Some v'" "fst (replace_env_line replacements line) = env_line (k', v')"
    by (auto simp: replace_env_line_def Let_def split: if_splits option.splits)
  then have "k' = k \<and> v' = w"
    using parse_env_line_written [of k' v'] assms(1) [OF map_of_SomeD [OF v'(1)]] assms(4) by simp
  then show ?thesis using v'(1) assms(2,3) by simp
qed

lemma map_of_only: "(k, v) \<in> set kvs \<Longrightarrow> (\<And>w. (k, w) \<in> set kvs \<Longrightarrow> w = v) \<Longrightarrow> map_of kvs k = Some v"
proof -
  assume mem: "(k, v) \<in> set kvs" and only: "\<And>w. (k, w) \<in> set kvs \<Longrightarrow> w = v"
  obtain w where "map_of kvs k = Some w" using weak_map_of_SomeI [OF mem] by blast
  then show "map_of kvs k = Some v" using only [OF map_of_SomeD] by simp
qed

lemma in_map_filter: "y \<in> set (List.map_filter f xs) \<longleftrightarrow> (\<exists>x \<in> set xs. f x = Some y)"
  by (induction xs) (auto simp: map_filter_simps split: option.splits)

lemma update_env_text_reads:
  assumes "\<And>k v. (k, v) \<in> set replacements \<Longrightarrow> k \<in> set SECRET_KEYS \<and> plain_secret v" and "distinct (map fst replacements)"
    and "(k, v) \<in> set replacements"
  shows "map_of (parse_env_file (Some (update_env_text replacements content))) k = Some v"
proof -
  let ?r = "replace_env_line replacements"
  define updated where "updated = map ?r (splitlines content)"
  define missing where "missing = filter (\<lambda>kv. fst kv \<notin> set (List.map_filter snd updated)) replacements"
  let ?ls = "map fst updated @ map env_line missing"
  have nb: "list_all (\<lambda>c. \<not> is_line_break c) l" if "l \<in> set ?ls" for l
    using that assms(1) splitlines_no_break [of _ content] env_line_no_break
    by (auto simp: updated_def missing_def replace_env_line_def Let_def dest!: map_of_SomeD split: if_splits option.splits)
  have found: "\<exists>l \<in> set ?ls. parse_env_line l = Some (k, v)"
  proof (cases "k \<in> set (List.map_filter snd updated)")
    case True
    then obtain l where "l \<in> set (splitlines content)" "snd (?r l) = Some k"
      by (auto simp: updated_def map_filter_def)
    moreover from this have "fst (?r l) = env_line (k, v)"
      using assms(2,3)
      by (auto simp: replace_env_line_def Let_def dest: eq_key_imp_eq_value [OF assms(2)] split: if_splits option.splits)
    ultimately show ?thesis
      using parse_env_line_written [of k v] assms(1) [OF assms(3)] by (force simp: updated_def)
  next
    case False
    then have "(k, v) \<in> set missing" using assms(3) by (simp add: missing_def)
    then show ?thesis using parse_env_line_written [of k v] assms(1) [OF assms(3)] by force
  qed
  have same: "w = v" if "l \<in> set ?ls" "parse_env_line l = Some (k, w)" for l w
    using that parse_replaced [OF assms(1,2,3)] parse_env_line_written assms
    by (auto simp: updated_def missing_def dest: eq_key_imp_eq_value)
  let ?kvs = "List.map_filter parse_env_line ?ls"
  have mem: "(k, v) \<in> set ?kvs" using found unfolding in_map_filter .
  have only: "w = v" if "(k, w) \<in> set ?kvs" for w using that same unfolding in_map_filter by blast
  have "map_of (rev ?kvs) k = Some v"
  proof (rule map_of_only)
    show "w = v" if "(k, w) \<in> set (rev ?kvs)" for w using only [of w] that by simp
  qed (use mem in simp)
  moreover have "splitlines (join [CHR 0x0A] ?ls @ [CHR 0x0A]) = ?ls"
    using nb found by (intro splitlines_join) auto
  ultimately show ?thesis
    by (simp add: parse_env_file_lookup update_env_text_def Let_def updated_def missing_def)
qed

text \<open>
  C17. What a restore writes, the next process finds: with plain secrets, the durable file gives both
  keys to the environment of every later start, and a writable \<^verbatim>\<open>.env\<close> assigns the same values whatever it
  held before.
\<close>

theorem secrets_survive_restart:
  assumes "write_application_secrets valid pytest sk ek d = (Inr u, d')" and "plain_secret (strip sk)" and "plain_secret (strip ek)"
    and "sd_durable next = sd_durable d'"
  shows "sd_environ (apply_persisted_secrets valid next) ''SECRET_KEY'' = Some (strip sk)
    \<and> sd_environ (apply_persisted_secrets valid next) ''ENCRYPTION_KEY'' = Some (strip ek)
    \<and> (\<not> pytest \<longrightarrow> sd_project d \<noteq> None \<longrightarrow>
         map_of (parse_env_file (sd_project d')) ''SECRET_KEY'' = Some (strip sk)
         \<and> map_of (parse_env_file (sd_project d')) ''ENCRYPTION_KEY'' = Some (strip ek))"
proof -
  obtain s e where v: "validate_persisted_secret valid ''SECRET_KEY'' sk = Inr s"
      "validate_persisted_secret valid ''ENCRYPTION_KEY'' ek = Inr e"
    using assms(1) by (cases "validate_persisted_secret valid ''SECRET_KEY'' sk";
        cases "validate_persisted_secret valid ''ENCRYPTION_KEY'' ek") (auto simp: write_application_secrets_def)
  note se = validated_secret [OF v(1)] validated_secret [OF v(2)]
  let ?new = "[(''SECRET_KEY'', s), (''ENCRYPTION_KEY'', e)]"
  have d': "sd_durable d' = Some (secrets_body s e)"
    "sd_project d' = (if pytest then sd_project d else map_option (update_env_text ?new) (sd_project d))"
    using assms(1) by (auto simp: write_application_secrets_def v)
  have again: "validate_persisted_secret valid ''SECRET_KEY'' s = Inr s" "validate_persisted_secret valid ''ENCRYPTION_KEY'' e = Inr e"
    using v se by (auto simp: validate_persisted_secret_def Let_def split: if_splits)
  have parsed: "parse_env_file (sd_durable next) = ?new"
    using assms(2-4) se d'(1) parse_secrets_body [of s e] by simp
  have "map_of (parse_env_file (Some (update_env_text ?new content))) k = Some w" if "(k, w) \<in> set ?new" for content k w
    by (rule update_env_text_reads [OF _ _ that]) (use assms(2,3) se in \<open>auto simp: SECRET_KEYS_def\<close>)
  then show ?thesis
    using d'(2) se again parsed
    by (auto simp: apply_persisted_secrets_def persisted_secrets_def map_filter_simps)
qed

text \<open>A secret that is quoted loses its quotes, and one with the line separator U+0085 is cut there, although
  control characters are refused so that no line can be smuggled in.\<close>

lemma quoted_secret_changes:
  "parse_env_file (Some (secrets_body [CHR 0x22, CHR ''a'', CHR 0x22] ''k'')) = [(''SECRET_KEY'', ''a''), (''ENCRYPTION_KEY'', ''k'')]"
  by code_simp

lemma smuggled_secret:
  "validate_persisted_secret valid ''SECRET_KEY'' (''abc'' @ chr 133 # ''SECRET_KEY=evil'') = Inr (''abc'' @ chr 133 # ''SECRET_KEY=evil'')"
  "parse_env_file (Some (secrets_body (''abc'' @ chr 133 # ''SECRET_KEY=evil'') ''k'')) = [(''SECRET_KEY'', ''evil''), (''ENCRYPTION_KEY'', ''k'')]"
  by (simp_all add: validate_persisted_secret_def) code_simp+

theorem secrets_survive_restart_witness:
  "\<exists>d'. write_application_secrets (\<lambda>_. True) False ''s3cret'' ''ZmVybmV0'' \<lparr>sd_durable = None, sd_project = Some ''A=1'', sd_environ = Map.empty\<rparr>
      = (Inr (), d')
    \<and> sd_environ (apply_persisted_secrets (\<lambda>_. True) (d'\<lparr>sd_environ := Map.empty\<rparr>)) ''SECRET_KEY'' = Some ''s3cret''"
proof -
  let ?d = "\<lparr>sd_durable = None, sd_project = Some ''A=1'', sd_environ = Map.empty\<rparr>"
  have v: "validate_persisted_secret (\<lambda>_. True) ''SECRET_KEY'' ''s3cret'' = Inr ''s3cret''"
    "validate_persisted_secret (\<lambda>_. True) ''ENCRYPTION_KEY'' ''ZmVybmV0'' = Inr ''ZmVybmV0''" by code_simp+
  obtain d' where run: "write_application_secrets (\<lambda>_. True) False ''s3cret'' ''ZmVybmV0'' ?d = (Inr (), d')"
    by (simp add: write_application_secrets_def v)
  have plain: "plain_secret (strip ''s3cret'')" "plain_secret (strip ''ZmVybmV0'')" "strip ''s3cret'' = ''s3cret''" by code_simp+
  have "sd_durable (d'\<lparr>sd_environ := Map.empty\<rparr>) = sd_durable d'" by simp
  from secrets_survive_restart [OF run plain(1,2) this] run plain(3) show ?thesis by auto
qed

end
