(* ===== verification/Certs.thy ===== *)
theory Certs
  imports SyslogConfig PyText
begin

text \<open>
  The listener certificate, \<^verbatim>\<open>ssl_certs.py\<close>, and the URLs of \<^verbatim>\<open>restart.py\<close>. The certificate directory is
  a store of its four files; writing a file replaces it as a whole, as \<^verbatim>\<open>os.replace\<close> does. The
  \<^verbatim>\<open>cryptography\<close> package and the \<^verbatim>\<open>openssl\<close> binary are parameters. A call reads the clock once
  (\<open>now\<close>, in microseconds). \<^verbatim>\<open>CertificateInstallError\<close> is a \<^verbatim>\<open>ValueError\<close>, and
  \<^verbatim>\<open>OpenSSLUnavailableError\<close> a \<^verbatim>\<open>RuntimeError\<close>.
\<close>

section \<open>The directory and the libraries\<close>

record cert_store =
  cs_key :: "string option"
  cs_cert :: "string option"
  cs_source :: "string option"
  cs_account :: "string option"

definition empty_store :: cert_store where
  "empty_store = \<lparr>cs_key = None, cs_cert = None, cs_source = None, cs_account = None\<rparr>"

text \<open>The class of a public key with its \<^verbatim>\<open>public_numbers\<close>; \<open>OtherKey\<close> is any further class.\<close>

datatype public_key = RsaKey string | EcKey string | DsaKey string | OtherKey string

text \<open>\<open>crt_names\<close> and \<open>crt_alt_names\<close> are what the extraction of the common names and of the
  alternative names gives; it may raise.\<close>

record certificate =
  crt_public :: public_key
  crt_not_after :: int
  crt_fingerprint :: string
  crt_names :: "string list res"
  crt_alt_names :: "string list res"

text \<open>A loaded private key is a handle; \<open>private_pem\<close> is its PKCS8 form. \<open>openssl_run\<close> gives the message of an
  \<^verbatim>\<open>OSError\<close>, or the exit code, the error output and the two files.\<close>

record pki =
  load_private :: "string \<Rightarrow> string res"
  private_pem :: "string \<Rightarrow> string"
  public_of :: "string \<Rightarrow> public_key"
  public_der :: "public_key \<Rightarrow> string"
  load_certs :: "string \<Rightarrow> certificate list res"
  openssl_path :: "string option"
  openssl_run :: "string list \<Rightarrow> string + (int \<times> string \<times> string \<times> string)"

definition SOURCE_SELF_SIGNED :: string where "SOURCE_SELF_SIGNED = ''self_signed''"
definition SOURCE_UPLOADED :: string where "SOURCE_UPLOADED = ''uploaded''"
definition SOURCE_LETSENCRYPT :: string where "SOURCE_LETSENCRYPT = ''letsencrypt''"

lemmas source_defs = SOURCE_SELF_SIGNED_def SOURCE_UPLOADED_def SOURCE_LETSENCRYPT_def

text \<open>The text of the directory, before \<^verbatim>\<open>pathlib\<close> expands and normalises it.\<close>

definition cert_dir :: "env \<Rightarrow> host \<Rightarrow> string" where
  "cert_dir env h =
     or_text (case getenv env ''APP_SSL_DIR'' of None \<Rightarrow> [] | Some d \<Rightarrow> d)
       (or_text (case getenv env ''SSL_CERT_DIR'' of None \<Rightarrow> [] | Some d \<Rightarrow> d)
          (if in_docker h then ''/app/data/ssl'' else ''./data/ssl''))"

definition cert_exists :: "cert_store \<Rightarrow> bool" where
  "cert_exists st \<longleftrightarrow> cs_key st \<noteq> None \<and> cs_cert st \<noteq> None"

definition write_source :: "string \<Rightarrow> cert_store \<Rightarrow> cert_store" where
  "write_source value st = st\<lparr>cs_source := Some (strip value @ [CHR 0x0A])\<rparr>"

definition read_source :: "cert_store \<Rightarrow> string option" where
  "read_source st =
     (case cs_source st of
        None \<Rightarrow> None
      | Some raw \<Rightarrow> let value = strip raw in
          if value \<in> {SOURCE_SELF_SIGNED, SOURCE_UPLOADED, SOURCE_LETSENCRYPT} then Some value else None)"

definition coerce_truthy :: "string option \<Rightarrow> bool option" where
  "coerce_truthy raw =
     (case raw of
        None \<Rightarrow> None
      | Some r \<Rightarrow> let value = lower (strip r) in
          if value \<in> {''1'', ''true'', ''yes'', ''on'', ''enabled''} then Some True
          else if value \<in> {''0'', ''false'', ''no'', ''off'', ''disabled''} then Some False
          else None)"

section \<open>Metadata\<close>

record cert_info =
  ci_common_name :: string
  ci_not_after :: "int option"
  ci_fingerprint :: string
  ci_source :: string
  ci_expired :: bool
  ci_alt_names :: "string list"
  ci_error :: "string option"
  ci_app_dns_name :: "string option"

definition common_name_of :: "certificate \<Rightarrow> string" where
  "common_name_of c = (case crt_names c of Inr (n # _) \<Rightarrow> n | _ \<Rightarrow> [])"

definition subject_alt_names_of :: "certificate \<Rightarrow> string list" where
  "subject_alt_names_of c = (case crt_alt_names c of Inr ns \<Rightarrow> ns | Inl _ \<Rightarrow> [])"

fun pairs :: "string \<Rightarrow> string list" where
  "pairs (a # b # r) = [a, b] # pairs r"
| "pairs [a] = [[a]]"
| "pairs [] = []"

definition stored_source :: "cert_store \<Rightarrow> string" where
  "stored_source st = (case read_source st of Some s \<Rightarrow> s | None \<Rightarrow> SOURCE_SELF_SIGNED)"

definition cert_metadata :: "pki \<Rightarrow> int \<Rightarrow> cert_store \<Rightarrow> cert_info option" where
  "cert_metadata p now st =
     (if \<not> cert_exists st then None
      else
        (case rbind (load_certs p (the (cs_cert st)))
              (\<lambda>cs. case cs of [] \<Rightarrow> Inl (ValueError ''Unable to load PEM file.'') | c # _ \<Rightarrow> Inr c) of
           Inl _ \<Rightarrow> Some \<lparr>ci_common_name = [], ci_not_after = None, ci_fingerprint = [],
             ci_source = stored_source st, ci_expired = True, ci_alt_names = [],
             ci_error = Some ''Unable to parse certificate file.'', ci_app_dns_name = None\<rparr>
         | Inr c \<Rightarrow> Some \<lparr>ci_common_name = common_name_of c, ci_not_after = Some (crt_not_after c),
             ci_fingerprint = join '':'' (pairs (upper (crt_fingerprint c))),
             ci_source = stored_source st, ci_expired = crt_not_after c \<le> now,
             ci_alt_names = subject_alt_names_of c, ci_error = None, ci_app_dns_name = None\<rparr>))"

text \<open>\<^verbatim>\<open>cert_metadata() or {}\<close>\<close>

definition no_info :: cert_info where
  "no_info = \<lparr>ci_common_name = [], ci_not_after = None, ci_fingerprint = [], ci_source = [], ci_expired = False,
     ci_alt_names = [], ci_error = None, ci_app_dns_name = None\<rparr>"

definition metadata_or_empty :: "pki \<Rightarrow> int \<Rightarrow> cert_store \<Rightarrow> cert_info" where
  "metadata_or_empty p now st = (case cert_metadata p now st of Some i \<Rightarrow> i | None \<Rightarrow> no_info)"

section \<open>Installing a pair\<close>

definition MAX_SSL_KEY_UPLOAD_BYTES :: nat where "MAX_SSL_KEY_UPLOAD_BYTES = 65536"
definition MAX_SSL_CERT_UPLOAD_BYTES :: nat where "MAX_SSL_CERT_UPLOAD_BYTES = 262144"

text \<open>The chunks are what the upload's \<^verbatim>\<open>read\<close> returns, up to the first empty one.\<close>

fun read_chunks :: "nat \<Rightarrow> nat \<Rightarrow> string \<Rightarrow> string list \<Rightarrow> string res" where
  "read_chunks max_bytes n acc [] = Inr acc"
| "read_chunks max_bytes n acc (c # cs) =
     (if c = [] then Inr acc
      else let n' = n + length c in
        if max_bytes < n'
        then Inl (ValueError (''Upload exceeds the maximum allowed size of '' @ show_int (int max_bytes) @ '' bytes.''))
        else read_chunks max_bytes n' (acc @ c) cs)"

definition read_upload_bounded :: "string list \<Rightarrow> nat \<Rightarrow> string res" where
  "read_upload_bounded chunks max_bytes = read_chunks max_bytes 0 [] chunks"

definition load_private_key :: "pki \<Rightarrow> string \<Rightarrow> string res" where
  "load_private_key p pem =
     (case load_private p pem of
        Inr k \<Rightarrow> Inr k
      | Inl e \<Rightarrow>
          if exc_name e = ''TypeError''
          then Inl (ValueError ''Encrypted private keys are not supported. Decrypt the key before uploading.'')
          else if is_value_error e
          then Inl (ValueError ''Private key is not a valid PEM file or is encrypted.'')
          else Inl e)"

definition load_pem_certificates :: "pki \<Rightarrow> string \<Rightarrow> certificate list res" where
  "load_pem_certificates p pem =
     (case load_certs p pem of
        Inl e \<Rightarrow> if is_value_error e then Inl (ValueError ''Certificate file is not a valid PEM bundle.'') else Inl e
      | Inr [] \<Rightarrow> Inl (ValueError ''Certificate file did not contain any PEM certificates.'')
      | Inr cs \<Rightarrow> Inr cs)"

fun public_keys_match :: "pki \<Rightarrow> string \<Rightarrow> certificate \<Rightarrow> bool" where
  "public_keys_match p k c =
     (case (crt_public c, public_of p k) of
        (RsaKey a, RsaKey b) \<Rightarrow> a = b
      | (EcKey a, EcKey b) \<Rightarrow> a = b
      | (DsaKey a, DsaKey b) \<Rightarrow> a = b
      | (a, b) \<Rightarrow> public_der p a = public_der p b)"

declare public_keys_match.simps [simp del]

definition blank_bytes :: "string \<Rightarrow> bool" where
  "blank_bytes b = list_all (\<lambda>c. code c \<in> {9, 10, 11, 12, 13, 32}) b"

definition too_big :: "string \<Rightarrow> nat \<Rightarrow> py_exc" where
  "too_big what n =
     ValueError (what @ '' upload exceeds the maximum allowed size of '' @ show_int (int n) @ '' bytes.'')"

text \<open>The pair that is written: the key in its PKCS8 form, the certificates as uploaded.\<close>

definition check_pair :: "pki \<Rightarrow> int \<Rightarrow> string \<Rightarrow> string \<Rightarrow> (string \<times> string) res" where
  "check_pair p now key_pem cert_pem =
     rbind (guard (length key_pem \<le> MAX_SSL_KEY_UPLOAD_BYTES) (too_big ''Private key'' MAX_SSL_KEY_UPLOAD_BYTES)) (\<lambda>_.
     rbind (guard (length cert_pem \<le> MAX_SSL_CERT_UPLOAD_BYTES) (too_big ''Certificate'' MAX_SSL_CERT_UPLOAD_BYTES)) (\<lambda>_.
     rbind (guard (\<not> blank_bytes key_pem) (ValueError ''Private key file is empty.'')) (\<lambda>_.
     rbind (guard (\<not> blank_bytes cert_pem) (ValueError ''Certificate file is empty.'')) (\<lambda>_.
     rbind (load_private_key p key_pem) (\<lambda>k.
     rbind (load_pem_certificates p cert_pem) (\<lambda>cs.
     rbind (guard (public_keys_match p k (hd cs)) (ValueError ''Private key does not match the certificate.'')) (\<lambda>_.
     rbind (guard (now < crt_not_after (hd cs))
        (ValueError ''Certificate is expired. Upload a current certificate.'')) (\<lambda>_.
     Inr (private_pem p k, cert_pem)))))))))"

definition install_uploaded_cert :: "pki \<Rightarrow> int \<Rightarrow> string \<Rightarrow> string \<Rightarrow> (cert_store, cert_info) run" where
  "install_uploaded_cert p now key_pem cert_pem =
     sbind (lift_res (check_pair p now key_pem cert_pem)) (\<lambda>(key, cert).
     sbind (modify (\<lambda>st. write_source SOURCE_UPLOADED (st\<lparr>cs_key := Some key, cs_cert := Some cert\<rparr>))) (\<lambda>_.
     gets (metadata_or_empty p now)))"

definition install_letsencrypt_cert :: "pki \<Rightarrow> int \<Rightarrow> string \<Rightarrow> string \<Rightarrow> (cert_store, cert_info) run" where
  "install_letsencrypt_cert p now key_pem cert_pem =
     sbind (install_uploaded_cert p now key_pem cert_pem) (\<lambda>metadata.
     sbind (modify (write_source SOURCE_LETSENCRYPT)) (\<lambda>_.
     sbind (gets (cert_metadata p now)) (\<lambda>fresh.
     ret ((case fresh of Some i \<Rightarrow> i | None \<Rightarrow> metadata)\<lparr>ci_source := SOURCE_LETSENCRYPT\<rparr>))))"

section \<open>Self-signed certificates\<close>

text \<open>The command line; the files are written beside the installed ones first.\<close>

definition openssl_command :: "string \<Rightarrow> string \<Rightarrow> string \<Rightarrow> string list" where
  "openssl_command openssl dir name =
     [openssl, ''req'', ''-x509'', ''-newkey'', ''rsa:2048'', ''-nodes'', ''-keyout'', dir @ ''/server.key.new'',
      ''-out'', dir @ ''/server.crt.new'', ''-days'', ''825'', ''-subj'', ''/CN='' @ name @ ''/O=api-to-dns'',
      ''-addext'', ''subjectAltName=DNS:'' @ name @ '',DNS:localhost'']"

definition self_signed_name :: "env \<Rightarrow> host \<Rightarrow> db \<Rightarrow> string res" where
  "self_signed_name env h db =
     rbind (get_app_dns_name env h db) (\<lambda>n. validate_dns_hostname (or_text (strip n) ''apitodns.local''))"

definition create_self_signed_cert :: "env \<Rightarrow> host \<Rightarrow> pki \<Rightarrow> int \<Rightarrow> db \<Rightarrow> (cert_store, cert_info) run" where
  "create_self_signed_cert env h p now db =
     (case openssl_path p of
        None \<Rightarrow> raise (RuntimeError
          (''The '' @ [CHR 0x27] @ ''openssl'' @ [CHR 0x27] @ '' command was not found on PATH. Install OpenSSL or upload a PEM certificate instead.''))
      | Some openssl \<Rightarrow>
          sbind (lift_res (self_signed_name env h db)) (\<lambda>name.
          case openssl_run p (openssl_command openssl (cert_dir env h) name) of
            Inl err \<Rightarrow> raise (RuntimeError (''Failed to invoke openssl: '' @ err))
          | Inr (status, err, key, cert) \<Rightarrow>
              if status \<noteq> 0 then raise (RuntimeError (''openssl failed (exit '' @ show_int status @ ''): '' @ strip err))
              else
                sbind (modify (\<lambda>st. write_source SOURCE_SELF_SIGNED (st\<lparr>cs_key := Some key, cs_cert := Some cert\<rparr>))) (\<lambda>_.
                sbind (gets (metadata_or_empty p now)) (\<lambda>i.
                ret (i\<lparr>ci_app_dns_name := Some name\<rparr>)))))"

definition regenerate_self_signed_cert :: "env \<Rightarrow> host \<Rightarrow> pki \<Rightarrow> int \<Rightarrow> db \<Rightarrow> (cert_store, cert_info) run" where
  "regenerate_self_signed_cert env h p now db =
     sbind (modify (\<lambda>st. st\<lparr>cs_key := None, cs_cert := None\<rparr>)) (\<lambda>_. create_self_signed_cert env h p now db)"

section \<open>The listener\<close>

definition resolved_ssl_enabled :: "env \<Rightarrow> db \<Rightarrow> bool res" where
  "resolved_ssl_enabled env db =
     (case coerce_truthy (getenv env ''SSL_ENABLED'') of Some b \<Rightarrow> Inr b | None \<Rightarrow> is_ssl_enabled env db)"

definition port_from :: "env \<Rightarrow> string \<Rightarrow> int \<Rightarrow> int" where
  "port_from env name dflt =
     (case getenv env name of
        None \<Rightarrow> dflt
      | Some raw \<Rightarrow> if raw = [] then dflt else (case py_int raw of Some i \<Rightarrow> i | None \<Rightarrow> dflt))"

definition http_port :: "env \<Rightarrow> int" where "http_port env = port_from env ''HTTP_PORT'' 8000"
definition tls_port :: "env \<Rightarrow> int" where "tls_port env = port_from env ''TLS_PORT'' 8443"

definition display_host :: "env \<Rightarrow> host \<Rightarrow> db \<Rightarrow> string res" where
  "display_host env h db = map_res (\<lambda>n. or_text (strip n) ''localhost'') (get_app_dns_name env h db)"

definition format_url :: "string \<Rightarrow> string \<Rightarrow> int \<Rightarrow> string" where
  "format_url scheme host port =
     scheme @ ''://'' @ host
     @ (if scheme = ''http'' \<and> port = 80 \<or> scheme = ''https'' \<and> port = 443 then [] else '':'' @ show_int port)
     @ ''/login''"

definition access_url :: "env \<Rightarrow> host \<Rightarrow> db \<Rightarrow> bool \<Rightarrow> string res" where
  "access_url env h db use_env_override =
     rbind (if use_env_override then resolved_ssl_enabled env db else is_ssl_enabled env db) (\<lambda>enabled.
     map_res (\<lambda>host. if enabled then format_url ''https'' host (tls_port env) else format_url ''http'' host (http_port env))
       (display_host env h db))"

definition preview_restart_urls :: "env \<Rightarrow> host \<Rightarrow> db \<Rightarrow> (string \<times> string) res" where
  "preview_restart_urls env h db =
     rbind (access_url env h db True) (\<lambda>current. map_res (Pair current) (access_url env h db False))"

definition system_exit :: "int \<Rightarrow> py_exc" where
  "system_exit n = OtherError ''SystemExit'' (show_int n)"

definition is_invalid_token :: "py_exc \<Rightarrow> bool" where
  "is_invalid_token e = (exc_name e = ''InvalidToken'')"

text \<open>After \<^verbatim>\<open>init_db\<close>; the messages on the error output are left out.\<close>

definition bootstrap :: "env \<Rightarrow> db \<Rightarrow> cert_store \<Rightarrow> string res" where
  "bootstrap env db st =
     (case resolved_ssl_enabled env db of
        Inl e \<Rightarrow> Inl (if is_invalid_token e then system_exit 2 else e)
      | Inr enabled \<Rightarrow>
          if \<not> enabled then Inr ''http''
          else if \<not> cert_exists st then Inl (system_exit 2)
          else Inr ''https'')"

definition uvicorn_command :: "env \<Rightarrow> host \<Rightarrow> string \<Rightarrow> string \<Rightarrow> string list" where
  "uvicorn_command env h executable mode =
     (let base = [executable, ''-m'', ''uvicorn'', ''src.app:app'', ''--host'', ''0.0.0.0''];
          extra = split_ws (case getenv env ''UVICORN_EXTRA_ARGS'' of None \<Rightarrow> [] | Some a \<Rightarrow> a)
      in if mode = ''https''
         then base @ [''--port'', show_int (tls_port env)] @ extra
           @ [''--ssl-keyfile'', cert_dir env h @ ''/server.key'', ''--ssl-certfile'', cert_dir env h @ ''/server.crt'',
              ''--workers'', ''1'']
         else base @ [''--port'', show_int (http_port env)] @ extra @ [''--workers'', ''1''])"

text \<open>\<open>http_get url\<close> is the status of the response, also of an \<^verbatim>\<open>HTTPError\<close>, or another exception.\<close>

definition healthcheck :: "env \<Rightarrow> db \<Rightarrow> cert_store \<Rightarrow> (string \<Rightarrow> int res) \<Rightarrow> int res" where
  "healthcheck env db st http_get =
     (case resolved_ssl_enabled env db of
        Inl e \<Rightarrow> if is_invalid_token e then Inr 1 else Inl e
      | Inr enabled \<Rightarrow>
          let url = (if enabled \<and> cert_exists st then ''https://127.0.0.1:'' @ show_int (tls_port env) @ ''/health''
                     else ''http://127.0.0.1:'' @ show_int (http_port env) @ ''/health'')
          in (case http_get url of Inr status \<Rightarrow> Inr (if status < 500 then 0 else 1) | Inl _ \<Rightarrow> Inr 1))"

text \<open>\<open>call\<close> is \<^verbatim>\<open>subprocess.call\<close>.\<close>

definition serve :: "env \<Rightarrow> host \<Rightarrow> string \<Rightarrow> (string list \<Rightarrow> int) \<Rightarrow> db \<Rightarrow> cert_store \<Rightarrow> int res" where
  "serve env h executable call db st = map_res (\<lambda>mode. call (uvicorn_command env h executable mode)) (bootstrap env db st)"

definition cli :: "env \<Rightarrow> host \<Rightarrow> string \<Rightarrow> (string list \<Rightarrow> int) \<Rightarrow> (string \<Rightarrow> int res) \<Rightarrow> db \<Rightarrow> cert_store
    \<Rightarrow> string list \<Rightarrow> int res" where
  "cli env h executable call http_get db st argv =
     (case argv of
        [] \<Rightarrow> Inr 2
      | command # _ \<Rightarrow>
          if command = ''bootstrap'' then map_res (\<lambda>_. 0) (bootstrap env db st)
          else if command = ''serve'' then serve env h executable call db st
          else if command = ''healthcheck'' then healthcheck env db st http_get
          else Inr 2)"

section \<open>The pair that is served\<close>

text \<open>What \<^verbatim>\<open>cryptography\<close> and \<^verbatim>\<open>openssl req -x509 -newkey\<close> document: a written key loads as itself, and a
  successful run leaves a key and a certificate of that key.\<close>

definition matching_pair :: "pki \<Rightarrow> string \<Rightarrow> string \<Rightarrow> bool" where
  "matching_pair p key cert \<longleftrightarrow>
     (\<exists>k c cs. load_private p key = Inr k \<and> load_certs p cert = Inr (c # cs) \<and> public_keys_match p k c)"

definition pki_ok :: "pki \<Rightarrow> bool" where
  "pki_ok p \<longleftrightarrow> (\<forall>k. load_private p (private_pem p k) = Inr k)
     \<and> (\<forall>cmd err key cert. openssl_run p cmd = Inr (0, err, key, cert) \<longrightarrow> matching_pair p key cert)"

datatype cert_request =
    Upload int string string
  | Issued int string string
  | SelfSigned int db
  | Regenerate int db

fun run_cert :: "env \<Rightarrow> host \<Rightarrow> pki \<Rightarrow> cert_request \<Rightarrow> (cert_store, cert_info) run" where
  "run_cert env h p (Upload now key cert) = install_uploaded_cert p now key cert"
| "run_cert env h p (Issued now key cert) = install_letsencrypt_cert p now key cert"
| "run_cert env h p (SelfSigned now db) = create_self_signed_cert env h p now db"
| "run_cert env h p (Regenerate now db) = regenerate_self_signed_cert env h p now db"

inductive cert_reach :: "env \<Rightarrow> host \<Rightarrow> pki \<Rightarrow> cert_store \<Rightarrow> bool" for env h p where
  cert_start: "cert_reach env h p empty_store"
| cert_step: "cert_reach env h p st \<Longrightarrow> cert_reach env h p (snd (run_cert env h p req st))"

definition pair_ok :: "pki \<Rightarrow> cert_store \<Rightarrow> bool" where
  "pair_ok p st \<longleftrightarrow>
     (case (cs_key st, cs_cert st) of
        (Some key, Some cert) \<Rightarrow> matching_pair p key cert
      | (None, None) \<Rightarrow> True
      | _ \<Rightarrow> False)"

lemma pair_ok_write_source [simp]: "pair_ok p (write_source s st) = pair_ok p st"
  by (simp add: pair_ok_def write_source_def)

lemma pair_ok_written [simp]:
  "pair_ok p (st\<lparr>cs_key := Some key, cs_cert := Some cert\<rparr>) = matching_pair p key cert"
  "pair_ok p (st\<lparr>cs_key := None, cs_cert := None\<rparr>)"
  by (simp_all add: pair_ok_def)

lemma check_pair_Inr:
  assumes "check_pair p now key_pem cert_pem = Inr (key, cert)"
  obtains k c cs where "key = private_pem p k" "load_private p key_pem = Inr k" "cert = cert_pem"
    "load_certs p cert_pem = Inr (c # cs)" "public_keys_match p k c" "now < crt_not_after c"
  using assms that
  by (auto simp: check_pair_def rbind_eq_Inr load_private_key_def load_pem_certificates_def
      split: sum.splits list.splits if_splits)

lemma keeps_lift_bind:
  "(\<And>x. r = Inr x \<Longrightarrow> keeps I (f x)) \<Longrightarrow> keeps I (sbind (lift_res r) f)"
  by (cases r) (auto simp: keeps_def sbind_def lift_res_def split: sum.splits)

lemma keeps_install:
  assumes "pki_ok p"
  shows "keeps (pair_ok p) (install_uploaded_cert p now key_pem cert_pem)"
  unfolding install_uploaded_cert_def
proof (rule keeps_lift_bind)
  fix x
  assume run: "check_pair p now key_pem cert_pem = Inr x"
  obtain key cert where x: "x = (key, cert)" by (cases x)
  have "matching_pair p key cert"
    using run assms unfolding x by (elim check_pair_Inr) (auto simp: matching_pair_def pki_ok_def)
  then show "keeps (pair_ok p) ((case x of (key, cert) \<Rightarrow>
      sbind (modify (\<lambda>st. write_source SOURCE_UPLOADED (st\<lparr>cs_key := Some key, cs_cert := Some cert\<rparr>))) (\<lambda>_.
      gets (metadata_or_empty p now))))"
    unfolding x prod.case by (intro keeps_intro) simp
qed

lemma keeps_self_signed:
  assumes "pki_ok p"
  shows "keeps (pair_ok p) (create_self_signed_cert env h p now db)"
proof -
  have "keeps (pair_ok p) (sbind (modify (\<lambda>st. write_source SOURCE_SELF_SIGNED (st\<lparr>cs_key := Some key, cs_cert := Some cert\<rparr>)))
      (\<lambda>_. sbind (gets (metadata_or_empty p now)) (\<lambda>i. ret (i\<lparr>ci_app_dns_name := Some name\<rparr>))))"
    if "openssl_run p cmd = Inr (0, err, key, cert)" for cmd err key cert name
    using assms that by (intro keeps_intro) (auto simp: pki_ok_def)
  then show ?thesis
    unfolding create_self_signed_cert_def
    by (auto intro!: keeps_intro keeps_lift_bind split: option.split sum.split)
qed

lemma cert_reach_pair_ok:
  assumes "pki_ok p" and "cert_reach env h p st"
  shows "pair_ok p st"
  using assms(2)
proof induction
  case cert_start
  show ?case by (simp add: pair_ok_def empty_store_def)
next
  case (cert_step st req)
  have "keeps (pair_ok p) (run_cert env h p req)"
  proof (cases req)
    case (Regenerate now db)
    then show ?thesis
      by (simp add: regenerate_self_signed_cert_def)
        (intro keeps_intro keeps_self_signed [OF assms(1)], simp)
  qed (auto simp: install_letsencrypt_cert_def intro!: keeps_intro keeps_install keeps_self_signed assms(1))
  then show ?case using cert_step.IH by (simp add: keeps_def)
qed


text \<open>A failed installation changes nothing.\<close>

lemma failed_install_changes_nothing:
  "install_uploaded_cert p now key cert st = (Inl e, st') \<Longrightarrow> st' = st"
  by (auto simp: install_uploaded_cert_def sbind_def lift_res_def modify_def gets_def split: sum.splits)

text \<open>
  C39. A failed recreation of the self-signed certificate leaves no certificate at all, whatever was
  installed before: with TLS enabled the next start exits with status 2.
\<close>

theorem failed_regeneration_stops_the_next_start:
  assumes "regenerate_self_signed_cert env h p now db st = (Inl e, st')"
    and "resolved_ssl_enabled env db' = Inr True"
  shows "bootstrap env db' st' = Inl (system_exit 2)"
proof -
  have "\<not> cert_exists st'"
    using assms(1)
    by (auto simp: regenerate_self_signed_cert_def create_self_signed_cert_def sbind_def modify_def raise_def
        lift_res_def gets_def ret_def cert_exists_def split: option.splits sum.splits prod.splits if_splits)
  then show ?thesis using assms(2) by (simp add: bootstrap_def)
qed

text \<open>
  The URL that the restart page announces does not know the variable \<^verbatim>\<open>SSL_ENABLED\<close>: when the
  variable contradicts the setting, the announced scheme is the one the new process does not serve.
\<close>

lemma restart_preview_ignores_override:
  assumes "coerce_truthy (getenv env ''SSL_ENABLED'') = Some b" and "is_ssl_enabled env db = Inr (\<not> b)"
    and "preview_restart_urls env h db = Inr (current, announced)" and "bootstrap env db' st = Inr mode"
  shows "mode = (if b then ''https'' else ''http'')
    \<and> startswith ((if b then ''http'' else ''https'') @ ''://'') announced"
proof -
  have "mode = (if b then ''https'' else ''http'')"
    using assms(1,4) by (auto simp: bootstrap_def resolved_ssl_enabled_def split: if_splits)
  moreover have "\<exists>host. announced = (if b then format_url ''http'' host (http_port env) else format_url ''https'' host (tls_port env))"
    using assms(2,3)
    by (cases "display_host env h db") (auto simp: preview_restart_urls_def access_url_def rbind_eq_Inr map_res_def split: sum.splits if_splits)
  moreover have "startswith (scheme @ ''://'') (format_url scheme host port)" for scheme host port
    by (simp add: format_url_def startswith_def)
  from this [of "''http''"] this [of "''https''"] calculation show ?thesis by auto
qed

section \<open>A concrete library\<close>

definition demo_pki :: pki where
  "demo_pki = \<lparr>load_private = Inr, private_pem = (\<lambda>k. k), public_of = RsaKey, public_der = (\<lambda>k. []),
     load_certs = (\<lambda>s. Inr [\<lparr>crt_public = RsaKey s, crt_not_after = 100, crt_fingerprint = ''ab'',
       crt_names = Inr [''cn''], crt_alt_names = Inr []\<rparr>]),
     openssl_path = None, openssl_run = (\<lambda>_. Inl [])\<rparr>"

text \<open>An environment that forces plain HTTP.\<close>

definition http_env :: env where
  "http_env = demo_env\<lparr>getenv := (\<lambda>v. if v = ''SSL_ENABLED'' then Some ''0'' else None)\<rparr>"

definition tls_db :: db where
  "tls_db = set_setting demo_env ''ssl_enabled'' ''true'' empty_db"

lemma demo_pki_ok: "pki_ok demo_pki"
  by (simp add: pki_ok_def demo_pki_def)

lemma demo_tls: "is_ssl_enabled demo_env tls_db = Inr True" "resolved_ssl_enabled demo_env tls_db = Inr True"
  "is_ssl_enabled http_env tls_db = Inr True"
  by code_simp+

lemma demo_upload:
  "run_cert demo_env demo_host demo_pki (Upload 0 ''k'' ''k'') empty_store
     = (Inr (metadata_or_empty demo_pki 0 (write_source SOURCE_UPLOADED (empty_store\<lparr>cs_key := Some ''k'', cs_cert := Some ''k''\<rparr>))),
        write_source SOURCE_UPLOADED (empty_store\<lparr>cs_key := Some ''k'', cs_cert := Some ''k''\<rparr>))"
proof -
  have "check_pair demo_pki 0 ''k'' ''k'' = Inr (''k'', ''k'')"
    by (simp add: check_pair_def MAX_SSL_KEY_UPLOAD_BYTES_def MAX_SSL_CERT_UPLOAD_BYTES_def blank_bytes_def demo_pki_def
        load_private_key_def load_pem_certificates_def public_keys_match.simps code_def)
  then show ?thesis by (simp add: install_uploaded_cert_def sbind_def)
qed


theorem failed_regeneration_stops_the_next_start_witness:
  "\<exists>st' :: cert_store. bootstrap demo_env tls_db st' = Inl (system_exit 2)"
proof -
  have "\<exists>e st'. regenerate_self_signed_cert demo_env demo_host demo_pki 0 tls_db
      (empty_store\<lparr>cs_key := Some ''k'', cs_cert := Some ''k''\<rparr>) = (Inl e, st')"
    by (simp add: regenerate_self_signed_cert_def create_self_signed_cert_def demo_pki_def)
  then show ?thesis using failed_regeneration_stops_the_next_start [OF _ demo_tls(2)] by blast
qed

lemma http_env_forces: "coerce_truthy (getenv http_env ''SSL_ENABLED'') = Some False"
  by code_simp

lemma demo_display: "display_host http_env demo_host tls_db = Inr ''dns-gw''"
  by code_simp

end
