(* ===== verification/LeConfig.thy ===== *)
theory LeConfig
  imports Certs PyJson ZoneService
begin

text \<open>
  The stored state of \<^verbatim>\<open>letsencrypt.py\<close>: the configuration, the enrollment and its progress (JSON settings),
  and the names of a certificate. \<^verbatim>\<open>begin_immediate\<close> locks the database: the check and the write of
  \<^verbatim>\<open>try_begin_enrollment\<close> are one step of the model. Ids of zones are stored as numbers.
\<close>

definition SETTING_CONFIG :: string where "SETTING_CONFIG = ''letsencrypt_config''"
definition SETTING_ENROLLMENT :: string where "SETTING_ENROLLMENT = ''letsencrypt_enrollment''"
definition SETTING_ENROLLMENT_PROGRESS :: string where
  "SETTING_ENROLLMENT_PROGRESS = ''letsencrypt_enrollment_progress''"
definition CHALLENGE_DNS :: string where "CHALLENGE_DNS = ''dns-01''"
definition CHALLENGE_HTTP :: string where "CHALLENGE_HTTP = ''http-01''"
definition RENEW_OPTIONS :: "int list" where "RENEW_OPTIONS = [7, 14, 21, 30, 45, 60]"
definition DEFAULT_RENEW_BEFORE_DAYS :: int where "DEFAULT_RENEW_BEFORE_DAYS = 30"
definition DEFAULT_SCHEDULED_RESTART_TIME :: string where "DEFAULT_SCHEDULED_RESTART_TIME = ''03:00''"
definition PRODUCTION_DIRECTORY :: string where
  "PRODUCTION_DIRECTORY = ''https://acme-v02.api.letsencrypt.org/directory''"
definition STAGING_DIRECTORY :: string where
  "STAGING_DIRECTORY = ''https://acme-staging-v02.api.letsencrypt.org/directory''"

lemmas le_keys = SETTING_CONFIG_def SETTING_ENROLLMENT_def SETTING_ENROLLMENT_PROGRESS_def

definition le_error :: "string \<Rightarrow> py_exc" where
  "le_error m = OtherError ''LetsEncryptError'' m"

definition is_le_error :: "py_exc \<Rightarrow> bool" where
  "is_le_error e = (exc_name e = ''LetsEncryptError'')"

lemma is_le_error_simps [simp]: "is_le_error (le_error m)" "\<not> is_le_error (ValueError m)"
  by (simp_all add: is_le_error_def le_error_def)

section \<open>JSON settings\<close>

definition read_json_setting :: "env \<Rightarrow> db \<Rightarrow> string \<Rightarrow> dict option res" where
  "read_json_setting env db name =
     (case get_typed_setting_by_key env db name of
        Inl e \<Rightarrow> if is_value_error e \<or> exc_name e = ''KeyError'' then Inr None else Inl e
      | Inr v \<Rightarrow> Inr (case value_json v of JObj d \<Rightarrow> Some d | _ \<Rightarrow> None))"

definition write_json_setting :: "env \<Rightarrow> string \<Rightarrow> dict \<Rightarrow> db \<Rightarrow> db res" where
  "write_json_setting env name d db = set_typed_setting_by_key env name (VJson (JObj d)) db"

definition get_enrollment :: "env \<Rightarrow> db \<Rightarrow> dict option res" where
  "get_enrollment env db = read_json_setting env db SETTING_ENROLLMENT"

definition clear_enrollment :: "db \<Rightarrow> db" where
  "clear_enrollment db = delete_setting SETTING_ENROLLMENT db"

text \<open>\<^verbatim>\<open>(d or {}).get(k)\<close> and \<^verbatim>\<open>(d or {}).get(k) or {}\<close>\<close>

definition oget :: "dict option \<Rightarrow> string \<Rightarrow> json" where
  "oget d k = (case d of None \<Rightarrow> JNull | Some d \<Rightarrow> jget d k)"

definition sub_dict :: "dict option \<Rightarrow> string \<Rightarrow> dict res" where
  "sub_dict d k = as_dict (json_or (oget d k) (JObj []))"

section \<open>Progress\<close>

definition clamp_percent :: "int \<Rightarrow> int" where
  "clamp_percent p = max 0 (min 100 p)"

definition opt_str :: "string option \<Rightarrow> json" where
  "opt_str v = (case v of None \<Rightarrow> JNull | Some s \<Rightarrow> JStr s)"

definition progress_dict :: "json \<Rightarrow> int \<Rightarrow> json \<Rightarrow> bool \<Rightarrow> json \<Rightarrow> json \<Rightarrow> dict" where
  "progress_dict phase percent message finished error result =
     [(''phase'', phase), (''percent'', JInt percent), (''message'', message), (''done'', JBool finished),
      (''error'', error), (''result_status'', result)]"

definition write_enrollment_progress ::
  "env \<Rightarrow> string \<Rightarrow> int \<Rightarrow> string \<Rightarrow> bool \<Rightarrow> string option \<Rightarrow> string option \<Rightarrow> db \<Rightarrow> db res" where
  "write_enrollment_progress env phase percent message finished error result db =
     write_json_setting env SETTING_ENROLLMENT_PROGRESS
       (progress_dict (JStr phase) (clamp_percent percent) (JStr message) finished (opt_str error) (opt_str result)) db"

definition get_enrollment_progress :: "env \<Rightarrow> db \<Rightarrow> dict res" where
  "get_enrollment_progress env db =
     rbind (read_json_setting env db SETTING_ENROLLMENT_PROGRESS) (\<lambda>raw.
     case raw of
       None \<Rightarrow> Inr (progress_dict (JStr ''idle'') 0 (JStr ''Idle'') False JNull JNull)
     | Some d \<Rightarrow>
         if d = [] then Inr (progress_dict (JStr ''idle'') 0 (JStr ''Idle'') False JNull JNull)
         else
           map_res (\<lambda>p. progress_dict (json_or (jget d ''phase'') (JStr ''idle'')) (clamp_percent p)
               (json_or (jget d ''message'') (JStr [])) (json_truthy (jget d ''done'')) (jget d ''error'')
               (jget d ''result_status''))
             (json_int (json_or (jget d ''percent'') (JInt 0))))"

definition clear_enrollment_progress :: "db \<Rightarrow> db" where
  "clear_enrollment_progress db = delete_setting SETTING_ENROLLMENT_PROGRESS db"

definition enrollment_is_running :: "dict \<Rightarrow> bool" where
  "enrollment_is_running progress \<longleftrightarrow>
     \<not> json_truthy (jget progress ''done'')
     \<and> lower (strip (json_text (json_or (jget progress ''phase'') (JStr ''idle'')))) \<notin> {[], ''idle''}"

definition is_enrollment_in_progress :: "env \<Rightarrow> db \<Rightarrow> bool res" where
  "is_enrollment_in_progress env db = map_res enrollment_is_running (get_enrollment_progress env db)"

definition try_begin_enrollment :: "env \<Rightarrow> string \<Rightarrow> db \<Rightarrow> (bool \<times> db) res" where
  "try_begin_enrollment env message db =
     rbind (is_enrollment_in_progress env db) (\<lambda>running.
     if running then Inr (False, db)
     else map_res (Pair True) (write_enrollment_progress env ''starting'' 0 message False None None db))"

definition mark_enrollment_worker_finished :: "env \<Rightarrow> db \<Rightarrow> db res" where
  "mark_enrollment_worker_finished env db =
     rbind (is_enrollment_in_progress env db) (\<lambda>running.
     if running then
       write_enrollment_progress env ''error'' 0 ''Enrollment worker ended unexpectedly.'' True
         (Some ''Enrollment worker ended unexpectedly.'') None db
     else Inr db)"

section \<open>Names\<close>

definition le_hostname :: "json \<Rightarrow> string" where
  "le_hostname value = lower (strip_char CHR ''.'' (strip (json_text (json_or value (JStr [])))))"

fun add_names :: "string list \<Rightarrow> json list \<Rightarrow> string list" where
  "add_names cleaned [] = cleaned"
| "add_names cleaned (part # parts) =
     (let domain = le_hostname part in
      add_names (if domain \<noteq> [] \<and> domain \<notin> set cleaned then cleaned @ [domain] else cleaned) parts)"

definition split_names :: "json \<Rightarrow> string list res" where
  "split_names names =
     (case names of
        JStr s \<Rightarrow> Inr (add_names [] (map JStr (split_char CHR '','' (replace_char CHR 0x0A '','' s))))
      | _ \<Rightarrow> map_res (add_names []) (json_iter names))"

definition name_under_root :: "string \<Rightarrow> string \<Rightarrow> bool" where
  "name_under_root name root =
     (let n = normalize_zone_name name; r = normalize_zone_name root in n = r \<or> endswith (CHR ''.'' # r) n)"

definition relative_acme_name :: "string \<Rightarrow> string \<Rightarrow> string" where
  "relative_acme_name domain zone_name =
     (let d = normalize_zone_name domain; z = normalize_zone_name zone_name;
          prefix = (if endswith (CHR ''.'' # z) d then take (length d - (length z + 1)) d else []);
          name = rstrip_char CHR ''.'' (''_acme-challenge.'' @ prefix)
      in if name = [] then ''_acme-challenge'' else name)"

definition cert_identities :: "dict \<Rightarrow> string list res" where
  "cert_identities config =
     (let cn = le_hostname (json_or (jget config ''common_name'') (JStr []));
          identities = (if cn \<noteq> [] then [cn] else []);
          sans = json_or (jget config ''subject_alt_names'') (JList [])
      in map_res (add_names identities)
           (case sans of JStr s \<Rightarrow> map_res (map JStr) (split_names sans) | _ \<Rightarrow> json_iter sans))"

definition zone_row :: "db \<Rightarrow> json \<Rightarrow> dns_zone_config option" where
  "zone_row db zone_id =
     (if \<not> json_truthy zone_id then None
      else case json_int zone_id of Inr i \<Rightarrow> if 0 \<le> i then get_zone db (nat i) else None | Inl _ \<Rightarrow> None)"

definition set_default :: "string \<Rightarrow> json \<Rightarrow> dict \<Rightarrow> dict" where
  "set_default k v d = (if map_of d k = None then AList.update k v d else d)"

definition legacy_root :: "env \<Rightarrow> db \<Rightarrow> json \<Rightarrow> string res" where
  "legacy_root env db zone_id =
     (case zone_row db zone_id of
        None \<Rightarrow> Inr []
      | Some zone \<Rightarrow>
          (case rbind (decode_zone_config env zone) provider_dns_zone of
             Inl e \<Rightarrow> if is_value_error e then Inr [] else Inl e
           | Inr d \<Rightarrow> Inr d))"

text \<open>A configuration of the current form, and one of the old form with \<^verbatim>\<open>domains\<close>.\<close>

definition normalize_current :: "string \<Rightarrow> dict \<Rightarrow> dict res" where
  "normalize_current default_cn config =
     (let root = le_hostname (json_or (jget config ''root_dns_domain'') (JStr []));
          cn = le_hostname (json_or (jget config ''common_name'') (JStr []));
          raw_sans = json_or (jget config ''subject_alt_names'') (JList [])
      in rbind (case raw_sans of
             JStr _ \<Rightarrow> split_names raw_sans
           | _ \<Rightarrow> map_res (\<lambda>xs. filter (\<lambda>n. n \<noteq> []) (map le_hostname xs)) (json_iter raw_sans)) (\<lambda>sans.
         Inr (set_default ''scheduled_restart_enabled'' (JBool True) (AList.delete ''domains''
           (AList.update ''subject_alt_names'' (JList (map JStr sans))
             (AList.update ''common_name'' (JStr (if cn \<noteq> [] then cn else default_cn))
               (AList.update ''root_dns_domain'' (JStr root) config)))))))"

definition normalize_legacy :: "env \<Rightarrow> db \<Rightarrow> string \<Rightarrow> dict \<Rightarrow> dict res" where
  "normalize_legacy env db default_cn config =
     rbind (case json_or (jget config ''domains'') (JList []) of
         JStr s \<Rightarrow> map_res (map JStr) (split_names (JStr s))
       | JList xs \<Rightarrow> Inr xs
       | _ \<Rightarrow> type_error) (\<lambda>legacy.
     let cn = (case legacy of [] \<Rightarrow> JStr default_cn | d # _ \<Rightarrow> d);
         sans = (if 1 < length legacy then tl legacy else if default_cn \<noteq> [] then [JStr default_cn] else [])
     in rbind (legacy_root env db (jget config ''zone_id'')) (\<lambda>root.
        Inr (set_default ''scheduled_restart_enabled'' (JBool True) (AList.delete ''domains''
          (AList.update ''subject_alt_names'' (JList sans)
            (AList.update ''common_name'' (JStr (le_hostname cn))
              (AList.update ''root_dns_domain'' (JStr (le_hostname (JStr root))) config)))))))"

definition normalize_config :: "env \<Rightarrow> db \<Rightarrow> string \<Rightarrow> dict \<Rightarrow> dict res" where
  "normalize_config env db app_dns_name config =
     (let default_cn = le_hostname (JStr app_dns_name) in
      if map_of config ''root_dns_domain'' \<noteq> None then normalize_current default_cn config
      else normalize_legacy env db default_cn config)"

definition get_config :: "env \<Rightarrow> host \<Rightarrow> db \<Rightarrow> dict option res" where
  "get_config env h db =
     rbind (read_json_setting env db SETTING_CONFIG) (\<lambda>raw.
     case raw of
       None \<Rightarrow> Inr None
     | Some d \<Rightarrow> if d = [] then Inr None
         else rbind (get_app_dns_name env h db) (\<lambda>app. map_res Some (normalize_config env db app d)))"

section \<open>Validation\<close>

definition validate_renew_before_days :: "json \<Rightarrow> int res" where
  "validate_renew_before_days value =
     (case json_int value of
        Inl e \<Rightarrow>
          if is_value_error e \<or> is_type_error e then Inl (le_error ''Renew before expiry must be a number of days.'')
          else Inl e
      | Inr d \<Rightarrow>
          if d < 1 \<or> 89 < d then Inl (le_error ''Renew before expiry must be between 1 and 89 days.'') else Inr d)"

text \<open>The directives \<^verbatim>\<open>%H\<close> and \<^verbatim>\<open>%M\<close> of \<^verbatim>\<open>strptime\<close> take one or two digits.\<close>

fun hour_text :: "string \<Rightarrow> bool" where
  "hour_text [a] = is_digit a"
| "hour_text [a, b] = (is_digit a \<and> is_digit b \<and> digits_val [a, b] < 24)"
| "hour_text _ = False"

fun minute_text :: "string \<Rightarrow> bool" where
  "minute_text [a] = is_digit a"
| "minute_text [a, b] = (is_digit a \<and> is_digit b \<and> digits_val [a, b] < 60)"
| "minute_text _ = False"

definition valid_time :: "string \<Rightarrow> bool" where
  "valid_time value = (case split_char CHR '':'' value of [h, m] \<Rightarrow> hour_text h \<and> minute_text m | _ \<Rightarrow> False)"

definition directory_url :: "bool \<Rightarrow> string" where
  "directory_url staging = (if staging then STAGING_DIRECTORY else PRODUCTION_DIRECTORY)"

definition auto_renew_supported :: "json \<Rightarrow> json \<Rightarrow> bool" where
  "auto_renew_supported challenge_type zone_id = (challenge_type = JStr CHALLENGE_HTTP \<or> json_truthy zone_id)"

definition http_auto_renew_notice :: "env \<Rightarrow> host \<Rightarrow> db \<Rightarrow> dict \<Rightarrow> string res" where
  "http_auto_renew_notice env h db config =
     (if jget config ''challenge_type'' \<noteq> JStr CHALLENGE_HTTP then Inr []
      else map_res (\<lambda>app. '' For automatic renewal over HTTP-01 to work, the API server must be accessible from the ''
          @ ''internet and HTTP requests must be redirected to HTTPS via an external web proxy to ''
          @ ''https://'' @ app @ ''/.well-known/acme-challenge/*.'') (get_app_dns_name env h db))"

section \<open>Saving a configuration\<close>

record le_form =
  lf_email :: string
  lf_root_dns_domain :: string
  lf_common_name :: string
  lf_subject_alt_names :: json
  lf_challenge_type :: string
  lf_zone_id :: json
  lf_staging :: bool
  lf_renew_before_expiry_days :: json
  lf_scheduled_restart_enabled :: bool
  lf_scheduled_restart_time :: string
  lf_auto_renew_enabled :: "bool option"

definition outside_root :: "string list \<Rightarrow> string \<Rightarrow> string option" where
  "outside_root names root = List.find (\<lambda>n. \<not> name_under_root n root) names"

text \<open>With DNS-01 and a zone, the domain of the zone must be the root domain.\<close>

definition check_le_zone :: "env \<Rightarrow> db \<Rightarrow> string \<Rightarrow> json \<Rightarrow> string \<Rightarrow> unit res" where
  "check_le_zone env db challenge zone_id root =
     (if challenge = CHALLENGE_DNS \<and> json_truthy zone_id then
        (case zone_row db zone_id of
           None \<Rightarrow> Inl (le_error ''Selected DNS zone was not found.'')
         | Some zone \<Rightarrow>
             (case rbind (decode_zone_config env zone) provider_dns_zone of
                Inl e \<Rightarrow> Inl (if is_value_error e then le_error (exc_str e) else e)
              | Inr d \<Rightarrow> guard (d = normalize_zone_name root)
                  (le_error ''Selected zone configuration DNS domain must match Root DNS Domain.'')))
      else Inr ())"

definition save_config :: "env \<Rightarrow> host \<Rightarrow> le_form \<Rightarrow> db \<Rightarrow> (dict \<times> db) res" where
  "save_config env h f db =
     (let challenge = (if lf_challenge_type f \<in> {CHALLENGE_DNS, CHALLENGE_HTTP} then lf_challenge_type f else CHALLENGE_DNS);
          zone_id = (if challenge = CHALLENGE_HTTP then JNull else lf_zone_id f);
          supported = auto_renew_supported (JStr challenge) zone_id;
          auto_renew = (case lf_auto_renew_enabled f of
             None \<Rightarrow> challenge \<noteq> CHALLENGE_HTTP \<and> supported
           | Some b \<Rightarrow> supported \<and> b);
          schedule_time = (if valid_time (lf_scheduled_restart_time f) then lf_scheduled_restart_time f
             else DEFAULT_SCHEDULED_RESTART_TIME);
          root = le_hostname (JStr (lf_root_dns_domain f));
          given_cn = le_hostname (JStr (lf_common_name f))
      in rbind (if given_cn \<noteq> [] then Inr given_cn
                else map_res (\<lambda>n. le_hostname (JStr n)) (get_app_dns_name env h db)) (\<lambda>cn.
         rbind (split_names (lf_subject_alt_names f)) (\<lambda>sans.
         rbind (guard (root \<noteq> []) (le_error ''Root DNS Domain is required.'')) (\<lambda>_.
         rbind (guard (cn \<noteq> []) (le_error ''Common Name is required.'')) (\<lambda>_.
         rbind (cert_identities [(''common_name'', JStr cn), (''subject_alt_names'', JList (map JStr sans))]) (\<lambda>names.
         rbind (case outside_root names root of
             None \<Rightarrow> Inr ()
           | Some n \<Rightarrow> Inl (le_error (''Certificate name '' @ repr n @ '' must be within root DNS domain '' @ repr root @ ''.''))) (\<lambda>_.
         rbind (check_le_zone env db challenge zone_id root) (\<lambda>_.
         rbind (validate_renew_before_days (lf_renew_before_expiry_days f)) (\<lambda>days.
         let config =
           [(''email'', JStr (strip (lf_email f))), (''root_dns_domain'', JStr root), (''common_name'', JStr cn),
            (''subject_alt_names'', JList (map JStr sans)), (''challenge_type'', JStr challenge), (''zone_id'', zone_id),
            (''staging'', JBool (lf_staging f)), (''renew_before_expiry_days'', JInt days),
            (''scheduled_restart_enabled'', JBool (lf_scheduled_restart_enabled f)),
            (''scheduled_restart_time'', JStr schedule_time), (''auto_renew_enabled'', JBool auto_renew),
            (''directory_url'', JStr (directory_url (lf_staging f)))]
         in rbind (guard (strip (lf_email f) \<noteq> []) (le_error ''Email is required.'')) (\<lambda>_.
            map_res (Pair config) (write_json_setting env SETTING_CONFIG config db)))))))))))"

section \<open>The name of a challenge record\<close>

definition no_empty_label :: "string \<Rightarrow> bool" where
  "no_empty_label n \<longleftrightarrow> [] \<notin> set (split_char CHR ''.'' n)"

lemma empty_label_middle: "[] \<in> set (tl (split_char c (p @ c # c # s)))"
proof (induction p)
  case (Cons x p)
  then show ?case by (auto split: list.split dest: list.set_sel(2) [rotated])
qed simp

lemma prefix_no_dot:
  assumes "no_empty_label (p @ CHR ''.'' # z)"
  shows "p \<noteq> [] \<and> last p \<noteq> CHR ''.''"
proof
  show ne: "p \<noteq> []" using assms by (auto simp: no_empty_label_def)
  show "last p \<noteq> CHR ''.''"
    using assms ne empty_label_middle [of "CHR ''.''" "butlast p" z]
    by (metis append.assoc append_Cons append_Nil append_butlast_last_id list.set_sel(2) no_empty_label_def split_char_not_Nil)
qed

lemma acme_rstrip: "rstrip_char CHR ''.'' ''_acme-challenge.'' = ''_acme-challenge''"
  by code_simp

lemma relative_acme_fqdn:
  assumes "name_under_root name zone" and "no_empty_label (normalize_zone_name name)"
  shows "relative_acme_name name zone @ CHR ''.'' # normalize_zone_name zone
    = ''_acme-challenge.'' @ normalize_zone_name name"
proof -
  let ?n = "normalize_zone_name name" and ?z = "normalize_zone_name zone"
  show ?thesis
  proof (cases "endswith (CHR ''.'' # ?z) ?n")
    case False
    then have "?n = ?z" using assms(1) by (simp add: name_under_root_def Let_def)
    then show ?thesis using False by (simp add: relative_acme_name_def Let_def acme_rstrip)
  next
    case True
    then obtain p where p: "?n = p @ CHR ''.'' # ?z" by (auto simp: endswith_iff)
    then have "p \<noteq> []" "last p \<noteq> CHR ''.''" using prefix_no_dot assms(2) by auto
    then have "rstrip_char CHR ''.'' (''_acme-challenge.'' @ p) = ''_acme-challenge.'' @ p"
      by (intro rstrip_char_ident) simp
    then show ?thesis using True p by (simp add: relative_acme_name_def Let_def)
  qed
qed

section \<open>What a saved configuration promises\<close>

lemma outside_root_None: "outside_root names root = None \<longleftrightarrow> (\<forall>n \<in> set names. name_under_root n root)"
  by (auto simp: outside_root_def find_None_iff)

lemma validate_renew_Inr: "validate_renew_before_days v = Inr d \<Longrightarrow> 1 \<le> d \<and> d \<le> 89"
  by (auto simp: validate_renew_before_days_def split: sum.splits if_splits)

lemma check_le_zone_Inr:
  assumes "check_le_zone env db challenge zone_id root = Inr u" and "challenge = CHALLENGE_DNS" "json_truthy zone_id"
  obtains zone cfg where "zone_row db zone_id = Some zone" "decode_zone_config env zone = Inr cfg"
    "provider_dns_zone cfg = Inr (normalize_zone_name root)"
  using assms that by (auto simp: check_le_zone_def rbind_eq_Inr guard_def split: option.splits sum.splits if_splits)

lemma challenge_kinds [simp]: "CHALLENGE_HTTP \<noteq> CHALLENGE_DNS" "CHALLENGE_DNS \<noteq> CHALLENGE_HTTP"
  by (simp_all add: CHALLENGE_DNS_def CHALLENGE_HTTP_def)

lemma save_config_Inr:
  assumes "save_config env h f db = Inr (config, db')"
  obtains cn sans root challenge zone_id names days where
    "jget config ''common_name'' = JStr cn" "jget config ''subject_alt_names'' = JList (map JStr sans)"
    "jget config ''root_dns_domain'' = JStr root" "root = le_hostname (JStr (lf_root_dns_domain f))"
    "jget config ''challenge_type'' = JStr challenge" "jget config ''zone_id'' = zone_id" "jget config ''renew_before_expiry_days'' = JInt days"
    "cert_identities [(''common_name'', JStr cn), (''subject_alt_names'', JList (map JStr sans))] = Inr names"
    "\<forall>n \<in> set names. name_under_root n root" "check_le_zone env db challenge zone_id root = Inr ()"
    "1 \<le> days" "days \<le> 89" "json_truthy (jget config ''auto_renew_enabled'') \<Longrightarrow> auto_renew_supported (JStr challenge) zone_id"
proof -
  define challenge where "challenge = (if lf_challenge_type f \<in> {CHALLENGE_DNS, CHALLENGE_HTTP} then lf_challenge_type f else CHALLENGE_DNS)"
  define zone_id where "zone_id = (if challenge = CHALLENGE_HTTP then JNull else lf_zone_id f)"
  from assms show ?thesis
    unfolding save_config_def Let_def challenge_def [symmetric] zone_id_def [symmetric] rbind_eq_Inr
    by (elim exE conjE) (rule that [of _ _ _ challenge zone_id],
      auto simp: map_res_eq_Inr outside_root_None dest!: validate_renew_Inr split: option.splits bool.splits)
qed

lemma normalize_zone_no_space:
  assumes "list_all (\<lambda>c. \<not> is_space c) s" and "s = [] \<or> last s \<noteq> CHR ''.''"
  shows "normalize_zone_name s = lower s"
proof -
  have "strip s = s" using assms(1) by (cases s) (auto simp: word_def list_all_iff intro!: word_strip)
  then show ?thesis using assms(2) by (simp add: normalize_zone_name_def rstrip_char_ident)
qed

lemma le_hostname_last: "le_hostname v = [] \<or> last (le_hostname v) \<noteq> CHR ''.''"
proof -
  define s where "s = dropWhile (\<lambda>d. d = CHR ''.'') (strip (json_text (json_or v (JStr []))))"
  have "le_hostname v = rstrip_char CHR ''.'' (lower s)"
    by (simp add: le_hostname_def strip_char_def s_def)
  then show ?thesis using rstrip_char_not_last by metis
qed

lemma le_hostname_lower: "lower (le_hostname v) = le_hostname v"
  by (simp add: le_hostname_def)

lemma cert_identities_cong:
  "jget c ''common_name'' = jget d ''common_name'' \<Longrightarrow> jget c ''subject_alt_names'' = jget d ''subject_alt_names''
    \<Longrightarrow> cert_identities c = cert_identities d"
  by (simp add: cert_identities_def)

text \<open>
  C25. A saved configuration for DNS-01 over a configured zone: its renewal period is between 1 and 89
  days, and for every name of the certificate the challenge record, put into that zone, has the full
  name \<^verbatim>\<open>_acme-challenge.<name>\<close> that the ACME server asks for.
\<close>

theorem saved_config_places_challenges:
  assumes saved: "save_config env h f db = Inr (config, db')"
    and dns: "jget config ''challenge_type'' = JStr CHALLENGE_DNS" "json_truthy (jget config ''zone_id'')"
    and root: "jget config ''root_dns_domain'' = JStr root" "list_all (\<lambda>c. \<not> is_space c) root"
    and name: "cert_identities config = Inr names" "n \<in> set names" "no_empty_label (normalize_zone_name n)"
  shows "\<exists>zone cfg days. zone_row db (jget config ''zone_id'') = Some zone \<and> decode_zone_config env zone = Inr cfg
    \<and> provider_dns_zone cfg = Inr root
    \<and> relative_acme_name n root @ CHR ''.'' # root = ''_acme-challenge.'' @ normalize_zone_name n
    \<and> jget config ''renew_before_expiry_days'' = JInt days \<and> 1 \<le> days \<and> days \<le> 89"
proof -
  have nr: "normalize_zone_name root = root" if "root = le_hostname v" for v
    using normalize_zone_no_space [OF root(2)] le_hostname_last [of v] le_hostname_lower [of v] that by simp
  from saved show ?thesis
  proof (rule save_config_Inr)
    fix cn sans r challenge zone_id names' days
    assume j: "jget config ''common_name'' = JStr cn" "jget config ''subject_alt_names'' = JList (map JStr sans)"
      "jget config ''root_dns_domain'' = JStr r" "r = le_hostname (JStr (lf_root_dns_domain f))" "jget config ''challenge_type'' = JStr challenge"
      "jget config ''zone_id'' = zone_id" "jget config ''renew_before_expiry_days'' = JInt days"
      and ids: "cert_identities [(''common_name'', JStr cn), (''subject_alt_names'', JList (map JStr sans))] = Inr names'"
      and under: "\<forall>n \<in> set names'. name_under_root n r" and z: "check_le_zone env db challenge zone_id r = Inr ()"
      and d: "1 \<le> days" "days \<le> 89"
    note nr = nr [of "JStr (lf_root_dns_domain f)"]
    have "names' = names" using ids name(1) j(1,2) by (simp add: cert_identities_def jget_def)
    then have "name_under_root n root" using under name(2) j(3,4) root(1) by simp
    then have "relative_acme_name n root @ CHR ''.'' # root = ''_acme-challenge.'' @ normalize_zone_name n"
      using relative_acme_fqdn [OF _ name(3), of root] nr j(3,4) root(1) by simp
    moreover obtain zone cfg where "zone_row db zone_id = Some zone" "decode_zone_config env zone = Inr cfg"
      "provider_dns_zone cfg = Inr (normalize_zone_name r)"
      using check_le_zone_Inr [OF z] dns j(5,6) by auto
    ultimately show ?thesis using j root(1) nr d by auto
  qed
qed

section \<open>The gate of the enrollment\<close>

lemma progress_spec: "get_spec SETTING_ENROLLMENT_PROGRESS = Some (setting_spec_of ''letsencrypt_enrollment_progress'' TJson None False ''ssl''
    (''Let'' @ [CHR 0x27] @ ''s Encrypt enrollment progress shown in the admin UI.''))"
  by code_simp

lemma progress_sorted:
  "sort_keys (JObj (progress_dict (JStr ph) p (JStr msg) fin (opt_str err) (opt_str res)))
    = JObj [(''done'', JBool fin), (''error'', opt_str err), (''message'', JStr msg), (''percent'', JInt p),
       (''phase'', JStr ph), (''result_status'', opt_str res)]"
proof -
  have "str_sort [''phase'', ''percent'', ''message'', ''done'', ''error'', ''result_status'']
      = [''done'', ''error'', ''message'', ''percent'', ''phase'', ''result_status'']" by code_simp
  then show ?thesis by (simp add: progress_dict_def sort_items_def opt_str_def split: option.split)
qed

lemma small_percent: "small_nat (nat \<bar>clamp_percent p\<bar>)"
  by (rule small_nat_less [of _ 3]) (auto simp: clamp_percent_def)

lemma progress_written:
  assumes "fernet_ok env"
  obtains db' where "write_enrollment_progress env ph p msg fin err res db = Inr db'"
    "read_json_setting env db' SETTING_ENROLLMENT_PROGRESS = Inr (Some [(''done'', JBool fin), (''error'', opt_str err),
       (''message'', JStr msg), (''percent'', JInt (clamp_percent p)), (''phase'', JStr ph), (''result_status'', opt_str res)])"
proof -
  let ?j = "JObj (progress_dict (JStr ph) (clamp_percent p) (JStr msg) fin (opt_str err) (opt_str res))"
  have "json_ok ?j" using small_percent by (simp add: progress_dict_def opt_str_def split: option.split)
  then have "value_fits (setting_spec_of ''letsencrypt_enrollment_progress'' TJson None False ''ssl''
      (''Let'' @ [CHR 0x27] @ ''s Encrypt enrollment progress shown in the admin UI.'')) (VJson ?j)"
    by (simp add: value_fits_def setting_spec_of_def)
  from typed_put [OF assms progress_spec this, of db] show ?thesis
    using that by (auto simp: write_enrollment_progress_def write_json_setting_def read_json_setting_def canonical_value_def progress_sorted simp del: sort_keys.simps)
qed

lemma running_after_write:
  assumes "fernet_ok env" and "write_enrollment_progress env ph p msg fin err res db = Inr db'" and "lower (strip ph) \<notin> {[], ''idle''}"
  shows "is_enrollment_in_progress env db' = Inr (\<not> fin)"
proof -
  obtain db2 where "write_enrollment_progress env ph p msg fin err res db = Inr db2"
    and r: "read_json_setting env db2 SETTING_ENROLLMENT_PROGRESS = Inr (Some [(''done'', JBool fin), (''error'', opt_str err),
       (''message'', JStr msg), (''percent'', JInt (clamp_percent p)), (''phase'', JStr ph), (''result_status'', opt_str res)])"
    by (rule progress_written [OF assms(1)])
  then have "db2 = db'" and ne: "ph \<noteq> []" using assms(2,3) by auto
  have "get_enrollment_progress env db' = Inr (progress_dict (JStr ph) (clamp_percent (clamp_percent p))
      (JStr msg) fin (opt_str err) (opt_str res))"
    using r ne unfolding \<open>db2 = db'\<close> by (simp add: get_enrollment_progress_def jget_def json_or_def)
  then show ?thesis
    using ne assms(3) by (simp add: is_enrollment_in_progress_def enrollment_is_running_def progress_dict_def jget_def json_or_def json_text_def)
qed

lemma phase_texts: "lower (strip ''idle'') = ''idle''" "lower (strip ''starting'') = ''starting''" "lower (strip ''error'') = ''error''"
  by code_simp+



section \<open>The time of the scheduled restart\<close>

lemma length_pad: "0 \<le> n \<Longrightarrow> n < 100 \<Longrightarrow> length (pad 2 n) = 2"
proof -
  assume "0 \<le> n" "n < 100"
  then have "length (show_nat (nat n)) \<le> 2" by (intro length_show_nat) auto
  then show ?thesis using \<open>0 \<le> n\<close> by (simp add: pad_def show_int_def Let_def)
qed

lemma length_clock_hm: "length (clock_hm t) = 5"
proof -
  define s where "s = (t mod 86400000000) div 1000000"
  have "0 \<le> t mod 86400000000" "t mod 86400000000 < 86400000000" by simp_all
  then have "0 \<le> s" "s < 86400" unfolding s_def by linarith+
  then have "0 \<le> s div 3600" "s div 3600 < 100" "0 \<le> s div 60 mod 60" "s div 60 mod 60 < 100" by linarith+
  then show ?thesis by (simp add: clock_hm_def Let_def length_pad s_def [symmetric])
qed

text \<open>
  C40. The check of the restart time accepts one digit for the hour or the minute, and the configuration is
  saved with it, but the scheduler compares it with a clock that writes two digits: the restart is never
  due, at no time of any day.
\<close>

theorem saved_restart_time_never_due:
  assumes "save_config env h f db = Inr (config, db1)" and "lf_scheduled_restart_time f = t"
    and "valid_time t" and "length t \<noteq> 5"
  shows "jget config ''scheduled_restart_time'' = JStr t \<and> scheduled_restart_due env t local db2 = Inr (False, db2)"
proof -
  have "clock_hm local \<noteq> t" using length_clock_hm [of local] assms(4) by auto
  moreover have "jget config ''scheduled_restart_time'' = JStr t"
    using assms(1-3) by (auto simp: save_config_def Let_def rbind_eq_Inr map_res_eq_Inr jget_def)
  ultimately show ?thesis by (simp add: scheduled_restart_due_def)
qed

section \<open>Concrete configurations\<close>

definition demo_form_le :: le_form where
  "demo_form_le = \<lparr>lf_email = ''a@b'', lf_root_dns_domain = ''Example.org'', lf_common_name = ''www.example.org'',
     lf_subject_alt_names = JStr ''example.org'', lf_challenge_type = ''dns-01'', lf_zone_id = JInt 1, lf_staging = False,
     lf_renew_before_expiry_days = JInt 30, lf_scheduled_restart_enabled = True, lf_scheduled_restart_time = ''3:00'',
     lf_auto_renew_enabled = None\<rparr>"

definition le_demo_db :: db where
  "le_demo_db = empty_db\<lparr>dns_zone_configs :=
     [\<lparr>zc_id = 1, zc_zone_name = ''example.org'', zc_encrypted_config =
        encode_zone_config_dict demo_env [(''dns_provider_type'', ''bind''), (''dns_zone'', ''example.org'')]\<rparr>]\<rparr>"

definition demo_config :: dict where
  "demo_config =
     [(''email'', JStr ''a@b''), (''root_dns_domain'', JStr ''example.org''), (''common_name'', JStr ''www.example.org''),
      (''subject_alt_names'', JList [JStr ''example.org'']), (''challenge_type'', JStr ''dns-01''), (''zone_id'', JInt 1),
      (''staging'', JBool False), (''renew_before_expiry_days'', JInt 30), (''scheduled_restart_enabled'', JBool True),
      (''scheduled_restart_time'', JStr ''3:00''), (''auto_renew_enabled'', JBool True),
      (''directory_url'', JStr PRODUCTION_DIRECTORY)]"

lemma config_spec: "get_spec SETTING_CONFIG = Some (setting_spec_of ''letsencrypt_config'' TJson None False ''ssl''
    (''Let'' @ [CHR 0x27] @ ''s Encrypt enrollment and renewal configuration.''))"
  by code_simp

lemma write_config: "write_json_setting env SETTING_CONFIG d db
    = Inr (set_setting env SETTING_CONFIG (json_dumps_sorted (JObj d)) db)"
proof -
  have "set_typed_setting_by_key env SETTING_CONFIG (VJson (JObj d)) db
      = Inr (set_setting env ''letsencrypt_config'' (json_dumps_sorted (JObj d)) db)"
    by (simp add: set_typed_setting_by_key_def require_spec_def config_spec set_typed_setting_def encode_typed_def
        setting_spec_of_def)
  then show ?thesis by (simp add: write_json_setting_def SETTING_CONFIG_def)
qed

lemma demo_zone_open:
  "zone_row le_demo_db (JInt 1) = Some (hd (dns_zone_configs le_demo_db))"
  "decode_zone_config demo_env (hd (dns_zone_configs le_demo_db)) = Inr [(''dns_provider_type'', ''bind''), (''dns_zone'', ''example.org'')]"
  "provider_dns_zone [(''dns_provider_type'', ''bind''), (''dns_zone'', ''example.org'')] = Inr ''example.org''"
proof -
  show "zone_row le_demo_db (JInt 1) = Some (hd (dns_zone_configs le_demo_db))"
    by (simp add: zone_row_def get_zone_def le_demo_db_def empty_db_def)
  show "decode_zone_config demo_env (hd (dns_zone_configs le_demo_db)) = Inr [(''dns_provider_type'', ''bind''), (''dns_zone'', ''example.org'')]"
    unfolding le_demo_db_def by (simp add: decode_encode)
  show "provider_dns_zone [(''dns_provider_type'', ''bind''), (''dns_zone'', ''example.org'')] = Inr ''example.org''"
    by code_simp
qed

lemma demo_names:
  "le_hostname (JStr ''Example.org'') = ''example.org''" "le_hostname (JStr ''www.example.org'') = ''www.example.org''"
  "split_names (JStr ''example.org'') = Inr [''example.org'']"
  "cert_identities [(''common_name'', JStr ''www.example.org''), (''subject_alt_names'', JList [JStr ''example.org''])]
     = Inr [''www.example.org'', ''example.org'']"
  "outside_root [''www.example.org'', ''example.org''] ''example.org'' = None"
  "valid_time ''3:00''" "normalize_zone_name ''example.org'' = ''example.org''" "strip ''a@b'' = ''a@b''"
  by code_simp+

lemma demo_saved: "save_config demo_env demo_host demo_form_le le_demo_db
    = Inr (demo_config, set_setting demo_env SETTING_CONFIG (json_dumps_sorted (JObj demo_config)) le_demo_db)"
proof -
  have z: "check_le_zone demo_env le_demo_db CHALLENGE_DNS (JInt 1) ''example.org'' = Inr ()"
    by (simp add: check_le_zone_def demo_zone_open demo_names)
  have c: "''dns-01'' = CHALLENGE_DNS" "CHALLENGE_DNS \<noteq> CHALLENGE_HTTP" by (simp_all add: CHALLENGE_DNS_def CHALLENGE_HTTP_def)
  show ?thesis
    unfolding save_config_def demo_form_le_def
    by (simp add: Let_def demo_names c z auto_renew_supported_def validate_renew_before_days_def write_config
        demo_config_def directory_url_def)
qed

theorem saved_restart_time_never_due_witness:
  "jget demo_config ''scheduled_restart_time'' = JStr ''3:00'' \<and> scheduled_restart_due demo_env ''3:00'' 0 empty_db = Inr (False, empty_db)"
  by (rule saved_restart_time_never_due [OF demo_saved]) (simp_all add: demo_form_le_def demo_names)

lemma demo_labels: "no_empty_label (normalize_zone_name ''www.example.org'')" "list_all (\<lambda>c. \<not> is_space c) ''example.org''"
  "normalize_zone_name ''www.example.org'' = ''www.example.org''"
  by code_simp+

theorem saved_config_places_challenges_witness:
  "relative_acme_name ''www.example.org'' ''example.org'' @ ''.example.org'' = ''_acme-challenge.www.example.org''"
proof -
  have ids: "cert_identities demo_config = Inr [''www.example.org'', ''example.org'']"
    using demo_names(4) by (simp add: cert_identities_def demo_config_def)
  show ?thesis
    using saved_config_places_challenges [OF demo_saved _ _ _ demo_labels(2) ids _ demo_labels(1)]
    by (auto simp: demo_config_def CHALLENGE_DNS_def demo_labels(3))
qed

end
