(* ===== verification/LetsEncrypt.thy ===== *)
theory LetsEncrypt
  imports LeConfig DnsApi
begin

text \<open>
  The challenges, the ACME orders and the life of an enrollment, \<^verbatim>\<open>letsencrypt.py\<close>. The \<^verbatim>\<open>acme\<close> library
  with the server behind it is a parameter, a run over its own state for every call. Waiting for DNS
  changes no state of the model. The texts inside an order are strings.
\<close>

section \<open>The surroundings of an enrollment\<close>

record acme_challenge =
  ch_typ :: string
  ch_uri :: string
  ch_path :: string
  ch_token :: string

record acme_authz =
  au_domain :: string
  au_challenges :: "acme_challenge list"

record acme_order =
  od_json :: json
  od_authz :: "acme_authz list"

text \<open>A client of the library is the URL of its directory and the account key. \<open>ac_register\<close> raises
  \<^verbatim>\<open>ConflictError\<close> for a known account unless \<open>only_return_existing\<close> holds.\<close>

record 'a acme =
  ac_installed :: bool
  ac_keygen :: "('a, string) run"
  ac_directory :: "string \<Rightarrow> string \<Rightarrow> ('a, unit) run"
  ac_register :: "string \<times> string \<Rightarrow> string option \<Rightarrow> bool \<Rightarrow> ('a, unit) run"
  ac_csr :: "string \<Rightarrow> string \<Rightarrow> string list \<Rightarrow> string res"
  ac_new_order :: "string \<times> string \<Rightarrow> string \<Rightarrow> ('a, acme_order) run"
  ac_validation :: "acme_challenge \<Rightarrow> string \<Rightarrow> string"
  ac_parse_order :: "json \<Rightarrow> acme_order res"
  ac_answer :: "string \<times> string \<Rightarrow> acme_challenge \<Rightarrow> ('a, unit) run"
  ac_finalize :: "string \<times> string \<Rightarrow> acme_order \<Rightarrow> ('a, string) run"

record ('p, 'a) le_world =
  lw_world :: "'p world"
  lw_store :: cert_store
  lw_acme :: 'a

definition in_world :: "('p world, 'b) run \<Rightarrow> (('p, 'a) le_world, 'b) run" where
  "in_world m s = (case m (lw_world s) of (r, w) \<Rightarrow> (r, s\<lparr>lw_world := w\<rparr>))"

definition in_store :: "(cert_store, 'b) run \<Rightarrow> (('p, 'a) le_world, 'b) run" where
  "in_store m s = (case m (lw_store s) of (r, w) \<Rightarrow> (r, s\<lparr>lw_store := w\<rparr>))"

definition in_acme :: "('a, 'b) run \<Rightarrow> (('p, 'a) le_world, 'b) run" where
  "in_acme m s = (case m (lw_acme s) of (r, w) \<Rightarrow> (r, s\<lparr>lw_acme := w\<rparr>))"

definition le_core :: "(core, 'b) run \<Rightarrow> (('p, 'a) le_world, 'b) run" where
  "le_core m = in_world (in_core m)"

text \<open>A run whose exception is a value.\<close>

definition reify :: "('s, 'b) run \<Rightarrow> ('s, 'b res) run" where
  "reify m s = (case m s of (r, t) \<Rightarrow> (Inr r, t))"

section \<open>DNS-01 challenges\<close>

definition DNS_TXT_VERIFY_MAX_ATTEMPTS :: nat where "DNS_TXT_VERIFY_MAX_ATTEMPTS = 5"
definition DNS_TXT_CHALLENGE_TTL :: int where "DNS_TXT_CHALLENGE_TTL = 1"

definition le_audit ::
  "outside \<Rightarrow> string \<Rightarrow> string \<Rightarrow> string \<Rightarrow> string \<Rightarrow> string \<Rightarrow> string \<Rightarrow> nat \<Rightarrow> nat \<Rightarrow> (core, unit) run" where
  "le_audit out ty zone_name record_name provider message status records_found values_count =
     sbind (emit_activity_event out ((plain_event ty)
         \<lparr>ev_level := LOG_LEVEL_INFORMATIONAL, ev_status := Some status, ev_actor_type := Some ''system'',
          ev_actor_label := Some ''letsencrypt'', ev_zone_name := Some zone_name, ev_record_name := Some record_name,
          ev_message := Some message,
          ev_details := Some (JObj [(''provider'', JStr provider), (''record_type'', JStr ''TXT''),
            (''source'', JStr ''letsencrypt''), (''records_found'', JInt (int records_found)),
            (''values_count'', JInt (int values_count))])\<rparr>)) (\<lambda>_. ret ())"

record le_zone =
  lz_zone :: dns_zone_config
  lz_settings :: zone_settings
  lz_domain :: string

text \<open>The row, its settings and its domain; no row is \<open>None\<close>.\<close>

definition open_zone :: "outside \<Rightarrow> int \<Rightarrow> (core, le_zone option) run" where
  "open_zone out zone_id =
     db_read (\<lambda>db.
       case zone_row db (JInt zone_id) of
         None \<Rightarrow> Inr None
       | Some zone \<Rightarrow>
           rbind (decode_zone_config (o_env out) zone) (\<lambda>cfg.
           map_res (\<lambda>d. Some \<lparr>lz_zone = zone, lz_settings = cfg, lz_domain = d\<rparr>) (provider_dns_zone cfg)))"

definition write_txt :: "'p connector \<Rightarrow> le_zone \<Rightarrow> dns_record_request \<Rightarrow> ('p world, bool) run" where
  "write_txt connect z q =
     sbind (lift_res (create_dns_client connect (lz_settings z))) (\<lambda>client.
     sbind (lift_res (check_record_request q)) (\<lambda>q.
     in_prov (cl_create_or_update client q (map_of (lz_settings z) ''dns_server'') (Some (lz_domain z)))))"

definition ZONE_NOT_FOUND :: py_exc where
  "ZONE_NOT_FOUND = le_error ''Selected DNS zone was not found.''"

definition create_dns_txt_challenge ::
  "outside \<Rightarrow> 'p connector \<Rightarrow> int \<Rightarrow> string \<Rightarrow> string \<Rightarrow> int \<Rightarrow> ('p world, dict) run" where
  "create_dns_txt_challenge out connect zone_id domain value ttl =
     sbind (in_core (open_zone out zone_id)) (\<lambda>zone.
     case zone of
       None \<Rightarrow> raise ZONE_NOT_FOUND
     | Some z \<Rightarrow>
         let name = relative_acme_name domain (lz_domain z); zone_name = zc_zone_name (lz_zone z) in
         sbind (write_txt connect z \<lparr>rq_zone_name = Some zone_name, rq_record_type = ''TXT'',
             rq_record_name = name, rq_ttl = Some ttl, rq_values = [value]\<rparr>) (\<lambda>_.
         sbind (in_core (le_audit out ''dns.record_created'' zone_name name (provider_of (lz_settings z))
             (''DNS record '' @ name @ ''.'' @ zone_name @ '' created'') ''success'' 0 1)) (\<lambda>_.
         ret [(''zone_name'', JStr zone_name), (''record_name'', JStr name), (''value'', JStr value)])))"

definition delete_dns_txt_challenge :: "outside \<Rightarrow> 'p connector \<Rightarrow> int \<Rightarrow> string \<Rightarrow> ('p world, unit) run" where
  "delete_dns_txt_challenge out connect zone_id domain =
     sbind (in_core (open_zone out zone_id)) (\<lambda>zone.
     case zone of
       None \<Rightarrow> ret ()
     | Some z \<Rightarrow>
         let name = relative_acme_name domain (lz_domain z); zone_name = zc_zone_name (lz_zone z) in
         sbind (write_txt connect z \<lparr>rq_zone_name = Some zone_name, rq_record_type = ''DELETE'',
             rq_record_name = name, rq_ttl = Some 120, rq_values = [''TXT'']\<rparr>) (\<lambda>_.
         in_core (le_audit out ''dns.record_deleted'' zone_name name (provider_of (lz_settings z))
           (''DNS record '' @ name @ ''.'' @ zone_name @ '' deleted'') ''success'' 0 0)))"

definition txt_record_matches :: "dns_record_info list \<Rightarrow> string \<Rightarrow> bool" where
  "txt_record_matches records expected \<longleftrightarrow>
     (\<exists>row \<in> set records. expected \<in> set (case info_values row of None \<Rightarrow> [] | Some vs \<Rightarrow> vs))"

type_synonym progress_cb = "string \<Rightarrow> int \<Rightarrow> string \<Rightarrow> (core, unit) run"

definition noop_progress :: progress_cb where
  "noop_progress phase percent message = ret ()"

definition PROPAGATION :: py_exc where
  "PROPAGATION = le_error ''DNS TXT record for _acme-challenge did not propagate after 2 minutes.''"

fun verify_attempts :: "outside \<Rightarrow> 'p dns_client \<Rightarrow> le_zone \<Rightarrow> string \<Rightarrow> string \<Rightarrow> progress_cb \<Rightarrow> nat \<Rightarrow> nat \<Rightarrow> nat
    \<Rightarrow> ('p world, unit) run" where
  "verify_attempts out client z name expected report budget number 0 = raise PROPAGATION"
| "verify_attempts out client z name expected report budget number (Suc left) =
     sbind (in_core (report ''verify_dns'' (25 + 50 * int number div int (max budget 1))
         (''Waiting for DNS propagation (attempt '' @ show_int (int number) @ ''/'' @ show_int (int budget) @ '')...''))) (\<lambda>_.
     sbind (in_prov (cl_get_record client name (Some ''TXT'') (map_of (lz_settings z) ''dns_server'') (Some (lz_domain z)))) (\<lambda>records.
     sbind (in_core (le_audit out ''dns.record_lookup'' (zc_zone_name (lz_zone z)) name (provider_of (lz_settings z))
         (if records \<noteq> []
          then ''Found '' @ show_int (int (length records)) @ '' record(s) at '' @ repr name @ '' in zone ''
            @ repr (zc_zone_name (lz_zone z)) @ ''.''
          else ''No TXT record found at '' @ repr name @ '' in zone '' @ repr (zc_zone_name (lz_zone z)) @ ''.'')
         (if records \<noteq> [] then ''success'' else ''not_found'') (length records) 0)) (\<lambda>_.
     if txt_record_matches records expected then ret ()
     else verify_attempts out client z name expected report budget (Suc number) left)))"

definition verify_dns_txt_challenge ::
  "outside \<Rightarrow> 'p connector \<Rightarrow> int \<Rightarrow> string \<Rightarrow> string \<Rightarrow> progress_cb \<Rightarrow> nat \<Rightarrow> nat \<Rightarrow> ('p world, unit) run" where
  "verify_dns_txt_challenge out connect zone_id domain expected report attempt_offset attempt_total =
     sbind (in_core (open_zone out zone_id)) (\<lambda>zone.
     case zone of
       None \<Rightarrow> raise ZONE_NOT_FOUND
     | Some z \<Rightarrow>
         sbind (lift_res (create_dns_client connect (lz_settings z))) (\<lambda>client.
         let budget = (if attempt_total = 0 then DNS_TXT_VERIFY_MAX_ATTEMPTS else attempt_total) in
         verify_attempts out client z (relative_acme_name domain (lz_domain z)) expected report budget
           (attempt_offset + 1) budget))"

fun cleanup_dns_txt_challenges :: "outside \<Rightarrow> 'p connector \<Rightarrow> int \<Rightarrow> string list \<Rightarrow> ('p world, unit) run" where
  "cleanup_dns_txt_challenges out connect zone_id [] = ret ()"
| "cleanup_dns_txt_challenges out connect zone_id (d # ds) =
     sbind (catch (delete_dns_txt_challenge out connect zone_id d) (\<lambda>_. ret ())) (\<lambda>_.
     cleanup_dns_txt_challenges out connect zone_id ds)"

section \<open>The account key\<close>

text \<open>The file holds ASCII text.\<close>

definition looks_like_pem_private_key :: "string \<Rightarrow> bool" where
  "looks_like_pem_private_key raw \<longleftrightarrow> contains ''BEGIN'' raw \<and> contains ''PRIVATE KEY'' raw"

definition write_encrypted_account_key :: "env \<Rightarrow> string \<Rightarrow> (cert_store, unit) run" where
  "write_encrypted_account_key env pem = modify (\<lambda>st. st\<lparr>cs_account := Some (encrypt env pem)\<rparr>)"

definition CORRUPT_KEY :: py_exc where
  "CORRUPT_KEY = le_error (''ACME account key file is corrupt or was encrypted with a different FERNET_KEY. ''
     @ ''Restore a valid acme_account.key or remove it only if you intend to register a new ACME account.'')"

definition load_account_key_bytes :: "env \<Rightarrow> string \<Rightarrow> (cert_store, string) run" where
  "load_account_key_bytes env raw =
     (if looks_like_pem_private_key raw then sbind (write_encrypted_account_key env raw) (\<lambda>_. ret raw)
      else catch (lift_res (decrypt env raw)) (\<lambda>_. raise CORRUPT_KEY))"

definition load_or_create_account_key :: "env \<Rightarrow> pki \<Rightarrow> 'a acme \<Rightarrow> (('p, 'a) le_world, string) run" where
  "load_or_create_account_key env p ac =
     sbind (gets (\<lambda>s. cs_account (lw_store s))) (\<lambda>file.
     case file of
       Some raw \<Rightarrow> sbind (in_store (load_account_key_bytes env raw)) (\<lambda>pem. lift_res (load_private p pem))
     | None \<Rightarrow>
         sbind (in_acme (ac_keygen ac)) (\<lambda>key.
         sbind (in_store (write_encrypted_account_key env (private_pem p key))) (\<lambda>_. ret key)))"

section \<open>Orders\<close>

definition csr_pem :: "'a acme \<Rightarrow> string \<Rightarrow> json \<Rightarrow> json \<Rightarrow> string res" where
  "csr_pem ac key common_name subject_alt_names =
     rbind (cert_identities [(''common_name'', common_name), (''subject_alt_names'', subject_alt_names)]) (\<lambda>names.
     case names of
       [] \<Rightarrow> Inl (le_error ''At least one certificate identity is required.'')
     | cn # _ \<Rightarrow> ac_csr ac key cn names)"

definition opt_text :: "json \<Rightarrow> string option" where
  "opt_text j = (if json_truthy j then Some (json_text j) else None)"

definition acme_client :: "env \<Rightarrow> pki \<Rightarrow> 'a acme \<Rightarrow> dict \<Rightarrow> (('p, 'a) le_world, string \<times> string) run" where
  "acme_client env p ac config =
     (if \<not> ac_installed ac
      then raise (le_error ''ACME dependencies are not installed. Install requirements.txt and retry.'')
      else
        sbind (load_or_create_account_key env p ac) (\<lambda>key.
        let url = json_text (json_or (jget config ''directory_url'')
                    (JStr (directory_url (json_truthy (jget config ''staging'')))));
            email = opt_text (jget config ''email'')
        in sbind (in_acme (ac_directory ac url key)) (\<lambda>_.
           sbind (in_acme (catch (ac_register ac (url, key) email False)
             (\<lambda>e. if exc_name e = ''ConflictError'' then ac_register ac (url, key) email True else raise e))) (\<lambda>_.
           ret (url, key)))))"

definition challenge_token :: "acme_challenge \<Rightarrow> string" where
  "challenge_token c =
     (if ch_path c \<noteq> [] then last (split_char CHR ''/'' (ch_path c))
      else if list_all (\<lambda>x. code x < 128) (ch_token c) then ch_token c else [])"

definition challenge_not_offered :: "string \<Rightarrow> string \<Rightarrow> py_exc" where
  "challenge_not_offered ty domain =
     le_error (''ACME server did not offer '' @ ty @ '' for '' @ domain @ ''.''
       @ (if ty = CHALLENGE_HTTP then '' DNS challenge must be used for domains previously validated with DNS-01.'' else []))"

definition challenge_dict :: "'a acme \<Rightarrow> string \<Rightarrow> string \<Rightarrow> string \<Rightarrow> acme_challenge \<Rightarrow> dict" where
  "challenge_dict ac key ty domain c =
     (let validation = ac_validation ac c key; token = challenge_token c in
      [(''domain'', JStr domain), (''type'', JStr ty), (''uri'', JStr (ch_uri c)), (''validation'', JStr validation)]
      @ (if ty = CHALLENGE_DNS
         then [(''dns_value'', JStr validation), (''name'', JStr (''_acme-challenge.'' @ domain))]
         else [(''token'', JStr token), (''key_authorization'', JStr validation), (''response'', JStr validation),
               (''url'', JStr (''http://'' @ domain @ ''/.well-known/acme-challenge/'' @ token))]))"

definition order_challenges :: "'a acme \<Rightarrow> acme_order \<Rightarrow> string \<Rightarrow> string \<Rightarrow> dict list res" where
  "order_challenges ac order key ty =
     traverse (\<lambda>authz.
       case List.find (\<lambda>c. ch_typ c = ty) (au_challenges authz) of
         None \<Rightarrow> Inl (challenge_not_offered ty (au_domain authz))
       | Some c \<Rightarrow> Inr (challenge_dict ac key ty (au_domain authz) c)) (od_authz order)"

text \<open>Every exception that is not a \<^verbatim>\<open>LetsEncryptError\<close> becomes one.\<close>

definition as_le_error :: "string \<Rightarrow> ('s, 'b) run \<Rightarrow> ('s, 'b) run" where
  "as_le_error what m = catch m (\<lambda>e. raise (if is_le_error e then e else le_error (what @ exc_str e)))"

definition need :: "dict \<Rightarrow> string \<Rightarrow> json res" where
  "need d k = (case map_of d k of None \<Rightarrow> Inl (KeyError (repr k)) | Some v \<Rightarrow> Inr v)"

definition acme_prepare_order :: "env \<Rightarrow> pki \<Rightarrow> 'a acme \<Rightarrow> dict \<Rightarrow> (('p, 'a) le_world, dict) run" where
  "acme_prepare_order env p ac config =
     as_le_error ''Failed to create ACME order: '' (
       sbind (acme_client env p ac config) (\<lambda>cl.
       sbind (in_acme (ac_keygen ac)) (\<lambda>cert_key.
       sbind (lift_res (need config ''common_name'')) (\<lambda>cn.
       sbind (lift_res (csr_pem ac cert_key cn (json_or (jget config ''subject_alt_names'') (JList [])))) (\<lambda>csr.
       sbind (in_acme (ac_new_order ac cl csr)) (\<lambda>order.
       sbind (lift_res (need config ''challenge_type'')) (\<lambda>ty.
       sbind (lift_res (order_challenges ac order (snd cl) (json_text ty))) (\<lambda>challenges.
       ret [(''order_resource'', od_json order), (''private_key_pem'', JStr (private_pem p cert_key)),
            (''challenges'', JList (map JObj challenges)),
            (''challenge'', case challenges of [] \<Rightarrow> JObj [] | c # _ \<Rightarrow> JObj c),
            (''domain'', case challenges of [] \<Rightarrow> cn | c # _ \<Rightarrow> jget c ''domain'')]))))))))"

fun answer_first :: "'a acme \<Rightarrow> string \<times> string \<Rightarrow> json list \<Rightarrow> acme_challenge list \<Rightarrow> ('a, unit) run" where
  "answer_first ac cl uris [] = ret ()"
| "answer_first ac cl uris (c # cs) =
     (if JStr (ch_uri c) \<in> set uris then ac_answer ac cl c else answer_first ac cl uris cs)"

fun answer_all :: "'a acme \<Rightarrow> string \<times> string \<Rightarrow> json list \<Rightarrow> acme_authz list \<Rightarrow> ('a, unit) run" where
  "answer_all ac cl uris [] = ret ()"
| "answer_all ac cl uris (a # as) = sbind (answer_first ac cl uris (au_challenges a)) (\<lambda>_. answer_all ac cl uris as)"

definition get_list :: "dict \<Rightarrow> string \<Rightarrow> json list res" where
  "get_list d k = (case map_of d k of None \<Rightarrow> Inr [] | Some j \<Rightarrow> json_iter j)"

definition acme_finalize_order :: "env \<Rightarrow> pki \<Rightarrow> 'a acme \<Rightarrow> dict \<Rightarrow> (('p, 'a) le_world, string \<times> string) run" where
  "acme_finalize_order env p ac enrollment =
     as_le_error ''Failed to finalize ACME order: '' (
       sbind (lift_res (as_dict (json_or (jget enrollment ''config'') (JObj [])))) (\<lambda>config.
       sbind (lift_res (as_dict (json_or (jget enrollment ''order'') (JObj [])))) (\<lambda>order.
       sbind (acme_client env p ac config) (\<lambda>cl.
       let key = json_text (json_or (jget order ''private_key_pem'') (JStr [])) in
       if \<not> json_truthy (jget order ''order_resource'') \<or> key = []
       then raise (le_error ''ACME enrollment is missing order state. Start enrollment again.'')
       else
         sbind (lift_res (ac_parse_order ac (jget order ''order_resource''))) (\<lambda>resource.
         sbind (lift_res (rbind (get_list order ''challenges'') (traverse as_dict))) (\<lambda>challenges.
         let uris = filter json_truthy (map (\<lambda>c. jget c ''uri'') challenges) in
         sbind (in_acme (answer_all ac cl uris (od_authz resource))) (\<lambda>_.
         sbind (in_acme (ac_finalize ac cl resource)) (\<lambda>fullchain.
         if fullchain = [] then raise (le_error ''ACME order finalized without a certificate chain.'')
         else ret (key, fullchain)))))))))"

section \<open>Publishing the challenges\<close>

fun as_str :: "json \<Rightarrow> string res" where
  "as_str (JStr s) = Inr s"
| "as_str _ = type_error"

definition entry_domain :: "json \<Rightarrow> dict \<Rightarrow> json" where
  "entry_domain primary e = json_or (jget e ''domain'') primary"

definition entry_value :: "dict \<Rightarrow> json" where
  "entry_value e = json_or (jget e ''dns_value'') (json_or (jget e ''value'') (JStr []))"

definition entry_response :: "dict \<Rightarrow> json" where
  "entry_response e = json_or (jget e ''key_authorization'') (json_or (jget e ''response'') (JStr []))"

definition entry_token :: "dict \<Rightarrow> json" where
  "entry_token e = json_or (jget e ''token'') (JStr [])"

text \<open>The record of one entry is created, then awaited. The domains with a record so far survive an
  exception, as the list \<^verbatim>\<open>provisioned_domains\<close> does.\<close>

definition create_entry :: "outside \<Rightarrow> 'p connector \<Rightarrow> int \<Rightarrow> json \<Rightarrow> json \<Rightarrow> ('p world, string \<times> string \<times> dict) run" where
  "create_entry out connect zone_id primary entry =
     sbind (lift_res (as_dict entry)) (\<lambda>e.
     sbind (lift_res (as_str (entry_domain primary e))) (\<lambda>domain.
     sbind (lift_res (as_str (entry_value e))) (\<lambda>value.
     sbind (create_dns_txt_challenge out connect zone_id domain value DNS_TXT_CHALLENGE_TTL) (\<lambda>record.
     ret (domain, value, record)))))"

fun provision :: "outside \<Rightarrow> 'p connector \<Rightarrow> int \<Rightarrow> json \<Rightarrow> progress_cb \<Rightarrow> nat \<Rightarrow> nat \<Rightarrow> string list \<Rightarrow> dict list \<Rightarrow> json list
    \<Rightarrow> ('p world, string list \<times> dict list res) run" where
  "provision out connect zone_id primary report budget offset provisioned records [] = ret (provisioned, Inr records)"
| "provision out connect zone_id primary report budget offset provisioned records (entry # entries) =
     sbind (reify (create_entry out connect zone_id primary entry)) (\<lambda>created.
     case created of
       Inl e \<Rightarrow> ret (provisioned, Inl e)
     | Inr (domain, value, record) \<Rightarrow>
         sbind (reify (verify_dns_txt_challenge out connect zone_id domain value report offset budget)) (\<lambda>verified.
         case verified of
           Inl e \<Rightarrow> ret (provisioned @ [domain], Inl e)
         | Inr _ \<Rightarrow> provision out connect zone_id primary report budget (offset + DNS_TXT_VERIFY_MAX_ATTEMPTS)
             (provisioned @ [domain]) (records @ [record]) entries))"

definition publish_dns :: "outside \<Rightarrow> 'p connector \<Rightarrow> progress_cb \<Rightarrow> dict \<Rightarrow> json \<Rightarrow> json list \<Rightarrow> dict
    \<Rightarrow> ('p world, dict) run" where
  "publish_dns out connect report config primary challenges enrollment =
     sbind (in_core (report ''create_dns_records'' 25 ''Creating DNS TXT records...'')) (\<lambda>_.
     sbind (lift_res (json_int (jget config ''zone_id''))) (\<lambda>zone_id.
     sbind (provision out connect zone_id primary report (DNS_TXT_VERIFY_MAX_ATTEMPTS * max (length challenges) 1) 0 [] []
        challenges) (\<lambda>(provisioned, outcome).
     case outcome of
       Inr records \<Rightarrow>
         ret (AList.update ''status'' (JStr ''ready'') (AList.update ''dns_records'' (JList (map JObj records)) enrollment))
     | Inl e \<Rightarrow>
         if is_le_error e then
           sbind (cleanup_dns_txt_challenges out connect zone_id provisioned) (\<lambda>_. raise e)
         else raise e)))"

definition manual_dns :: "json \<Rightarrow> dict list \<Rightarrow> dict \<Rightarrow> json" where
  "manual_dns primary entries challenge =
     (let name = (\<lambda>e. json_or (jget e ''name'') (JStr (''_acme-challenge.'' @ json_text (entry_domain primary e)))) in
      JObj [(''type'', JStr CHALLENGE_DNS),
        (''challenges'', JList (map (\<lambda>e. JObj [(''name'', name e), (''value'', entry_value e)]) entries)),
        (''name'', name challenge), (''value'', entry_value challenge)])"

definition http_url :: "string \<Rightarrow> string \<Rightarrow> string" where
  "http_url domain token = ''http://'' @ domain @ ''/.well-known/acme-challenge/'' @ token"

definition manual_http :: "bool \<Rightarrow> json \<Rightarrow> dict list \<Rightarrow> dict \<Rightarrow> json" where
  "manual_http automated primary entries challenge =
     JObj ([(''type'', JStr CHALLENGE_HTTP)]
       @ (if automated then [] else
           [(''challenges'', JList (map (\<lambda>e. JObj [(''url'', json_or (jget e ''url'')
               (JStr (http_url (json_text (entry_domain primary e)) (json_text (entry_token e))))),
               (''response'', entry_response e)]) entries))])
       @ [(''url'', JStr (http_url (json_text primary) (json_text (entry_token challenge)))),
          (''token'', entry_token challenge), (''response'', entry_response challenge)])"

definition order_entries :: "dict \<Rightarrow> json list res" where
  "order_entries order =
     json_iter (json_or (jget order ''challenges'')
       (JList (if json_truthy (jget order ''challenge'') then [jget order ''challenge''] else [])))"

definition attach_challenges_to_enrollment ::
  "outside \<Rightarrow> 'p connector \<Rightarrow> progress_cb \<Rightarrow> bool \<Rightarrow> dict \<Rightarrow> ('p world, dict) run" where
  "attach_challenges_to_enrollment out connect report automated_only enrollment =
     sbind (lift_res (as_dict (json_or (jget enrollment ''config'') (JObj [])))) (\<lambda>config.
     sbind (lift_res (as_dict (json_or (jget enrollment ''order'') (JObj [])))) (\<lambda>order.
     sbind (lift_res (order_entries order)) (\<lambda>challenges.
     let primary = json_or (jget config ''common_name'') (JStr []) in
     if jget config ''challenge_type'' = JStr CHALLENGE_DNS \<and> json_truthy (jget config ''zone_id'')
     then publish_dns out connect report config primary challenges enrollment
     else if jget config ''challenge_type'' = JStr CHALLENGE_DNS \<and> automated_only
     then raise (le_error ''Automated DNS-01 renewal requires a configured DNS zone for TXT challenges.'')
     else
       sbind (lift_res (traverse as_dict challenges)) (\<lambda>entries.
       let challenge = (case entries of [] \<Rightarrow> [] | e # _ \<Rightarrow> e) in
       if jget config ''challenge_type'' = JStr CHALLENGE_DNS
       then ret (AList.update ''status'' (JStr ''awaiting_manual'')
         (AList.update ''manual'' (manual_dns primary entries challenge) enrollment))
       else
         let pair = (\<lambda>e. JObj [(''token'', entry_token e), (''response'', entry_response e)]) in
         ret (AList.update ''status'' (JStr (if automated_only then ''ready'' else ''awaiting_manual''))
           (AList.update ''manual'' (manual_http automated_only primary entries challenge)
             (AList.update ''http_challenge'' (pair challenge)
               (AList.update ''http_challenges'' (JList (map pair entries)) enrollment))))))))"

section \<open>The life of an enrollment\<close>

text \<open>The domains of the stored order that have a record to remove.\<close>

definition order_domains :: "dict \<Rightarrow> string list res" where
  "order_domains enrollment =
     rbind (as_dict (json_or (jget enrollment ''order'') (JObj []))) (\<lambda>order.
     rbind (rbind (get_list order ''challenges'') (traverse as_dict)) (\<lambda>entries.
     traverse as_str (filter json_truthy (map (\<lambda>e. jget e ''domain'') entries))))"

definition cleanup_enrollment_challenges :: "outside \<Rightarrow> 'p connector \<Rightarrow> dict \<Rightarrow> ('p world, unit) run" where
  "cleanup_enrollment_challenges out connect enrollment =
     sbind (lift_res (as_dict (json_or (jget enrollment ''config'') (JObj [])))) (\<lambda>config.
     if \<not> json_truthy (jget config ''zone_id'') then ret ()
     else
       sbind (lift_res (order_domains enrollment)) (\<lambda>domains.
       if domains = [] then ret ()
       else
         sbind (lift_res (json_int (jget config ''zone_id''))) (\<lambda>zone_id.
         cleanup_dns_txt_challenges out connect zone_id domains)))"

fun delete_challenges :: "outside \<Rightarrow> 'p connector \<Rightarrow> int \<Rightarrow> string list \<Rightarrow> ('p world, unit) run" where
  "delete_challenges out connect zone_id [] = ret ()"
| "delete_challenges out connect zone_id (d # ds) =
     sbind (delete_dns_txt_challenge out connect zone_id d) (\<lambda>_. delete_challenges out connect zone_id ds)"

text \<open>The loop that \<^verbatim>\<open>continue_enrollment\<close> and \<^verbatim>\<open>cancel_enrollment\<close> share: without a zone there is nothing to
  delete.\<close>

definition delete_order_challenges :: "outside \<Rightarrow> 'p connector \<Rightarrow> dict \<Rightarrow> dict \<Rightarrow> ('p world, unit) run" where
  "delete_order_challenges out connect config enrollment =
     sbind (lift_res (order_domains enrollment)) (\<lambda>domains.
     if json_truthy (jget config ''zone_id'') \<and> domains \<noteq> [] then
       sbind (lift_res (json_int (jget config ''zone_id''))) (\<lambda>zone_id. delete_challenges out connect zone_id domains)
     else ret ())"

definition cancel_enrollment :: "outside \<Rightarrow> 'p connector \<Rightarrow> ('p world, unit) run" where
  "cancel_enrollment out connect =
     sbind (in_core (db_read (\<lambda>db. get_enrollment (o_env out) db))) (\<lambda>enrollment.
     sbind (lift_res (sub_dict enrollment ''config'')) (\<lambda>config.
     sbind (case enrollment of
         None \<Rightarrow> ret ()
       | Some e \<Rightarrow> if e \<noteq> [] \<and> json_truthy (jget config ''zone_id'') then delete_order_challenges out connect config e
           else ret ()) (\<lambda>_.
     in_core (db_modify clear_enrollment))))"

definition continue_enrollment ::
  "outside \<Rightarrow> 'p connector \<Rightarrow> pki \<Rightarrow> 'a acme \<Rightarrow> progress_cb \<Rightarrow> (('p, 'a) le_world, cert_info \<times> dict) run" where
  "continue_enrollment out connect p ac report =
     sbind (le_core (db_read (\<lambda>db. get_enrollment (o_env out) db))) (\<lambda>found.
     case found of
       None \<Rightarrow> raise (le_error (''No Let'' @ [CHR 0x27] @ ''s Encrypt enrollment is in progress.''))
     | Some enrollment \<Rightarrow>
         if enrollment = [] then raise (le_error (''No Let'' @ [CHR 0x27] @ ''s Encrypt enrollment is in progress.''))
         else
           sbind (le_core (report ''finalize_order'' 85 ''Finalizing certificate...'')) (\<lambda>_.
           sbind (acme_finalize_order (o_env out) p ac enrollment) (\<lambda>(key, cert).
           sbind (le_core (report ''install_cert'' 95 ''Installing certificate...'')) (\<lambda>_.
           sbind (le_core (utc_now out)) (\<lambda>now.
           sbind (in_store (install_letsencrypt_cert p now key cert)) (\<lambda>metadata.
           sbind (lift_res (as_dict (json_or (jget enrollment ''config'') (JObj [])))) (\<lambda>config.
           sbind (le_core (db_write (write_json_setting (o_env out) SETTING_CONFIG config))) (\<lambda>_.
           sbind (le_core (db_modify clear_enrollment)) (\<lambda>_.
           sbind (in_world (delete_order_challenges out connect config enrollment)) (\<lambda>_.
           ret (metadata, config)))))))))))"

text \<open>What a start gives: the enrollment that waits for its challenges, or the issued certificate.\<close>

datatype start_result = Waiting dict | IssuedNow cert_info dict

definition start_enrollment ::
  "outside \<Rightarrow> 'p connector \<Rightarrow> pki \<Rightarrow> 'a acme \<Rightarrow> progress_cb \<Rightarrow> le_form \<Rightarrow> (('p, 'a) le_world, start_result) run" where
  "start_enrollment out connect p ac report f =
     sbind (le_core (report ''save_config'' 5 ''Saving configuration...'')) (\<lambda>_.
     sbind (le_core (db_do (save_config (o_env out) (o_host out) f))) (\<lambda>config.
     sbind (le_core (report ''prepare_order'' 15 ''Preparing ACME order...'')) (\<lambda>_.
     sbind (acme_prepare_order (o_env out) p ac config) (\<lambda>order.
     sbind (le_core (utc_now out)) (\<lambda>now.
     sbind (in_world (catch
         (attach_challenges_to_enrollment out connect report False
           [(''status'', JStr ''awaiting_validation''), (''config'', JObj config), (''order'', JObj order),
            (''created_at'', JStr (iso_format now @ ''+00:00''))])
         (\<lambda>e. if is_le_error e then sbind (in_core (db_modify clear_enrollment)) (\<lambda>_. raise e) else raise e))) (\<lambda>enrollment.
     sbind (le_core (db_write (write_json_setting (o_env out) SETTING_ENROLLMENT enrollment))) (\<lambda>_.
     if jget enrollment ''status'' = JStr ''ready''
     then sbind (continue_enrollment out connect p ac report) (\<lambda>(metadata, config). ret (IssuedNow metadata config))
     else ret (Waiting enrollment))))))))"

section \<open>Zones and tokens\<close>

text \<open>Python compares a number in the setting with the id; \<^verbatim>\<open>True\<close> is 1.\<close>

definition same_id :: "json \<Rightarrow> nat \<Rightarrow> bool" where
  "same_id j zone_id = (case j of JInt i \<Rightarrow> i = int zone_id | JBool b \<Rightarrow> (if b then 1 else 0) = zone_id | _ \<Rightarrow> False)"

definition zone_referenced_by_letsencrypt :: "env \<Rightarrow> nat \<Rightarrow> db \<Rightarrow> bool res" where
  "zone_referenced_by_letsencrypt env zone_id db =
     rbind (read_json_setting env db SETTING_CONFIG) (\<lambda>config.
     if same_id (oget config ''zone_id'') zone_id then Inr True
     else
       rbind (get_enrollment env db) (\<lambda>enrollment.
       map_res (\<lambda>c. same_id (jget c ''zone_id'') zone_id) (sub_dict enrollment ''config'')))"

definition detached_config :: "dict \<Rightarrow> dict" where
  "detached_config config =
     (let updated = AList.update ''zone_id'' JNull config in
      if (case map_of updated ''auto_renew_enabled'' of None \<Rightarrow> True | Some j \<Rightarrow> json_truthy j)
      then AList.update ''auto_renew_enabled'' (JBool False) updated else updated)"

definition detach_dns_zone_from_letsencrypt :: "outside \<Rightarrow> 'p connector \<Rightarrow> nat \<Rightarrow> ('p world, bool) run" where
  "detach_dns_zone_from_letsencrypt out connect zone_id =
     sbind (in_core (db_read (\<lambda>db. read_json_setting (o_env out) db SETTING_CONFIG))) (\<lambda>config.
     sbind (in_core (db_read (\<lambda>db. get_enrollment (o_env out) db))) (\<lambda>enrollment.
     sbind (lift_res (sub_dict enrollment ''config'')) (\<lambda>enroll_config.
     let in_config = same_id (oget config ''zone_id'') zone_id;
         enrolled = same_id (jget enroll_config ''zone_id'') zone_id in
     if \<not> in_config \<and> \<not> enrolled then ret False
     else
       sbind (if enrolled then cancel_enrollment out connect else ret ()) (\<lambda>_.
       sbind (if in_config then in_core (db_write (write_json_setting (o_env out) SETTING_CONFIG (detached_config (the config))))
              else ret ()) (\<lambda>_.
       ret True)))))"

definition http_challenge_response :: "env \<Rightarrow> string \<Rightarrow> db \<Rightarrow> json option res" where
  "http_challenge_response env token db =
     rbind (get_enrollment env db) (\<lambda>enrollment.
     rbind (sub_dict enrollment ''http_challenge'') (\<lambda>single.
     if jget single ''token'' = JStr token then Inr (Some (json_or (jget single ''response'') (JStr [])))
     else
       rbind (case enrollment of None \<Rightarrow> Inr [] | Some e \<Rightarrow> rbind (get_list e ''http_challenges'') (traverse as_dict)) (\<lambda>all.
       Inr (map_option (\<lambda>c. json_or (jget c ''response'') (JStr []))
         (List.find (\<lambda>c. jget c ''token'' = JStr token) all)))))"

section \<open>Renewal\<close>

definition should_renew_cert :: "cert_info option \<Rightarrow> int \<Rightarrow> int \<Rightarrow> bool" where
  "should_renew_cert metadata renew_before_days now =
     (case metadata of
        None \<Rightarrow> False
      | Some i \<Rightarrow> ci_source i = SOURCE_LETSENCRYPT
          \<and> (case ci_not_after i of None \<Rightarrow> False | Some t \<Rightarrow> t \<le> now + days renew_before_days))"

definition get_or :: "dict \<Rightarrow> string \<Rightarrow> json \<Rightarrow> json" where
  "get_or d k dflt = (case map_of d k of None \<Rightarrow> dflt | Some v \<Rightarrow> v)"

definition renewal_due :: "outside \<Rightarrow> pki \<Rightarrow> (('p, 'a) le_world, dict option) run" where
  "renewal_due out p =
     sbind (gets (\<lambda>s. read_source (lw_store s))) (\<lambda>source.
     if source \<noteq> Some SOURCE_LETSENCRYPT then ret None
     else
       sbind (le_core (db_read (\<lambda>db. get_config (o_env out) (o_host out) db))) (\<lambda>found.
       case found of
         None \<Rightarrow> ret None
       | Some config \<Rightarrow>
           if config = [] \<or> \<not> json_truthy (get_or config ''auto_renew_enabled'' (JBool True))
             \<or> \<not> auto_renew_supported (get_or config ''challenge_type'' (JStr CHALLENGE_DNS)) (jget config ''zone_id'')
           then ret None
           else
             sbind (lift_res (validate_renew_before_days (json_or (jget config ''renew_before_expiry_days'')
                (json_or (opt_str (getenv (o_env out) ''LETSENCRYPT_RENEW_DAYS'')) (JInt DEFAULT_RENEW_BEFORE_DAYS))))) (\<lambda>renew_days.
             sbind (le_core (utc_now out)) (\<lambda>now.
             sbind (gets (\<lambda>s. cert_metadata p now (lw_store s))) (\<lambda>metadata.
             ret (if should_renew_cert metadata renew_days now then Some config else None))))))"

text \<open>The \<^verbatim>\<open>finally\<close> clause of the renewal, on every way out.\<close>

definition finally_run :: "('s, 'b) run \<Rightarrow> ('s, unit) run \<Rightarrow> ('s, 'b) run" where
  "finally_run m f = sbind (reify m) (\<lambda>r. sbind f (\<lambda>_. lift_res r))"

definition maybe_renew_certificate ::
  "outside \<Rightarrow> 'p connector \<Rightarrow> pki \<Rightarrow> 'a acme \<Rightarrow> (('p, 'a) le_world, (cert_info \<times> dict) option) run" where
  "maybe_renew_certificate out connect p ac =
     sbind (renewal_due out p) (\<lambda>due.
     case due of
       None \<Rightarrow> ret None
     | Some config \<Rightarrow>
         sbind (acme_prepare_order (o_env out) p ac config) (\<lambda>order.
         let enrollment = [(''status'', JStr ''renewing''), (''config'', JObj config), (''order'', JObj order)] in
         finally_run
           (sbind (in_world (attach_challenges_to_enrollment out connect noop_progress True enrollment)) (\<lambda>ready.
            sbind (le_core (db_write (write_json_setting (o_env out) SETTING_ENROLLMENT ready))) (\<lambda>_.
            sbind (acme_finalize_order (o_env out) p ac ready) (\<lambda>(key, cert).
            sbind (le_core (utc_now out)) (\<lambda>now.
            sbind (in_store (install_letsencrypt_cert p now key cert)) (\<lambda>metadata.
            ret (Some (metadata, config))))))))
           (sbind (in_world (cleanup_enrollment_challenges out connect enrollment)) (\<lambda>_.
            le_core (db_modify clear_enrollment)))))"

definition maybe_renew_certificate_standalone ::
  "outside \<Rightarrow> 'p connector \<Rightarrow> pki \<Rightarrow> 'a acme \<Rightarrow> (('p, 'a) le_world, (cert_info \<times> dict) option) run" where
  "maybe_renew_certificate_standalone out connect p ac =
     sbind (maybe_renew_certificate out connect p ac) (\<lambda>result.
     case result of
       None \<Rightarrow> ret None
     | Some (metadata, config) \<Rightarrow>
         sbind (le_core (db_write (apply_le_renewal_restart_policy (o_env out) config))) (\<lambda>_. ret result))"

section \<open>The view of the settings page\<close>

record le_view =
  lv_config :: dict
  lv_app_dns_name :: string
  lv_enrollment :: "dict option"
  lv_renew_options :: "int list"
  lv_renewal_hint :: string
  lv_auto_renew_allowed :: bool
  lv_zones :: "(nat \<times> string \<times> string) list"

definition config_view :: "outside \<Rightarrow> pki \<Rightarrow> int \<Rightarrow> cert_store \<Rightarrow> db \<Rightarrow> le_view res" where
  "config_view out p now st db =
     rbind (get_config (o_env out) (o_host out) db) (\<lambda>found.
     rbind (get_app_dns_name (o_env out) (o_host out) db) (\<lambda>app.
     let config = (case found of None \<Rightarrow> [] | Some c \<Rightarrow> c);
         enabled = json_truthy (get_or config ''auto_renew_enabled'' (JBool True));
         allowed = auto_renew_supported (get_or config ''challenge_type'' (JStr CHALLENGE_DNS)) (jget config ''zone_id'');
         not_after = (case cert_metadata p now st of None \<Rightarrow> None | Some i \<Rightarrow> ci_not_after i)
     in rbind (case not_after of
            Some t \<Rightarrow>
              if allowed \<and> enabled then
                map_res (\<lambda>d. iso_date (t - days d)) (validate_renew_before_days
                  (json_or (jget config ''renew_before_expiry_days'') (JInt DEFAULT_RENEW_BEFORE_DAYS)))
              else Inr []
          | None \<Rightarrow> Inr []) (\<lambda>hint.
        rbind (get_enrollment (o_env out) db) (\<lambda>enrollment.
        map_res (\<lambda>zones. \<lparr>lv_config = config, lv_app_dns_name = app, lv_enrollment = enrollment,
            lv_renew_options = RENEW_OPTIONS, lv_renewal_hint = hint, lv_auto_renew_allowed = allowed, lv_zones = zones\<rparr>)
          (traverse (\<lambda>z. map_res (\<lambda>cfg. (zc_id z, zc_zone_name z, strip (setting_or_empty cfg ''dns_zone'')))
             (decode_zone_config (o_env out) z)) (list_dns_zones db))))))"

end
