(* ===== verification/Backup.thy ===== *)
theory Backup
  imports Base64 JsonText EnvSecrets LetsEncrypt
begin

text \<open>
  The archive: \<^verbatim>\<open>backup_crypto.py\<close> and the exporting half of \<^verbatim>\<open>backup_service.py\<close>. A byte string is a string
  of characters below 256. Fernet with an explicit key, PBKDF2 and the random numbers are
  parameters; the version of the application is an argument.
\<close>

section \<open>Cryptography\<close>

text \<open>\<open>process_key\<close> is the \<^verbatim>\<open>ENCRYPTION_KEY\<close> of the process, whose Fernet is in \<open>env\<close>; \<open>fernet_decrypt\<close> gives \<open>None\<close>
  for \<^verbatim>\<open>InvalidToken\<close>; \<open>randbits n\<close> is the \<open>n\<close>-th random number of 31 bits.\<close>

record vault =
  process_key :: string
  fernet_valid :: "string \<Rightarrow> bool"
  fernet_encrypt :: "string \<Rightarrow> string \<Rightarrow> string"
  fernet_decrypt :: "string \<Rightarrow> string \<Rightarrow> string option"
  pbkdf2 :: "string \<Rightarrow> string \<Rightarrow> int \<Rightarrow> string"
  salt :: string
  randbits :: "nat \<Rightarrow> int"
  known_hash :: "string \<Rightarrow> bool"

definition BACKUP_FORMAT :: string where "BACKUP_FORMAT = ''api-to-dns-backup''"
definition BACKUP_VERSION :: int where "BACKUP_VERSION = 1"
definition BACKUP_KDF :: string where "BACKUP_KDF = ''pbkdf2_sha256''"
definition DEFAULT_PBKDF2_ITERATIONS :: int where "DEFAULT_PBKDF2_ITERATIONS = 600000"
definition MIN_PBKDF2_ITERATIONS :: int where "MIN_PBKDF2_ITERATIONS = 100000"
definition MAX_PBKDF2_ITERATIONS :: int where "MAX_PBKDF2_ITERATIONS = 1200000"

lemmas backup_constants = BACKUP_FORMAT_def BACKUP_VERSION_def BACKUP_KDF_def DEFAULT_PBKDF2_ITERATIONS_def
  MIN_PBKDF2_ITERATIONS_def MAX_PBKDF2_ITERATIONS_def

definition validated_iterations :: "int \<Rightarrow> int res" where
  "validated_iterations n =
     (if n < MIN_PBKDF2_ITERATIONS then Inl (ValueError ''PBKDF2 iteration count is too low.'')
      else if MAX_PBKDF2_ITERATIONS < n then Inl (ValueError ''PBKDF2 iteration count is too high.'')
      else Inr n)"

text \<open>The key of the derived Fernet.\<close>

definition derive_backup_fernet :: "vault \<Rightarrow> string \<Rightarrow> string \<Rightarrow> int \<Rightarrow> string res" where
  "derive_backup_fernet v password slt iterations =
     (if password = [] then Inl (ValueError ''Backup password is required.'')
      else
        rbind (validated_iterations iterations) (\<lambda>n.
        let key = urlsafe_b64encode (pbkdf2 v password slt n) in
        if fernet_valid v key then Inr key
        else Inl (ValueError ''Fernet key must be 32 url-safe base64-encoded bytes.'')))"

definition encrypt_payload :: "vault \<Rightarrow> string \<Rightarrow> string \<Rightarrow> int \<Rightarrow> dict res" where
  "encrypt_payload v payload_json password iterations =
     rbind (derive_backup_fernet v password (salt v) iterations) (\<lambda>key.
     Inr [(''format'', JStr BACKUP_FORMAT), (''version'', JInt BACKUP_VERSION), (''encrypted'', JBool True),
          (''kdf'', JStr BACKUP_KDF), (''iterations'', JInt iterations), (''salt'', JStr (b64encode (salt v))),
          (''ciphertext'', JStr (b64encode (fernet_encrypt v key payload_json)))])"

text \<open>\<^verbatim>\<open>base64.b64decode(x)\<close> of a value that need not be a string.\<close>

definition b64_json :: "json \<Rightarrow> string res" where
  "b64_json j = (case j of JStr s \<Rightarrow> b64decode False s | _ \<Rightarrow> type_error)"

definition decrypt_envelope :: "vault \<Rightarrow> dict \<Rightarrow> string \<Rightarrow> string res" where
  "decrypt_envelope v envelope password =
     (if jget envelope ''format'' \<noteq> JStr BACKUP_FORMAT then Inl (ValueError ''Unrecognized backup format.'')
      else if \<not> json_truthy (jget envelope ''encrypted'') then Inl (ValueError ''Envelope is not encrypted.'')
      else if json_or (jget envelope ''kdf'') (JStr []) \<noteq> JStr BACKUP_KDF
      then Inl (ValueError ''Unsupported backup key derivation.'')
      else
        rbind (rbind (need envelope ''salt'') b64_json) (\<lambda>slt.
        rbind (case rbind (json_int (json_or (jget envelope ''iterations'') (JInt DEFAULT_PBKDF2_ITERATIONS)))
                 validated_iterations of
             Inl e \<Rightarrow> if is_value_error e \<or> is_type_error e then Inl (ValueError ''Invalid PBKDF2 iteration count.'') else Inl e
           | Inr n \<Rightarrow> Inr n) (\<lambda>iterations.
        rbind (rbind (need envelope ''ciphertext'') b64_json) (\<lambda>token.
        rbind (derive_backup_fernet v password slt iterations) (\<lambda>key.
        case fernet_decrypt v key token of
          None \<Rightarrow> Inl (ValueError ''Incorrect backup password or corrupt archive.'')
        | Some plain \<Rightarrow> Inr plain)))))"

section \<open>Categories\<close>

definition SETTING_BACKUP_PROGRESS :: string where "SETTING_BACKUP_PROGRESS = ''backup_restore_progress''"
definition MANIFEST_ENVELOPE_ENCRYPTED :: string where "MANIFEST_ENVELOPE_ENCRYPTED = ''envelope_encrypted''"
definition MIN_PASSWORD_HASH_ROUNDS :: int where "MIN_PASSWORD_HASH_ROUNDS = 10000"
definition MAX_PASSWORD_HASH_ROUNDS :: int where "MAX_PASSWORD_HASH_ROUNDS = 600000"
definition MAX_BACKUP_UPLOAD_BYTES :: nat where "MAX_BACKUP_UPLOAD_BYTES = 33554432"

definition CATEGORY_SETTINGS :: string where "CATEGORY_SETTINGS = ''settings''"
definition CATEGORY_USERS :: string where "CATEGORY_USERS = ''users''"
definition CATEGORY_ZONES :: string where "CATEGORY_ZONES = ''zones''"
definition CATEGORY_API_KEYS :: string where "CATEGORY_API_KEYS = ''api_keys''"
definition CATEGORY_ALERT_RULES :: string where "CATEGORY_ALERT_RULES = ''alert_rules''"
definition CATEGORY_SSL_FILES :: string where "CATEGORY_SSL_FILES = ''ssl_files''"
definition CATEGORY_APPLICATION_SECRETS :: string where "CATEGORY_APPLICATION_SECRETS = ''application_secrets''"
definition CATEGORY_ACTIVITY_LOGS :: string where "CATEGORY_ACTIVITY_LOGS = ''activity_logs''"

lemmas category_defs = CATEGORY_SETTINGS_def CATEGORY_USERS_def CATEGORY_ZONES_def CATEGORY_API_KEYS_def
  CATEGORY_ALERT_RULES_def CATEGORY_SSL_FILES_def CATEGORY_APPLICATION_SECRETS_def CATEGORY_ACTIVITY_LOGS_def

definition ALL_CATEGORIES :: "string list" where
  "ALL_CATEGORIES = [CATEGORY_SETTINGS, CATEGORY_USERS, CATEGORY_ZONES, CATEGORY_API_KEYS, CATEGORY_ALERT_RULES,
     CATEGORY_SSL_FILES, CATEGORY_APPLICATION_SECRETS, CATEGORY_ACTIVITY_LOGS]"

definition DEFAULT_EXPORT_CATEGORIES :: "string list" where
  "DEFAULT_EXPORT_CATEGORIES = [CATEGORY_SETTINGS, CATEGORY_USERS, CATEGORY_ZONES, CATEGORY_API_KEYS, CATEGORY_ALERT_RULES,
     CATEGORY_SSL_FILES, CATEGORY_APPLICATION_SECRETS]"

definition FERNET_BACKED_CATEGORIES :: "string list" where
  "FERNET_BACKED_CATEGORIES = [CATEGORY_SETTINGS, CATEGORY_ZONES, CATEGORY_SSL_FILES]"

definition ENCRYPTION_REQUIRED_EXPORT_CATEGORIES :: "string list" where
  "ENCRYPTION_REQUIRED_EXPORT_CATEGORIES = [CATEGORY_SETTINGS, CATEGORY_USERS, CATEGORY_ZONES, CATEGORY_API_KEYS,
     CATEGORY_SSL_FILES, CATEGORY_APPLICATION_SECRETS]"

text \<open>\<^verbatim>\<open>a & b\<close> is not empty\<close>

definition meets :: "string list \<Rightarrow> string list \<Rightarrow> bool" where
  "meets xs ys \<longleftrightarrow> list_ex (\<lambda>x. x \<in> set ys) xs"

definition categories_require_encryption :: "string list \<Rightarrow> bool" where
  "categories_require_encryption categories = meets categories ENCRYPTION_REQUIRED_EXPORT_CATEGORIES"

definition EXCLUDED_SETTING_NAMES :: "string list" where
  "EXCLUDED_SETTING_NAMES = [SETTING_BACKUP_PROGRESS, ''restart_required'', ''restart_reason'', ''last_scheduled_restart_date'',
     ''letsencrypt_renewal_pending_restart'', ''letsencrypt_enrollment'', ''letsencrypt_enrollment_progress'',
     ''last_activity_retention_cleanup'']"

definition normalize_categories :: "string list option \<Rightarrow> bool \<Rightarrow> string list" where
  "normalize_categories selected default_on =
     (case selected of
        None \<Rightarrow> if default_on then DEFAULT_EXPORT_CATEGORIES else []
      | Some chosen \<Rightarrow> filter (\<lambda>c. c \<in> set chosen) ALL_CATEGORIES)"

definition backup_error :: "string \<Rightarrow> py_exc" where
  "backup_error m = OtherError ''BackupError'' m"

definition is_backup_error :: "py_exc \<Rightarrow> bool" where
  "is_backup_error e \<longleftrightarrow> exc_name e = ''BackupError''"

section \<open>Export\<close>

definition opt_iso :: "int option \<Rightarrow> json" where
  "opt_iso t = (case t of None \<Rightarrow> JNull | Some t \<Rightarrow> JStr (iso_format t))"

definition opt_int :: "int option \<Rightarrow> json" where
  "opt_int v = (case v of None \<Rightarrow> JNull | Some i \<Rightarrow> JInt i)"

definition export_settings :: "db \<Rightarrow> json" where
  "export_settings db =
     JList (map (\<lambda>r. JObj [(''name'', JStr (st_name r)), (''value'', JStr (st_value r))])
       (filter (\<lambda>r. st_name r \<noteq> [] \<and> st_name r \<notin> set EXCLUDED_SETTING_NAMES) (settings db)))"

definition export_user :: "user_row \<Rightarrow> json" where
  "export_user u = JObj [(''username'', JStr (us_username u)), (''password_hash'', JStr (us_password_hash u)),
     (''roles'', JStr (us_roles u)), (''disabled'', JBool (us_disabled u)), (''session_version'', JInt (us_session_version u))]"

definition export_zone :: "dns_zone_config \<Rightarrow> json" where
  "export_zone z = JObj [(''zone_name'', JStr (zc_zone_name z)), (''encrypted_config'', JStr (zc_encrypted_config z))]"

definition key_zone_names :: "db \<Rightarrow> api_key_row \<Rightarrow> string list" where
  "key_zone_names db k =
     List.map_filter (\<lambda>l. map_option zc_zone_name (get_zone db (az_dns_zone_config_id l)))
       (filter (\<lambda>l. az_api_key_id l = ak_id k) (api_key_allowed_zones db))"

definition export_key :: "db \<Rightarrow> api_key_row \<Rightarrow> json" where
  "export_key db k = JObj [(''label'', JStr (ak_label k)), (''key'', JStr (ak_key k)),
     (''key_prefix'', JStr (case ak_key_prefix k of None \<Rightarrow> [] | Some p \<Rightarrow> p)), (''access_mode'', JStr (ak_access_mode k)),
     (''active'', JBool (ak_active k)), (''created_at'', JStr (iso_format (ak_created_at k))),
     (''allowed_zones'', JList (map JStr (key_zone_names db k)))]"

definition export_rule :: "alert_rule \<Rightarrow> json" where
  "export_rule r = JObj [(''enabled'', JBool (ar_enabled r)), (''name'', JStr (ar_name r)), (''event_type'', opt_str (ar_event_type r)),
     (''category'', opt_str (ar_category r)), (''minimum_level'', JStr (ar_minimum_level r)),
     (''message_contains'', opt_str (ar_message_contains r)), (''email_recipients'', JStr (ar_email_recipients r)),
     (''email_subject_template'', JStr (ar_email_subject_template r)),
     (''email_body_template'', JStr (ar_email_body_template r)), (''cooldown_minutes'', JInt (ar_cooldown_minutes r)),
     (''last_triggered_at'', opt_iso (ar_last_triggered_at r))]"

definition export_log :: "activity_log \<Rightarrow> json" where
  "export_log r = JObj [(''timestamp'', JStr (iso_format (al_timestamp r))), (''level'', JStr (al_level r)),
     (''category'', opt_str (al_category r)), (''event_type'', JStr (al_event_type r)), (''status'', opt_str (al_status r)),
     (''actor_type'', opt_str (al_actor_type r)), (''actor_id'', opt_str (al_actor_id r)),
     (''actor_label'', opt_str (al_actor_label r)), (''zone_name'', opt_str (al_zone_name r)),
     (''record_name'', opt_str (al_record_name r)), (''message'', opt_str (al_message r)),
     (''details_json'', opt_str (al_details_json r)), (''request_method'', opt_str (al_request_method r)),
     (''request_path'', opt_str (al_request_path r)), (''request_status_code'', opt_int (al_request_status_code r)),
     (''request_ip'', opt_str (al_request_ip r))]"

text \<open>The rows are read 500 at a time; the loop ends at an empty batch.\<close>

function log_batches :: "nat \<Rightarrow> activity_log list \<Rightarrow> activity_log list" where
  "log_batches offset rows =
     (let batch = take 500 (drop offset rows) in
      if batch = [] then [] else batch @ log_batches (offset + 500) rows)"
  by auto
termination by (relation "measure (\<lambda>(n, rows). length rows - n)") auto

declare log_batches.simps [simp del]

text \<open>The files of the certificate directory, by name.\<close>

definition SSL_FILE_NAMES :: "string list" where
  "SSL_FILE_NAMES = [''server.key'', ''server.crt'', ''server.source'', ''acme_account.key'']"

definition store_file :: "cert_store \<Rightarrow> string \<Rightarrow> string option" where
  "store_file st name =
     (if name = ''server.key'' then cs_key st else if name = ''server.crt'' then cs_cert st
      else if name = ''server.source'' then cs_source st else if name = ''acme_account.key'' then cs_account st
      else None)"

definition set_store_file :: "string \<Rightarrow> string \<Rightarrow> cert_store \<Rightarrow> cert_store" where
  "set_store_file name content st =
     (if name = ''server.key'' then st\<lparr>cs_key := Some content\<rparr> else if name = ''server.crt'' then st\<lparr>cs_cert := Some content\<rparr>
      else if name = ''server.source'' then st\<lparr>cs_source := Some content\<rparr>
      else if name = ''acme_account.key'' then st\<lparr>cs_account := Some content\<rparr>
      else st)"

definition export_ssl_files :: "cert_store \<Rightarrow> json" where
  "export_ssl_files st =
     JObj (List.map_filter (\<lambda>name. map_option (\<lambda>raw. (name, JStr (b64encode raw))) (store_file st name)) SSL_FILE_NAMES)"

definition export_secrets :: "env \<Rightarrow> vault \<Rightarrow> json" where
  "export_secrets env v = JObj [(''SECRET_KEY'', JStr (or_empty (getenv env ''SECRET_KEY''))),
     (''ENCRYPTION_KEY'', JStr (process_key v))]"

definition manifest_of :: "string \<Rightarrow> int \<Rightarrow> string list \<Rightarrow> json" where
  "manifest_of version now cats = JObj [(''format'', JStr BACKUP_FORMAT), (''schema_version'', JInt BACKUP_VERSION),
     (''app_version'', JStr version), (''categories'', JList (map JStr cats)), (''created_at'', JStr (iso_format now))]"

definition build_payload ::
  "env \<Rightarrow> vault \<Rightarrow> string \<Rightarrow> int \<Rightarrow> cert_store \<Rightarrow> string list \<Rightarrow> db \<Rightarrow> dict" where
  "build_payload env v version now st categories db =
     (let cats = normalize_categories (Some categories) True;
          part = (\<lambda>c j. if c \<in> set cats then [(c, j)] else [])
      in [(''manifest'', manifest_of version now cats)]
         @ part CATEGORY_SETTINGS (export_settings db)
         @ part CATEGORY_USERS (JList (map export_user (users db)))
         @ part CATEGORY_ZONES (JList (map export_zone (dns_zone_configs db)))
         @ part CATEGORY_API_KEYS (JList (map (export_key db) (api_keys db)))
         @ part CATEGORY_ALERT_RULES (JList (map export_rule (alert_rules db)))
         @ part CATEGORY_SSL_FILES (export_ssl_files st)
         @ part CATEGORY_APPLICATION_SECRETS (export_secrets env v)
         @ part CATEGORY_ACTIVITY_LOGS (JList (map export_log (log_batches 0 (activity_logs db)))))"

section \<open>The archive as bytes\<close>

text \<open>\<open>now\<close> is the time that replaces a missing \<^verbatim>\<open>created_at\<close>.\<close>

definition created_at_of :: "int \<Rightarrow> dict \<Rightarrow> json res" where
  "created_at_of now payload =
     map_res (\<lambda>m. json_or (jget m ''created_at'') (JStr (iso_format now)))
       (as_dict (json_or (jget payload ''manifest'') (JObj [])))"

definition serialize_backup :: "vault \<Rightarrow> int \<Rightarrow> dict \<Rightarrow> bool \<Rightarrow> string option \<Rightarrow> string res" where
  "serialize_backup v now payload encrypt_it password =
     rbind (created_at_of now payload) (\<lambda>created.
     let sensitive = str_sort (filter (\<lambda>c. c \<in> set ENCRYPTION_REQUIRED_EXPORT_CATEGORIES) (map fst payload)) in
     if sensitive \<noteq> [] \<and> \<not> encrypt_it then
       Inl (backup_error (''Selected backup categories require a password-encrypted backup: '' @ join '', '' sensitive @ ''.''))
     else if encrypt_it then
       (let password = or_empty password in
        if password = [] then Inl (backup_error ''Password is required when encryption is enabled.'')
        else if length password < 8 then Inl (backup_error ''Backup password must be at least 8 characters.'')
        else
          map_res (\<lambda>envelope. json_dumps_indent (JObj (AList.update ''created_at'' created envelope)))
            (encrypt_payload v (json_dumps_compact (JObj payload)) password DEFAULT_PBKDF2_ITERATIONS))
     else
       Inr (json_dumps_indent (JObj [(''format'', JStr BACKUP_FORMAT), (''version'', JInt BACKUP_VERSION), (''created_at'', created),
         (''encrypted'', JBool False), (''payload'', JObj payload)])))"

text \<open>The payload of an opened envelope, before its manifest is looked at.\<close>

definition open_envelope :: "vault \<Rightarrow> dict \<Rightarrow> string option \<Rightarrow> json res" where
  "open_envelope v envelope password =
     (if json_truthy (jget envelope ''encrypted'') then
        (if or_empty password = [] then Inl (backup_error ''Password is required to decrypt this backup.'')
         else
           rbind (case decrypt_envelope v envelope (or_empty password) of
               Inl e \<Rightarrow> Inl (if is_value_error e then backup_error (exc_str e) else e)
             | Inr plain \<Rightarrow> Inr plain) (\<lambda>plain.
           case json_loads plain of
             Inl e \<Rightarrow> Inl (if is_value_error e then backup_error ''Decrypted backup payload is corrupt.'' else e)
           | Inr j \<Rightarrow> Inr j))
      else
        (case jget envelope ''payload'' of
           JObj p \<Rightarrow> Inr (JObj p)
         | _ \<Rightarrow> Inl (backup_error ''Unencrypted backup is missing payload.'')))"

definition load_backup_bytes :: "vault \<Rightarrow> string \<Rightarrow> string option \<Rightarrow> dict res" where
  "load_backup_bytes v raw password =
     rbind (case json_loads raw of
         Inl e \<Rightarrow> Inl (if is_value_error e then backup_error ''Backup file is not valid JSON.'' else e)
       | Inr j \<Rightarrow> as_dict j) (\<lambda>envelope.
     if jget envelope ''format'' \<noteq> JStr BACKUP_FORMAT then Inl (backup_error ''Unrecognized backup format.'')
     else
       rbind (rbind (open_envelope v envelope password) as_dict) (\<lambda>payload.
       case jget payload ''manifest'' of
         JObj m \<Rightarrow> Inr (AList.update ''manifest''
           (JObj (AList.update MANIFEST_ENVELOPE_ENCRYPTED (JBool (json_truthy (jget envelope ''encrypted''))) m)) payload)
       | _ \<Rightarrow> Inl (backup_error ''Backup payload is missing manifest.'')))"

end
