(* ===== verification/ApiKeys.thy ===== *)
theory ApiKeys
  imports DnsApi Users
begin

text \<open>
  The administration of API keys, \<^verbatim>\<open>routes/api_keys.py\<close>: creation, change and revocation, with the
  unique constraints of \<^verbatim>\<open>models.py\<close> at the commits that can violate them. A page is reduced to its
  status, its messages, the key it shows once and the lists it renders.
\<close>

section \<open>Pages\<close>

record api_key_admin =
  ka_key :: key_public
  ka_zone_count :: nat
  ka_last_used :: "int option"
  ka_zone_names :: "string list"

record keys_page =
  ky_status :: int
  ky_message :: "string option"
  ky_error :: "string option"
  ky_created :: "string option"
  ky_keys :: "api_key_admin list"
  ky_zones :: "zone_public list"

definition api_key_admin_dict :: "db \<Rightarrow> api_key_row \<Rightarrow> api_key_admin" where
  "api_key_admin_dict db k = \<lparr>ka_key = api_key_public_dict k, ka_zone_count = api_key_zone_count db (ak_id k),
     ka_last_used = api_key_last_used_at db (ak_id k), ka_zone_names = api_key_allowed_zone_names db (ak_id k)\<rparr>"

text \<open>The newest key first; \<^verbatim>\<open>sorted\<close> is stable.\<close>

definition api_keys_html_context :: "env \<Rightarrow> db \<Rightarrow> keys_page res" where
  "api_keys_html_context env db =
     map_res (\<lambda>zones. \<lparr>ky_status = 200, ky_message = None, ky_error = None, ky_created = None,
         ky_keys = map (api_key_admin_dict db) (sort_key (\<lambda>k. - ak_created_at k) (api_keys db)), ky_zones = zones\<rparr>)
       (traverse (dns_zone_public_dict env) (list_dns_zones db))"

definition redirect_page :: keys_page where
  "redirect_page = \<lparr>ky_status = 303, ky_message = None, ky_error = None, ky_created = None, ky_keys = [], ky_zones = []\<rparr>"

text \<open>\<^verbatim>\<open>render_error_response\<close>\<close>

definition error_page :: keys_page where
  "error_page = redirect_page\<lparr>ky_status := 500\<rparr>"

definition render_keys :: "outside \<Rightarrow> (keys_page \<Rightarrow> keys_page) \<Rightarrow> (core, keys_page) run" where
  "render_keys out f = sbind (db_read (api_keys_html_context (o_env out))) (\<lambda>p. ret (f p))"

text \<open>The page of one key lists the zones; its messages are in \<open>ky_message\<close>.\<close>

definition render_edit :: "outside \<Rightarrow> nat \<Rightarrow> string option \<Rightarrow> (core, keys_page) run" where
  "render_edit out key_id message =
     sbind (gets (\<lambda>s. first_row (\<lambda>k. ak_id k = key_id) (api_keys (c_db s)))) (\<lambda>row.
     case row of
       None \<Rightarrow> ret redirect_page
     | Some k \<Rightarrow>
         sbind (db_read (\<lambda>db. traverse (dns_zone_public_dict (o_env out)) (list_dns_zones db))) (\<lambda>zones.
         sbind (gets (\<lambda>s. api_key_admin_dict (c_db s) k)) (\<lambda>admin.
         ret (redirect_page\<lparr>ky_status := 200, ky_message := message, ky_keys := [admin], ky_zones := zones\<rparr>))))"

definition as_role :: "string \<Rightarrow> session \<Rightarrow> (string \<Rightarrow> (core, 'a) run) \<Rightarrow> (core, 'a) run" where
  "as_role role sess body = sbind (lift_res (require_role role (Some (se_roles sess)) (se_user sess))) body"

section \<open>Changing keys\<close>

definition api_key_access_mode :: "string option \<Rightarrow> string \<Rightarrow> string res" where
  "api_key_access_mode access_mode dflt =
     (let selected = (case access_mode of None \<Rightarrow> dflt | Some m \<Rightarrow> lower (strip m)) in
      if selected \<notin> set API_KEY_ACCESS_MODES then Inl (ValueError ''Access mode must be read_only or read_write.'')
      else Inr selected)"

definition integrity_error :: py_exc where
  "integrity_error = OtherError ''IntegrityError'' ''UNIQUE constraint failed''"

definition get_api_key_row :: "db \<Rightarrow> nat \<Rightarrow> api_key_row option" where
  "get_api_key_row db i = first_row (\<lambda>k. ak_id k = i) (api_keys db)"

text \<open>The links of a key to the zones that exist, added in one transaction. A pair of key and zone is
  unique, so that a zone id given twice aborts the transaction.\<close>

definition new_links :: "db \<Rightarrow> nat \<Rightarrow> nat list \<Rightarrow> api_key_allowed_zone list" where
  "new_links db key_id zone_ids =
     map (\<lambda>(n, z). \<lparr>az_id = next_id az_id (api_key_allowed_zones db) + n, az_api_key_id = key_id, az_dns_zone_config_id = z\<rparr>)
       (enumerate 0 (filter (\<lambda>z. get_zone db z \<noteq> None) zone_ids))"

definition link_pair :: "api_key_allowed_zone \<Rightarrow> nat \<times> nat" where
  "link_pair l = (az_api_key_id l, az_dns_zone_config_id l)"

definition insert_links :: "nat \<Rightarrow> nat list \<Rightarrow> db \<Rightarrow> db res" where
  "insert_links key_id zone_ids db =
     (let links = api_key_allowed_zones db @ new_links db key_id zone_ids in
      if distinct (map link_pair links) then Inr (db\<lparr>api_key_allowed_zones := links\<rparr>) else Inl integrity_error)"

definition save_key :: "nat \<Rightarrow> string \<Rightarrow> string \<Rightarrow> db \<Rightarrow> db" where
  "save_key key_id label mode db =
     db\<lparr>api_keys := update_first (\<lambda>k. ak_id k = key_id) (\<lambda>k. k\<lparr>ak_label := label, ak_access_mode := mode\<rparr>) (api_keys db),
        api_key_allowed_zones := filter (\<lambda>l. az_api_key_id l \<noteq> key_id) (api_key_allowed_zones db)\<rparr>"

definition key_details :: "nat \<Rightarrow> string \<Rightarrow> string \<Rightarrow> nat list \<Rightarrow> (string \<times> json) list" where
  "key_details key_id label mode zone_ids =
     [(''api_key_id'', JInt (int key_id)), (''api_key_label'', JStr label), (''access_mode'', JStr mode),
      (''allowed_zone_ids'', JList (map (\<lambda>z. JInt (int z)) zone_ids))]"

definition apply_key_update :: "outside \<Rightarrow> string \<Rightarrow> nat \<Rightarrow> string \<Rightarrow> string \<Rightarrow> nat list \<Rightarrow> (core, unit) run" where
  "apply_key_update out user key_id label mode zone_ids =
     sbind (db_modify (save_key key_id label mode)) (\<lambda>_.
     sbind (db_write (insert_links key_id zone_ids)) (\<lambda>_.
     sbind (emit_activity_event out (user_event ''api_key.updated'' LOG_LEVEL_INFORMATIONAL user
         (''API key '' @ repr label @ '' updated'') (key_details key_id label mode zone_ids))) (\<lambda>_.
     ret ())))"

text \<open>The new row; the hash of a key is unique.\<close>

definition add_key :: "env \<Rightarrow> string \<Rightarrow> string \<Rightarrow> string \<Rightarrow> int \<Rightarrow> db \<Rightarrow> (api_key_row \<times> db) res" where
  "add_key env label mode new_key now db =
     (let k = \<lparr>ak_id = next_id ak_id (api_keys db), ak_label = label, ak_key = hash_api_key env new_key,
           ak_key_prefix = Some (api_key_prefix new_key 12), ak_access_mode = mode, ak_active = True, ak_created_at = now\<rparr>
      in if ak_key k \<in> ak_key ` set (api_keys db) then Inl integrity_error
         else Inr (k, db\<lparr>api_keys := api_keys db @ [k]\<rparr>))"

section \<open>Routes\<close>

definition api_keys_page :: "outside \<Rightarrow> session \<Rightarrow> (core, keys_page) run" where
  "api_keys_page out sess =
     as_role ROLE_API_KEYS_READ sess (\<lambda>user. catch (render_keys out id) (\<lambda>_. ret error_page))"

definition revoke_api_key :: "outside \<Rightarrow> session \<Rightarrow> nat \<Rightarrow> (core, keys_page) run" where
  "revoke_api_key out sess key_id =
     as_role ROLE_API_KEYS_UPDATE sess (\<lambda>user.
     catch
       (sbind (gets (\<lambda>s. get_api_key_row (c_db s) key_id)) (\<lambda>row.
        sbind (case row of
            None \<Rightarrow> ret ()
          | Some k \<Rightarrow>
              sbind (db_modify (\<lambda>db. db\<lparr>api_keys :=
                update_first (\<lambda>k. ak_id k = key_id) (\<lambda>k. k\<lparr>ak_active := False\<rparr>) (api_keys db)\<rparr>)) (\<lambda>_.
              sbind (emit_activity_event out (user_event ''api_key.revoked'' LOG_LEVEL_WARNING user
                  (''API key '' @ repr (ak_label k) @ '' revoked'')
                  [(''api_key_id'', JInt (int (ak_id k))), (''api_key_label'', JStr (ak_label k))])) (\<lambda>_.
              ret ()))) (\<lambda>_.
        render_keys out (\<lambda>p. p\<lparr>ky_message := Some ''API key revoked.''\<rparr>))))
       (\<lambda>_. ret error_page))"

text \<open>\<open>new_key\<close> is the token that \<^verbatim>\<open>secrets\<close> generates.\<close>

definition create_new_key ::
  "outside \<Rightarrow> string \<Rightarrow> string \<Rightarrow> string \<Rightarrow> nat list \<Rightarrow> string option \<Rightarrow> (core, keys_page) run" where
  "create_new_key out user new_key label zone_ids access_mode =
     (case api_key_access_mode access_mode API_KEY_ACCESS_READ_ONLY of
        Inl e \<Rightarrow> if is_value_error e then render_keys out (\<lambda>p. p\<lparr>ky_error := Some (exc_str e)\<rparr>) else raise e
      | Inr mode \<Rightarrow>
          if zone_ids = [] then
            render_keys out (\<lambda>p. p\<lparr>ky_error := Some ''Select at least one DNS zone for this API key.''\<rparr>)
          else
            sbind (utc_now out) (\<lambda>now.
            sbind (db_do (add_key (o_env out) label mode new_key now)) (\<lambda>k.
            sbind (db_write (insert_links (ak_id k) zone_ids)) (\<lambda>_.
            sbind (emit_activity_event out (user_event ''api_key.created'' LOG_LEVEL_INFORMATIONAL user
                (''API key '' @ repr label @ '' created'')
                (key_details (ak_id k) label mode zone_ids
                 @ [(''key_prefix'', case ak_key_prefix k of None \<Rightarrow> JNull | Some p \<Rightarrow> JStr p)]))) (\<lambda>_.
            render_keys out (\<lambda>p. p\<lparr>ky_message := Some (''API key created: '' @ new_key
                @ '' (copy now; it will not be shown again)''), ky_created := Some new_key\<rparr>))))))"

definition create_api_key_route ::
  "outside \<Rightarrow> session \<Rightarrow> string \<Rightarrow> string \<Rightarrow> nat list \<Rightarrow> nat option \<Rightarrow> string option \<Rightarrow> (core, keys_page) run" where
  "create_api_key_route out sess new_key label zone_ids key_id access_mode =
     as_role ROLE_API_KEYS_UPDATE sess (\<lambda>user.
     catch
       (case key_id of
          None \<Rightarrow> create_new_key out user new_key label zone_ids access_mode
        | Some i \<Rightarrow>
            sbind (gets (\<lambda>s. get_api_key_row (c_db s) i)) (\<lambda>row.
            case row of
              None \<Rightarrow> ret redirect_page
            | Some k \<Rightarrow>
                (case api_key_access_mode access_mode (ak_access_mode k) of
                   Inl e \<Rightarrow> if is_value_error e then render_keys out (\<lambda>p. p\<lparr>ky_error := Some (exc_str e)\<rparr>) else raise e
                 | Inr mode \<Rightarrow>
                     if zone_ids = [] then render_keys out (\<lambda>p. p\<lparr>ky_error := Some ''Select at least one DNS zone.''\<rparr>)
                     else
                       sbind (apply_key_update out user i label mode zone_ids) (\<lambda>_.
                       render_keys out (\<lambda>p. p\<lparr>ky_message := Some ''API key updated.''\<rparr>)))))
       (\<lambda>_. ret error_page))"

definition api_key_edit_form :: "outside \<Rightarrow> session \<Rightarrow> nat \<Rightarrow> (core, keys_page) run" where
  "api_key_edit_form out sess key_id = as_role ROLE_API_KEYS_UPDATE sess (\<lambda>user. render_edit out key_id None)"

definition api_key_update ::
  "outside \<Rightarrow> session \<Rightarrow> nat \<Rightarrow> string \<Rightarrow> nat list \<Rightarrow> string option \<Rightarrow> (core, keys_page) run" where
  "api_key_update out sess key_id label zone_ids access_mode =
     as_role ROLE_API_KEYS_UPDATE sess (\<lambda>user.
     sbind (gets (\<lambda>s. get_api_key_row (c_db s) key_id)) (\<lambda>row.
     case row of
       None \<Rightarrow> ret redirect_page
     | Some k \<Rightarrow>
         (case api_key_access_mode access_mode (ak_access_mode k) of
            Inl e \<Rightarrow> if is_value_error e then render_edit out key_id (Some (exc_str e)) else raise e
          | Inr mode \<Rightarrow>
              if zone_ids = [] then render_edit out key_id (Some ''Select at least one DNS zone.'')
              else
                sbind (apply_key_update out user key_id label mode zone_ids) (\<lambda>_.
                render_edit out key_id (Some ''API key updated.'')))))"

end
