(* ===== verification/Restore.thy ===== *)
theory Restore
  imports Backup Users ApiKeys
begin

text \<open>
  The importing half of \<^verbatim>\<open>backup_service.py\<close>: the progress of a restore, the validation of an archive, and
  the restore itself over the database, the certificate directory and the persisted secrets. A
  transaction that fails leaves the tables as they were. \<^verbatim>\<open>begin_immediate\<close> locks the database: the
  check and the write of \<^verbatim>\<open>try_begin_restore\<close> are one step.
\<close>

section \<open>Progress\<close>

definition restore_progress_dict :: "json \<Rightarrow> int \<Rightarrow> json \<Rightarrow> bool \<Rightarrow> json \<Rightarrow> json \<Rightarrow> bool \<Rightarrow> dict" where
  "restore_progress_dict phase percent message finished error result restarting =
     progress_dict phase percent message finished error result @ [(''restarting'', JBool restarting)]"

definition write_restore_progress ::
  "env \<Rightarrow> string \<Rightarrow> int \<Rightarrow> string \<Rightarrow> bool \<Rightarrow> string option \<Rightarrow> string option \<Rightarrow> bool \<Rightarrow> db \<Rightarrow> db res" where
  "write_restore_progress env phase percent message finished error result restarting db =
     write_json_setting env SETTING_BACKUP_PROGRESS
       (restore_progress_dict (JStr phase) (clamp_percent percent) (JStr message) finished (opt_str error) (opt_str result)
          restarting) db"

text \<open>A Fernet token that cannot be read (\<^verbatim>\<open>InvalidToken\<close>) counts as no progress.\<close>

definition get_restore_progress :: "env \<Rightarrow> db \<Rightarrow> dict res" where
  "get_restore_progress env db =
     rbind (case get_typed_setting_by_key env db SETTING_BACKUP_PROGRESS of
         Inl e \<Rightarrow> if is_value_error e \<or> exc_name e = ''InvalidToken'' then Inr [] else Inl e
       | Inr x \<Rightarrow> Inr (case value_json x of JObj d \<Rightarrow> d | _ \<Rightarrow> [])) (\<lambda>d.
     map_res (\<lambda>p. restore_progress_dict (json_or (jget d ''phase'') (JStr ''idle'')) (clamp_percent p)
         (json_or (jget d ''message'') (JStr [])) (json_truthy (jget d ''done'')) (jget d ''error'')
         (jget d ''result_status'') (json_truthy (jget d ''restarting'')))
       (json_int (json_or (jget d ''percent'') (JInt 0))))"

definition restore_is_running :: "dict \<Rightarrow> bool" where
  "restore_is_running progress \<longleftrightarrow>
     \<not> json_truthy (jget progress ''done'')
     \<and> lower (strip (json_text (json_or (jget progress ''phase'') (JStr ''idle'')))) \<notin> {[], ''idle''}"

definition is_restore_in_progress :: "env \<Rightarrow> db \<Rightarrow> bool res" where
  "is_restore_in_progress env db = map_res restore_is_running (get_restore_progress env db)"

definition try_begin_restore :: "env \<Rightarrow> string \<Rightarrow> db \<Rightarrow> (bool \<times> db) res" where
  "try_begin_restore env message db =
     rbind (is_restore_in_progress env db) (\<lambda>running.
     if running then Inr (False, db)
     else map_res (Pair True) (write_restore_progress env ''starting'' 0 message False None None False db))"

definition mark_restore_worker_finished :: "env \<Rightarrow> db \<Rightarrow> db res" where
  "mark_restore_worker_finished env db =
     rbind (is_restore_in_progress env db) (\<lambda>running.
     if running then
       write_restore_progress env ''error'' 100 ''Restore worker ended unexpectedly.'' True
         (Some ''Restore worker ended unexpectedly.'') (Some ''error'') False db
     else Inr db)"

definition clear_restore_progress :: "db \<Rightarrow> db" where
  "clear_restore_progress db = delete_setting SETTING_BACKUP_PROGRESS db"

definition clear_stale_restore_progress :: "env \<Rightarrow> db \<Rightarrow> db res" where
  "clear_stale_restore_progress env db =
     (case first_row (\<lambda>r. st_name r = SETTING_BACKUP_PROGRESS) (settings db) of
        None \<Rightarrow> Inr db
      | Some r \<Rightarrow>
          (case decrypt env (st_value r) of
             Inl _ \<Rightarrow> Inr (delete_setting SETTING_BACKUP_PROGRESS db)
           | Inr _ \<Rightarrow> map_res (\<lambda>running. if running then clear_restore_progress db else db) (is_restore_in_progress env db)))"

section \<open>Validation\<close>

definition attribute_error :: "'a res" where
  "attribute_error = Inl (OtherError ''AttributeError'' ''strip'')"

text \<open>\<^verbatim>\<open>(x or "").strip()\<close>\<close>

definition json_strip :: "json \<Rightarrow> string res" where
  "json_strip j = (case json_or j (JStr []) of JStr s \<Rightarrow> Inr (strip s) | _ \<Rightarrow> attribute_error)"

definition backup_guard :: "bool \<Rightarrow> string \<Rightarrow> unit res" where
  "backup_guard b m = guard b (backup_error m)"

definition in_quotes :: "string \<Rightarrow> string" where
  "in_quotes s = [CHR 0x27] @ s @ [CHR 0x27]"

definition require_mapping :: "json \<Rightarrow> string \<Rightarrow> dict res" where
  "require_mapping item label =
     (case item of JObj d \<Rightarrow> Inr d | _ \<Rightarrow> Inl (backup_error (label @ '' entry must be an object.'')))"

definition validate_import_categories :: "string list \<Rightarrow> dict \<Rightarrow> unit res" where
  "validate_import_categories categories payload =
     rbind (as_dict (json_or (jget payload ''manifest'') (JObj []))) (\<lambda>manifest.
     rbind (json_iter (json_or (jget manifest ''categories'') (JList []))) (\<lambda>included.
     rbind (if list_ex (\<lambda>j. case j of JList _ \<Rightarrow> True | JObj _ \<Rightarrow> True | _ \<Rightarrow> False) included then type_error else Inr ()) (\<lambda>_.
     case List.find (\<lambda>c. JStr c \<notin> set included \<and> map_of payload c = None) categories of
       Some c \<Rightarrow> Inl (backup_error (''Backup does not include '' @ (if c = CATEGORY_ACTIVITY_LOGS then ''audit logs'' else c) @ ''.''))
     | None \<Rightarrow>
         backup_guard (\<not> meets FERNET_BACKED_CATEGORIES categories \<or> CATEGORY_APPLICATION_SECRETS \<in> set categories)
           (''Restoring settings, DNS zones, or SSL files requires Application secrets ''
            @ ''(ENCRYPTION_KEY) so encrypted data can be re-wrapped for this installation.''))))"

definition validate_password_hash :: "vault \<Rightarrow> string \<Rightarrow> string \<Rightarrow> unit res" where
  "validate_password_hash v password_hash username =
     rbind (backup_guard (known_hash v password_hash) (''User '' @ in_quotes username @ '' has an unrecognized password_hash format.'')) (\<lambda>_.
     case split_char CHR ''$'' password_hash of
       _ # scheme # raw # _ \<Rightarrow>
         if startswith ''pbkdf2'' scheme then
           (case py_int raw of
              None \<Rightarrow> Inl (backup_error (''User '' @ in_quotes username @ '' has an invalid password_hash rounds value.''))
            | Some n \<Rightarrow> backup_guard (MIN_PASSWORD_HASH_ROUNDS \<le> n \<and> n \<le> MAX_PASSWORD_HASH_ROUNDS)
                (''User '' @ in_quotes username @ '' password_hash rounds must be between '' @ show_int MIN_PASSWORD_HASH_ROUNDS
                 @ '' and '' @ show_int MAX_PASSWORD_HASH_ROUNDS @ ''.''))
         else Inr ()
     | _ \<Rightarrow> Inr ())"

text \<open>A list category: \<^verbatim>\<open>payload.get(c) or []\<close>.\<close>

definition list_part :: "dict \<Rightarrow> string \<Rightarrow> string \<Rightarrow> json list res" where
  "list_part payload c m =
     (case json_or (jget payload c) (JList []) of JList xs \<Rightarrow> Inr xs | _ \<Rightarrow> Inl (backup_error m))"

definition each :: "('a \<Rightarrow> unit res) \<Rightarrow> 'a list \<Rightarrow> unit res" where
  "each f xs = map_res (\<lambda>_. ()) (traverse f xs)"

definition is_text :: "json \<Rightarrow> bool" where
  "is_text j = (case j of JStr _ \<Rightarrow> True | _ \<Rightarrow> False)"

definition check_setting :: "json \<Rightarrow> unit res" where
  "check_setting item =
     rbind (require_mapping item ''Settings'') (\<lambda>row.
     rbind (json_strip (jget row ''name'')) (\<lambda>name.
     backup_guard (name = [] \<or> name \<in> set EXCLUDED_SETTING_NAMES \<or> jget row ''value'' = JNull
        \<or> is_text (jget row ''value'')) (''Setting '' @ in_quotes name @ '' value must be a string.'')))"

definition roles_of_json :: "json \<Rightarrow> string list res" where
  "roles_of_json j = (case json_or j (JStr []) of JStr s \<Rightarrow> Inr (parse_roles (Some s)) | _ \<Rightarrow> attribute_error)"

text \<open>The users in order, with the names seen before and whether an enabled global administrator was among
  them.\<close>

fun check_users :: "vault \<Rightarrow> string list \<Rightarrow> bool \<Rightarrow> json list \<Rightarrow> bool res" where
  "check_users v seen found [] = Inr found"
| "check_users v seen found (item # items) =
     rbind (require_mapping item ''User'') (\<lambda>row.
     rbind (json_strip (jget row ''username'')) (\<lambda>username.
     rbind (backup_guard (username \<noteq> []) ''User entry missing username.'') (\<lambda>_.
     rbind (case jget row ''password_hash'' of
         JStr h \<Rightarrow> if strip h = [] then Inl (backup_error (''User '' @ in_quotes username @ '' is missing password_hash.''))
           else validate_password_hash v h username
       | _ \<Rightarrow> Inl (backup_error (''User '' @ in_quotes username @ '' is missing password_hash.''))) (\<lambda>_.
     rbind (backup_guard (username \<notin> set seen) (''Duplicate user '' @ in_quotes username @ '' in backup.'')) (\<lambda>_.
     rbind (case json_int (json_or (jget row ''session_version'') (JInt 0)) of
         Inl e \<Rightarrow> Inl (if is_value_error e \<or> is_type_error e
           then backup_error (''User '' @ in_quotes username @ '' has invalid session_version.'') else e)
       | Inr n \<Rightarrow> Inr n) (\<lambda>_.
     rbind (if json_truthy (jget row ''disabled'') then Inr found
         else map_res (\<lambda>rs. found \<or> ROLE_GLOBAL_ADMIN \<in> set (effective_roles rs)) (roles_of_json (jget row ''roles''))) (\<lambda>found'.
     check_users v (username # seen) found' items)))))))"

definition validate_users :: "vault \<Rightarrow> dict \<Rightarrow> unit res" where
  "validate_users v payload =
     (let empty = backup_error ''Backup users category is empty; refusing to leave the system with no accounts.'' in
      case json_or (jget payload CATEGORY_USERS) (JList []) of
        JList (u # us) \<Rightarrow>
          rbind (check_users v [] False (u # us)) (\<lambda>admin.
          backup_guard admin ''Backup users must include at least one enabled global administrator.'')
      | _ \<Rightarrow> Inl empty)"

fun check_zones :: "string list \<Rightarrow> json list \<Rightarrow> unit res" where
  "check_zones seen [] = Inr ()"
| "check_zones seen (item # items) =
     rbind (require_mapping item ''Zone'') (\<lambda>row.
     rbind (json_strip (jget row ''zone_name'')) (\<lambda>name.
     rbind (backup_guard (name \<noteq> []) ''Zone entry missing zone_name.'') (\<lambda>_.
     rbind (backup_guard (name \<notin> set seen) (''Duplicate zone '' @ in_quotes name @ '' in backup.'')) (\<lambda>_.
     rbind (backup_guard (is_text (jget row ''encrypted_config'') \<and> json_truthy (jget row ''encrypted_config''))
        (''Zone '' @ in_quotes name @ '' is missing encrypted_config.'')) (\<lambda>_.
     check_zones (name # seen) items)))))"

fun check_keys :: "string list \<Rightarrow> json list \<Rightarrow> unit res" where
  "check_keys seen [] = Inr ()"
| "check_keys seen (item # items) =
     rbind (require_mapping item ''API key'') (\<lambda>row.
     rbind (case jget row ''key'' of
         JStr d \<Rightarrow> if d = [] then Inl (backup_error ''API key entry missing key digest.'') else Inr d
       | _ \<Rightarrow> Inl (backup_error ''API key entry missing key digest.'')) (\<lambda>digest.
     rbind (backup_guard (digest \<notin> set seen) ''Duplicate API key digest in backup.'') (\<lambda>_.
     rbind (backup_guard ((case map_of row ''access_mode'' of None \<Rightarrow> JStr API_KEY_ACCESS_READ_WRITE | Some j \<Rightarrow> j)
          \<in> set (map JStr API_KEY_ACCESS_MODES))
        ''API key access_mode must be read_only or read_write.'') (\<lambda>_.
     rbind (backup_guard (case json_or (jget row ''allowed_zones'') (JList []) of JList _ \<Rightarrow> True | _ \<Rightarrow> False)
        ''API key allowed_zones must be a list.'') (\<lambda>_.
     check_keys (digest # seen) items)))))"

definition check_rule :: "json \<Rightarrow> unit res" where
  "check_rule item =
     rbind (require_mapping item ''Alert rule'') (\<lambda>row.
     case json_int (json_or (jget row ''cooldown_minutes'') (JInt 0)) of
       Inl e \<Rightarrow> Inl (if is_value_error e \<or> is_type_error e then backup_error ''Alert rule has invalid cooldown_minutes.'' else e)
     | Inr _ \<Rightarrow> Inr ())"

definition check_file :: "string \<times> json \<Rightarrow> unit res" where
  "check_file nb =
     (if fst nb \<notin> set SSL_FILE_NAMES then Inr ()
      else
        case snd nb of
          JStr b \<Rightarrow>
            if strip b = [] then Inl (backup_error (''SSL file '' @ in_quotes (fst nb) @ '' is empty.''))
            else (case b64decode True b of
                Inl _ \<Rightarrow> Inl (backup_error (''SSL file '' @ in_quotes (fst nb) @ '' is not valid base64.''))
              | Inr _ \<Rightarrow> Inr ())
        | _ \<Rightarrow> Inl (backup_error (''SSL file '' @ in_quotes (fst nb) @ '' is empty.'')))"

definition dict_part :: "dict \<Rightarrow> string \<Rightarrow> string \<Rightarrow> dict res" where
  "dict_part payload c m =
     (case json_or (jget payload c) (JObj []) of JObj d \<Rightarrow> Inr d | _ \<Rightarrow> Inl (backup_error m))"

definition incomplete_secrets :: string where
  "incomplete_secrets = ''Backup application secrets are incomplete.''"

definition as_backup_error :: "'a res \<Rightarrow> 'a res" where
  "as_backup_error r = (case r of Inl e \<Rightarrow> Inl (if is_value_error e then backup_error (exc_str e) else e) | Inr x \<Rightarrow> Inr x)"

definition check_secrets :: "vault \<Rightarrow> string list \<Rightarrow> dict \<Rightarrow> unit res" where
  "check_secrets v cats payload =
     rbind (case json_or (jget payload ''manifest'') (JObj []) of
         JObj m \<Rightarrow> backup_guard (json_truthy (jget m MANIFEST_ENVELOPE_ENCRYPTED))
           ''Application secrets can only be restored from a password-encrypted backup.''
       | _ \<Rightarrow> Inl (backup_error ''Application secrets can only be restored from a password-encrypted backup.'')) (\<lambda>_.
     rbind (dict_part payload CATEGORY_APPLICATION_SECRETS ''Backup application secrets must be an object.'') (\<lambda>d.
     rbind (json_strip (jget d ''SECRET_KEY'')) (\<lambda>secret_key.
     rbind (json_strip (jget d ''ENCRYPTION_KEY'')) (\<lambda>encryption_key.
     rbind (backup_guard (secret_key \<noteq> [] \<and> encryption_key \<noteq> []) incomplete_secrets) (\<lambda>_.
     rbind (as_backup_error (rbind (validate_persisted_secret (fernet_valid v) ''SECRET_KEY'' secret_key) (\<lambda>_.
        validate_persisted_secret (fernet_valid v) ''ENCRYPTION_KEY'' encryption_key))) (\<lambda>_.
     backup_guard (meets FERNET_BACKED_CATEGORIES cats \<or> encryption_key = strip (process_key v))
       (''Restoring Application secrets alone cannot replace ENCRYPTION_KEY when it ''
        @ ''differs from this installation. Also restore settings, DNS zones, or SSL files so encrypted data can be re-wrapped.'')))))))"

definition when_in :: "string \<Rightarrow> string list \<Rightarrow> unit res \<Rightarrow> unit res" where
  "when_in c cats r = (if c \<in> set cats then r else Inr ())"

definition validate_restore_records :: "vault \<Rightarrow> string list \<Rightarrow> dict \<Rightarrow> unit res" where
  "validate_restore_records v categories payload =
     (let cats = normalize_categories (Some categories) False in
      rbind (validate_import_categories cats payload) (\<lambda>_.
      rbind (when_in CATEGORY_SETTINGS cats
        (rbind (list_part payload CATEGORY_SETTINGS ''Backup settings category must be a list.'') (each check_setting))) (\<lambda>_.
      rbind (when_in CATEGORY_USERS cats (validate_users v payload)) (\<lambda>_.
      rbind (when_in CATEGORY_ZONES cats
        (rbind (list_part payload CATEGORY_ZONES ''Backup zones category must be a list.'') (check_zones []))) (\<lambda>_.
      rbind (when_in CATEGORY_API_KEYS cats
        (rbind (list_part payload CATEGORY_API_KEYS ''Backup API keys category must be a list.'') (check_keys []))) (\<lambda>_.
      rbind (when_in CATEGORY_ALERT_RULES cats
        (rbind (list_part payload CATEGORY_ALERT_RULES ''Backup alert rules category must be a list.'') (each check_rule))) (\<lambda>_.
      rbind (when_in CATEGORY_SSL_FILES cats
        (rbind (dict_part payload CATEGORY_SSL_FILES ''Backup SSL files category must be an object.'') (each check_file))) (\<lambda>_.
      rbind (when_in CATEGORY_ACTIVITY_LOGS cats
        (rbind (list_part payload CATEGORY_ACTIVITY_LOGS ''Backup activity logs category must be a list.'')
           (each (\<lambda>item. map_res (\<lambda>_. ()) (require_mapping item ''Activity log''))))) (\<lambda>_.
      when_in CATEGORY_APPLICATION_SECRETS cats (check_secrets v cats payload))))))))))"

section \<open>State\<close>

text \<open>What a restore changes, and the random numbers drawn so far.\<close>

record site =
  si_core :: core
  si_certs :: cert_store
  si_secrets :: secrets_disk
  si_draws :: nat

definition at_core :: "(core, 'a) run \<Rightarrow> (site, 'a) run" where
  "at_core m s = (let (r, c) = m (si_core s) in (r, s\<lparr>si_core := c\<rparr>))"

definition at_certs :: "(cert_store, 'a) run \<Rightarrow> (site, 'a) run" where
  "at_certs m s = (let (r, c) = m (si_certs s) in (r, s\<lparr>si_certs := c\<rparr>))"

definition at_secrets :: "(secrets_disk, 'a) run \<Rightarrow> (site, 'a) run" where
  "at_secrets m s = (let (r, c) = m (si_secrets s) in (r, s\<lparr>si_secrets := c\<rparr>))"

definition fresh_session_version :: "vault \<Rightarrow> (site, int) run" where
  "fresh_session_version v s =
     (let b = randbits v (si_draws s) in (Inr (if b = 0 then 1 else b), s\<lparr>si_draws := Suc (si_draws s)\<rparr>))"

text \<open>A transaction: an exception brings the tables back.\<close>

definition transaction :: "(site, 'a) run \<Rightarrow> (site, 'a) run" where
  "transaction m s =
     (case m s of
        (Inl e, t) \<Rightarrow> (Inl e, t\<lparr>si_core := (si_core t)\<lparr>c_db := c_db (si_core s)\<rparr>\<rparr>)
      | (Inr x, t) \<Rightarrow> (Inr x, t))"

fun for_each :: "('a \<Rightarrow> ('s, unit) run) \<Rightarrow> 'a list \<Rightarrow> ('s, unit) run" where
  "for_each f [] = ret ()"
| "for_each f (x # xs) = sbind (f x) (\<lambda>_. for_each f xs)"

section \<open>Columns\<close>

text \<open>
  What SQLite stores for a JSON value in a text column: a number becomes its digits, a list or an object
  is refused by the driver. A float in a text column and a string in the integer column, which no
  export contains, are refused by the model.
\<close>

definition column_error :: "'a res" where
  "column_error = Inl (OtherError ''InterfaceError'' ''Error binding parameter'')"

definition big_int :: "int \<Rightarrow> bool" where
  "big_int i \<longleftrightarrow> i < - (2 ^ 63) \<or> 2 ^ 63 \<le> i"

definition text_col :: "json \<Rightarrow> string res" where
  "text_col j =
     (case j of
        JStr s \<Rightarrow> Inr s
      | JBool b \<Rightarrow> Inr (if b then ''1'' else ''0'')
      | JInt i \<Rightarrow> if big_int i then Inl (OtherError ''OverflowError'' ''Python int too large to convert to SQLite INTEGER'')
          else Inr (show_int i)
      | _ \<Rightarrow> column_error)"

definition opt_text_col :: "json \<Rightarrow> string option res" where
  "opt_text_col j = (if j = JNull then Inr None else map_res Some (text_col j))"

definition opt_int_col :: "json \<Rightarrow> int option res" where
  "opt_int_col j =
     (case j of
        JNull \<Rightarrow> Inr None
      | JInt i \<Rightarrow> if big_int i then Inl (OtherError ''OverflowError'' ''Python int too large to convert to SQLite INTEGER'')
          else Inr (Some i)
      | JBool b \<Rightarrow> Inr (Some (if b then 1 else 0))
      | _ \<Rightarrow> column_error)"

text \<open>\<^verbatim>\<open>row.get(k) or dflt\<close> in a text column.\<close>

definition text_or :: "dict \<Rightarrow> string \<Rightarrow> string \<Rightarrow> string res" where
  "text_or row k dflt = text_col (json_or (jget row k) (JStr dflt))"

definition opt_field :: "dict \<Rightarrow> string \<Rightarrow> string option res" where
  "opt_field row k = opt_text_col (jget row k)"

text \<open>A trailing \<^verbatim>\<open>Z\<close> is the offset zero, which the column drops; it needs a time.\<close>

definition parse_dt :: "json \<Rightarrow> int option res" where
  "parse_dt j =
     (if \<not> json_truthy j then Inr None
      else
        rbind (json_strip j) (\<lambda>t.
        let bad = Inl (ValueError (''Invalid isoformat string: '' @ repr t)) in
        case (if endswith ''Z'' t then (if length t \<le> 11 then None else from_iso (butlast t)) else from_iso t) of
          None \<Rightarrow> bad
        | Some n \<Rightarrow> Inr (Some n)))"

definition int_col :: "int \<Rightarrow> int res" where
  "int_col i = (if big_int i then Inl (OtherError ''OverflowError'' ''Python int too large to convert to SQLite INTEGER'') else Inr i)"

section \<open>Rewrapping\<close>

definition payload_encryption_key :: "dict \<Rightarrow> string" where
  "payload_encryption_key payload =
     (case json_or (jget payload CATEGORY_APPLICATION_SECRETS) (JObj []) of
        JObj d \<Rightarrow> strip (json_text (json_or (jget d ''ENCRYPTION_KEY'') (JStr [])))
      | _ \<Rightarrow> [])"

definition rewrap_fernet_token :: "env \<Rightarrow> vault \<Rightarrow> string \<Rightarrow> string \<Rightarrow> string \<Rightarrow> string res" where
  "rewrap_fernet_token env v token source_key label =
     (if token = [] then Inr token
      else if source_key = strip (process_key v) then Inr token
      else if \<not> fernet_valid v source_key then Inl (backup_error ''Backup ENCRYPTION_KEY is not a valid Fernet key.'')
      else
        case fernet_decrypt v source_key token of
          None \<Rightarrow> Inl (backup_error (label @ '' could not be decrypted with the backup ENCRYPTION_KEY. ''
            @ ''The archive secrets do not match the encrypted data.''))
        | Some plaintext \<Rightarrow> Inr (encrypt env plaintext))"

definition rewrap_when :: "env \<Rightarrow> vault \<Rightarrow> string \<Rightarrow> string \<Rightarrow> string \<Rightarrow> string res" where
  "rewrap_when env v source_key token label =
     (if source_key = [] then Inr token else rewrap_fernet_token env v token source_key label)"

section \<open>Restoring the tables\<close>

text \<open>The deletions, before anything is inserted.\<close>

definition wipe :: "string list \<Rightarrow> db \<Rightarrow> db" where
  "wipe cats db = db\<lparr>
     api_key_allowed_zones := (if CATEGORY_API_KEYS \<in> set cats \<or> CATEGORY_ZONES \<in> set cats then [] else api_key_allowed_zones db),
     api_keys := (if CATEGORY_API_KEYS \<in> set cats then [] else api_keys db),
     dns_zone_configs := (if CATEGORY_ZONES \<in> set cats then [] else dns_zone_configs db),
     users := (if CATEGORY_USERS \<in> set cats then [] else users db),
     alert_rules := (if CATEGORY_ALERT_RULES \<in> set cats then [] else alert_rules db),
     activity_logs := (if CATEGORY_ACTIVITY_LOGS \<in> set cats then [] else activity_logs db),
     settings := (if CATEGORY_SETTINGS \<in> set cats
       then filter (\<lambda>r. st_name r = SETTING_BACKUP_PROGRESS) (settings db) else settings db)\<rparr>"

definition unique_in :: "'a \<Rightarrow> 'a list \<Rightarrow> unit res" where
  "unique_in x xs = guard (x \<notin> set xs) integrity_error"

definition restore_setting :: "env \<Rightarrow> vault \<Rightarrow> string \<Rightarrow> json \<Rightarrow> (site, unit) run" where
  "restore_setting env v source_key item =
     sbind (lift_res (as_dict item)) (\<lambda>row.
     sbind (lift_res (json_strip (jget row ''name''))) (\<lambda>name.
     if name = [] \<or> name \<in> set EXCLUDED_SETTING_NAMES then ret ()
     else
       sbind (lift_res (rbind (text_or row ''value'' []) (\<lambda>value.
          rewrap_when env v source_key value (''Setting '' @ in_quotes name)))) (\<lambda>value.
       at_core (db_write (\<lambda>db. map_res (\<lambda>_. db\<lparr>settings := settings db
            @ [\<lparr>st_id = next_id st_id (settings db), st_name = name, st_value = value\<rparr>]\<rparr>)
          (unique_in name (map st_name (settings db))))))))"

definition restore_user :: "vault \<Rightarrow> json \<Rightarrow> (site, unit) run" where
  "restore_user v item =
     sbind (lift_res (as_dict item)) (\<lambda>row.
     sbind (lift_res (map_res (\<lambda>j. strip (json_text j)) (need row ''username''))) (\<lambda>name.
     sbind (lift_res (rbind (need row ''password_hash'') text_col)) (\<lambda>h.
     sbind (lift_res (roles_of_json (jget row ''roles''))) (\<lambda>roles.
     sbind (fresh_session_version v) (\<lambda>version.
     at_core (db_write (\<lambda>db. map_res (\<lambda>_. db\<lparr>users := users db
          @ [\<lparr>us_id = next_id us_id (users db), us_username = name, us_password_hash = h, us_roles = serialize_roles roles,
              us_disabled = json_truthy (jget row ''disabled''), us_session_version = version\<rparr>]\<rparr>)
        (unique_in name (map us_username (users db))))))))))"

definition restore_zone :: "env \<Rightarrow> vault \<Rightarrow> string \<Rightarrow> json \<Rightarrow> (site, unit) run" where
  "restore_zone env v source_key item =
     sbind (lift_res (as_dict item)) (\<lambda>row.
     sbind (lift_res (rbind (need row ''encrypted_config'') text_col)) (\<lambda>token.
     sbind (lift_res (rbind (need row ''zone_name'') text_col)) (\<lambda>name.
     sbind (lift_res (rewrap_when env v source_key token (''Zone '' @ in_quotes name))) (\<lambda>cfg.
     at_core (db_write (\<lambda>db. map_res (\<lambda>_. db\<lparr>dns_zone_configs := dns_zone_configs db
          @ [\<lparr>zc_id = next_id zc_id (dns_zone_configs db), zc_zone_name = name, zc_encrypted_config = cfg\<rparr>]\<rparr>)
        (unique_in name (map zc_zone_name (dns_zone_configs db)))))))))"

text \<open>The id of a zone by its name; a later row replaces an earlier one of the same name.\<close>

definition zone_ids :: "db \<Rightarrow> (string \<times> nat) list" where
  "zone_ids db = rev (map (\<lambda>z. (zc_zone_name z, zc_id z)) (dns_zone_configs db))"

definition restore_link :: "nat \<Rightarrow> json \<Rightarrow> (site, unit) run" where
  "restore_link key_id zname =
     (case zname of
        JList _ \<Rightarrow> lift_res type_error
      | JObj _ \<Rightarrow> lift_res type_error
      | JStr n \<Rightarrow>
          at_core (db_write (\<lambda>db. case map_of (zone_ids db) n of
            None \<Rightarrow> Inr db
          | Some z \<Rightarrow> map_res (\<lambda>_. db\<lparr>api_key_allowed_zones := api_key_allowed_zones db
               @ [\<lparr>az_id = next_id az_id (api_key_allowed_zones db), az_api_key_id = key_id, az_dns_zone_config_id = z\<rparr>]\<rparr>)
             (unique_in (key_id, z) (map link_pair (api_key_allowed_zones db)))))
      | _ \<Rightarrow> ret ())"

definition or_now :: "outside \<Rightarrow> int option \<Rightarrow> (site, int) run" where
  "or_now out t = (case t of Some n \<Rightarrow> ret n | None \<Rightarrow> at_core (utc_now out))"

definition restore_key :: "outside \<Rightarrow> json \<Rightarrow> (site, unit) run" where
  "restore_key out item =
     sbind (lift_res (as_dict item)) (\<lambda>row.
     sbind (lift_res (text_or row ''label'' [])) (\<lambda>label.
     sbind (lift_res (rbind (need row ''key'') text_col)) (\<lambda>digest.
     sbind (lift_res (text_or row ''key_prefix'' [])) (\<lambda>prefix.
     sbind (lift_res (text_col (case map_of row ''access_mode'' of None \<Rightarrow> JStr API_KEY_ACCESS_READ_WRITE | Some j \<Rightarrow> j))) (\<lambda>mode.
     sbind (sbind (lift_res (parse_dt (jget row ''created_at''))) (or_now out)) (\<lambda>created.
     sbind (at_core (db_do (\<lambda>db.
        let k = \<lparr>ak_id = next_id ak_id (api_keys db), ak_label = label, ak_key = digest, ak_key_prefix = Some prefix,
              ak_access_mode = mode,
              ak_active = (case map_of row ''active'' of None \<Rightarrow> True | Some j \<Rightarrow> json_truthy j), ak_created_at = created\<rparr>
        in map_res (\<lambda>_. (ak_id k, db\<lparr>api_keys := api_keys db @ [k]\<rparr>)) (unique_in digest (map ak_key (api_keys db)))))) (\<lambda>i.
     sbind (lift_res (json_iter (json_or (jget row ''allowed_zones'') (JList [])))) (\<lambda>names.
     for_each (restore_link i) names))))))))"

definition restore_rule :: "json \<Rightarrow> (site, unit) run" where
  "restore_rule item =
     sbind (lift_res (as_dict item)) (\<lambda>row.
     sbind (lift_res (text_or row ''name'' [])) (\<lambda>name.
     sbind (lift_res (opt_field row ''event_type'')) (\<lambda>ty.
     sbind (lift_res (opt_field row ''category'')) (\<lambda>cat.
     sbind (lift_res (text_or row ''minimum_level'' LOG_LEVEL_WARNING)) (\<lambda>level.
     sbind (lift_res (opt_field row ''message_contains'')) (\<lambda>contains.
     sbind (lift_res (text_or row ''email_recipients'' [])) (\<lambda>recipients.
     sbind (lift_res (text_or row ''email_subject_template'' [])) (\<lambda>subject.
     sbind (lift_res (text_or row ''email_body_template'' [])) (\<lambda>body.
     sbind (lift_res (rbind (json_int (json_or (jget row ''cooldown_minutes'') (JInt 0))) int_col)) (\<lambda>cooldown.
     sbind (lift_res (parse_dt (jget row ''last_triggered_at''))) (\<lambda>last.
     at_core (db_modify (\<lambda>db. db\<lparr>alert_rules := alert_rules db
        @ [\<lparr>ar_id = next_id ar_id (alert_rules db),
             ar_enabled = (case map_of row ''enabled'' of None \<Rightarrow> True | Some j \<Rightarrow> json_truthy j), ar_name = name,
             ar_event_type = ty, ar_category = cat, ar_minimum_level = level, ar_message_contains = contains,
             ar_email_recipients = recipients, ar_email_subject_template = subject, ar_email_body_template = body,
             ar_cooldown_minutes = cooldown, ar_last_triggered_at = last\<rparr>]\<rparr>)))))))))))))"

definition restore_log :: "outside \<Rightarrow> json \<Rightarrow> (site, unit) run" where
  "restore_log out item =
     sbind (lift_res (as_dict item)) (\<lambda>row.
     sbind (sbind (lift_res (parse_dt (jget row ''timestamp''))) (or_now out)) (\<lambda>stamp.
     sbind (lift_res (text_or row ''level'' LOG_LEVEL_INFORMATIONAL)) (\<lambda>level.
     sbind (lift_res (opt_field row ''category'')) (\<lambda>cat.
     sbind (lift_res (text_or row ''event_type'' [])) (\<lambda>ty.
     sbind (lift_res (traverse (opt_field row) [''status'', ''actor_type'', ''actor_id'', ''actor_label'', ''zone_name'',
        ''record_name'', ''message'', ''details_json'', ''request_method'', ''request_path'', ''request_ip''])) (\<lambda>texts.
     sbind (lift_res (opt_int_col (jget row ''request_status_code''))) (\<lambda>status_code.
     at_core (db_modify (\<lambda>db. db\<lparr>activity_logs := activity_logs db
        @ [\<lparr>al_id = next_id al_id (activity_logs db), al_timestamp = stamp, al_level = level, al_category = cat,
             al_event_type = ty, al_status = texts ! 0, al_actor_type = texts ! 1, al_actor_id = texts ! 2,
             al_actor_label = texts ! 3, al_zone_name = texts ! 4, al_record_name = texts ! 5, al_message = texts ! 6,
             al_details_json = texts ! 7, al_request_method = texts ! 8, al_request_path = texts ! 9,
             al_request_status_code = status_code, al_request_ip = texts ! 10\<rparr>]\<rparr>)))))))))"

text \<open>One category of rows: its items are restored in order and counted.\<close>

definition restore_part :: "string list \<Rightarrow> dict \<Rightarrow> string \<Rightarrow> (json \<Rightarrow> (site, unit) run) \<Rightarrow> (site, (string \<times> nat) list) run" where
  "restore_part cats payload c f =
     (if c \<in> set cats then
        sbind (lift_res (json_iter (json_or (jget payload c) (JList [])))) (\<lambda>items.
        sbind (for_each f items) (\<lambda>_. ret [(c, length items)]))
      else ret [])"

definition restore_tables ::
  "outside \<Rightarrow> vault \<Rightarrow> string \<Rightarrow> string list \<Rightarrow> dict \<Rightarrow> (site, (string \<times> nat) list) run" where
  "restore_tables out v source_key cats payload =
     sbind (at_core (db_modify (wipe cats))) (\<lambda>_.
     sbind (restore_part cats payload CATEGORY_SETTINGS (restore_setting (o_env out) v source_key)) (\<lambda>a.
     sbind (restore_part cats payload CATEGORY_USERS (restore_user v)) (\<lambda>b.
     sbind (restore_part cats payload CATEGORY_ZONES (restore_zone (o_env out) v source_key)) (\<lambda>c.
     sbind (restore_part cats payload CATEGORY_API_KEYS (restore_key out)) (\<lambda>d.
     sbind (restore_part cats payload CATEGORY_ALERT_RULES restore_rule) (\<lambda>e.
     sbind (restore_part cats payload CATEGORY_ACTIVITY_LOGS (restore_log out)) (\<lambda>f.
     ret (a @ b @ c @ d @ e @ f))))))))"

section \<open>Restoring files and secrets\<close>

definition restore_file :: "env \<Rightarrow> vault \<Rightarrow> string \<Rightarrow> string \<times> json \<Rightarrow> (cert_store, nat) run" where
  "restore_file env v source_key nb =
     (if fst nb \<notin> set SSL_FILE_NAMES then ret 0
      else
        sbind (lift_res (b64_json (snd nb))) (\<lambda>raw.
        sbind (lift_res
          (if fst nb = ''acme_account.key'' \<and> source_key \<noteq> [] \<and> \<not> looks_like_pem_private_key raw
           then rewrap_fernet_token env v raw source_key ''ACME account key'' else Inr raw)) (\<lambda>content.
        sbind (modify (set_store_file (fst nb) content)) (\<lambda>_. ret 1))))"

fun restore_file_list :: "env \<Rightarrow> vault \<Rightarrow> string \<Rightarrow> dict \<Rightarrow> (cert_store, nat) run" where
  "restore_file_list env v source_key [] = ret 0"
| "restore_file_list env v source_key (nb # nbs) =
     sbind (restore_file env v source_key nb) (\<lambda>n.
     sbind (restore_file_list env v source_key nbs) (\<lambda>k. ret (n + k)))"

definition restore_files :: "env \<Rightarrow> vault \<Rightarrow> string \<Rightarrow> dict \<Rightarrow> (cert_store, (string \<times> nat) list) run" where
  "restore_files env v source_key payload =
     sbind (modify (\<lambda>_. empty_store)) (\<lambda>_.
     sbind (lift_res (as_dict (json_or (jget payload CATEGORY_SSL_FILES) (JObj [])))) (\<lambda>files.
     sbind (restore_file_list env v source_key files) (\<lambda>n. ret [(CATEGORY_SSL_FILES, n)])))"

text \<open>Every account gets a new session version, row by row.\<close>

definition refresh_sessions :: "vault \<Rightarrow> (site, unit) run" where
  "refresh_sessions v =
     sbind (gets (\<lambda>s. map us_id (users (c_db (si_core s))))) (for_each (\<lambda>i.
     sbind (fresh_session_version v) (\<lambda>n.
     at_core (db_modify (update_user i (\<lambda>u. u\<lparr>us_session_version := n\<rparr>))))))"

text \<open>The result tells whether the keys of the archive were written for the next start.\<close>

definition restore_secrets ::
  "vault \<Rightarrow> bool \<Rightarrow> progress_cb \<Rightarrow> string list \<Rightarrow> dict \<Rightarrow> (site, bool) run" where
  "restore_secrets v pytest report cats payload =
     sbind (lift_res (as_dict (json_or (jget payload CATEGORY_APPLICATION_SECRETS) (JObj [])))) (\<lambda>d.
     sbind (lift_res (json_strip (jget d ''SECRET_KEY''))) (\<lambda>secret_key.
     sbind (lift_res (json_strip (jget d ''ENCRYPTION_KEY''))) (\<lambda>encryption_key.
     sbind (lift_res (backup_guard (secret_key \<noteq> [] \<and> encryption_key \<noteq> []) incomplete_secrets)) (\<lambda>_.
     if \<not> meets FERNET_BACKED_CATEGORIES cats \<or> encryption_key = strip (process_key v) then
       sbind (at_core (report ''application_secrets'' 95 ''Writing application secrets...'')) (\<lambda>_.
       sbind (if CATEGORY_USERS \<in> set cats then ret () else transaction (refresh_sessions v)) (\<lambda>_.
       sbind (at_secrets (write_application_secrets (fernet_valid v) pytest secret_key encryption_key)) (\<lambda>_.
       ret True)))
     else
       sbind (at_core (report ''application_secrets'' 95 ''Re-encrypting backup secrets for this installation...'')) (\<lambda>_.
       ret False)))))"

section \<open>A restore\<close>

record restore_result =
  rr_summary :: "(string \<times> nat) list"
  rr_restarting :: bool
  rr_categories :: "string list"

definition TABLE_CATEGORIES :: "string list" where
  "TABLE_CATEGORIES = [CATEGORY_SETTINGS, CATEGORY_USERS, CATEGORY_ZONES, CATEGORY_API_KEYS, CATEGORY_ALERT_RULES,
     CATEGORY_ACTIVITY_LOGS]"

definition report_if :: "bool \<Rightarrow> progress_cb \<Rightarrow> string \<Rightarrow> int \<Rightarrow> string \<Rightarrow> (site, unit) run" where
  "report_if b report phase percent message = (if b then at_core (report phase percent message) else ret ())"

definition restore_payload ::
  "outside \<Rightarrow> vault \<Rightarrow> bool \<Rightarrow> progress_cb \<Rightarrow> dict \<Rightarrow> string list \<Rightarrow> (site, restore_result) run" where
  "restore_payload out v pytest report payload categories =
     (let cats = normalize_categories (Some categories) False;
          tables = meets TABLE_CATEGORIES cats;
          source_key = (if CATEGORY_APPLICATION_SECRETS \<in> set cats then payload_encryption_key payload else []);
          files = CATEGORY_SSL_FILES \<in> set cats;
          secrets = CATEGORY_APPLICATION_SECRETS \<in> set cats
      in if cats = [] then raise (backup_error ''Select at least one category to restore.'')
         else
           sbind (report_if True report ''validate'' 5 ''Validating backup archive...'') (\<lambda>_.
           sbind (lift_res (validate_restore_records v cats payload)) (\<lambda>_.
           sbind (report_if tables report ''database'' 15 ''Restoring database categories...'') (\<lambda>_.
           sbind (transaction (restore_tables out v source_key cats payload)) (\<lambda>summary.
           sbind (report_if tables report ''database'' 70 ''Database categories restored...'') (\<lambda>_.
           sbind (report_if files report ''ssl_files'' 85 ''Restoring SSL certificate files...'') (\<lambda>_.
           sbind (if files then at_certs (restore_files (o_env out) v source_key payload) else ret []) (\<lambda>fs.
           sbind (if secrets then restore_secrets v pytest report cats payload else ret False) (\<lambda>written.
           ret \<lparr>rr_summary = summary @ fs @ (if secrets then [(CATEGORY_APPLICATION_SECRETS, 2)] else []),
                rr_restarting = (written \<or> files \<or> CATEGORY_SETTINGS \<in> set cats), rr_categories = cats\<rparr>)))))))))"

section \<open>The routes\<close>

text \<open>
  \<^verbatim>\<open>routes/settings_backup.py\<close>. An export answers with a message or with a file; the request is reduced to its
  address. The worker of an import is one run: the HTTP answer is given before it starts. A restart is
  reported, not performed.
\<close>

datatype export_reply = ExportMessage string | Download string string

definition backup_categories_from_form :: "string list \<Rightarrow> string list" where
  "backup_categories_from_form categories = normalize_categories (Some categories) False"

definition checked :: "string option \<Rightarrow> string list \<Rightarrow> bool" where
  "checked field accepted \<longleftrightarrow> strip (or_empty field) \<in> set accepted"

definition digits_of :: "int \<Rightarrow> string" where
  "digits_of t = filter is_digit (iso_date t) @ ''-'' @ filter is_digit (clock_hm t) @ pad 2 ((t mod 86400000000) div 1000000 mod 60)"

definition backup_filename :: "int \<Rightarrow> string" where
  "backup_filename now = ''api-to-dns-backup-'' @ digits_of now @ ''.atdb''"

definition backup_event :: "string \<Rightarrow> string \<Rightarrow> string \<Rightarrow> string \<Rightarrow> string \<Rightarrow> (string \<times> json) list \<Rightarrow> event" where
  "backup_event ty level status user msg details = (user_event ty level user msg details)
     \<lparr>ev_category := Some LOG_CATEGORY_SECURITY, ev_status := Some status, ev_actor_id := Some user\<rparr>"

text \<open>The export reads the clock for the manifest, and once more for the name of the file.\<close>

definition settings_backup_export ::
  "outside \<Rightarrow> vault \<Rightarrow> string \<Rightarrow> session \<Rightarrow> string option \<Rightarrow> string list \<Rightarrow> string option \<Rightarrow> string \<Rightarrow> string
   \<Rightarrow> (site, export_reply) run" where
  "settings_backup_export out v version sess ip categories encrypt_box password password_confirm =
     sbind (lift_res (require_role ROLE_GLOBAL_ADMIN (Some (se_roles sess)) (se_user sess))) (\<lambda>user.
     let selected = backup_categories_from_form categories;
         do_encrypt = (lower (strip (or_empty encrypt_box)) \<in> {''1'', ''true'', ''on'', ''yes''} \<or> categories_require_encryption selected)
     in if selected = [] then ret (ExportMessage ''Select at least one category to export.'')
        else if do_encrypt \<and> password \<noteq> password_confirm then ret (ExportMessage ''Backup passwords do not match.'')
        else
          catch
            (sbind (at_core (utc_now out)) (\<lambda>now.
             sbind (gets (\<lambda>s. build_payload (o_env out) v version now (si_certs s) selected (c_db (si_core s)))) (\<lambda>payload.
             sbind (lift_res (serialize_backup v now payload do_encrypt (if password = [] then None else Some password))) (\<lambda>raw.
             sbind (at_core (emit_activity_event out ((backup_event ''system.backup_exported'' LOG_LEVEL_WARNING ''success'' user
                  ''Configuration backup exported'' [(''categories'', JList (map JStr selected)), (''encrypted'', JBool do_encrypt),
                    (''bytes'', JInt (int (length raw)))])
                \<lparr>ev_request_method := Some ''POST'', ev_request_path := Some ''/settings/backup/export'', ev_request_ip := ip\<rparr>))) (\<lambda>_.
             sbind (at_core (utc_now out)) (\<lambda>stamp.
             ret (Download (backup_filename stamp) raw)))))))
            (\<lambda>e. if is_backup_error e then ret (ExportMessage (exc_str e)) else raise e))"

definition settings_backup_import_progress :: "outside \<Rightarrow> session \<Rightarrow> (core, dict) run" where
  "settings_backup_import_progress out sess =
     as_role ROLE_GLOBAL_ADMIN sess (\<lambda>_. db_read (get_restore_progress (o_env out)))"

definition write_progress :: "outside \<Rightarrow> progress_cb" where
  "write_progress out phase percent message =
     db_write (write_restore_progress (o_env out) phase percent message False None None False)"

definition import_succeeded :: "outside \<Rightarrow> string \<Rightarrow> restore_result \<Rightarrow> (core, unit) run" where
  "import_succeeded out user result =
     sbind (emit_activity_event out (backup_event ''system.backup_imported'' LOG_LEVEL_WARNING ''success'' user
        ''Configuration backup imported''
        [(''categories'', JList (map JStr (rr_categories result))),
         (''summary'', JObj (map (\<lambda>(c, n). (c, JInt (int n))) (rr_summary result))),
         (''restarting'', JBool (rr_restarting result))])) (\<lambda>_.
     db_write (write_restore_progress (o_env out) ''complete'' 100
        (if rr_restarting result then ''Restarting application...'' else ''Restore complete.'') True None (Some ''success'')
        (rr_restarting result)))"

definition import_failed :: "outside \<Rightarrow> string \<Rightarrow> py_exc \<Rightarrow> (core, unit) run" where
  "import_failed out user e =
     sbind (emit_activity_event out (backup_event ''system.backup_import_failed'' LOG_LEVEL_ERROR ''error'' user
        ''Configuration backup import failed'' [(''error'', JStr (take 500 (exc_str e)))])) (\<lambda>_.
     db_write (write_restore_progress (o_env out) ''error'' 100 ''Restore failed.'' True (Some (take 500 (exc_str e))) (Some ''error'') False))"

text \<open>The result tells whether the application restarts.\<close>

definition run_backup_import_sync ::
  "outside \<Rightarrow> vault \<Rightarrow> bool \<Rightarrow> string \<Rightarrow> string \<Rightarrow> string list \<Rightarrow> string \<Rightarrow> (site, bool) run" where
  "run_backup_import_sync out v pytest raw password categories user =
     catch
       (sbind (lift_res (load_backup_bytes v raw (if password = [] then None else Some password))) (\<lambda>payload.
        sbind (restore_payload out v pytest (write_progress out) payload categories) (\<lambda>result.
        sbind (at_core (import_succeeded out user result)) (\<lambda>_.
        ret (rr_restarting result)))))
       (\<lambda>e. sbind (at_core (import_failed out user e)) (\<lambda>_. ret False))"

definition run_backup_import ::
  "outside \<Rightarrow> vault \<Rightarrow> bool \<Rightarrow> string \<Rightarrow> string \<Rightarrow> string list \<Rightarrow> string \<Rightarrow> (site, bool) run" where
  "run_backup_import out v pytest raw password categories user =
     finally_do (run_backup_import_sync out v pytest raw password categories user)
       (at_core (db_write (mark_restore_worker_finished (o_env out))))"

text \<open>The status and the text of the answer; 202 starts the worker.\<close>

definition settings_backup_import_async ::
  "outside \<Rightarrow> vault \<Rightarrow> session \<Rightarrow> string \<Rightarrow> string list \<Rightarrow> string \<Rightarrow> string option \<Rightarrow> (site, int \<times> string) run" where
  "settings_backup_import_async out v sess upload categories password confirm_replace =
     sbind (lift_res (require_role ROLE_GLOBAL_ADMIN (Some (se_roles sess)) (se_user sess))) (\<lambda>_.
     let selected = backup_categories_from_form categories; raw = take (MAX_BACKUP_UPLOAD_BYTES + 1) upload in
     if \<not> checked confirm_replace [''1'', ''true'', ''on'', ''yes''] then
       ret (400, ''Confirm destructive replace before restoring.'')
     else if selected = [] then ret (400, ''Select at least one category to restore.'')
     else if raw = [] then ret (400, ''Backup file is empty.'')
     else if MAX_BACKUP_UPLOAD_BYTES < length raw then
       ret (400, ''Backup file exceeds the '' @ show_int (int (MAX_BACKUP_UPLOAD_BYTES div 1048576)) @ '' MiB upload limit.'')
     else
       catch
         (sbind (lift_res (rbind (load_backup_bytes v raw (if password = [] then None else Some password))
            (validate_restore_records v selected))) (\<lambda>_.
          sbind (at_core (db_do (try_begin_restore (o_env out) ''Starting restore...''))) (\<lambda>begun.
          ret (if begun then (202, ''started'') else (409, ''A restore is already in progress.'')))))
         (\<lambda>e. if is_backup_error e then ret (400, exc_str e) else raise e))"

end
