(* ===== verification/Zones.thy ===== *)
theory Zones
  imports ApiKeys LetsEncrypt
begin

text \<open>
  The zones: the handlers of \<^verbatim>\<open>routes/zones.py\<close>, and the steps that change which key may use which zone. A page
  is reduced to its status, its message and what it lists; a form is the dict of its fields. The
  multipart parser and the templates are not modelled.
\<close>

section \<open>Pages\<close>

record zone_admin =
  zd_zone :: zone_public
  zd_api_key_count :: nat
  zd_letsencrypt_referenced :: bool

definition dns_zone_admin_dict :: "env \<Rightarrow> db \<Rightarrow> dns_zone_config \<Rightarrow> zone_admin res" where
  "dns_zone_admin_dict env db z =
     rbind (dns_zone_public_dict env z) (\<lambda>base.
     map_res (\<lambda>r. \<lparr>zd_zone = base, zd_api_key_count = api_key_count_for_zone db (zc_id z), zd_letsencrypt_referenced = r\<rparr>)
       (zone_referenced_by_letsencrypt env (zc_id z) db))"

record zones_page =
  zg_status :: int
  zg_message :: "string option"
  zg_zones :: "zone_admin list"
  zg_can_view :: bool
  zg_can_update :: bool
  zg_form :: "(zone_public option \<times> zone_settings \<times> string list) option"

text \<open>A redirect, and a form with the zone, its settings and the keys of the enabled plugins.\<close>

definition zone_redirect :: zones_page where
  "zone_redirect = \<lparr>zg_status = 303, zg_message = None, zg_zones = [], zg_can_view = False, zg_can_update = False, zg_form = None\<rparr>"

definition zone_form :: "string option \<Rightarrow> zone_public option \<Rightarrow> zone_settings \<Rightarrow> dns_plugin list \<Rightarrow> zones_page" where
  "zone_form msg zone stored plugins =
     zone_redirect\<lparr>zg_status := 200, zg_message := msg, zg_form := Some (zone, stored, map pl_key plugins)\<rparr>"

definition zones_html_context :: "env \<Rightarrow> db \<Rightarrow> string option \<Rightarrow> string \<Rightarrow> zones_page res" where
  "zones_html_context env db message user =
     (let can_view = user_has_role db user ROLE_DNS_ZONES_READ \<or> user_has_role db user ROLE_DNS_ZONES_UPDATE in
      map_res (\<lambda>zones. \<lparr>zg_status = 200, zg_message = message, zg_zones = zones, zg_can_view = can_view,
          zg_can_update = user_has_role db user ROLE_DNS_ZONES_UPDATE, zg_form = None\<rparr>)
        (if can_view then traverse (dns_zone_admin_dict env db) (list_dns_zones db) else Inr []))"

definition render_admin :: "outside \<Rightarrow> string option \<Rightarrow> string \<Rightarrow> (core, zones_page) run" where
  "render_admin out message user = db_read (\<lambda>db. zones_html_context (o_env out) db message user)"

definition zone_event :: "string \<Rightarrow> string \<Rightarrow> string \<Rightarrow> string \<Rightarrow> string \<Rightarrow> event" where
  "zone_event ty level user zone_name msg = (plain_event ty)
     \<lparr>ev_level := level, ev_status := Some ''success'', ev_actor_type := Some ''user'', ev_actor_label := Some user,
      ev_zone_name := Some zone_name, ev_message := Some msg\<rparr>"

definition provider_detail :: "zone_settings \<Rightarrow> string \<times> json" where
  "provider_detail cfg = (''dns_provider_type'', opt_str (map_of cfg ''dns_provider_type''))"

section \<open>Lists\<close>

text \<open>\<open>current\<close> is what \<^verbatim>\<open>get_current_user\<close> gives for the cookie of the request.\<close>

definition root_page :: "session res \<Rightarrow> string res" where
  "root_page current =
     (case current of
        Inr _ \<Rightarrow> Inr ''/admin''
      | Inl e \<Rightarrow> if is_http_exception e then Inr ''/login'' else Inl e)"

definition admin_page :: "outside \<Rightarrow> session res \<Rightarrow> (core, zones_page) run" where
  "admin_page out current =
     sbind (lift_res current) (\<lambda>sess.
     catch (render_admin out None (se_user sess)) (\<lambda>_. ret (zone_redirect\<lparr>zg_status := 500\<rparr>)))"

text \<open>The zones linked to a key, in the order of the links.\<close>

definition key_zones :: "db \<Rightarrow> api_key_row \<Rightarrow> dns_zone_config list" where
  "key_zones db k =
     List.map_filter (\<lambda>l. get_zone db (az_dns_zone_config_id l))
       (filter (\<lambda>l. az_api_key_id l = ak_id k) (api_key_allowed_zones db))"

datatype zones_reply = ToAdmin | Summaries "zone_summary list"

definition zones_page_route :: "outside \<Rightarrow> session res \<Rightarrow> request \<Rightarrow> string option \<Rightarrow> string option \<Rightarrow> (core, zones_reply) run" where
  "zones_page_route out current req x_api_key authorization =
     (if \<not> wants_json_response req then sbind (lift_res current) (\<lambda>_. ret ToAdmin)
      else
        let api_key = or_empty (api_key_from_headers x_api_key authorization) in
        if api_key = [] then
          sbind (record_activity out ((denied_event ''dns.access_denied'' ''API key missing on GET /zones'')
              \<lparr>ev_actor_label := Some ''missing''\<rparr>)) (\<lambda>_. raise ACCESS_DENIED)
        else
          sbind (gets (\<lambda>s. get_api_key (o_env out) (c_db s) api_key)) (\<lambda>found.
          case found of
            None \<Rightarrow>
              refuse out ((denied_event ''dns.access_denied'' ''Invalid or revoked API key used on GET /zones'')
                  \<lparr>ev_actor_label := Some ''invalid'',
                   ev_details := Some (JObj [(''key_fingerprint'', JStr (api_key_fingerprint (o_env out) api_key))])\<rparr>)
                ACCESS_DENIED
          | Some key \<Rightarrow>
              sbind (gets (\<lambda>s. key_zones (c_db s) key)) (\<lambda>zones.
              sbind (emit_activity_event out
                 ((success_event ''dns.zones_list'' (''Listed '' @ show_int (int (length zones)) @ '' allowed DNS zone(s)''))
                    \<lparr>ev_actor_id := Some (show_int (int (ak_id key))), ev_actor_label := Some (ak_label key),
                     ev_details := Some (JObj [(''zone_count'', JInt (int (length zones)))])\<rparr>)) (\<lambda>_.
              sbind (lift_res (traverse (dns_zone_summary_dict (o_env out)) zones)) (\<lambda>summaries.
              ret (Summaries summaries))))))"

section \<open>Changing zones\<close>

definition zone_new_form :: "outside \<Rightarrow> session \<Rightarrow> (core, zones_page) run" where
  "zone_new_form out sess =
     as_role ROLE_DNS_ZONES_UPDATE sess (\<lambda>user.
     sbind (db_read (enabled_dns_provider_options (o_env out))) (\<lambda>plugins.
     ret (zone_form (if plugins \<noteq> [] then None
        else Some ''No DNS provider plugins are enabled. Enable a plugin in Settings first.'') None [] plugins)))"

definition add_zone :: "env \<Rightarrow> string \<Rightarrow> zone_settings \<Rightarrow> db \<Rightarrow> db" where
  "add_zone env canonical cfg db =
     db\<lparr>dns_zone_configs := dns_zone_configs db
       @ [\<lparr>zc_id = next_id zc_id (dns_zone_configs db), zc_zone_name = canonical,
           zc_encrypted_config = encode_zone_config_dict env cfg\<rparr>]\<rparr>"

definition zone_create :: "outside \<Rightarrow> session \<Rightarrow> zone_settings \<Rightarrow> (core, zones_page) run" where
  "zone_create out sess form =
     as_role ROLE_DNS_ZONES_UPDATE sess (\<lambda>user.
     let canonical = normalize_zone_name (setting_or_empty form ''zone_name'') in
     if canonical = [] then render_admin out (Some ''Zone name is required.'') user
     else
       sbind (db_read (enabled_dns_provider_options (o_env out))) (\<lambda>plugins.
       sbind (gets (\<lambda>s. first_row (\<lambda>z. zc_zone_name z = canonical) (dns_zone_configs (c_db s)))) (\<lambda>existing.
       if existing \<noteq> None then render_admin out (Some (''A zone named '' @ repr canonical @ '' already exists.'')) user
       else
         (case build_zone_config_from_form form [] plugins of
            Inl e \<Rightarrow>
              if is_value_error e then
                ret (zone_form (Some (exc_str e)) None
                  [(''dns_provider_type'', lower (strip (setting_or_empty form ''dns_provider_type'')))] plugins)
              else raise e
          | Inr cfg \<Rightarrow>
              sbind (db_modify (add_zone (o_env out) canonical cfg)) (\<lambda>_.
              sbind (emit_activity_event out ((zone_event ''dns_zone.created'' LOG_LEVEL_INFORMATIONAL user canonical
                   (''Zone '' @ repr canonical @ '' added''))\<lparr>ev_details := Some (JObj [provider_detail cfg])\<rparr>)) (\<lambda>_.
              render_admin out (Some (''Zone '' @ repr canonical @ '' added.'')) user))))))"

definition open_form :: "outside \<Rightarrow> dns_zone_config \<Rightarrow> (core, zone_public) run" where
  "open_form out z = lift_res (dns_zone_public_dict (o_env out) z)"

definition zone_edit_form :: "outside \<Rightarrow> session \<Rightarrow> nat \<Rightarrow> (core, zones_page) run" where
  "zone_edit_form out sess zone_id =
     as_role ROLE_DNS_ZONES_UPDATE sess (\<lambda>user.
     sbind (gets (\<lambda>s. get_zone (c_db s) zone_id)) (\<lambda>row.
     case row of
       None \<Rightarrow> ret zone_redirect
     | Some z \<Rightarrow>
         sbind (lift_res (decode_zone_config (o_env out) z)) (\<lambda>settings.
         sbind (open_form out z) (\<lambda>view.
         sbind (db_read (enabled_dns_provider_options (o_env out))) (\<lambda>plugins.
         ret (zone_form None (Some view) settings plugins))))))"

definition set_zone_config :: "env \<Rightarrow> nat \<Rightarrow> zone_settings \<Rightarrow> db \<Rightarrow> db" where
  "set_zone_config env zone_id cfg db =
     db\<lparr>dns_zone_configs := update_first (\<lambda>z. zc_id z = zone_id)
        (\<lambda>z. z\<lparr>zc_encrypted_config := encode_zone_config_dict env cfg\<rparr>) (dns_zone_configs db)\<rparr>"

definition zone_update :: "outside \<Rightarrow> session \<Rightarrow> nat \<Rightarrow> zone_settings \<Rightarrow> (core, zones_page) run" where
  "zone_update out sess zone_id form =
     as_role ROLE_DNS_ZONES_UPDATE sess (\<lambda>user.
     sbind (gets (\<lambda>s. get_zone (c_db s) zone_id)) (\<lambda>row.
     case row of
       None \<Rightarrow> ret zone_redirect
     | Some z \<Rightarrow>
         sbind (lift_res (decode_zone_config (o_env out) z)) (\<lambda>existing.
         sbind (db_read (enabled_dns_provider_options (o_env out))) (\<lambda>plugins.
         case build_zone_config_from_form form existing plugins of
           Inl e \<Rightarrow>
             if is_value_error e then
               sbind (open_form out z) (\<lambda>view. ret (zone_form (Some (exc_str e)) (Some view) existing plugins))
             else raise e
         | Inr cfg \<Rightarrow>
             let fresh = z\<lparr>zc_encrypted_config := encode_zone_config_dict (o_env out) cfg\<rparr> in
             sbind (db_modify (set_zone_config (o_env out) zone_id cfg)) (\<lambda>_.
             sbind (lift_res (decode_zone_config (o_env out) fresh)) (\<lambda>settings.
             sbind (open_form out fresh) (\<lambda>view.
             sbind (emit_activity_event out ((zone_event ''dns_zone.updated'' LOG_LEVEL_INFORMATIONAL user (zc_zone_name z)
                 (''Zone '' @ repr (zc_zone_name z) @ '' updated''))\<lparr>ev_details := Some (JObj [provider_detail cfg])\<rparr>)) (\<lambda>_.
             ret (zone_form (Some ''Zone saved.'') (Some view) settings plugins)))))))))"

definition remove_zone :: "nat \<Rightarrow> db \<Rightarrow> db" where
  "remove_zone zone_id db =
     db\<lparr>api_key_allowed_zones := filter (\<lambda>l. az_dns_zone_config_id l \<noteq> zone_id) (api_key_allowed_zones db),
        dns_zone_configs := remove_first (\<lambda>z. zc_id z = zone_id) (dns_zone_configs db)\<rparr>"

definition zone_delete :: "outside \<Rightarrow> 'p connector \<Rightarrow> session \<Rightarrow> nat \<Rightarrow> ('p world, zones_page) run" where
  "zone_delete out connect sess zone_id =
     sbind (lift_res (require_role ROLE_DNS_ZONES_UPDATE (Some (se_roles sess)) (se_user sess))) (\<lambda>user.
     sbind (in_core (gets (\<lambda>s. get_zone (c_db s) zone_id))) (\<lambda>row.
     sbind (case row of
         None \<Rightarrow> ret ()
       | Some z \<Rightarrow>
           sbind (detach_dns_zone_from_letsencrypt out connect zone_id) (\<lambda>_.
           sbind (in_core (db_modify (remove_zone zone_id))) (\<lambda>_.
           if zc_zone_name z = [] then ret ()
           else in_core (sbind (emit_activity_event out (zone_event ''dns_zone.deleted'' LOG_LEVEL_WARNING user (zc_zone_name z)
               (''Zone '' @ repr (zc_zone_name z) @ '' deleted''))) (\<lambda>_. ret ()))))) (\<lambda>_.
     in_core (render_admin out (Some ''Zone removed.'') user))))"

section \<open>Trying a zone\<close>

record test_reply =
  tr_status_code :: int
  tr_status :: string
  tr_message :: string
  tr_records :: "dns_record_info list"

definition test_error :: "int \<Rightarrow> string \<Rightarrow> test_reply" where
  "test_error status msg = \<lparr>tr_status_code = status, tr_status = ''error'', tr_message = msg, tr_records = []\<rparr>"

definition detail_message :: "detail \<Rightarrow> string" where
  "detail_message d =
     (case d of DText t \<Rightarrow> t | DObj kvs \<Rightarrow> (case map_of kvs ''message'' of Some m \<Rightarrow> m | None \<Rightarrow> ''DNS test failed''))"

text \<open>The zone that is edited, when its id is given.\<close>

definition tested_zone :: "env \<Rightarrow> db \<Rightarrow> string \<Rightarrow> (dns_zone_config \<times> zone_settings) option res" where
  "tested_zone env db zone_id_raw =
     (case (if zone_id_raw = [] then None else py_int zone_id_raw) of
        None \<Rightarrow> Inr None
      | Some i \<Rightarrow>
          (case (if 0 \<le> i then get_zone db (nat i) else None) of
             None \<Rightarrow> Inr None
           | Some z \<Rightarrow> map_res (\<lambda>d. Some (z, d)) (decode_zone_config env z)))"

definition zone_test_found :: "string \<Rightarrow> string \<Rightarrow> string option \<Rightarrow> dns_record_info list \<Rightarrow> test_reply" where
  "zone_test_found name canonical ty records =
     (if records \<noteq> [] then
        \<lparr>tr_status_code = 200, tr_status = ''success'', tr_message = ''Found '' @ show_int (int (length records))
           @ '' record(s) at '' @ repr name @ '' in zone '' @ repr canonical @ ''.'', tr_records = records\<rparr>
      else
        \<lparr>tr_status_code = 200, tr_status = ''not_found'',
         tr_message = (case ty of
            Some t \<Rightarrow> ''Authentication successful. No '' @ t @ '' record found for '' @ repr name @ '' in zone ''
              @ repr canonical @ ''.''
          | None \<Rightarrow> ''Authentication successful. No records found at '' @ repr name @ '' in zone '' @ repr canonical @ ''.''),
         tr_records = []\<rparr>)"

definition test_event :: "string \<Rightarrow> string \<Rightarrow> string \<Rightarrow> string \<Rightarrow> string \<Rightarrow> string \<Rightarrow> (string \<times> json) list \<Rightarrow> event" where
  "test_event level status user canonical name msg details = (zone_event ''dns_zone.test'' level user canonical msg)
     \<lparr>ev_status := Some status, ev_record_name := Some name, ev_details := Some (JObj details)\<rparr>"

definition zone_test :: "outside \<Rightarrow> 'p connector \<Rightarrow> session \<Rightarrow> zone_settings \<Rightarrow> ('p world, test_reply) run" where
  "zone_test out connect sess form =
     sbind (lift_res (require_role ROLE_DNS_ZONES_UPDATE (Some (se_roles sess)) (se_user sess))) (\<lambda>user.
     let name = strip (setting_or_empty form ''test_record_name'');
         ty_raw = strip (setting_or_empty form ''test_record_type'');
         ty_detail = (''test_record_type'', if ty_raw = [] then JNull else JStr ty_raw);
         given = normalize_zone_name (setting_or_empty form ''zone_name'')
     in sbind (in_core (db_read (enabled_dns_provider_options (o_env out)))) (\<lambda>plugins.
        sbind (in_core (db_read (\<lambda>db. tested_zone (o_env out) db (setting_or_empty form ''zone_id'')))) (\<lambda>row.
        let canonical = (if given \<noteq> [] then given else case row of Some (z, _) \<Rightarrow> zc_zone_name z | None \<Rightarrow> []);
            existing = (case row of Some (_, d) \<Rightarrow> d | None \<Rightarrow> [])
        in if canonical = [] then ret (test_error 400 ''Zone name is required.'')
           else if name = [] then ret (test_error 400 ''Test record name is required.'')
           else
             let ty = normalize_lookup_record_type (if ty_raw = [] then None else Some ty_raw);
                 cfg = rbind ty (\<lambda>_. build_zone_config_from_form form existing plugins)
             in sbind (reify (sbind (lift_res ty) (\<lambda>t. sbind (lift_res cfg) (\<lambda>c.
                  test_zone_record_lookup connect (o_env out) c name t)))) (\<lambda>outcome.
                case outcome of
                  Inr records \<Rightarrow>
                    let reply = zone_test_found name canonical (case ty of Inr t \<Rightarrow> t | Inl _ \<Rightarrow> None) records in
                    sbind (in_core (emit_activity_event out (test_event LOG_LEVEL_INFORMATIONAL (tr_status reply) user canonical name
                       (tr_message reply) [provider_detail (case cfg of Inr c \<Rightarrow> c | Inl _ \<Rightarrow> []), ty_detail,
                         (''records_found'', JInt (int (length records)))]))) (\<lambda>_. ret reply)
                | Inl e \<Rightarrow>
                    if is_value_error e then ret (test_error 400 (exc_str e))
                    else
                      (case http_exception_from_dns_error e of
                         HTTPException status d \<Rightarrow>
                           sbind (in_core (emit_activity_event out (test_event LOG_LEVEL_ERROR ''error'' user canonical name
                              (detail_message d) [case cfg of Inr c \<Rightarrow> provider_detail c | Inl _ \<Rightarrow> (''dns_provider_type'', JNull),
                               ty_detail]))) (\<lambda>_. ret (test_error status (detail_message d)))
                       | e' \<Rightarrow> raise e')))))"

end
