(* ===== verification/Access.thy ===== *)
theory Access
  imports Zones
begin

text \<open>
  Who may use which zone, over every run of the handlers that change keys and zones and of the writing
  requests of the API. The locale \<open>access_invariant\<close> lists what an invariant has to survive; its lemma
  carries it through all handlers. It is interpreted on the integrity of the three tables and on the
  revocation of a key.
\<close>

section \<open>Requests\<close>

datatype access_request =
    CreateKey session string string "nat list" "nat option" "string option"
  | UpdateKey session nat string "nat list" "string option"
  | RevokeKey session nat
  | CreateZone session zone_settings
  | UpdateZone session nat zone_settings
  | DeleteZone session nat
  | ApiWrite write_request "string option" "string option"

definition forget :: "('s, 'a) run \<Rightarrow> ('s, unit) run" where
  "forget m = sbind m (\<lambda>_. ret ())"

fun serve_access :: "outside \<Rightarrow> 'p connector \<Rightarrow> access_request \<Rightarrow> ('p world, unit) run" where
  "serve_access out connect (CreateKey sess new_key label zone_ids key_id mode) =
     forget (in_core (create_api_key_route out sess new_key label zone_ids key_id mode))"
| "serve_access out connect (UpdateKey sess key_id label zone_ids mode) =
     forget (in_core (api_key_update out sess key_id label zone_ids mode))"
| "serve_access out connect (RevokeKey sess key_id) = forget (in_core (revoke_api_key out sess key_id))"
| "serve_access out connect (CreateZone sess form) = forget (in_core (zone_create out sess form))"
| "serve_access out connect (UpdateZone sess zone_id form) = forget (in_core (zone_update out sess zone_id form))"
| "serve_access out connect (DeleteZone sess zone_id) = forget (zone_delete out connect sess zone_id)"
| "serve_access out connect (ApiWrite q x_api_key authorization) =
     forget (serve_write out connect q x_api_key authorization)"

inductive access_reach :: "outside \<Rightarrow> 'p connector \<Rightarrow> 'p world \<Rightarrow> 'p world \<Rightarrow> bool" for out connect s where
  access_refl: "access_reach out connect s s"
| access_next: "access_reach out connect s t \<Longrightarrow> access_reach out connect s (snd (serve_access out connect q t))"

section \<open>What the handlers keep\<close>

abbreviation kept :: "(db \<Rightarrow> bool) \<Rightarrow> (core, 'a) run \<Rightarrow> bool" where
  "kept I m \<equiv> keeps (\<lambda>s. I (c_db s)) m"

abbreviation wkept :: "(db \<Rightarrow> bool) \<Rightarrow> ('p world, 'a) run \<Rightarrow> bool" where
  "wkept I m \<equiv> keeps (\<lambda>w. I (c_db (w_core w))) m"

lemma wkept_in_core: "kept I m \<Longrightarrow> wkept I (in_core m)"
  by (simp add: keeps_def in_core_apply)

lemma wkept_in_prov: "wkept I (in_prov m)"
  by (simp add: keeps_def in_prov_apply)

lemma keeps_gets_bind: "(\<And>s. I s \<Longrightarrow> I (snd (f (g s) s))) \<Longrightarrow> keeps I (sbind (gets g) f)"
  by (simp add: keeps_def)

lemma kept_db_read: "kept I (db_read f)"
  by (simp add: keeps_def)

lemma kept_db_write:
  "(\<And>db db'. I db \<Longrightarrow> f db = Inr db' \<Longrightarrow> I db') \<Longrightarrow> kept I (db_write f)"
  by (auto simp: keeps_def db_write_apply split: sum.split)

definition has_key :: "nat \<Rightarrow> db \<Rightarrow> bool" where
  "has_key i db \<longleftrightarrow> i \<in> set (map ak_id (api_keys db))"

definition deactivate :: "nat \<Rightarrow> db \<Rightarrow> db" where
  "deactivate i db = db\<lparr>api_keys := update_first (\<lambda>k. ak_id k = i) (\<lambda>k. k\<lparr>ak_active := False\<rparr>) (api_keys db)\<rparr>"

lemma get_row_has_key: "get_api_key_row db i = Some k \<Longrightarrow> has_key i db"
  by (auto simp: get_api_key_row_def has_key_def dest: first_row_Some)

lemma has_key_save [simp]: "has_key i (save_key j label mode db) = has_key i db"
  by (simp add: has_key_def save_key_def map_update_first del: set_map)

lemma has_key_add: "add_key env label mode raw now db = Inr (k, db') \<Longrightarrow> has_key (ak_id k) db'"
  by (auto simp: add_key_def has_key_def Let_def split: if_splits)

text \<open>What reading, rendering and logging leave alone.\<close>

locale event_invariant =
  fixes I :: "db \<Rightarrow> bool"
  assumes blind: "event_blind I"
begin

lemma emit [keeps_intro]: "kept I (emit_activity_event out ev)"
  using keeps_emit [OF blind, of True] by (simp add: keeps_def)

lemma settings_blind [simp]: "I (set_setting env k v db) = I db" "I (delete_setting k db) = I db"
  using blind by (auto simp: event_blind_def set_setting_blind delete_setting_def log_blind_def)

lemma written: "write_json_setting env k d db = Inr db' \<Longrightarrow> I db \<Longrightarrow> I db'"
  using blind by (auto simp: write_json_setting_def event_blind_def set_typed_blind)

lemma role: "(\<And>u. kept I (body u)) \<Longrightarrow> kept I (as_role r sess body)"
  unfolding as_role_def by (intro keeps_intro)

lemma rendered: "kept I (render_keys out f)" "kept I (render_edit out i msg)" "kept I (render_admin out m u)"
  "kept I (open_form out z)"
  unfolding render_keys_def render_edit_def render_admin_def open_form_def
  by (auto intro!: keeps_intro split: option.split)

end

text \<open>Adding a zone whose name is not in the table yet.\<close>

locale zone_addition = event_invariant I for I +
  assumes zone_added: "I db \<Longrightarrow> first_row (\<lambda>z. zc_zone_name z = c) (dns_zone_configs db) = None \<Longrightarrow> I (add_zone env c cfg db)"
begin

lemma zone_new: "kept I (zone_create out sess form)"
proof -
  have new: "I (c_db (snd (sbind (emit_activity_event out ev) (\<lambda>_. render_admin out m user)
      (s\<lparr>c_db := add_zone (o_env out) c cfg (c_db s)\<rparr>))))"
    if "I (c_db s)" "first_row (\<lambda>z. zc_zone_name z = c) (dns_zone_configs (c_db s)) = None" for c cfg ev m user s
  proof -
    have "kept I (sbind (emit_activity_event out ev) (\<lambda>_. render_admin out m user))" by (intro keeps_intro rendered)
    from keepsD [OF this, of "s\<lparr>c_db := add_zone (o_env out) c cfg (c_db s)\<rparr>"] show ?thesis
      using that zone_added by simp
  qed
  show ?thesis
    unfolding zone_create_def Let_def
    by (auto intro!: role rendered keeps_sbind [OF kept_db_read] keeps_gets_bind keepsD [OF rendered(3)] new
        simp del: db_modify_apply split: sum.split)
qed

end

text \<open>Everything a key or a zone can go through.\<close>

locale access_invariant = zone_addition I for I +
  assumes deactivated: "I db \<Longrightarrow> I (deactivate i db)"
    and saved: "I db \<Longrightarrow> I (save_key i label mode db)"
    and linked: "I db \<Longrightarrow> has_key i db \<Longrightarrow> insert_links i zs db = Inr db' \<Longrightarrow> I db'"
    and added: "I db \<Longrightarrow> add_key env label mode raw now db = Inr (k, db') \<Longrightarrow> I db'"
    and configured: "I db \<Longrightarrow> I (set_zone_config env i cfg db)"
    and removed: "I db \<Longrightarrow> I (remove_zone i db)"
begin

lemma links_then:
  assumes "I (c_db s)" and "has_key i (c_db s)" and "kept I m"
  shows "I (c_db (snd (sbind (db_write (insert_links i zs)) (\<lambda>_. m) s)))"
  using assms linked [OF assms(1,2)] keepsD [OF assms(3)]
  by (cases "insert_links i zs (c_db s)") (simp_all add: sbind_def db_write_apply)

lemma key_update:
  assumes "I (c_db s)" and "has_key i (c_db s)" and "\<And>u. kept I (m u)"
  shows "I (c_db (snd (sbind (apply_key_update out user i label mode zs) m s)))"
proof -
  have "kept I (sbind (sbind (emit_activity_event out (user_event ''api_key.updated'' LOG_LEVEL_INFORMATIONAL user
      (''API key '' @ repr label @ '' updated'') (key_details i label mode zs))) (\<lambda>_. ret ())) m)"
    by (intro keeps_intro assms(3))
  from links_then [OF _ _ this, of "s\<lparr>c_db := save_key i label mode (c_db s)\<rparr>"] show ?thesis
    using assms(1,2) saved by (simp add: apply_key_update_def sbind_assoc)
qed

lemma revoke: "kept I (revoke_api_key out sess i)"
proof -
  have "kept I (db_modify (deactivate i))" by (intro keeps_intro) (simp add: deactivated)
  then show ?thesis
    unfolding revoke_api_key_def deactivate_def
    by (intro role keeps_catch keeps_sbind keeps_gets keeps_option keeps_ret emit rendered)
qed

lemma key_new: "kept I (create_new_key out user new_key label zs mode)"
proof -
  have tail: "kept I (sbind (emit_activity_event out ev) (\<lambda>_. render_keys out f))" for ev f
    by (intro keeps_intro rendered)
  have clock: "kept I (utc_now out)" by (intro keeps_intro) simp
  have new: "kept I (sbind (db_do (add_key (o_env out) label md new_key now)) (\<lambda>k.
      sbind (db_write (insert_links (ak_id k) zs)) (\<lambda>_. m k)))" if "\<And>k. kept I (m k)" for md now m
    unfolding keeps_def
    by (auto simp: sbind_def [of "db_do f" for f] db_do_apply split: sum.split prod.split
        intro!: links_then that intro: added dest: has_key_add)
  show ?thesis
    unfolding create_new_key_def
    by (auto intro!: rendered keeps_raise keeps_sbind [OF clock] new tail split: sum.split)
qed

lemma key_create: "kept I (create_api_key_route out sess new_key label zs key_id mode)"
  unfolding create_api_key_route_def
  by (auto intro!: role keeps_catch key_new keeps_gets_bind keeps_ret rendered keepsD [OF rendered(1)] key_update get_row_has_key
      split: option.split sum.split)

lemma key_edit: "kept I (api_key_update out sess i label zs mode)"
  unfolding api_key_update_def
  by (auto intro!: role keeps_gets_bind rendered keepsD [OF rendered(2)] key_update get_row_has_key
      split: option.split sum.split)

lemma zone_edit: "kept I (zone_update out sess i form)"
proof -
  have "kept I (db_modify (set_zone_config (o_env out) i cfg))" for cfg by (intro keeps_intro) (simp add: configured)
  then show ?thesis
    unfolding zone_update_def Let_def
    by (auto intro!: role rendered keeps_sbind keeps_gets keeps_option keeps_ret keeps_raise keeps_lift_res kept_db_read
        emit split: sum.split)
qed

lemma challenge_deleted: "wkept I (delete_dns_txt_challenge out connect i d)"
proof -
  have "kept I (le_audit out a b c d e f g h)" for a b c d e f g h unfolding le_audit_def by (intro keeps_intro)
  then show ?thesis
    unfolding delete_dns_txt_challenge_def write_txt_def open_zone_def Let_def
    by (auto intro!: keeps_sbind keeps_option keeps_ret keeps_lift_res wkept_in_core wkept_in_prov kept_db_read)
qed

lemma nothing_done: "wkept I (Pair (Inr x))"
  by (simp add: keeps_def)

lemma challenges_deleted: "wkept I (delete_challenges out connect i ds)"
  by (induction ds) (auto intro!: keeps_sbind nothing_done challenge_deleted)

lemma cancelled: "wkept I (cancel_enrollment out connect)"
proof -
  have "kept I (db_modify clear_enrollment)" by (intro keeps_intro) (simp add: clear_enrollment_def)
  then show ?thesis
    unfolding cancel_enrollment_def delete_order_challenges_def
    by (auto intro!: keeps_sbind keeps_option keeps_ret keeps_lift_res wkept_in_core kept_db_read challenges_deleted)
qed

lemma detached: "wkept I (detach_dns_zone_from_letsencrypt out connect i)"
proof -
  have "kept I (db_write (write_json_setting (o_env out) SETTING_CONFIG d))" for d
    by (rule kept_db_write) (rule written)
  then show ?thesis
    unfolding detach_dns_zone_from_letsencrypt_def Let_def
    by (auto intro!: keeps_sbind keeps_ret keeps_lift_res wkept_in_core kept_db_read cancelled)
qed

lemma zone_removed: "wkept I (zone_delete out connect sess i)"
proof -
  have "kept I (db_modify (remove_zone i))" by (intro keeps_intro) (simp add: removed)
  then show ?thesis
    unfolding zone_delete_def
    by (auto intro!: keeps_sbind keeps_option keeps_ret keeps_lift_res keeps_gets wkept_in_core detached emit rendered)
qed

lemma api_written: "wkept I (apply_dns_mutation out connect key zone name rt ttl vs mode ep pt pv)"
proof -
  have refused: "kept I (refuse out ev e)" for ev e unfolding refuse_def by (intro keeps_intro)
  have "kept I (record_activity out ev)" for ev unfolding record_activity_def by (intro keeps_intro)
  moreover have "kept I (resolve_dns_api_zone out a b c d)" for a b c d
    unfolding resolve_dns_api_zone_def Let_def
    by (auto intro!: keeps_sbind keeps_gets keeps_option keeps_ret keeps_lift_res refused)
  moreover have "kept I (require_dns_api_key_write_access out a b c d)" for a b c d
    unfolding require_dns_api_key_write_access_def by (auto intro!: keeps_ret refused)
  moreover have "wkept I (mutate_zone out connect ax a b c d m p q)" for ax a b c d m p q
    unfolding mutate_zone_def
    by (intro keeps_sbind wkept_in_core kept_db_read keeps_lift_res wkept_in_prov keeps_ret emit)
  moreover have "wkept I (provider_failure out ax a b e)" for ax a b e
    unfolding provider_failure_def by (intro wkept_in_core refused)
  ultimately show ?thesis
    unfolding apply_dns_mutation_def Let_def
    by (auto intro!: keeps_sbind keeps_catch keeps_raise wkept_in_core)
qed

lemma write_served: "wkept I (serve_write out connect q k a)"
  by (cases q) (auto simp: create_dns_record_def replace_dns_record_def patch_dns_record_def delete_dns_record_def
      intro!: api_written keeps_raise split: sum.split)

lemma every_request: "wkept I (serve_access out connect q)"
  by (cases q) (auto simp: forget_def intro!: keeps_sbind keeps_ret wkept_in_core key_create key_edit revoke zone_new
      zone_edit zone_removed write_served)

lemma every_run: "access_reach out connect s t \<Longrightarrow> I (c_db (w_core s)) \<Longrightarrow> I (c_db (w_core t))"
  by (induction rule: access_reach.induct) (auto intro: keepsD [OF every_request])

end

section \<open>The tables stay consistent\<close>

definition access_ok :: "db \<Rightarrow> bool" where
  "access_ok db \<longleftrightarrow>
     distinct (map ak_id (api_keys db)) \<and> distinct (map ak_key (api_keys db))
     \<and> distinct (map zc_id (dns_zone_configs db)) \<and> distinct (map zc_zone_name (dns_zone_configs db))
     \<and> distinct (map link_pair (api_key_allowed_zones db))
     \<and> (\<forall>l \<in> set (api_key_allowed_zones db). has_key (az_api_key_id l) db
          \<and> az_dns_zone_config_id l \<in> set (map zc_id (dns_zone_configs db)))"

lemma next_id_new: "next_id f rows \<notin> set (map f rows)"
  using next_id_fresh [of _ rows f] by fastforce

lemma enumerate_in_set: "(n, x) \<in> set (enumerate k xs) \<Longrightarrow> x \<in> set xs"
  by (simp add: enumerate_eq_zip) (erule set_zip_rightD)

lemma get_zone_id: "get_zone db i \<noteq> None \<longleftrightarrow> i \<in> set (map zc_id (dns_zone_configs db))"
  by (auto simp: get_zone_def first_row_None)

lemma new_links_in: "l \<in> set (new_links db i zs) \<Longrightarrow> az_api_key_id l = i \<and> az_dns_zone_config_id l \<in> set (map zc_id (dns_zone_configs db))"
  unfolding get_zone_id [symmetric] new_links_def by (auto dest!: enumerate_in_set)

lemma remove_first_ids:
  assumes "distinct (map g rows)"
  shows "set (map g (remove_first (\<lambda>r. g r = k) rows)) = set (map g rows) - {k}"
  using assms by (induction rows) (auto simp: image_iff)

lemma insert_links_tables:
  "insert_links i zs db = Inr db' \<Longrightarrow> api_keys db' = api_keys db \<and> dns_zone_configs db' = dns_zone_configs db
     \<and> api_key_allowed_zones db' = api_key_allowed_zones db @ new_links db i zs
     \<and> distinct (map link_pair (api_key_allowed_zones db'))"
  by (auto simp: insert_links_def Let_def split: if_splits)

interpretation tables: access_invariant access_ok
proof
  show "event_blind access_ok" by (simp add: event_blind_def log_blind_def access_ok_def has_key_def)
next
  fix db :: db and env c cfg
  assume "access_ok db" "first_row (\<lambda>z. zc_zone_name z = c) (dns_zone_configs db) = None"
  then show "access_ok (add_zone env c cfg db)"
    using next_id_new [of zc_id "dns_zone_configs db"]
    by (auto simp: access_ok_def add_zone_def has_key_def first_row_None)
next
  fix db :: db and i
  assume "access_ok db"
  then show "access_ok (deactivate i db)"
    by (simp add: access_ok_def deactivate_def has_key_def map_update_first del: set_map)
next
  fix db :: db and i label mode
  assume "access_ok db"
  then show "access_ok (save_key i label mode db)"
    by (auto simp: access_ok_def save_key_def has_key_def map_update_first distinct_map_filter simp del: set_map)
next
  fix db db' :: db and i zs
  assume db: "access_ok db" "has_key i db" and "insert_links i zs db = Inr db'"
  note t = insert_links_tables [OF this(3)]
  have "\<forall>l \<in> set (api_key_allowed_zones db'). has_key (az_api_key_id l) db'
      \<and> az_dns_zone_config_id l \<in> set (map zc_id (dns_zone_configs db'))"
    using db t new_links_in [of _ db i zs] by (auto simp: access_ok_def has_key_def simp del: set_map)
  moreover have "api_keys db' = api_keys db" "dns_zone_configs db' = dns_zone_configs db"
    "distinct (map link_pair (api_key_allowed_zones db'))"
    using t by blast+
  ultimately show "access_ok db'" using db(1) by (simp add: access_ok_def)
next
  fix db db' :: db and env label mode raw now k
  assume "access_ok db" "add_key env label mode raw now db = Inr (k, db')"
  then show "access_ok db'"
    using next_id_new [of ak_id "api_keys db"]
    by (auto simp: access_ok_def add_key_def has_key_def Let_def split: if_splits)
next
  fix db :: db and env i cfg
  assume "access_ok db"
  then show "access_ok (set_zone_config env i cfg db)"
    by (simp add: access_ok_def set_zone_config_def has_key_def map_update_first del: set_map)
next
  fix db :: db and i
  assume "access_ok db"
  then show "access_ok (remove_zone i db)"
    using remove_first_ids [of zc_id "dns_zone_configs db" i]
    by (auto simp: access_ok_def remove_zone_def has_key_def remove_first_distinct distinct_map_filter simp del: set_map)
qed

section \<open>A revoked key stays revoked\<close>

definition revoked :: "string \<Rightarrow> db \<Rightarrow> bool" where
  "revoked h db \<longleftrightarrow> distinct (map ak_key (api_keys db)) \<and> (\<exists>k \<in> set (api_keys db). ak_key k = h \<and> \<not> ak_active k)"

lemma revoked_rows:
  "revoked h db \<Longrightarrow> map ak_key (api_keys db') = map ak_key (api_keys db)
    \<Longrightarrow> (\<And>k. k \<in> set (api_keys db) \<Longrightarrow> \<not> ak_active k \<Longrightarrow> \<exists>k' \<in> set (api_keys db'). ak_key k' = ak_key k \<and> \<not> ak_active k')
    \<Longrightarrow> revoked h db'"
  unfolding revoked_def by metis

lemma update_first_revoked:
  assumes "\<And>k. ak_key (f k) = ak_key k \<and> (ak_active (f k) \<longrightarrow> ak_active k)" and "k \<in> set rows" and "\<not> ak_active k"
  shows "\<exists>k' \<in> set (update_first p f rows). ak_key k' = ak_key k \<and> \<not> ak_active k'"
  using assms by (induction rows) auto

interpretation revocation: access_invariant "revoked h" for h
proof
  show "event_blind (revoked h)" by (simp add: event_blind_def log_blind_def revoked_def)
next
  fix db :: db and i
  assume "revoked h db"
  then show "revoked h (deactivate i db)"
    by (rule revoked_rows) (auto simp: deactivate_def map_update_first intro: update_first_revoked)
next
  fix db :: db and i label mode
  assume "revoked h db"
  then show "revoked h (save_key i label mode db)"
    by (rule revoked_rows) (auto simp: save_key_def map_update_first intro: update_first_revoked)
next
  fix db db' :: db and i zs
  assume "revoked h db" "insert_links i zs db = Inr db'"
  then show "revoked h db'" using insert_links_tables [of i zs db db'] by (simp add: revoked_def)
next
  fix db db' :: db and env label mode raw now k
  assume "revoked h db" "add_key env label mode raw now db = Inr (k, db')"
  then show "revoked h db'" by (auto simp: revoked_def add_key_def Let_def split: if_splits)
qed (simp_all add: revoked_def add_zone_def set_zone_config_def remove_zone_def)

lemma revoked_inactive: "revoked h db \<Longrightarrow> k \<in> set (api_keys db) \<Longrightarrow> ak_key k = h \<Longrightarrow> \<not> ak_active k"
  unfolding revoked_def distinct_map by (metis inj_onD)

lemma revoked_not_found: "revoked (hash_api_key env raw) db \<Longrightarrow> get_api_key env db raw = None"
  by (auto simp: get_api_key_def first_row_None dest: revoked_inactive)

lemma revoked_may_not_write: "revoked (hash_api_key env raw) db \<Longrightarrow> \<not> may_write env db raw z"
  by (auto simp: may_write_def dest: revoked_inactive)

lemma revoked_deactivate:
  "access_ok db \<Longrightarrow> get_api_key_row db i = Some k \<Longrightarrow> revoked (ak_key k) (deactivate i db)"
proof -
  assume ok: "access_ok db" and k: "get_api_key_row db i = Some k"
  have "\<exists>k' \<in> set (update_first p (\<lambda>k. k\<lparr>ak_active := False\<rparr>) rows). ak_key k' = ak_key k \<and> \<not> ak_active k'"
    if "first_row p rows = Some k" for p rows
    using that by (induction rows) (auto split: if_splits)
  then show ?thesis
    using ok k by (simp add: revoked_def deactivate_def access_ok_def get_api_key_row_def map_update_first)
qed

lemma revoked_by:
  assumes "access_ok (c_db s)" and "get_api_key_row (c_db s) i = Some k" and "revoke_api_key out sess i s = (Inr page, c)"
  shows "revoked (ak_key k) (c_db c)"
proof -
  let ?s = "s\<lparr>c_db := deactivate i (c_db s)\<rparr>"
  have "revoked (ak_key k) (c_db ?s)" using revoked_deactivate [OF assms(1,2)] by simp
  moreover have step: "kept (revoked (ak_key k)) (sbind (sbind (emit_activity_event out ev) (\<lambda>_. ret ())) (\<lambda>_. render_keys out f))"
    for ev f
    by (intro keeps_intro revocation.emit revocation.rendered)
  ultimately have rest: "revoked (ak_key k)
      (c_db (snd (sbind (sbind (emit_activity_event out ev) (\<lambda>_. ret ())) (\<lambda>_. render_keys out f) ?s)))" for ev f
    using keepsD [OF step] by simp
  have page: "catch m (\<lambda>_. ret error_page) s' = (x, c) \<Longrightarrow> revoked (ak_key k) (c_db (snd (m s'))) \<Longrightarrow> revoked (ak_key k) (c_db c)"
    for m s' and x :: "keys_page res"
    by (auto simp: catch_def split: prod.splits sum.splits)
  show ?thesis
  proof (cases "require_role ROLE_API_KEYS_UPDATE (Some (se_roles sess)) (se_user sess)")
    case (Inr user)
    show ?thesis
      using assms(3) unfolding revoke_api_key_def as_role_def Inr sbind_simps
      by (rule page) (use assms(2) rest in \<open>simp add: sbind_assoc deactivate_def\<close>)
  qed (use assms(3) in \<open>simp add: revoke_api_key_def as_role_def\<close>)
qed

section \<open>A new zone has no keys\<close>

text \<open>With the links \<open>L\<close>, every zone outside \<open>Z\<close> is one that no link names.\<close>

definition unlinked_beyond :: "dns_zone_config set \<Rightarrow> api_key_allowed_zone list \<Rightarrow> db \<Rightarrow> bool" where
  "unlinked_beyond Z L db \<longleftrightarrow> api_key_allowed_zones db = L
     \<and> (\<forall>l \<in> set L. az_dns_zone_config_id l \<in> set (map zc_id (dns_zone_configs db)))
     \<and> (\<forall>z \<in> set (dns_zone_configs db). z \<in> Z \<or> zc_id z \<notin> az_dns_zone_config_id ` set L)"

interpretation newcomer: zone_addition "unlinked_beyond Z L" for Z L
proof
  show "event_blind (unlinked_beyond Z L)" by (simp add: event_blind_def log_blind_def unlinked_beyond_def)
next
  fix db :: db and env c cfg
  assume "unlinked_beyond Z L db"
  then show "unlinked_beyond Z L (add_zone env c cfg db)"
    using next_id_new [of zc_id "dns_zone_configs db"] by (auto simp: unlinked_beyond_def add_zone_def)
qed

section \<open>Properties\<close>

text \<open>
  C12. Whatever sequence of handlers runs - creating, changing and revoking keys, creating, changing and
  deleting zones, and writing requests of the API, with any outcome - keys keep distinct ids and hashes,
  zones distinct ids and names, and every link joins a key that exists to a zone that exists, once.
\<close>

theorem access_tables_consistent:
  "access_reach out connect s t \<Longrightarrow> access_ok (c_db (w_core s)) \<Longrightarrow> access_ok (c_db (w_core t))"
  by (rule tables.every_run)

text \<open>
  C11. Once a key is revoked it is gone for good: after any further run of the handlers that key and zone
  administration and the API consist of, the key is not recognised and may write to no zone. No update
  reactivates it and no new key can take its hash.
\<close>

theorem revoked_key_never_returns:
  assumes "access_ok (c_db (w_core s))" and "get_api_key_row (c_db (w_core s)) i = Some k"
    and "ak_key k = hash_api_key (o_env out) raw"
    and "revoke_api_key out sess i (w_core s) = (Inr page, c)"
    and "access_reach out connect (s\<lparr>w_core := c\<rparr>) t"
  shows "get_api_key (o_env out) (c_db (w_core t)) raw = None \<and> \<not> may_write (o_env out) (c_db (w_core t)) raw zone"
proof -
  have "revoked (ak_key k) (c_db c)" using assms(1,2,4) by (rule revoked_by)
  then have "revoked (ak_key k) (c_db (w_core t))" using revocation.every_run [OF assms(5)] by simp
  then show ?thesis using assms(3) revoked_not_found revoked_may_not_write by simp
qed

text \<open>
  C13. A zone that has just been created can be used by no key, although SQLite gives it the id of a zone
  that was deleted before: no link survived that zone.
\<close>

theorem new_zone_has_no_key:
  assumes "access_reach out connect s t" and "access_ok (c_db (w_core s))"
    and "zone_create out sess form (w_core t) = (r, c)"
    and "z \<in> set (dns_zone_configs (c_db c))" and "z \<notin> set (dns_zone_configs (c_db (w_core t)))"
  shows "\<not> key_allows_zone (c_db c) k z"
proof -
  let ?db = "c_db (w_core t)" and ?L = "api_key_allowed_zones (c_db (w_core t))"
  have "access_ok ?db" using assms(1,2) by (rule tables.every_run)
  then have "unlinked_beyond (set (dns_zone_configs ?db)) ?L ?db" by (simp add: access_ok_def unlinked_beyond_def)
  then have "unlinked_beyond (set (dns_zone_configs ?db)) ?L (c_db c)"
    using keepsD2 [OF newcomer.zone_new] assms(3) by blast
  then show ?thesis using assms(4,5) unfolding unlinked_beyond_def key_allows_zone_def by (metis image_eqI)
qed

section \<open>Witnesses\<close>

text \<open>An administrator at the instance with one key and one zone.\<close>

definition demo_admin :: session where
  "demo_admin = \<lparr>se_user = ''root'', se_version = 0, se_roles = [ROLE_GLOBAL_ADMIN]\<rparr>"

lemma demo_allowed: "require_role r (Some (se_roles demo_admin)) (se_user demo_admin) = Inr ''root''"
  by (simp add: require_role_def roles_satisfy_def demo_admin_def)

lemma demo_tables: "access_ok (c_db (w_core demo_world))"
  by (simp add: access_ok_def demo_world_def demo_core_def initial_core_def empty_db_def has_key_def demo_key_def demo_row_def
      link_pair_def)

theorem access_tables_consistent_witness:
  "access_ok (c_db (w_core (snd (serve_access demo_out demo_connect (DeleteZone demo_admin 1) demo_world))))"
  by (rule access_tables_consistent [OF access_next [OF access_refl] demo_tables])

theorem revoked_key_never_returns_witness:
  "\<exists>c page. revoke_api_key demo_out demo_admin 1 demo_core = (Inr page, c)
     \<and> get_api_key demo_env (c_db c) ''k'' = None \<and> \<not> may_write demo_env (c_db c) ''k'' ''example.org''"
proof -
  have "\<exists>page c. revoke_api_key demo_out demo_admin 1 (w_core demo_world) = (Inr page, c)"
    unfolding revoke_api_key_def as_role_def demo_allowed sbind_simps by (rule catch_ret_Inr)
  then obtain page c where run: "revoke_api_key demo_out demo_admin 1 (w_core demo_world) = (Inr page, c)" by blast
  have key: "get_api_key_row (c_db (w_core demo_world)) 1 = Some demo_key" "ak_key demo_key = hash_api_key (o_env demo_out) ''k''"
    by (simp_all add: get_api_key_row_def demo_world_def demo_core_def initial_core_def demo_key_def demo_out_def)
  from revoked_key_never_returns [OF demo_tables key run access_refl] run show ?thesis
    by (auto simp: demo_world_def demo_out_def)
qed

definition new_zone_form :: zone_settings where
  "new_zone_form = [(''zone_name'', ''Example.net.''), (''dns_provider_type'', ''bind'')]"

lemma new_zone_built:
  "normalize_zone_name (setting_or_empty new_zone_form ''zone_name'') = ''example.net''"
  "build_zone_config_from_form new_zone_form [] discover_plugins
     = Inr (projr (build_zone_config_from_form new_zone_form [] discover_plugins))"
  by code_simp+

lemma demo_plugins: "enabled_dns_provider_options demo_env (c_db demo_core) = Inr discover_plugins"
  by (simp add: enabled_dns_provider_options_def dns_provider_options_with_state_def demo_settings filter_map comp_def)

interpretation same_zones: event_invariant "\<lambda>db. dns_zone_configs db = Z" for Z
  by unfold_locales (simp add: event_blind_def log_blind_def)

theorem new_zone_has_no_key_witness:
  "\<exists>r c. zone_create demo_out demo_admin new_zone_form demo_core = (r, c)
     \<and> \<not> key_allows_zone (c_db c) demo_key (last (dns_zone_configs (c_db c)))"
proof -
  obtain r c where run: "zone_create demo_out demo_admin new_zone_form (w_core demo_world) = (r, c)" by (cases rule: prod.exhaust)
  define cfg where "cfg = projr (build_zone_config_from_form new_zone_form [] discover_plugins)"
  let ?Z = "dns_zone_configs (add_zone demo_env ''example.net'' cfg (c_db demo_core))"
  have "kept (\<lambda>db. dns_zone_configs db = ?Z) (sbind (emit_activity_event demo_out ev) (\<lambda>_. render_admin demo_out m u))" for ev m u
    by (intro keeps_intro same_zones.emit same_zones.rendered)
  from keepsD [OF this, of "demo_core\<lparr>c_db := add_zone demo_env ''example.net'' cfg (c_db demo_core)\<rparr>"]
  moreover have env: "o_env demo_out = demo_env" by (simp add: demo_out_def)
  moreover have "db_read (enabled_dns_provider_options demo_env) demo_core = (Inr discover_plugins, demo_core)"
    by (simp add: db_read_def demo_plugins)
  moreover have "first_row (\<lambda>z. zc_zone_name z = ''example.net'') (dns_zone_configs (c_db demo_core)) = None"
    by (simp add: demo_core_def initial_core_def demo_row_def)
  moreover have "build_zone_config_from_form new_zone_form [] discover_plugins = Inr cfg"
    using new_zone_built(2) by (simp only: cfg_def)
  ultimately have "dns_zone_configs (c_db (snd (zone_create demo_out demo_admin new_zone_form demo_core))) = ?Z"
    by (simp add: zone_create_def as_role_def demo_allowed new_zone_built(1) Let_def sbind_Inr)
  then have zones: "dns_zone_configs (c_db c) = ?Z" using run by (simp add: demo_world_def)
  then have z: "last (dns_zone_configs (c_db c)) \<in> set (dns_zone_configs (c_db c))"
    "last (dns_zone_configs (c_db c)) \<notin> set (dns_zone_configs (c_db (w_core demo_world)))"
    by (simp_all add: add_zone_def demo_world_def demo_core_def initial_core_def demo_row_def)
  from new_zone_has_no_key [OF access_refl demo_tables run z] run show ?thesis by (simp add: demo_world_def)
qed

end
