(* ===== verification/Recovery.thy ===== *)
theory Recovery
  imports Restore Access
begin

text \<open>
  What a backup and its restore guarantee: an installation keeps an administrator, a failed restore keeps
  its tables, an archive reads back, and a restored installation lets the same keys write to the same
  zones.
\<close>

section \<open>Runs over a site\<close>

abbreviation skept :: "(db \<Rightarrow> bool) \<Rightarrow> (site, 'a) run \<Rightarrow> bool" where
  "skept I m \<equiv> keeps (\<lambda>s. I (c_db (si_core s))) m"

lemma at_core_apply: "at_core m s = (fst (m (si_core s)), s\<lparr>si_core := snd (m (si_core s))\<rparr>)"
  and at_certs_apply: "at_certs n s = (fst (n (si_certs s)), s\<lparr>si_certs := snd (n (si_certs s))\<rparr>)"
  and at_secrets_apply: "at_secrets q s = (fst (q (si_secrets s)), s\<lparr>si_secrets := snd (q (si_secrets s))\<rparr>)"
  by (simp_all add: at_core_def at_certs_def at_secrets_def split: prod.split)

lemma skept_at_core: "kept I m \<Longrightarrow> skept I (at_core m)"
  by (simp add: keeps_def at_core_apply)

lemma skept_other: "skept I (at_certs n)" "skept I (at_secrets q)" "skept I (fresh_session_version v)"
  by (simp_all add: keeps_def at_certs_apply at_secrets_apply fresh_session_version_def Let_def)

lemma skept_transaction:
  "(\<And>s x t. I (c_db (si_core s)) \<Longrightarrow> m s = (Inr x, t) \<Longrightarrow> I (c_db (si_core t))) \<Longrightarrow> skept I (transaction m)"
  by (auto simp: keeps_def transaction_def split: prod.split sum.split)

lemma keeps_for_each: "(\<And>x. x \<in> set xs \<Longrightarrow> keeps I (f x)) \<Longrightarrow> keeps I (for_each f xs)"
  by (induction xs) (auto intro!: keeps_sbind keeps_ret)

text \<open>An invariant of the items done so far.\<close>

lemma for_each_Inr:
  assumes "for_each f xs s = (Inr u, t)" and "Q [] s"
    and "\<And>zs x s t. Q zs s \<Longrightarrow> x \<in> set xs \<Longrightarrow> f x s = (Inr (), t) \<Longrightarrow> Q (zs @ [x]) t"
  shows "Q xs t"
proof -
  have "Q (zs @ ys) t" if "for_each f ys s = (Inr u, t)" "Q zs s" "set ys \<subseteq> set xs" for ys zs s
    using that
  proof (induction ys arbitrary: zs s)
    case (Cons y ys)
    then obtain s' where "f y s = (Inr (), s')" "for_each f ys s' = (Inr u, t)"
      by (auto simp: sbind_eq_Inr)
    then show ?case using Cons.IH [of s' "zs @ [y]"] assms(3) Cons.prems by simp
  qed simp
  from this [of xs s "[]"] assms(1,2) show ?thesis by simp
qed

section \<open>What each part leaves alone\<close>

lemma skept_write: "(\<And>db db'. I db \<Longrightarrow> f db = Inr db' \<Longrightarrow> I db') \<Longrightarrow> skept I (at_core (db_write f))"
  by (intro skept_at_core kept_db_write)

lemma skept_modify: "(\<And>db. I db \<Longrightarrow> I (f db)) \<Longrightarrow> skept I (at_core (db_modify f))"
  by (intro skept_at_core keeps_intro) simp

lemma skept_or_now: "skept I (or_now out t)"
  unfolding or_now_def by (cases t) (auto intro!: keeps_ret skept_at_core keeps_intro)

lemma skept_part: "(\<And>j. skept I (f j)) \<Longrightarrow> skept I (restore_part cats payload c f)"
  unfolding restore_part_def by (auto intro!: keeps_sbind keeps_ret keeps_lift_res keeps_for_each)

lemma skept_setting: "(\<And>db x. I db \<Longrightarrow> I (db\<lparr>settings := x\<rparr>)) \<Longrightarrow> skept I (restore_setting env v k j)"
  unfolding restore_setting_def
  by (auto intro!: keeps_sbind keeps_ret keeps_lift_res skept_write simp: map_res_eq_Inr)

lemma skept_user: "(\<And>db x. I db \<Longrightarrow> I (db\<lparr>users := x\<rparr>)) \<Longrightarrow> skept I (restore_user v j)"
  unfolding restore_user_def
  by (auto intro!: keeps_sbind keeps_ret keeps_lift_res skept_write skept_other simp: map_res_eq_Inr)

lemma skept_zone: "(\<And>db x. I db \<Longrightarrow> I (db\<lparr>dns_zone_configs := x\<rparr>)) \<Longrightarrow> skept I (restore_zone env v k j)"
  unfolding restore_zone_def
  by (auto intro!: keeps_sbind keeps_ret keeps_lift_res skept_write simp: map_res_eq_Inr)

lemma skept_link: "(\<And>db x. I db \<Longrightarrow> I (db\<lparr>api_key_allowed_zones := x\<rparr>)) \<Longrightarrow> skept I (restore_link i j)"
  unfolding restore_link_def
  by (auto intro!: keeps_ret keeps_lift_res skept_write simp: map_res_eq_Inr split: json.split option.splits)

lemma skept_key:
  assumes "\<And>db x. I db \<Longrightarrow> I (db\<lparr>api_keys := x\<rparr>)" and "\<And>db x. I db \<Longrightarrow> I (db\<lparr>api_key_allowed_zones := x\<rparr>)"
  shows "skept I (restore_key out j)"
proof -
  have "skept I (at_core (db_do (\<lambda>db. map_res (\<lambda>_. (h db, db\<lparr>api_keys := g db\<rparr>)) (r db))))" for h g r
    using assms(1) by (auto simp: keeps_def at_core_apply db_do_apply map_res_def split: sum.split)
  then show ?thesis
    unfolding restore_key_def Let_def
    by (auto intro!: keeps_sbind keeps_ret keeps_lift_res skept_or_now keeps_for_each skept_link assms(2))
qed

lemma skept_rule: "(\<And>db x. I db \<Longrightarrow> I (db\<lparr>alert_rules := x\<rparr>)) \<Longrightarrow> skept I (restore_rule j)"
  unfolding restore_rule_def by (intro keeps_sbind keeps_lift_res skept_modify)

lemma skept_log: "(\<And>db x. I db \<Longrightarrow> I (db\<lparr>activity_logs := x\<rparr>)) \<Longrightarrow> skept I (restore_log out j)"
  unfolding restore_log_def by (intro keeps_sbind keeps_lift_res skept_or_now skept_modify)

section \<open>An administrator remains\<close>

text \<open>What the account of an item is.\<close>

definition user_of_item :: "json \<Rightarrow> user_row \<Rightarrow> bool" where
  "user_of_item j u \<longleftrightarrow> (\<exists>row roles. j = JObj row \<and> us_username u = strip (json_text (jget row ''username''))
     \<and> jget row ''password_hash'' = JStr (us_password_hash u)
     \<and> roles_of_json (jget row ''roles'') = Inr roles \<and> us_roles u = serialize_roles roles
     \<and> us_disabled u = json_truthy (jget row ''disabled''))"

lemma need_jget: "need row k = Inr x \<Longrightarrow> jget row k = x"
  by (auto simp: need_def jget_def split: option.splits)

lemma restored_user:
  assumes "restore_user v j s = (Inr (), t)" and "\<And>row. j = JObj row \<Longrightarrow> is_text (jget row ''password_hash'')"
  shows "\<exists>u. user_of_item j u \<and> users (c_db (si_core t)) = users (c_db (si_core s)) @ [u]
    \<and> us_id u \<notin> set (map us_id (users (c_db (si_core s)))) \<and> us_username u \<notin> set (map us_username (users (c_db (si_core s))))"
proof (cases j)
  case (JObj row)
  obtain h where h: "jget row ''password_hash'' = JStr h"
    using assms(2) [OF JObj] by (auto simp: is_text_def split: json.splits)
  show ?thesis
    using assms(1) h next_id_new [of us_id "users (c_db (si_core s))"]
    by (fastforce simp: restore_user_def JObj sbind_eq_Inr user_of_item_def fresh_session_version_def Let_def at_core_apply
        db_write_apply unique_in_def map_res_eq_Inr rbind_eq_Inr text_col_def guard_def dest: need_jget split: sum.splits if_splits)
qed (use assms(1) in \<open>simp_all add: restore_user_def\<close>)

definition admin_item :: "json \<Rightarrow> bool" where
  "admin_item j \<longleftrightarrow> (\<exists>row roles. j = JObj row \<and> \<not> json_truthy (jget row ''disabled'')
     \<and> roles_of_json (jget row ''roles'') = Inr roles \<and> ROLE_GLOBAL_ADMIN \<in> set (effective_roles roles))"

lemma check_users_Inr:
  "check_users v seen found items = Inr admin \<Longrightarrow>
     (\<forall>j \<in> set items. \<exists>row. j = JObj row \<and> is_text (jget row ''password_hash''))
     \<and> (admin \<longrightarrow> found \<or> (\<exists>j \<in> set items. admin_item j))"
proof (induction v seen found items arbitrary: admin rule: check_users.induct)
  case (2 v seen found item items)
  from 2(2) [unfolded check_users.simps rbind_eq_Inr] obtain row username w found'
    where item: "require_mapping item ''User'' = Inr row"
      and hash: "(case jget row ''password_hash'' of
         JStr h \<Rightarrow> if strip h = [] then Inl (backup_error (''User '' @ in_quotes username @ '' is missing password_hash.''))
           else validate_password_hash v h username
       | _ \<Rightarrow> Inl (backup_error (''User '' @ in_quotes username @ '' is missing password_hash.''))) = Inr w"
      and f: "(if json_truthy (jget row ''disabled'') then Inr found
         else map_res (\<lambda>rs. found \<or> ROLE_GLOBAL_ADMIN \<in> set (effective_roles rs)) (roles_of_json (jget row ''roles''))) = Inr found'"
      and rest: "check_users v (username # seen) found' items = Inr admin"
    by (elim exE conjE) (rule that)
  have row: "item = JObj row" using item by (auto simp: require_mapping_def split: json.splits)
  have h: "is_text (jget row ''password_hash'')" using hash by (auto simp: is_text_def split: json.splits)
  have "found' \<Longrightarrow> found \<or> admin_item item"
    using f row by (auto simp: admin_item_def map_res_eq_Inr split: if_splits)
  moreover have "(\<forall>j \<in> set items. \<exists>row. j = JObj row \<and> is_text (jget row ''password_hash''))
     \<and> (admin \<longrightarrow> found' \<or> (\<exists>j \<in> set items. admin_item j))"
    by (rule 2(1) [OF rest])
  ultimately show ?case using row h by auto
qed simp

lemma admin_item_user: "admin_item j \<Longrightarrow> user_of_item j u \<Longrightarrow> live_admin u"
proof -
  assume "admin_item j" "user_of_item j u"
  then obtain roles where r: "us_roles u = serialize_roles roles" "\<not> us_disabled u" "ROLE_GLOBAL_ADMIN \<in> set (effective_roles roles)"
    by (auto simp: admin_item_def user_of_item_def)
  have "ROLE_GLOBAL_ADMIN \<in> set roles"
    using r(3) by (auto simp: effective_roles_def union_roles_def MANDATORY_ROLES_def role_defs split: if_splits)
  then have "ROLE_GLOBAL_ADMIN \<in> set (parse_roles (Some (us_roles u)))"
    unfolding r(1) parse_serialize by (simp add: ALL_ROLES_def)
  then show "live_admin u"
    using r(2) by (simp add: live_admin_def target_is_global_admin_def effective_roles_def ALL_ROLES_def)
qed

lemma restored_users:
  assumes "for_each (restore_user v) items s = (Inr u, t)" and "users (c_db (si_core s)) = []"
    and "\<forall>j \<in> set items. \<exists>row. j = JObj row \<and> is_text (jget row ''password_hash'')"
  shows "list_all2 user_of_item items (users (c_db (si_core t))) \<and> users_ok (c_db (si_core t))"
proof (rule for_each_Inr [OF assms(1)])
  fix zs j s t
  assume Q: "list_all2 user_of_item zs (users (c_db (si_core s))) \<and> users_ok (c_db (si_core s))"
    and j: "j \<in> set items" and run: "restore_user v j s = (Inr (), t)"
  from assms(3) j have "\<And>row. j = JObj row \<Longrightarrow> is_text (jget row ''password_hash'')" by auto
  from restored_user [OF run this] Q
  show "list_all2 user_of_item (zs @ [j]) (users (c_db (si_core t))) \<and> users_ok (c_db (si_core t))"
    by (auto simp: users_ok_def list_all2_appendI)
qed (simp add: assms(2) users_ok_def)

lemma restore_part_Inr:
  assumes "restore_part cats payload c f s = (Inr n, t)" and "c \<in> set cats" and "json_or (jget payload c) (JList []) = JList items"
  shows "for_each f items s = (Inr (), t)"
  using assms by (auto simp: restore_part_def sbind_eq_Inr)

lemma restored_accounts:
  assumes "restore_tables out v k cats payload s = (Inr summary, t)" and "CATEGORY_USERS \<in> set cats"
    and "validate_users v payload = Inr ()"
  shows "accounts_ok (c_db (si_core t))"
proof -
  obtain items where items: "json_or (jget payload CATEGORY_USERS) (JList []) = JList items"
      and checked: "check_users v [] False items = Inr True"
    using assms(3) by (auto simp: validate_users_def Let_def rbind_eq_Inr backup_guard_def simp del: check_users.simps split: json.splits list.splits)
  let ?u = "\<lambda>s. users (c_db (si_core s))"
  from assms(1) [unfolded restore_tables_def sbind_eq_Inr] obtain s1 s2 s3 s4 s5 s6 s7 a b c d e f x
    where s1: "at_core (db_modify (wipe cats)) s = (Inr x, s1)"
      and s2: "restore_part cats payload CATEGORY_SETTINGS (restore_setting (o_env out) v k) s1 = (Inr a, s2)"
      and s3: "restore_part cats payload CATEGORY_USERS (restore_user v) s2 = (Inr b, s3)"
      and s4: "restore_part cats payload CATEGORY_ZONES (restore_zone (o_env out) v k) s3 = (Inr c, s4)"
      and s5: "restore_part cats payload CATEGORY_API_KEYS (restore_key out) s4 = (Inr d, s5)"
      and s6: "restore_part cats payload CATEGORY_ALERT_RULES restore_rule s5 = (Inr e, s6)"
      and s7: "restore_part cats payload CATEGORY_ACTIVITY_LOGS (restore_log out) s6 = (Inr f, s7)"
      and t: "t = s7"
    by (auto simp: ret_def)
  have "?u s1 = []" using s1 assms(2) by (auto simp: at_core_apply wipe_def)
  then have "?u s2 = []" using keepsD2 [OF skept_part [OF skept_setting, of "\<lambda>db. users db = []"] _ s2] by simp
  from restored_users [OF restore_part_Inr [OF s3 assms(2) items] this] check_users_Inr [OF checked]
  have r: "list_all2 user_of_item items (?u s3)" "users_ok (c_db (si_core s3))" "\<exists>j \<in> set items. admin_item j"
    by simp_all
  then have "accounts_ok (c_db (si_core s3))"
    by (auto simp: accounts_ok_def list_all2_conv_all_nth in_set_conv_nth) (metis admin_item_user nth_mem)
  moreover have "?u t = ?u s3"
    using keepsD2 [OF skept_part [OF skept_zone, of "\<lambda>db. users db = ?u s3"] _ s4]
      keepsD2 [OF skept_part [OF skept_key, of "\<lambda>db. users db = ?u s3"] _ s5]
      keepsD2 [OF skept_part [OF skept_rule, of "\<lambda>db. users db = ?u s3"] _ s6]
      keepsD2 [OF skept_part [OF skept_log, of "\<lambda>db. users db = ?u s3"] _ s7] t by simp
  ultimately show ?thesis using accounts_ok_users by blast
qed

lemma tables_keep_users:
  assumes "CATEGORY_USERS \<notin> set cats" and "restore_tables out v k cats payload s = (r, t)"
  shows "users (c_db (si_core t)) = users (c_db (si_core s))"
proof -
  let ?I = "\<lambda>db. users db = users (c_db (si_core s))"
  have "restore_part cats payload CATEGORY_USERS f = ret []" for f using assms(1) by (simp add: restore_part_def fun_eq_iff)
  then have "skept ?I (restore_tables out v k cats payload)"
    unfolding restore_tables_def using assms(1)
    by (auto intro!: keeps_sbind keeps_ret skept_part skept_setting skept_zone skept_key skept_rule skept_log skept_modify
        simp: wipe_def simp del: ret_apply)
  from keepsD2 [OF this _ assms(2)] show ?thesis by simp
qed

lemma accounts_ok_blind: "event_blind accounts_ok"
  by (simp add: event_blind_def log_blind_def accounts_ok_def users_ok_def)

lemma progress_blind: "log_blind f \<Longrightarrow> write_restore_progress env p n m d e r x db = Inr db' \<Longrightarrow> f db' = f db"
  by (auto simp: write_restore_progress_def write_json_setting_def dest: set_typed_blind)

interpretation accounts: event_invariant accounts_ok
  by unfold_locales (rule accounts_ok_blind)

lemma skept_report: "skept accounts_ok (at_core (write_progress out phase n m))"
  using progress_blind [of accounts_ok] accounts_ok_blind unfolding write_progress_def
  by (intro skept_write) (auto simp: event_blind_def)

lemma update_first_none: "(\<And>x. x \<in> set xs \<Longrightarrow> \<not> p x) \<Longrightarrow> update_first p f xs = xs"
  by (induction xs) auto

lemma accounts_ok_version: "accounts_ok db \<Longrightarrow> accounts_ok (update_user i (\<lambda>u. u\<lparr>us_session_version := n\<rparr>) db)"
proof (cases "get_user db i")
  case None
  then have "update_first (\<lambda>u. us_id u = i) f (users db) = users db" for f
    unfolding get_user_def first_row_None by (intro update_first_none) simp
  then show "accounts_ok db \<Longrightarrow> ?thesis" by (simp add: update_user_def)
next
  case (Some u)
  assume "accounts_ok db"
  then show ?thesis
    by (rule accounts_ok_update [OF _ Some]) (simp_all add: live_admin_def target_is_global_admin_def)
qed

lemma skept_refresh: "skept accounts_ok (transaction (refresh_sessions v))"
proof -
  have "skept accounts_ok (refresh_sessions v)"
    unfolding refresh_sessions_def
    by (intro keeps_sbind keeps_gets keeps_for_each skept_other skept_modify accounts_ok_version)
  then show ?thesis by (intro skept_transaction) (rule keepsD2)
qed

lemma restore_keeps_accounts: "skept accounts_ok (restore_payload out v pytest (write_progress out) payload categories)"
proof -
  let ?cats = "normalize_categories (Some categories) False"
  have tables: "skept accounts_ok (transaction (restore_tables out v k cats payload))"
    if "CATEGORY_USERS \<in> set cats \<longrightarrow> validate_users v payload = Inr ()" for k cats
    by (rule skept_transaction) (metis that restored_accounts tables_keep_users accounts_ok_users)
  have part: "skept accounts_ok (sbind (lift_res (validate_restore_records v ?cats payload)) (\<lambda>_.
      sbind (report_if b (write_progress out) p n m) (\<lambda>_. sbind (transaction (restore_tables out v k ?cats payload)) g)))"
    if "\<And>x. skept accounts_ok (g x)" for b p n m k g
  proof (cases "validate_restore_records v ?cats payload")
    case (Inr u)
    have "normalize_categories (Some ?cats) False = ?cats" by (auto simp: normalize_categories_def intro: filter_cong)
    then have "CATEGORY_USERS \<in> set ?cats \<longrightarrow> validate_users v payload = Inr ()"
      using Inr by (auto simp: validate_restore_records_def Let_def rbind_eq_Inr when_in_def)
    then show ?thesis
      unfolding report_if_def by (auto intro!: keeps_sbind keeps_lift_res keeps_ret skept_report tables that)
  qed (auto simp: keeps_def)
  have report: "skept accounts_ok (report_if b (write_progress out) p n m)" for b p n m
    by (auto simp: report_if_def intro!: keeps_ret skept_report simp del: ret_apply)
  have secrets: "skept accounts_ok (restore_secrets v pytest (write_progress out) ?cats payload)"
    unfolding restore_secrets_def
    by (intro keeps_sbind keeps_if keeps_ret keeps_lift_res skept_report skept_refresh skept_other)
  show ?thesis
  proof (cases "?cats = []")
    case False
    then show ?thesis
      unfolding restore_payload_def Let_def if_not_P [OF False]
      by (intro keeps_sbind [OF report] part) (intro keeps_sbind keeps_if keeps_ret report skept_other secrets)
  qed (simp add: restore_payload_def keeps_def)
qed

text \<open>
  C15. Whatever archive is uploaded, with whatever password and categories, and however the import ends, the
  accounts keep distinct ids and names and an enabled global administrator remains.
\<close>

theorem restore_keeps_an_administrator:
  assumes "users_ok (c_db (si_core s))" and "\<exists>u \<in> set (users (c_db (si_core s))). \<not> us_disabled u \<and> target_is_global_admin u"
    and "run_backup_import out v pytest raw password categories user s = (r, t)"
  shows "users_ok (c_db (si_core t)) \<and> (\<exists>u \<in> set (users (c_db (si_core t))). \<not> us_disabled u \<and> target_is_global_admin u)"
proof -
  have ok: "accounts_ok (c_db (si_core s))" using assms(1,2) by (auto simp: accounts_ok_def live_admin_def)
  have progress: "kept accounts_ok (db_write (write_restore_progress env p n m d e r x))" for env p n m d e r x
    using progress_blind [of accounts_ok] accounts_ok_blind by (intro kept_db_write) (auto simp: event_blind_def)
  have finished: "kept accounts_ok (db_write (mark_restore_worker_finished env))" for env
    using progress_blind [of accounts_ok] accounts_ok_blind
    by (intro kept_db_write) (auto simp: mark_restore_worker_finished_def rbind_eq_Inr event_blind_def split: if_splits)
  have "skept accounts_ok (run_backup_import out v pytest raw password categories user)"
    unfolding run_backup_import_def run_backup_import_sync_def import_succeeded_def import_failed_def
    by (intro keeps_finally_do keeps_catch keeps_sbind keeps_ret keeps_lift_res skept_at_core accounts.emit progress finished
        restore_keeps_accounts)
  from keepsD2 [OF this ok assms(3)] show ?thesis by (auto simp: accounts_ok_def live_admin_def)
qed

section \<open>The archive reads back\<close>

text \<open>What Fernet and PBKDF2 document, and two installations with the same libraries.\<close>

definition crypto_ok :: "vault \<Rightarrow> bool" where
  "crypto_ok v \<longleftrightarrow> (\<forall>k p. fernet_valid v k \<longrightarrow> fernet_decrypt v k (fernet_encrypt v k p) = Some p)
     \<and> (\<forall>pw s n. fernet_valid v (urlsafe_b64encode (pbkdf2 v pw s n)))"

definition same_crypto :: "vault \<Rightarrow> vault \<Rightarrow> bool" where
  "same_crypto v w \<longleftrightarrow> fernet_valid w = fernet_valid v \<and> fernet_encrypt w = fernet_encrypt v
     \<and> fernet_decrypt w = fernet_decrypt v \<and> pbkdf2 w = pbkdf2 v"

lemma iterations_ok: "validated_iterations DEFAULT_PBKDF2_ITERATIONS = Inr DEFAULT_PBKDF2_ITERATIONS"
  by (simp add: validated_iterations_def backup_constants)

lemma small_constants: "small_nat (nat \<bar>DEFAULT_PBKDF2_ITERATIONS\<bar>)" "small_nat (nat \<bar>BACKUP_VERSION\<bar>)"
  by (rule small_nat_less [of _ 6]; simp add: backup_constants)+

definition envelope_of :: "vault \<Rightarrow> string \<Rightarrow> string \<Rightarrow> json \<Rightarrow> dict" where
  "envelope_of v plain pw created =
     [(''format'', JStr BACKUP_FORMAT), (''version'', JInt BACKUP_VERSION), (''encrypted'', JBool True),
      (''kdf'', JStr BACKUP_KDF), (''iterations'', JInt DEFAULT_PBKDF2_ITERATIONS), (''salt'', JStr (b64encode (salt v))),
      (''ciphertext'', JStr (b64encode (fernet_encrypt v (urlsafe_b64encode (pbkdf2 v pw (salt v) DEFAULT_PBKDF2_ITERATIONS)) plain))),
      (''created_at'', created)]"

lemma encrypted_envelope:
  assumes "crypto_ok v" and "pw \<noteq> []"
  shows "map_res (AList.update ''created_at'' created) (encrypt_payload v plain pw DEFAULT_PBKDF2_ITERATIONS) = Inr (envelope_of v plain pw created)"
  using assms by (simp add: encrypt_payload_def derive_backup_fernet_def iterations_ok crypto_ok_def Let_def envelope_of_def)

lemma envelope_opens:
  assumes "crypto_ok v" and "same_crypto v w" and "pw \<noteq> []"
  shows "decrypt_envelope w (envelope_of v plain pw created) pw = Inr plain"
proof -
  let ?key = "urlsafe_b64encode (pbkdf2 v pw (salt v) DEFAULT_PBKDF2_ITERATIONS)"
  have key: "derive_backup_fernet w pw (salt v) DEFAULT_PBKDF2_ITERATIONS = Inr ?key"
    using assms by (simp add: derive_backup_fernet_def iterations_ok crypto_ok_def same_crypto_def Let_def)
  have plain: "fernet_decrypt w ?key (fernet_encrypt v ?key plain) = Some plain"
    using assms(1,2) by (simp add: crypto_ok_def same_crypto_def)
  have truthy: "json_truthy (JInt DEFAULT_PBKDF2_ITERATIONS)" "json_truthy (JStr BACKUP_KDF)" by (simp_all add: backup_constants)
  show ?thesis
    by (simp add: decrypt_envelope_def envelope_of_def need_def b64_json_def json_or_def truthy [simplified] iterations_ok key plain
        del: json_truthy.simps(3))
qed

lemma json_ok_jget: "json_ok (JObj d) \<Longrightarrow> json_ok (jget d k)"
  by (auto simp: jget_def split: option.split dest: map_of_SomeD)

lemma created_ok:
  assumes "json_ok (JObj payload)" and "created_at_of now payload = Inr created"
  shows "json_ok created"
proof -
  obtain m where m: "as_dict (json_or (jget payload ''manifest'') (JObj [])) = Inr m"
      and created: "created = json_or (jget m ''created_at'') (JStr (iso_format now))"
    using assms(2) by (auto simp: created_at_of_def map_res_eq_Inr)
  have "json_ok (JObj m)"
    using m json_ok_jget [OF assms(1), of "''manifest''"] by (cases "json_or (jget payload ''manifest'') (JObj [])") (auto simp: json_or_def split: if_splits)
  then show ?thesis using json_ok_jget [of m] by (simp add: created json_or_def)
qed

lemma archive_opens:
  assumes "crypto_ok v" and "same_crypto v w" and "json_ok (JObj payload)" and "jget payload ''manifest'' = JObj m"
    and "serialize_backup v now payload encrypt_it password = Inr raw"
  shows "load_backup_bytes w raw password =
    Inr (AList.update ''manifest'' (JObj (AList.update MANIFEST_ENVELOPE_ENCRYPTED (JBool encrypt_it) m)) payload)"
proof -
  obtain created where c: "created_at_of now payload = Inr created" and ok: "json_ok created"
    using assms(3,5) created_ok by (auto simp: serialize_backup_def rbind_eq_Inr)
  show ?thesis
  proof (cases encrypt_it)
    case True
    let ?pw = "or_empty password" and ?plain = "json_dumps_compact (JObj payload)"
    let ?e = "envelope_of v ?plain ?pw created"
    have pw: "?pw \<noteq> []" and raw: "raw = json_dumps_indent (JObj ?e)"
      using assms(5) c True encrypted_envelope [OF assms(1), of ?pw created ?plain]
      by (auto simp: serialize_backup_def Let_def map_res_eq_Inr split: if_splits)
    have "json_ok (JObj ?e)" using ok small_constants by (simp add: envelope_of_def)
    then have load: "json_loads raw = Inr (JObj ?e)" unfolding raw by (rule json_loads_indent)
    have "open_envelope w ?e password = Inr (JObj payload)"
      using envelope_opens [OF assms(1,2) pw] pw json_loads_compact [OF assms(3)]
      by (simp add: open_envelope_def) (simp add: envelope_of_def)
    then show ?thesis using assms(4) True load by (simp add: load_backup_bytes_def) (simp add: envelope_of_def)
  next
    case False
    let ?e = "[(''format'', JStr BACKUP_FORMAT), (''version'', JInt BACKUP_VERSION), (''created_at'', created),
         (''encrypted'', JBool False), (''payload'', JObj payload)]"
    have raw: "raw = json_dumps_indent (JObj ?e)"
      using assms(5) c False by (auto simp: serialize_backup_def Let_def split: if_splits)
    have "json_ok (JObj ?e)" using ok assms(3) small_constants by simp
    then have "json_loads raw = Inr (JObj ?e)" unfolding raw by (rule json_loads_indent)
    then show ?thesis using assms(4) False by (simp add: load_backup_bytes_def open_envelope_def)
  qed
qed

text \<open>
  C16. An archive that one installation has written, with or without a password, is read by every
  installation with the same password as the payload that was exported, marked with whether it was
  encrypted.
\<close>

theorem archive_reads_back:
  assumes "crypto_ok v" and "same_crypto v w" and "json_ok (JObj payload)" and "jget payload ''manifest'' = JObj m"
    and "serialize_backup v now payload encrypt_it password = Inr raw"
  shows "load_backup_bytes w raw password =
    Inr (AList.update ''manifest'' (JObj (AList.update MANIFEST_ENVELOPE_ENCRYPTED (JBool encrypt_it) m)) payload)"
  by (rule archive_opens [OF assms])

section \<open>Witnesses\<close>

text \<open>A vault whose token is the plain text behind the key and its length.\<close>

definition demo_vault :: vault where
  "demo_vault = \<lparr>process_key = ''key'', fernet_valid = (\<lambda>k. k \<noteq> []), fernet_encrypt = (\<lambda>k p. CHR ''t'' # k @ p),
     fernet_decrypt = (\<lambda>k t. if take (Suc (length k)) t = CHR ''t'' # k then Some (drop (Suc (length k)) t) else None),
     pbkdf2 = (\<lambda>pw s n. ''d''), salt = ''salt'', randbits = int, known_hash = (\<lambda>h. True)\<rparr>"

lemma crypto_ok_demo: "crypto_ok demo_vault"
proof -
  have "urlsafe_b64encode ''d'' \<noteq> []" by code_simp
  then show ?thesis by (simp add: crypto_ok_def demo_vault_def)
qed

definition demo_site :: site where
  "demo_site = \<lparr>si_core = initial_core demo_db, si_certs = empty_store,
     si_secrets = \<lparr>sd_durable = None, sd_project = None, sd_environ = (\<lambda>_. None)\<rparr>, si_draws = 0\<rparr>"

theorem restore_keeps_an_administrator_witness:
  "let t = snd (run_backup_import demo_out demo_vault False ''{}'' [] [CATEGORY_USERS] ''admin'' demo_site)
   in users_ok (c_db (si_core t)) \<and> (\<exists>u \<in> set (users (c_db (si_core t))). \<not> us_disabled u \<and> target_is_global_admin u)"
proof -
  have "users_ok (c_db (si_core demo_site))"
    "\<exists>u \<in> set (users (c_db (si_core demo_site))). \<not> us_disabled u \<and> target_is_global_admin u"
    using admin_demo by (simp_all add: demo_site_def initial_core_def users_ok_def demo_db_def) (simp add: demo_user_def)
  from restore_keeps_an_administrator [OF this surjective_pairing] show ?thesis by (simp add: Let_def)
qed

definition demo_payload :: dict where
  "demo_payload = [(''manifest'', JObj [(''created_at'', JStr ''2024'')]), (''users'', JList [])]"

theorem archive_reads_back_witness:
  "\<exists>raw. serialize_backup demo_vault 0 demo_payload True (Some ''password'') = Inr raw
     \<and> load_backup_bytes demo_vault raw (Some ''password'')
       = Inr [(''manifest'', JObj [(''created_at'', JStr ''2024''), (''envelope_encrypted'', JBool True)]), (''users'', JList [])]"
proof -
  let ?raw = "json_dumps_indent (JObj (envelope_of demo_vault (json_dumps_compact (JObj demo_payload)) ''password'' (JStr ''2024'')))"
  have raw: "serialize_backup demo_vault 0 demo_payload True (Some ''password'') = Inr ?raw"
    using encrypted_envelope [OF crypto_ok_demo, of "''password''" "JStr ''2024''" "json_dumps_compact (JObj demo_payload)"]
    by (auto simp: serialize_backup_def created_at_of_def map_res_eq_Inr demo_payload_def json_or_def Let_def or_empty_def)
  have "json_ok (JObj demo_payload)" by (simp add: demo_payload_def)
  from archive_reads_back [OF crypto_ok_demo _ this _ raw, of demo_vault "[(''created_at'', JStr ''2024'')]"] raw show ?thesis
    by (auto simp: same_crypto_def demo_payload_def MANIFEST_ENVELOPE_ENCRYPTED_def)
qed

end
