(* ===== verification/Migration.thy ===== *)
theory Migration
  imports Recovery RateLimit
begin

text \<open>
  Moving an installation by a backup: the restored settings, zones and API keys mean what they meant, so that
  the same raw keys may write to the same zones although the new installation has a Fernet key of its own.
\<close>

text \<open>The Fernet of the process is the one of its key.\<close>

definition process_fernet :: "env \<Rightarrow> vault \<Rightarrow> bool" where
  "process_fernet env v \<longleftrightarrow> fernet_valid v (strip (process_key v)) \<and> strip (process_key v) \<noteq> [] \<and> (\<forall>k. fernet_decrypt v k [] = None)
     \<and> (\<forall>p. encrypt env p = fernet_encrypt v (strip (process_key v)) p)
     \<and> (\<forall>t. decrypt env t = (case fernet_decrypt v (strip (process_key v)) t of
          Some p \<Rightarrow> Inr p | None \<Rightarrow> Inl (OtherError ''InvalidToken'' [])))"

lemma rewrapped_token:
  assumes "process_fernet env1 v1" and "process_fernet env2 v2" and "crypto_ok v2" and "same_crypto v1 v2"
    and "rewrap_when env2 v2 (strip (process_key v1)) token label = Inr token'" and "strip (process_key v1) \<noteq> []"
  shows "decrypt env2 token' = decrypt env1 token"
proof -
  have same: "fernet_decrypt v2 = fernet_decrypt v1" using assms(4) by (simp add: same_crypto_def)
  consider "token = []" "token' = []" | "strip (process_key v1) = strip (process_key v2)" "token' = token"
    | p where "fernet_decrypt v2 (strip (process_key v1)) token = Some p" "token' = encrypt env2 p"
    using assms(5,6) by (auto simp: rewrap_when_def rewrap_fernet_token_def split: if_splits option.splits)
  then show ?thesis
  proof cases
    case 3
    have "fernet_decrypt v2 (strip (process_key v2)) (fernet_encrypt v2 (strip (process_key v2)) p) = Some p"
      using assms(2,3) by (simp add: process_fernet_def crypto_ok_def)
    then show ?thesis using 3 assms(1,2) same by (simp add: process_fernet_def)
  qed (use assms(1,2) same in \<open>simp_all add: process_fernet_def\<close>)
qed

lemma at_core_Inr: "at_core m s = (Inr x, t) \<longleftrightarrow> (\<exists>c. m (si_core s) = (Inr x, c) \<and> t = s\<lparr>si_core := c\<rparr>)"
  by (cases "m (si_core s)") (auto simp: at_core_apply)

lemma db_write_Inr: "db_write f s = (Inr u, t) \<longleftrightarrow> (\<exists>db'. f (c_db s) = Inr db' \<and> t = s\<lparr>c_db := db'\<rparr>)"
  by (auto simp: db_write_apply split: sum.split)

lemmas row_simps = sbind_eq_Inr at_core_Inr db_write_Inr map_res_eq_Inr rbind_eq_Inr unique_in_def

lemma for_each_map: "for_each f (map g xs) = for_each (\<lambda>x. f (g x)) xs"
  by (induction xs) auto

lemma restore_tablesE:
  assumes "restore_tables out v k cats payload s = (Inr summary, t)"
  obtains s2 s3 s4 s5 s6 a b c d e f
    where "restore_part cats payload CATEGORY_SETTINGS (restore_setting (o_env out) v k)
         (s\<lparr>si_core := (si_core s)\<lparr>c_db := wipe cats (c_db (si_core s))\<rparr>\<rparr>) = (Inr a, s2)"
      and "restore_part cats payload CATEGORY_USERS (restore_user v) s2 = (Inr b, s3)"
      and "restore_part cats payload CATEGORY_ZONES (restore_zone (o_env out) v k) s3 = (Inr c, s4)"
      and "restore_part cats payload CATEGORY_API_KEYS (restore_key out) s4 = (Inr d, s5)"
      and "restore_part cats payload CATEGORY_ALERT_RULES restore_rule s5 = (Inr e, s6)"
      and "restore_part cats payload CATEGORY_ACTIVITY_LOGS (restore_log out) s6 = (Inr f, t)"
  using assms that by (auto simp: restore_tables_def sbind_eq_Inr at_core_apply)

subsection \<open>Settings\<close>

definition setting_like :: "env \<Rightarrow> env \<Rightarrow> setting_row \<Rightarrow> setting_row \<Rightarrow> bool" where
  "setting_like env1 env2 r r' \<longleftrightarrow> st_name r' = strip (st_name r) \<and> decrypt env2 (st_value r') = decrypt env1 (st_value r)"

definition export_setting :: "setting_row \<Rightarrow> json" where
  "export_setting r = JObj [(''name'', JStr (st_name r)), (''value'', JStr (st_value r))]"

lemma json_or_text [simp]: "json_or (JStr s) (JStr []) = JStr s"
  by (simp add: json_or_def)

lemma restored_setting:
  assumes "restore_setting env2 v k (export_setting r) s = (Inr (), t)"
    and "strip (st_name r) \<noteq> []" and "strip (st_name r) \<notin> set EXCLUDED_SETTING_NAMES"
  obtains i val label where "rewrap_when env2 v k (st_value r) label = Inr val"
    and "t = s\<lparr>si_core := (si_core s)\<lparr>c_db := (c_db (si_core s))\<lparr>settings := settings (c_db (si_core s))
        @ [\<lparr>st_id = i, st_name = strip (st_name r), st_value = val\<rparr>]\<rparr>\<rparr>\<rparr>"
  using assms that
  by (auto simp: restore_setting_def export_setting_def row_simps json_strip_def text_or_def text_col_def)

lemma restored_settings:
  assumes "for_each (restore_setting env2 v2 (strip (process_key v1))) (map export_setting rs) s = (Inr u, t)"
    and "\<And>r. r \<in> set rs \<Longrightarrow> strip (st_name r) = st_name r \<and> st_name r \<noteq> [] \<and> st_name r \<notin> set EXCLUDED_SETTING_NAMES"
    and "process_fernet env1 v1" and "process_fernet env2 v2" and "crypto_ok v2" and "same_crypto v1 v2"
    and "strip (process_key v1) \<noteq> []"
  shows "\<exists>rs'. settings (c_db (si_core t)) = settings (c_db (si_core s)) @ rs' \<and> list_all2 (setting_like env1 env2) rs rs'"
proof -
  let ?Q = "\<lambda>zs x. \<exists>rs'. settings (c_db (si_core x)) = settings (c_db (si_core s)) @ rs' \<and> list_all2 (setting_like env1 env2) zs rs'"
  let ?f = "\<lambda>r. restore_setting env2 v2 (strip (process_key v1)) (export_setting r)"
  have "for_each ?f rs s = (Inr u, t)" using assms(1) by (simp add: for_each_map)
  then show ?thesis
  proof (rule for_each_Inr [where Q = ?Q])
    fix zs r x y
    assume Q: "?Q zs x" and r: "r \<in> set rs" and run: "?f r x = (Inr (), y)"
    obtain i val label where val: "rewrap_when env2 v2 (strip (process_key v1)) (st_value r) label = Inr val"
      and y: "y = x\<lparr>si_core := (si_core x)\<lparr>c_db := (c_db (si_core x))\<lparr>settings := settings (c_db (si_core x))
        @ [\<lparr>st_id = i, st_name = strip (st_name r), st_value = val\<rparr>]\<rparr>\<rparr>\<rparr>"
      by (rule restored_setting [OF run]) (use assms(2) [OF r] in auto)
    have "decrypt env2 val = decrypt env1 (st_value r)" by (rule rewrapped_token [OF assms(3-6) val assms(7)])
    then show "?Q (zs @ [r]) y" using Q y by (auto simp: setting_like_def intro!: list_all2_appendI)
  qed simp
qed

lemma first_row_rel:
  assumes "list_all2 R xs ys" and "\<And>x y. R x y \<Longrightarrow> q y = p x"
  shows "rel_option R (first_row p xs) (first_row q ys)"
  using assms(1) by (induction rule: list_all2_induct) (use assms(2) in auto)

lemma setting_moves:
  assumes "list_all2 (setting_like env1 env2) (filter (\<lambda>r. st_name r \<noteq> [] \<and> st_name r \<notin> set EXCLUDED_SETTING_NAMES) (settings db1)) rs'"
    and "\<And>r. r \<in> set (settings db1) \<Longrightarrow> strip (st_name r) = st_name r"
    and "settings db2 = filter (\<lambda>r. st_name r = SETTING_BACKUP_PROGRESS) rs0 @ rs'" and "key \<noteq> []" and "key \<notin> set EXCLUDED_SETTING_NAMES"
  shows "get_setting env2 db2 key = get_setting env1 db1 key"
proof -
  let ?p = "\<lambda>r. st_name r = key" and ?c = "\<lambda>r. st_name r \<noteq> [] \<and> st_name r \<notin> set EXCLUDED_SETTING_NAMES"
  have "key \<noteq> SETTING_BACKUP_PROGRESS" using assms(5) by (auto simp: EXCLUDED_SETTING_NAMES_def)
  then have "first_row ?p (filter (\<lambda>r. st_name r = SETTING_BACKUP_PROGRESS) rs0) = None" by (auto simp: first_row_None)
  then have 2: "first_row ?p (settings db2) = first_row ?p rs'" by (simp add: assms(3) first_row_append)
  have 1: "first_row ?p (filter ?c (settings db1)) = first_row ?p (settings db1)"
    by (rule first_row_filter) (use assms(4,5) in auto)
  have "list_all2 (\<lambda>r r'. setting_like env1 env2 r r' \<and> strip (st_name r) = st_name r) (filter ?c (settings db1)) rs'"
    by (rule list.rel_mono_strong [OF assms(1)]) (use assms(2) in auto)
  from first_row_rel [OF this, of ?p ?p] have "rel_option (\<lambda>r r'. setting_like env1 env2 r r' \<and> strip (st_name r) = st_name r)
      (first_row ?p (settings db1)) (first_row ?p (settings db2))"
    unfolding 1 2 by (auto simp: setting_like_def)
  then show ?thesis by (auto simp: get_setting_def setting_like_def option_rel_Some1 elim!: option.rel_cases)
qed

lemma typed_setting_moves:
  "(\<And>key. key \<noteq> [] \<Longrightarrow> key \<notin> set EXCLUDED_SETTING_NAMES \<Longrightarrow> get_setting env2 db2 key = get_setting env1 db1 key)
    \<Longrightarrow> get_disabled_dns_plugins env2 db2 = get_disabled_dns_plugins env1 db1"
proof -
  assume same: "\<And>key. key \<noteq> [] \<Longrightarrow> key \<notin> set EXCLUDED_SETTING_NAMES \<Longrightarrow> get_setting env2 db2 key = get_setting env1 db1 key"
  have key: "sp_key sp = DISABLED_DNS_PLUGINS_SETTING" if "require_spec DISABLED_DNS_PLUGINS_SETTING = Inr sp" for sp
    using that by (auto simp: require_spec_def get_spec_def find_Some_iff split: option.splits)
  have "get_setting env2 db2 DISABLED_DNS_PLUGINS_SETTING = get_setting env1 db1 DISABLED_DNS_PLUGINS_SETTING"
    by (rule same) (simp_all add: DISABLED_DNS_PLUGINS_SETTING_def EXCLUDED_SETTING_NAMES_def SETTING_BACKUP_PROGRESS_def)
  then have "get_typed_setting_by_key env2 db2 DISABLED_DNS_PLUGINS_SETTING = get_typed_setting_by_key env1 db1 DISABLED_DNS_PLUGINS_SETTING"
    using key by (cases "require_spec DISABLED_DNS_PLUGINS_SETTING") (auto simp: get_typed_setting_by_key_def get_typed_setting_def)
  then show ?thesis by (simp add: get_disabled_dns_plugins_def)
qed

subsection \<open>Zones\<close>

definition zone_like :: "env \<Rightarrow> env \<Rightarrow> dns_zone_config \<Rightarrow> dns_zone_config \<Rightarrow> bool" where
  "zone_like env1 env2 z z' \<longleftrightarrow> zc_zone_name z' = zc_zone_name z \<and> decode_zone_config env2 z' = decode_zone_config env1 z"

lemma restored_zone:
  assumes "restore_zone env2 v k (export_zone z) s = (Inr (), t)"
  obtains cfg label where "rewrap_when env2 v k (zc_encrypted_config z) label = Inr cfg"
    and "zc_zone_name z \<notin> set (map zc_zone_name (dns_zone_configs (c_db (si_core s))))"
    and "t = s\<lparr>si_core := (si_core s)\<lparr>c_db := (c_db (si_core s))\<lparr>dns_zone_configs := dns_zone_configs (c_db (si_core s))
        @ [\<lparr>zc_id = next_id zc_id (dns_zone_configs (c_db (si_core s))), zc_zone_name = zc_zone_name z, zc_encrypted_config = cfg\<rparr>]\<rparr>\<rparr>\<rparr>"
  using assms that by (auto simp: restore_zone_def export_zone_def row_simps text_col_def need_def)

definition zones_distinct :: "db \<Rightarrow> bool" where
  "zones_distinct db \<longleftrightarrow> distinct (map zc_id (dns_zone_configs db)) \<and> distinct (map zc_zone_name (dns_zone_configs db))"

lemma restored_zones:
  assumes "for_each (restore_zone env2 v2 (strip (process_key v1))) (map export_zone zs) s = (Inr u, t)"
    and "dns_zone_configs (c_db (si_core s)) = []"
    and "process_fernet env1 v1" and "process_fernet env2 v2" and "crypto_ok v2" and "same_crypto v1 v2"
    and "strip (process_key v1) \<noteq> []"
  shows "list_all2 (zone_like env1 env2) zs (dns_zone_configs (c_db (si_core t))) \<and> zones_distinct (c_db (si_core t))"
proof -
  let ?Q = "\<lambda>zs x. list_all2 (zone_like env1 env2) zs (dns_zone_configs (c_db (si_core x))) \<and> zones_distinct (c_db (si_core x))"
  let ?f = "\<lambda>z. restore_zone env2 v2 (strip (process_key v1)) (export_zone z)"
  have "for_each ?f zs s = (Inr u, t)" using assms(1) by (simp add: for_each_map)
  then show ?thesis
  proof (rule for_each_Inr [where Q = ?Q])
    fix ys z x y
    assume Q: "?Q ys x" and run: "?f z x = (Inr (), y)"
    obtain cfg label where cfg: "rewrap_when env2 v2 (strip (process_key v1)) (zc_encrypted_config z) label = Inr cfg"
      and new: "zc_zone_name z \<notin> set (map zc_zone_name (dns_zone_configs (c_db (si_core x))))"
      and y: "y = x\<lparr>si_core := (si_core x)\<lparr>c_db := (c_db (si_core x))\<lparr>dns_zone_configs := dns_zone_configs (c_db (si_core x))
        @ [\<lparr>zc_id = next_id zc_id (dns_zone_configs (c_db (si_core x))), zc_zone_name = zc_zone_name z, zc_encrypted_config = cfg\<rparr>]\<rparr>\<rparr>\<rparr>"
      by (rule restored_zone [OF run])
    have "decrypt env2 cfg = decrypt env1 (zc_encrypted_config z)" by (rule rewrapped_token [OF assms(3-6) cfg assms(7)])
    then show "?Q (ys @ [z]) y"
      using Q y new next_id_new [of zc_id "dns_zone_configs (c_db (si_core x))"]
      by (auto simp: zone_like_def decode_zone_config_def zones_distinct_def intro!: list_all2_appendI)
  qed (simp add: assms(2) zones_distinct_def)
qed

subsection \<open>Keys and their zones\<close>

abbreviation "links db \<equiv> link_pair ` set (api_key_allowed_zones db)"

lemma zone_ids_name:
  assumes "zones_distinct db"
  shows "map_of (zone_ids db) n = Some i \<longleftrightarrow> (\<exists>z \<in> set (dns_zone_configs db). zc_zone_name z = n \<and> zc_id z = i)"
proof -
  have "distinct (map fst (zone_ids db))" using assms by (simp add: zone_ids_def zones_distinct_def rev_map [symmetric] comp_def)
  then show ?thesis by (auto simp: map_of_eq_Some_iff) (auto simp: zone_ids_def)
qed

lemma restored_link:
  assumes "restore_link i (JStr n) s = (Inr u, t)" and "zones_distinct (c_db (si_core s))"
  shows "links (c_db (si_core t)) = links (c_db (si_core s))
        \<union> {(i, zc_id z) | z. z \<in> set (dns_zone_configs (c_db (si_core s))) \<and> zc_zone_name z = n}"
proof (cases "map_of (zone_ids (c_db (si_core s))) n")
  case None
  then have "\<not> (\<exists>z \<in> set (dns_zone_configs (c_db (si_core s))). zc_zone_name z = n)"
    by (force simp: zone_ids_def map_of_eq_None_iff)
  then show ?thesis using assms(1) None by (auto simp: restore_link_def row_simps)
next
  case (Some j)
  then have "{(i, zc_id z) | z. z \<in> set (dns_zone_configs (c_db (si_core s))) \<and> zc_zone_name z = n} = {(i, j)}"
    using assms(2) by (auto simp: zone_ids_name zones_distinct_def distinct_map dest: inj_onD)
  then show ?thesis using assms(1) Some by (auto simp: restore_link_def row_simps link_pair_def)
qed

lemma restored_links:
  assumes "for_each (restore_link i) (map JStr names) s = (Inr u, t)" and "zones_distinct (c_db (si_core s))"
  shows "links (c_db (si_core t)) = links (c_db (si_core s))
        \<union> {(i, zc_id z) | z. z \<in> set (dns_zone_configs (c_db (si_core s))) \<and> zc_zone_name z \<in> set names}"
    and "api_keys (c_db (si_core t)) = api_keys (c_db (si_core s))"
    and "dns_zone_configs (c_db (si_core t)) = dns_zone_configs (c_db (si_core s))"
proof -
  let ?z = "dns_zone_configs (c_db (si_core s))"
  let ?Q = "\<lambda>ns x. dns_zone_configs (c_db (si_core x)) = ?z \<and> links (c_db (si_core x)) = links (c_db (si_core s))
        \<union> {(i, zc_id z) | z. z \<in> set ?z \<and> zc_zone_name z \<in> set ns}"
  have keep: "skept (\<lambda>db. dns_zone_configs db = y) (restore_link i j)" "skept (\<lambda>db. api_keys db = x) (restore_link i j)" for y x j
    by (rule skept_link; simp)+
  have run: "for_each (\<lambda>n. restore_link i (JStr n)) names s = (Inr u, t)" using assms(1) by (simp add: for_each_map)
  have "?Q names t"
  proof (rule for_each_Inr [OF run, where Q = ?Q])
    fix ns n x y
    assume Q: "?Q ns x" and step: "restore_link i (JStr n) x = (Inr (), y)"
    from keepsD2 [OF keep(1) _ step] Q have z: "dns_zone_configs (c_db (si_core y)) = ?z" by blast
    have "zones_distinct (c_db (si_core x))" using assms(2) Q by (simp add: zones_distinct_def)
    from restored_link [OF step this] Q z show "?Q (ns @ [n]) y" by auto
  qed simp
  then show "links (c_db (si_core t)) = links (c_db (si_core s))
        \<union> {(i, zc_id z) | z. z \<in> set ?z \<and> zc_zone_name z \<in> set names}"
    and "dns_zone_configs (c_db (si_core t)) = ?z" by simp_all
  show "api_keys (c_db (si_core t)) = api_keys (c_db (si_core s))"
    using keepsD2 [OF keeps_for_each [OF keep(2)] _ assms(1)] by simp
qed

lemma or_now_same: "or_now out x s = (Inr n, t) \<Longrightarrow> c_db (si_core t) = c_db (si_core s)"
  using keepsD2 [OF skept_or_now, of "\<lambda>db. db = c_db (si_core s)"] by blast

lemma db_do_Inr: "db_do f s = (Inr x, t) \<longleftrightarrow> (\<exists>db'. f (c_db s) = Inr (x, db') \<and> t = s\<lparr>c_db := db'\<rparr>)"
  by (auto simp: db_do_apply split: sum.split)

lemma json_or_list: "json_or (JList xs) (JList []) = JList xs"
  by (simp add: json_or_def)

lemma restored_key:
  assumes "restore_key out (export_key db k) s = (Inr (), t)" and "zones_distinct (c_db (si_core s))"
  obtains k' where "ak_id k' = next_id ak_id (api_keys (c_db (si_core s)))" and "ak_key k' = ak_key k"
    and "ak_active k' = ak_active k" and "ak_access_mode k' = ak_access_mode k"
    and "api_keys (c_db (si_core t)) = api_keys (c_db (si_core s)) @ [k']"
    and "dns_zone_configs (c_db (si_core t)) = dns_zone_configs (c_db (si_core s))"
    and "links (c_db (si_core t)) = links (c_db (si_core s))
        \<union> {(ak_id k', zc_id z) | z. z \<in> set (dns_zone_configs (c_db (si_core s))) \<and> zc_zone_name z \<in> set (key_zone_names db k)}"
proof -
  let ?k = "\<lambda>d s. \<lparr>ak_id = next_id ak_id (api_keys (c_db (si_core s))), ak_label = ak_label k, ak_key = ak_key k,
     ak_key_prefix = Some (case ak_key_prefix k of None \<Rightarrow> [] | Some p \<Rightarrow> p), ak_access_mode = ak_access_mode k,
     ak_active = ak_active k, ak_created_at = d\<rparr>"
  from assms(1) obtain c d s1 s2 where now: "or_now out c s = (Inr d, s1)"
    and s2: "s2 = s1\<lparr>si_core := (si_core s1)\<lparr>c_db := (c_db (si_core s1))\<lparr>api_keys := api_keys (c_db (si_core s1)) @ [?k d s1]\<rparr>\<rparr>\<rparr>"
    and links: "for_each (restore_link (ak_id (?k d s1))) (map JStr (key_zone_names db k)) s2 = (Inr (), t)"
    by (auto simp: restore_key_def export_key_def row_simps text_or_def text_col_def need_def db_do_Inr Let_def json_or_list)
  have db: "c_db (si_core s1) = c_db (si_core s)" using now by (rule or_now_same)
  have "zones_distinct (c_db (si_core s2))" using assms(2) by (simp add: s2 db zones_distinct_def)
  from restored_links [OF links this] show ?thesis by (intro that [of "?k d s"]) (simp_all add: s2 db)
qed

text \<open>A restored key has the digest, the mode and the state of the exported one and may use the zones of the
  same names.\<close>

definition key_like :: "db \<Rightarrow> db \<Rightarrow> api_key_row \<Rightarrow> api_key_row \<Rightarrow> bool" where
  "key_like db db' k k' \<longleftrightarrow> ak_key k' = ak_key k \<and> ak_active k' = ak_active k \<and> ak_access_mode k' = ak_access_mode k
     \<and> (\<forall>z \<in> set (dns_zone_configs db'). key_allows_zone db' k' z \<longleftrightarrow> zc_zone_name z \<in> set (key_zone_names db k))"

lemma key_allows_links: "key_allows_zone db k z \<longleftrightarrow> (ak_id k, zc_id z) \<in> links db"
  by (force simp: key_allows_zone_def link_pair_def)

lemma restored_keys:
  assumes "for_each (restore_key out) (map (export_key db) ks) s = (Inr u, t)" and "zones_distinct (c_db (si_core s))"
    and "api_keys (c_db (si_core s)) = []" and "api_key_allowed_zones (c_db (si_core s)) = []"
  shows "list_all2 (key_like db (c_db (si_core t))) ks (api_keys (c_db (si_core t)))"
    and "dns_zone_configs (c_db (si_core t)) = dns_zone_configs (c_db (si_core s))"
proof -
  let ?zs = "dns_zone_configs (c_db (si_core s))"
  let ?Q = "\<lambda>ks x. dns_zone_configs (c_db (si_core x)) = ?zs \<and> list_all2 (key_like db (c_db (si_core x))) ks (api_keys (c_db (si_core x)))
     \<and> fst ` links (c_db (si_core x)) \<subseteq> set (map ak_id (api_keys (c_db (si_core x))))"
  have run: "for_each (\<lambda>k. restore_key out (export_key db k)) ks s = (Inr u, t)" using assms(1) by (simp add: for_each_map)
  have "?Q ks t"
  proof (rule for_each_Inr [OF run, where Q = ?Q])
    fix ys k x y
    assume Q: "?Q ys x" and step: "restore_key out (export_key db k) x = (Inr (), y)"
    have zd: "zones_distinct (c_db (si_core x))" using assms(2) Q by (simp add: zones_distinct_def)
    obtain k' where k': "ak_id k' = next_id ak_id (api_keys (c_db (si_core x)))" "ak_key k' = ak_key k"
        "ak_active k' = ak_active k" "ak_access_mode k' = ak_access_mode k"
      and y: "api_keys (c_db (si_core y)) = api_keys (c_db (si_core x)) @ [k']" "dns_zone_configs (c_db (si_core y)) = ?zs"
        "links (c_db (si_core y)) = links (c_db (si_core x)) \<union> {(ak_id k', zc_id z) | z. z \<in> set ?zs \<and> zc_zone_name z \<in> set (key_zone_names db k)}"
      by (rule restored_key [OF step zd]) (use Q in simp)
    have new: "ak_id k' \<notin> set (map ak_id (api_keys (c_db (si_core x))))" using next_id_new k'(1) by simp
    have none: "(ak_id k', i) \<notin> links (c_db (si_core x))" for i
    proof
      assume "(ak_id k', i) \<in> links (c_db (si_core x))"
      then have "ak_id k' \<in> fst ` links (c_db (si_core x))" by (rule rev_image_eqI) simp
      then show False using Q new by blast
    qed
    have inj: "zc_id z = zc_id z' \<longleftrightarrow> z = z'" if "z \<in> set ?zs" "z' \<in> set ?zs" for z z'
      using assms(2) that by (auto simp: zones_distinct_def distinct_map dest: inj_onD)
    have "key_like db (c_db (si_core y)) k k'"
      unfolding key_like_def key_allows_links y using k' none inj by (auto; metis inj)
    moreover have "list_all2 (key_like db (c_db (si_core y))) ys (api_keys (c_db (si_core x)))"
    proof (rule list.rel_mono_strong)
      show "list_all2 (key_like db (c_db (si_core x))) ys (api_keys (c_db (si_core x)))" using Q by blast
      fix a b assume "b \<in> set (api_keys (c_db (si_core x)))" "key_like db (c_db (si_core x)) a b"
      moreover from imageI [OF this(1), of ak_id] new have "ak_id b \<noteq> ak_id k'" by (metis list.set_map)
      ultimately show "key_like db (c_db (si_core y)) a b" using Q by (simp add: key_like_def key_allows_links y)
    qed
    moreover have "fst ` links (c_db (si_core y)) \<subseteq> set (map ak_id (api_keys (c_db (si_core y))))" using Q unfolding y by auto
    ultimately show "?Q (ys @ [k]) y" using y(1,2) by (simp add: list_all2_appendI)
  qed (simp add: assms(3,4))
  then show "list_all2 (key_like db (c_db (si_core t))) ks (api_keys (c_db (si_core t)))"
    and "dns_zone_configs (c_db (si_core t)) = ?zs" by simp_all
qed

lemma key_zone_names_allow:
  assumes "access_ok db" and "z \<in> set (dns_zone_configs db)"
  shows "zc_zone_name z \<in> set (key_zone_names db k) \<longleftrightarrow> key_allows_zone db k z"
proof -
  have zone: "get_zone db i = Some z' \<longleftrightarrow> z' \<in> set (dns_zone_configs db) \<and> zc_id z' = i" for i z'
  proof
    show "get_zone db i = Some z' \<Longrightarrow> z' \<in> set (dns_zone_configs db) \<and> zc_id z' = i"
      unfolding get_zone_def by (rule first_row_Some)
    assume z': "z' \<in> set (dns_zone_configs db) \<and> zc_id z' = i"
    then have "get_zone db i \<noteq> None" unfolding get_zone_id by auto
    then obtain w where w: "get_zone db i = Some w" by blast
    then have "w \<in> set (dns_zone_configs db) \<and> zc_id w = i" unfolding get_zone_def by (rule first_row_Some)
    then have "w = z'" using z' assms(1) by (auto simp: access_ok_def distinct_map dest: inj_onD)
    then show "get_zone db i = Some z'" using w by simp
  qed
  have name: "zc_zone_name z' = zc_zone_name z \<longleftrightarrow> z' = z" if "z' \<in> set (dns_zone_configs db)" for z'
    using assms that by (auto simp: access_ok_def distinct_map dest: inj_onD)
  have "zc_zone_name z \<in> set (key_zone_names db k) \<longleftrightarrow>
      (\<exists>l \<in> set (api_key_allowed_zones db). az_api_key_id l = ak_id k \<and> (\<exists>z'. get_zone db (az_dns_zone_config_id l) = Some z' \<and> zc_zone_name z' = zc_zone_name z))"
    by (force simp: key_zone_names_def List.map_filter_def)
  also have "\<dots> \<longleftrightarrow> key_allows_zone db k z"
    using assms(2) name by (auto simp: key_allows_zone_def zone) metis
  finally show ?thesis .
qed

lemma list_all2_ex:
  "list_all2 R xs ys \<Longrightarrow> (\<And>x y. x \<in> set xs \<Longrightarrow> y \<in> set ys \<Longrightarrow> R x y \<Longrightarrow> P x = Q y) \<Longrightarrow> (\<exists>x \<in> set xs. P x) = (\<exists>y \<in> set ys. Q y)"
  by (induction rule: list_all2_induct) auto

lemma may_write_moves:
  assumes "access_ok db1" and "sha256_hex env2 = sha256_hex env1"
    and "get_disabled_dns_plugins env2 db2 = get_disabled_dns_plugins env1 db1"
    and "list_all2 (zone_like env1 env2) (dns_zone_configs db1) (dns_zone_configs db2)"
    and "list_all2 (key_like db1 db2) (api_keys db1) (api_keys db2)"
  shows "may_write env2 db2 raw zone \<longleftrightarrow> may_write env1 db1 raw zone"
proof -
  let ?use = "\<lambda>env db k z. \<exists>d ds. ak_key k = hash_api_key env raw \<and> ak_active k \<and> ak_access_mode k = API_KEY_ACCESS_READ_WRITE
        \<and> zc_zone_name z = normalize_zone_name zone \<and> key_allows_zone db k z \<and> decode_zone_config env z = Inr d
        \<and> get_disabled_dns_plugins env db = Inr ds \<and> provider_of d \<notin> set ds"
  have "(\<exists>z \<in> set (dns_zone_configs db1). ?use env1 db1 k z) \<longleftrightarrow> (\<exists>z \<in> set (dns_zone_configs db2). ?use env2 db2 k' z)"
    if "key_like db1 db2 k k'" for k k'
  proof (rule list_all2_ex [OF assms(4)])
    fix z z' assume z: "z \<in> set (dns_zone_configs db1)" "z' \<in> set (dns_zone_configs db2)" "zone_like env1 env2 z z'"
    have "key_allows_zone db2 k' z' \<longleftrightarrow> key_allows_zone db1 k z"
      using that z key_zone_names_allow [OF assms(1) z(1)] by (simp add: key_like_def zone_like_def)
    then show "?use env1 db1 k z \<longleftrightarrow> ?use env2 db2 k' z'"
      using that z(3) assms(2,3) by (simp add: key_like_def zone_like_def hash_api_key_def)
  qed
  from list_all2_ex [OF assms(5), of "\<lambda>k. \<exists>z \<in> set (dns_zone_configs db1). ?use env1 db1 k z"
      "\<lambda>k. \<exists>z \<in> set (dns_zone_configs db2). ?use env2 db2 k z", OF this]
  show ?thesis unfolding may_write_def by blast
qed

subsection \<open>The restored installation\<close>

definition moved :: "env \<Rightarrow> env \<Rightarrow> db \<Rightarrow> db \<Rightarrow> bool" where
  "moved env1 env2 db1 db2 \<longleftrightarrow> get_disabled_dns_plugins env2 db2 = get_disabled_dns_plugins env1 db1
     \<and> list_all2 (zone_like env1 env2) (dns_zone_configs db1) (dns_zone_configs db2)
     \<and> list_all2 (key_like db1 db2) (api_keys db1) (api_keys db2)"

lemma key_like_cong:
  "dns_zone_configs db' = dns_zone_configs db2 \<Longrightarrow> api_key_allowed_zones db' = api_key_allowed_zones db2
    \<Longrightarrow> key_like db1 db' = key_like db1 db2"
  by (simp add: key_like_def key_allows_zone_def fun_eq_iff)

lemma tables_move:
  assumes "restore_tables out v2 (strip (process_key v1)) cats payload s = (Inr summary, t)"
    and "{CATEGORY_SETTINGS, CATEGORY_ZONES, CATEGORY_API_KEYS} \<subseteq> set cats"
    and "jget payload CATEGORY_SETTINGS = export_settings db1"
    and "jget payload CATEGORY_ZONES = JList (map export_zone (dns_zone_configs db1))"
    and "jget payload CATEGORY_API_KEYS = JList (map (export_key db1) (api_keys db1))"
    and "process_fernet env1 v1" and "process_fernet (o_env out) v2" and "crypto_ok v2" and "same_crypto v1 v2"
    and "\<And>r. r \<in> set (settings db1) \<Longrightarrow> strip (st_name r) = st_name r"
  shows "moved env1 (o_env out) db1 (c_db (si_core t))"
proof -
  let ?db = "\<lambda>s. c_db (si_core s)" and ?k = "strip (process_key v1)"
  let ?rows = "filter (\<lambda>r. st_name r \<noteq> [] \<and> st_name r \<notin> set EXCLUDED_SETTING_NAMES) (settings db1)"
  let ?s1 = "s\<lparr>si_core := (si_core s)\<lparr>c_db := wipe cats (?db s)\<rparr>\<rparr>"
  obtain s2 s3 s4 s5 s6 a b c d e f
    where 2: "restore_part cats payload CATEGORY_SETTINGS (restore_setting (o_env out) v2 ?k) ?s1 = (Inr a, s2)"
      and 3: "restore_part cats payload CATEGORY_USERS (restore_user v2) s2 = (Inr b, s3)"
      and 4: "restore_part cats payload CATEGORY_ZONES (restore_zone (o_env out) v2 ?k) s3 = (Inr c, s4)"
      and 5: "restore_part cats payload CATEGORY_API_KEYS (restore_key out) s4 = (Inr d, s5)"
      and 6: "restore_part cats payload CATEGORY_ALERT_RULES restore_rule s5 = (Inr e, s6)"
      and 7: "restore_part cats payload CATEGORY_ACTIVITY_LOGS (restore_log out) s6 = (Inr f, t)"
    by (rule restore_tablesE [OF assms(1)])
  have key: "?k \<noteq> []" using assms(6) by (simp add: process_fernet_def)
  have "for_each (restore_setting (o_env out) v2 ?k) (map export_setting ?rows) ?s1 = (Inr (), s2)"
    by (rule restore_part_Inr [OF 2]) (use assms(2,3) in \<open>simp_all add: export_settings_def export_setting_def [abs_def] json_or_list\<close>)
  from restored_settings [OF this _ assms(6-9) key] assms(10) obtain rs'
    where rs: "settings (?db s2) = settings (?db ?s1) @ rs'" "list_all2 (setting_like env1 (o_env out)) ?rows rs'" by auto
  have empty: "dns_zone_configs (?db s2) = []" "api_keys (?db s2) = []" "api_key_allowed_zones (?db s2) = []"
    using assms(2) keepsD2 [OF skept_part [OF skept_setting, of "\<lambda>db. dns_zone_configs db = []"] _ 2]
      keepsD2 [OF skept_part [OF skept_setting, of "\<lambda>db. api_keys db = []"] _ 2]
      keepsD2 [OF skept_part [OF skept_setting, of "\<lambda>db. api_key_allowed_zones db = []"] _ 2] by (simp_all add: wipe_def)
  have 3: "dns_zone_configs (?db s3) = []" "api_keys (?db s3) = []" "api_key_allowed_zones (?db s3) = []" "settings (?db s3) = settings (?db s2)"
    using empty keepsD2 [OF skept_part [OF skept_user, of "\<lambda>db. dns_zone_configs db = []"] _ 3]
      keepsD2 [OF skept_part [OF skept_user, of "\<lambda>db. api_keys db = []"] _ 3]
      keepsD2 [OF skept_part [OF skept_user, of "\<lambda>db. api_key_allowed_zones db = []"] _ 3]
      keepsD2 [OF skept_part [OF skept_user, of "\<lambda>db. settings db = settings (?db s2)"] _ 3] by simp_all
  have "for_each (restore_zone (o_env out) v2 ?k) (map export_zone (dns_zone_configs db1)) s3 = (Inr (), s4)"
    by (rule restore_part_Inr [OF 4]) (use assms(2,4) in \<open>simp_all add: json_or_list\<close>)
  from restored_zones [OF this 3(1) assms(6-9) key]
  have zones: "list_all2 (zone_like env1 (o_env out)) (dns_zone_configs db1) (dns_zone_configs (?db s4))" "zones_distinct (?db s4)" by simp_all
  have 4: "api_keys (?db s4) = []" "api_key_allowed_zones (?db s4) = []" "settings (?db s4) = settings (?db s2)"
    using 3 keepsD2 [OF skept_part [OF skept_zone, of "\<lambda>db. api_keys db = []"] _ 4]
      keepsD2 [OF skept_part [OF skept_zone, of "\<lambda>db. api_key_allowed_zones db = []"] _ 4]
      keepsD2 [OF skept_part [OF skept_zone, of "\<lambda>db. settings db = settings (?db s2)"] _ 4] by simp_all
  have "for_each (restore_key out) (map (export_key db1) (api_keys db1)) s4 = (Inr (), s5)"
    by (rule restore_part_Inr [OF 5]) (use assms(2,5) in \<open>simp_all add: json_or_list\<close>)
  note keys = restored_keys [OF this zones(2) 4(1,2)]
  have 5: "settings (?db s5) = settings (?db s2)"
    using 4(3) keepsD2 [OF skept_part [OF skept_key, of "\<lambda>db. settings db = settings (?db s2)"] _ 5] by simp
  have rest: "g (?db t) = g (?db s5)" if "\<And>db x. g (db\<lparr>alert_rules := x\<rparr>) = g db" "\<And>db x. g (db\<lparr>activity_logs := x\<rparr>) = g db" for g
    using keepsD2 [OF skept_part [OF skept_rule, of "\<lambda>db. g db = g (?db s5)"] _ 6]
      keepsD2 [OF skept_part [OF skept_log, of "\<lambda>db. g db = g (?db s5)"] _ 7] that by simp
  have t: "settings (?db t) = filter (\<lambda>r. st_name r = SETTING_BACKUP_PROGRESS) (settings (?db s)) @ rs'"
    "dns_zone_configs (?db t) = dns_zone_configs (?db s5)" "api_keys (?db t) = api_keys (?db s5)"
    "api_key_allowed_zones (?db t) = api_key_allowed_zones (?db s5)"
    using rest [of settings] rest [of dns_zone_configs] rest [of api_keys] rest [of api_key_allowed_zones] 5 rs(1) assms(2)
    by (simp_all add: wipe_def)
  have "get_disabled_dns_plugins (o_env out) (?db t) = get_disabled_dns_plugins env1 db1"
    by (rule typed_setting_moves) (rule setting_moves [OF rs(2) assms(10) t(1)])
  moreover have "key_like db1 (?db t) = key_like db1 (?db s5)" by (rule key_like_cong) (simp_all add: t)
  ultimately show ?thesis using zones(1) keys by (simp add: moved_def t)
qed

lemma disabled_cong:
  "(\<And>key. key \<notin> set EXCLUDED_SETTING_NAMES \<Longrightarrow> get_setting env db' key = get_setting env db key)
    \<Longrightarrow> get_disabled_dns_plugins env db' = get_disabled_dns_plugins env db"
  by (rule typed_setting_moves) simp

lemma moved_users: "moved env1 env2 db1 (db\<lparr>users := x\<rparr>) \<longleftrightarrow> moved env1 env2 db1 db"
  using disabled_cong [of env2 "db\<lparr>users := x\<rparr>" db] by (simp add: moved_def get_setting_def key_like_cong [of "db\<lparr>users := x\<rparr>" db])

lemma moved_progress:
  assumes "moved env1 env2 db1 db" and "write_restore_progress env2 p n m d e r x db = Inr db'"
  shows "moved env1 env2 db1 db'"
proof -
  have same: "g db' = g db" if "log_blind g" for g using progress_blind [OF that assms(2)] .
  have rows: "dns_zone_configs db' = dns_zone_configs db" "api_keys db' = api_keys db" "api_key_allowed_zones db' = api_key_allowed_zones db"
    by (rule same; simp add: log_blind_def)+
  obtain raw where "db' = set_setting env2 SETTING_BACKUP_PROGRESS raw db"
    using assms(2) by (auto simp: write_restore_progress_def write_json_setting_def set_typed_setting_by_key_def set_typed_setting_def
        require_spec_def get_spec_def find_Some_iff rbind_eq_Inr map_res_eq_Inr split: option.splits)
  then have "get_setting env2 db' key = get_setting env2 db key" if "key \<noteq> SETTING_BACKUP_PROGRESS" for key
    using st.get_put_other that by metis
  then have "get_disabled_dns_plugins env2 db' = get_disabled_dns_plugins env2 db"
    by (intro disabled_cong) (auto simp: EXCLUDED_SETTING_NAMES_def)
  then show ?thesis using assms(1) key_like_cong [OF rows(1,3)] by (simp add: moved_def rows)
qed

lemma skept_moved:
  "skept (moved env1 (o_env out) db1) (report_if b (write_progress out) phase n m)"
  "skept (moved env1 (o_env out) db1) (at_core (write_progress out phase n m))"
  "skept (moved env1 (o_env out) db1) (transaction (refresh_sessions v))"
proof -
  show report: "skept (moved env1 (o_env out) db1) (at_core (write_progress out phase n m))" for phase n m
    unfolding write_progress_def by (rule skept_write) (rule moved_progress)
  then show "skept (moved env1 (o_env out) db1) (report_if b (write_progress out) phase n m)"
    by (auto simp: report_if_def intro!: keeps_ret simp del: ret_apply)
  have "skept (moved env1 (o_env out) db1) (refresh_sessions v)"
    unfolding refresh_sessions_def
    by (intro keeps_sbind keeps_gets keeps_for_each skept_other skept_modify) (simp add: update_user_def moved_users)
  then show "skept (moved env1 (o_env out) db1) (transaction (refresh_sessions v))"
    by (intro skept_transaction) (rule keepsD2)
qed

lemma sbind_first:
  assumes "sbind m0 (\<lambda>_. sbind m1 (\<lambda>_. sbind m2 (\<lambda>_. sbind m3 f))) s = (Inr x, t)"
    and "\<And>y s1 s2. m3 s1 = (Inr y, s2) \<Longrightarrow> f y s2 = (Inr x, t) \<Longrightarrow> thesis"
  shows thesis
  using assms by (auto simp: sbind_eq_Inr)

lemma payload_moves:
  assumes "restore_payload out v2 pytest (write_progress out) payload categories s = (Inr result, t)"
    and "{CATEGORY_SETTINGS, CATEGORY_ZONES, CATEGORY_API_KEYS, CATEGORY_APPLICATION_SECRETS} \<subseteq> set categories"
    and "jget payload CATEGORY_APPLICATION_SECRETS = export_secrets env1 v1"
    and "jget payload CATEGORY_SETTINGS = export_settings db1"
    and "jget payload CATEGORY_ZONES = JList (map export_zone (dns_zone_configs db1))"
    and "jget payload CATEGORY_API_KEYS = JList (map (export_key db1) (api_keys db1))"
    and "process_fernet env1 v1" and "process_fernet (o_env out) v2" and "crypto_ok v2" and "same_crypto v1 v2"
    and "\<And>r. r \<in> set (settings db1) \<Longrightarrow> strip (st_name r) = st_name r"
  shows "moved env1 (o_env out) db1 (c_db (si_core t))"
proof -
  let ?cats = "normalize_categories (Some categories) False"
  have cats: "{CATEGORY_SETTINGS, CATEGORY_ZONES, CATEGORY_API_KEYS} \<subseteq> set ?cats" "CATEGORY_APPLICATION_SECRETS \<in> set ?cats"
    using assms(2) by (auto simp: normalize_categories_def ALL_CATEGORIES_def)
  have source: "payload_encryption_key payload = strip (process_key v1)"
    by (simp add: payload_encryption_key_def assms(3) export_secrets_def json_or_def json_text_def)
  let ?rest = "\<lambda>summary. sbind (report_if (meets TABLE_CATEGORIES ?cats) (write_progress out) ''database'' 70 ''Database categories restored...'') (\<lambda>_.
     sbind (report_if (CATEGORY_SSL_FILES \<in> set ?cats) (write_progress out) ''ssl_files'' 85 ''Restoring SSL certificate files...'') (\<lambda>_.
     sbind (if CATEGORY_SSL_FILES \<in> set ?cats then at_certs (restore_files (o_env out) v2 (strip (process_key v1)) payload) else ret []) (\<lambda>fs.
     sbind (restore_secrets v2 pytest (write_progress out) ?cats payload) (\<lambda>written.
     ret \<lparr>rr_summary = summary @ fs @ [(CATEGORY_APPLICATION_SECRETS, 2)],
       rr_restarting = (written \<or> CATEGORY_SSL_FILES \<in> set ?cats \<or> CATEGORY_SETTINGS \<in> set ?cats), rr_categories = ?cats\<rparr>))))"
  have "?cats \<noteq> []" using cats(2) by auto
  note run = assms(1) [unfolded restore_payload_def Let_def if_not_P [OF this] if_P [OF cats(2)] source]
  obtain s1 s2 summary where tables: "transaction (restore_tables out v2 (strip (process_key v1)) ?cats payload) s1 = (Inr summary, s2)"
    and rest: "?rest summary s2 = (Inr result, t)"
    by (rule sbind_first [OF run]) (rule that)
  have start: "moved env1 (o_env out) db1 (c_db (si_core s2))"
    by (rule tables_move [OF _ cats(1) assms(4-11)])
      (use tables in \<open>auto simp: transaction_def split: prod.splits sum.splits\<close>)
  have "skept (moved env1 (o_env out) db1) (?rest summary)"
    unfolding restore_secrets_def
    by (intro keeps_sbind keeps_if keeps_ret keeps_lift_res skept_moved skept_other)
  from keepsD2 [OF this start rest] show ?thesis .
qed

lemma jget_skip: "k \<noteq> c \<Longrightarrow> jget ((k, j) # r) c = jget r c"
    "k \<noteq> c \<Longrightarrow> jget ((if b then [(k, j)] else []) @ r) c = jget r c"
  and jget_hit: "jget ((c, j) # r) c = j"
  by (simp_all add: jget_def)

lemma exported_parts:
  assumes "{CATEGORY_SETTINGS, CATEGORY_ZONES, CATEGORY_API_KEYS, CATEGORY_APPLICATION_SECRETS} \<subseteq> set categories"
  shows "jget (build_payload env v version now st categories db) CATEGORY_APPLICATION_SECRETS = export_secrets env v"
    and "jget (build_payload env v version now st categories db) CATEGORY_SETTINGS = export_settings db"
    and "jget (build_payload env v version now st categories db) CATEGORY_ZONES = JList (map export_zone (dns_zone_configs db))"
    and "jget (build_payload env v version now st categories db) CATEGORY_API_KEYS = JList (map (export_key db) (api_keys db))"
proof -
  have cats: "CATEGORY_SETTINGS \<in> set (normalize_categories (Some categories) True)" "CATEGORY_ZONES \<in> set (normalize_categories (Some categories) True)"
    "CATEGORY_API_KEYS \<in> set (normalize_categories (Some categories) True)" "CATEGORY_APPLICATION_SECRETS \<in> set (normalize_categories (Some categories) True)"
    using assms by (auto simp: normalize_categories_def ALL_CATEGORIES_def)
  note parts = build_payload_def Let_def cats jget_skip jget_hit
  show "jget (build_payload env v version now st categories db) CATEGORY_APPLICATION_SECRETS = export_secrets env v"
    and "jget (build_payload env v version now st categories db) CATEGORY_SETTINGS = export_settings db"
    and "jget (build_payload env v version now st categories db) CATEGORY_ZONES = JList (map export_zone (dns_zone_configs db))"
    and "jget (build_payload env v version now st categories db) CATEGORY_API_KEYS = JList (map (export_key db) (api_keys db))"
    by (simp add: parts, simp add: category_defs jget_skip jget_hit)+
qed

text \<open>
  C14. After an installation with a key of its own has restored the settings, the zones, the API keys and
  the secrets of an archive, a raw key may write to a zone exactly when it might in the installation that
  was exported: the secrets of the zones were encrypted again and the links follow the zones' new ids.
\<close>

theorem restored_keys_write_the_same_zones:
  assumes "access_ok db1" and "\<forall>r \<in> set (settings db1). strip (st_name r) = st_name r"
    and "process_fernet env1 v1" and "process_fernet (o_env out) v2" and "crypto_ok v1" and "crypto_ok v2"
    and "same_crypto v1 v2" and "sha256_hex (o_env out) = sha256_hex env1"
    and "{CATEGORY_SETTINGS, CATEGORY_ZONES, CATEGORY_API_KEYS, CATEGORY_APPLICATION_SECRETS} \<subseteq> set exported \<inter> set restored"
    and "payload = build_payload env1 v1 version now certs exported db1" and "json_ok (JObj payload)"
    and "serialize_backup v1 now payload True password = Inr raw" and "load_backup_bytes v2 raw password = Inr archive"
    and "restore_payload out v2 pytest (write_progress out) archive restored s = (Inr result, t)"
  shows "may_write (o_env out) (c_db (si_core t)) key zone \<longleftrightarrow> may_write env1 db1 key zone"
proof -
  obtain m where m: "jget payload ''manifest'' = JObj m"
    using assms(10) by (simp add: build_payload_def Let_def manifest_of_def jget_hit)
  have archive: "jget archive c = jget payload c" if "c \<noteq> ''manifest''" for c
    using archive_opens [OF assms(5,7,11) m assms(12)] assms(13) that by (auto simp: jget_def update_conv')
  have "CATEGORY_SETTINGS \<noteq> ''manifest''" "CATEGORY_ZONES \<noteq> ''manifest''" "CATEGORY_API_KEYS \<noteq> ''manifest''"
    "CATEGORY_APPLICATION_SECRETS \<noteq> ''manifest''" by (simp_all add: category_defs)
  note parts = this [THEN archive, unfolded assms(10)]
  have cats: "{CATEGORY_SETTINGS, CATEGORY_ZONES, CATEGORY_API_KEYS, CATEGORY_APPLICATION_SECRETS} \<subseteq> set exported"
    "{CATEGORY_SETTINGS, CATEGORY_ZONES, CATEGORY_API_KEYS, CATEGORY_APPLICATION_SECRETS} \<subseteq> set restored"
    using assms(9) by auto
  have "moved env1 (o_env out) db1 (c_db (si_core t))"
    by (rule payload_moves [OF assms(14) cats(2)]) (use assms(2-8) parts exported_parts [OF cats(1)] in simp_all)
  then show ?thesis
    by (intro may_write_moves [OF assms(1,8)]) (simp_all add: moved_def)
qed

section \<open>A witness\<close>

text \<open>The environment whose Fernet is the one of the vault.\<close>

definition vault_env :: "vault \<Rightarrow> env" where
  "vault_env v = demo_env\<lparr>encrypt := fernet_encrypt v (strip (process_key v)),
     decrypt := (\<lambda>t. case fernet_decrypt v (strip (process_key v)) t of Some p \<Rightarrow> Inr p
       | None \<Rightarrow> Inl (OtherError ''InvalidToken'' [])),
     getenv := (\<lambda>n. if n = ''SECRET_KEY'' then Some ''0123456789abcdef0123456789abcdef'' else None)\<rparr>"

definition other_vault :: vault where
  "other_vault = demo_vault\<lparr>process_key := ''another''\<rparr>"

definition other_out :: outside where
  "other_out = demo_out\<lparr>o_env := vault_env other_vault\<rparr>"

definition old_db :: db where
  "old_db = empty_db\<lparr>api_keys := [demo_key], dns_zone_configs :=
       [demo_row\<lparr>zc_encrypted_config := encode_zone_config_dict (vault_env demo_vault) demo_zone\<rparr>],
     api_key_allowed_zones := [\<lparr>az_id = 1, az_api_key_id = 1, az_dns_zone_config_id = 1\<rparr>]\<rparr>"

definition moved_categories :: "string list" where
  "moved_categories = [CATEGORY_SETTINGS, CATEGORY_ZONES, CATEGORY_API_KEYS, CATEGORY_APPLICATION_SECRETS]"

definition old_payload :: dict where
  "old_payload = build_payload (vault_env demo_vault) demo_vault ''1'' 0 empty_store moved_categories old_db"

definition old_archive :: dict where
  "old_archive = AList.update ''manifest'' (JObj (AList.update MANIFEST_ENVELOPE_ENCRYPTED (JBool True)
     (case jget old_payload ''manifest'' of JObj m \<Rightarrow> m | _ \<Rightarrow> []))) old_payload"

text \<open>A run that never raises.\<close>

definition returns :: "('s, 'a) run \<Rightarrow> bool" where
  "returns m \<longleftrightarrow> (\<forall>s. \<exists>x t. m s = (Inr x, t))"

lemma returns_sbind: "returns m \<Longrightarrow> (\<And>x. returns (f x)) \<Longrightarrow> returns (sbind m f)"
  by (simp add: returns_def) (metis sbind_eq_Inr)

lemma returns_ret: "returns (ret x)"
  by (auto simp: returns_def)

lemma sbind_lifted: "sbind (lift_res (Inr x)) f = f x"
  by (simp add: fun_eq_iff sbind_def)

lemma returns_at_core: "returns m \<Longrightarrow> returns (at_core m)"
  by (simp add: returns_def at_core_Inr)

lemma progress_returns: "returns (write_progress other_out p n m)"
proof -
  have "get_spec SETTING_BACKUP_PROGRESS = Some (setting_spec_of ''backup_restore_progress'' TJson None False ''backup''
     ''In-progress backup restore status (not exported).'')" by code_simp
  then show ?thesis
  by (simp add: write_progress_def returns_def db_write_Inr write_restore_progress_def write_json_setting_def set_typed_setting_by_key_def
    require_spec_def set_typed_setting_def setting_spec_of_def encode_typed_def)
qed

definition old_token :: string where "old_token = encode_zone_config_dict (vault_env demo_vault) demo_zone"

lemma iso_epoch: "iso_format 0 = ''1970-01-01T00:00:00''" by code_simp

lemma old_rows:
  "jget old_archive CATEGORY_SETTINGS = JList []"
  "jget old_archive CATEGORY_ZONES = JList [JObj [(''zone_name'', JStr ''example.org''), (''encrypted_config'', JStr old_token)]]"
  "jget old_archive CATEGORY_API_KEYS = JList [JObj [(''label'', JStr ''ci''), (''key'', JStr (ak_key demo_key)),
         (''key_prefix'', JStr []), (''access_mode'', JStr ''read_write''), (''active'', JBool True),
         (''created_at'', JStr ''1970-01-01T00:00:00''), (''allowed_zones'', JList [JStr ''example.org''])]]"
proof -
  have "jget old_archive c = jget old_payload c" if "c \<noteq> ''manifest''" for c
    using that by (simp add: old_archive_def jget_def update_conv')
  then have "jget old_archive CATEGORY_SETTINGS = jget old_payload CATEGORY_SETTINGS"
    "jget old_archive CATEGORY_ZONES = jget old_payload CATEGORY_ZONES"
    "jget old_archive CATEGORY_API_KEYS = jget old_payload CATEGORY_API_KEYS" by (simp_all add: category_defs)
  moreover have "{CATEGORY_SETTINGS, CATEGORY_ZONES, CATEGORY_API_KEYS, CATEGORY_APPLICATION_SECRETS} \<subseteq> set moved_categories"
    by (simp add: moved_categories_def)
  ultimately show "jget old_archive CATEGORY_SETTINGS = JList []"
    "jget old_archive CATEGORY_ZONES = JList [JObj [(''zone_name'', JStr ''example.org''), (''encrypted_config'', JStr old_token)]]"
    "jget old_archive CATEGORY_API_KEYS = JList [JObj [(''label'', JStr ''ci''), (''key'', JStr (ak_key demo_key)),
         (''key_prefix'', JStr []), (''access_mode'', JStr ''read_write''), (''active'', JBool True),
         (''created_at'', JStr ''1970-01-01T00:00:00''), (''allowed_zones'', JList [JStr ''example.org''])]]"
    by (simp_all add: exported_parts old_payload_def export_settings_def old_db_def demo_row_def export_zone_def old_token_def export_key_def
      key_zone_names_def get_zone_def List.map_filter_def iso_epoch API_KEY_ACCESS_READ_WRITE_def) (simp_all add: demo_key_def API_KEY_ACCESS_READ_WRITE_def iso_epoch empty_db_def)
qed

lemma rewraps: "\<exists>tok. rewrap_when (o_env other_out) other_vault ''key'' old_token label = Inr tok"
proof -
  have "strip ''key'' = ''key''" "strip ''another'' = ''another''" by code_simp+
  then show ?thesis
    by (simp add: rewrap_when_def rewrap_fernet_token_def old_token_def encode_zone_config_dict_def vault_env_def other_vault_def demo_vault_def)
qed

lemma checked: "validate_restore_records other_vault moved_categories old_archive = Inr ()" by code_simp
lemma dt: "parse_dt (JStr ''1970-01-01T00:00:00'') = Inr (Some 0)" by code_simp
lemma cats: "CATEGORY_SETTINGS \<in> set moved_categories" "CATEGORY_USERS \<notin> set moved_categories" "CATEGORY_ZONES \<in> set moved_categories"
  "CATEGORY_API_KEYS \<in> set moved_categories" "CATEGORY_ALERT_RULES \<notin> set moved_categories" "CATEGORY_ACTIVITY_LOGS \<notin> set moved_categories"
  by code_simp+

lemma tables: "\<exists>x t. restore_tables other_out other_vault ''key'' moved_categories old_archive s = (Inr x, t)"
proof -
  obtain tok where tok: "rewrap_when (o_env other_out) other_vault ''key'' old_token (''Zone '' @ in_quotes ''example.org'') = Inr tok"
    using rewraps by blast
  have "old_token \<noteq> []" by code_simp
  then show ?thesis
    by (simp add: restore_tables_def restore_part_def cats old_rows json_or_list at_core_apply sbind_def wipe_def restore_zone_def need_def text_col_def tok [simplified]
      db_write_apply unique_in_def restore_key_def text_or_def dt or_now_def db_do_apply Let_def restore_link_def zone_ids_def json_or_def)
qed

lemma secrets_part: "jget old_archive CATEGORY_APPLICATION_SECRETS
  = JObj [(''SECRET_KEY'', JStr ''0123456789abcdef0123456789abcdef''), (''ENCRYPTION_KEY'', JStr ''key'')]"
proof -
  have "jget old_archive CATEGORY_APPLICATION_SECRETS = jget old_payload CATEGORY_APPLICATION_SECRETS"
    by (simp add: old_archive_def jget_def update_conv' category_defs)
  moreover have "{CATEGORY_SETTINGS, CATEGORY_ZONES, CATEGORY_API_KEYS, CATEGORY_APPLICATION_SECRETS} \<subseteq> set moved_categories"
    by (simp add: moved_categories_def)
  ultimately show ?thesis
    by (simp add: exported_parts old_payload_def export_secrets_def vault_env_def demo_vault_def or_empty_def)
qed

lemma report_returns: "returns (report_if b (write_progress other_out) p n m)"
proof -
  show ?thesis using returns_at_core [OF progress_returns] returns_ret by (auto simp: report_if_def)
qed

lemma tables_return: "returns (transaction (restore_tables other_out other_vault ''key'' moved_categories old_archive))"
  using tables by (auto simp: returns_def transaction_def split: prod.split sum.split) (metis Inr_Inl_False prod.inject)

lemma secrets_return: "returns (restore_secrets other_vault False (write_progress other_out) moved_categories old_archive)"
proof -
  have "json_strip (JStr ''0123456789abcdef0123456789abcdef'') = Inr ''0123456789abcdef0123456789abcdef''"
    "json_strip (JStr ''key'') = Inr ''key''" "meets FERNET_BACKED_CATEGORIES moved_categories" "''key'' \<noteq> strip (process_key other_vault)"
    by code_simp+
  then show ?thesis using returns_at_core [OF progress_returns]
    by (simp add: returns_ret restore_secrets_def secrets_part json_or_text jget_skip jget_hit json_or_def backup_guard_def sbind_lifted returns_sbind del: ret_apply)
qed

lemma payload_returns: "returns (restore_payload other_out other_vault False (write_progress other_out) old_archive moved_categories)"
proof -
  have cats: "normalize_categories (Some moved_categories) False = moved_categories" "moved_categories \<noteq> []"
    "CATEGORY_APPLICATION_SECRETS \<in> set moved_categories" "CATEGORY_SSL_FILES \<notin> set moved_categories"
    "strip ''key'' = ''key''"
    by code_simp+
  have "payload_encryption_key old_archive = ''key''"
    using cats(5) by (simp add: payload_encryption_key_def secrets_part json_or_def jget_skip jget_hit json_text_def)
  then show ?thesis
    by (simp add: restore_payload_def Let_def cats checked sbind_lifted del: ret_apply)
      (intro returns_sbind returns_ret report_returns tables_return secrets_return)
qed

lemma old_rights: "may_write (vault_env demo_vault) old_db ''k'' ''example.org''"
proof -
  have fernet: "fernet_ok (vault_env demo_vault)"
    by (simp add: fernet_ok_def vault_env_def demo_vault_def)
  have "get_typed_setting (vault_env demo_vault) old_db = get_typed_setting (vault_env demo_vault) empty_db"
    by (simp add: get_typed_setting_def [abs_def] get_setting_def old_db_def fun_eq_iff)
  then have "get_disabled_dns_plugins (vault_env demo_vault) old_db = get_disabled_dns_plugins (vault_env demo_vault) empty_db"
    by (simp add: get_disabled_dns_plugins_def get_typed_setting_by_key_def)
  also have "\<dots> = Inr []" by code_simp
  finally have disabled: "get_disabled_dns_plugins (vault_env demo_vault) old_db = Inr []" .
  let ?z = "demo_row\<lparr>zc_encrypted_config := encode_zone_config_dict (vault_env demo_vault) demo_zone\<rparr>"
  have "decode_zone_config (vault_env demo_vault) ?z = Inr demo_zone"
    by (rule decode_encode [OF fernet]) (simp_all add: demo_zone_def)
  moreover have "normalize_zone_name ''example.org'' = ''example.org''" by code_simp
  moreover have "?z \<in> set (dns_zone_configs old_db)" "demo_key \<in> set (api_keys old_db)" by (simp_all add: old_db_def)
  ultimately show ?thesis using disabled
    unfolding may_write_def by (intro bexI [of _ demo_key] bexI [of _ ?z]) (simp_all add: demo_key_def demo_row_def hash_api_key_def vault_env_def key_allows_zone_def old_db_def)
qed

lemma vault_env_fernet: "crypto_ok v \<Longrightarrow> fernet_valid v (strip (process_key v)) \<Longrightarrow> strip (process_key v) \<noteq> []
  \<Longrightarrow> (\<And>k. fernet_decrypt v k [] = None) \<Longrightarrow> process_fernet (vault_env v) v"
  by (simp add: process_fernet_def vault_env_def)

theorem restored_keys_write_the_same_zones_witness:
  "\<exists>raw result t. serialize_backup demo_vault 0 old_payload True (Some ''password'') = Inr raw
     \<and> load_backup_bytes other_vault raw (Some ''password'') = Inr old_archive
     \<and> restore_payload other_out other_vault False (write_progress other_out) old_archive moved_categories demo_site = (Inr result, t)
     \<and> may_write (o_env other_out) (c_db (si_core t)) ''k'' ''example.org''"
proof -
  have vaults: "crypto_ok demo_vault" "crypto_ok other_vault" "same_crypto demo_vault other_vault"
    using crypto_ok_demo by (simp_all add: other_vault_def crypto_ok_def same_crypto_def)
  have "strip ''key'' = ''key''" "strip ''another'' = ''another''" by code_simp+
  then have fernets: "process_fernet (vault_env demo_vault) demo_vault" "process_fernet (o_env other_out) other_vault"
    unfolding other_out_def using vaults
    by (auto intro!: vault_env_fernet simp: other_vault_def demo_vault_def)
  have ok: "json_ok (JObj old_payload)" by code_simp
  have manifest: "jget old_payload ''manifest'' = JObj (case jget old_payload ''manifest'' of JObj m \<Rightarrow> m | _ \<Rightarrow> [])"
    by (simp add: old_payload_def build_payload_def Let_def manifest_of_def jget_hit)
  have "\<exists>created. created_at_of 0 old_payload = Inr created"
    using manifest by (cases "jget old_payload ''manifest''") (auto simp: created_at_of_def map_res_def json_or_def)
  then obtain created where created: "created_at_of 0 old_payload = Inr created" by blast
  let ?e = "envelope_of demo_vault (json_dumps_compact (JObj old_payload)) ''password'' created"
  have raw: "serialize_backup demo_vault 0 old_payload True (Some ''password'') = Inr (json_dumps_indent (JObj ?e))"
    using encrypted_envelope [OF vaults(1), of "''password''" created "json_dumps_compact (JObj old_payload)"] created
    by (auto simp: serialize_backup_def map_res_eq_Inr Let_def or_empty_def)
  have load: "load_backup_bytes other_vault (json_dumps_indent (JObj ?e)) (Some ''password'') = Inr old_archive"
    using archive_opens [OF vaults(1,3) ok manifest raw] by (simp add: old_archive_def)
  obtain result t where run: "restore_payload other_out other_vault False (write_progress other_out) old_archive moved_categories demo_site = (Inr result, t)"
    using payload_returns unfolding returns_def by blast
  have "may_write (o_env other_out) (c_db (si_core t)) ''k'' ''example.org'' \<longleftrightarrow> may_write (vault_env demo_vault) old_db ''k'' ''example.org''"
  proof (rule restored_keys_write_the_same_zones [OF _ _ fernets vaults _ _ old_payload_def ok raw load run])
    show "access_ok old_db"
      by (simp add: access_ok_def old_db_def has_key_def demo_key_def demo_row_def link_pair_def)
    show "sha256_hex (o_env other_out) = sha256_hex (vault_env demo_vault)" by (simp add: other_out_def vault_env_def)
  qed (simp_all add: old_db_def empty_db_def moved_categories_def)
  then show ?thesis using raw load run old_rights by blast
qed

end
