(* ===== verification/Spec2Isabelle.thy ===== *)
theory Spec2Isabelle
  imports PluginUtils RateLimit Csrf Restart Alerting Users DnsApi Cloudflare Browser Migration
begin

text \<open>
  \<^bold>\<open>A verification development for api-to-dns.\<close> The program is a FastAPI service that lets holders of
  API keys read and change DNS records of configured zones, through provider plugins (Azure,
  BIND, Cloudflare, Microsoft), with an admin interface for accounts, keys, zones and settings, an
  activity log, e-mail alerts and remote syslog. File names below are under \<^verbatim>\<open>src/src/\<close>.

  \<^bold>\<open>Theories and what they model.\<close>
  \<^item> \<open>Prelude\<close>: exceptions as values, results of pure code (\<open>res\<close>), runs over a state (\<open>run\<close>), and
    the predicate \<open>keeps\<close> with its rules, which carries the frame proofs.
  \<^item> \<open>PyStr\<close>, \<open>PyText\<close>, \<open>PyIp\<close>, \<open>PyTime\<close>, \<open>PyFloat\<close>, \<open>Json\<close>: what the code uses of Python's \<^verbatim>\<open>str\<close>,
    \<^verbatim>\<open>repr\<close>, \<^verbatim>\<open>ipaddress\<close>, \<^verbatim>\<open>datetime\<close>, \<^verbatim>\<open>float\<close>, \<^verbatim>\<open>fnmatch\<close> and \<^verbatim>\<open>json\<close>. Strings are ASCII.
  \<^item> \<open>Tables\<close>: the rows of \<^verbatim>\<open>models.py\<close>, the database as a record of row lists, and the environment
    (Fernet, the hashes, the environment variables, the clock) as a record of functions.
  \<^item> \<open>RecordTypes\<close>, \<open>Schemas\<close>, \<open>PluginUtils\<close>: \<^verbatim>\<open>dns_record_types.py\<close>, \<^verbatim>\<open>schemas/dns.py\<close>,
    \<^verbatim>\<open>plugins/utils.py\<close>: record types, value normalisation, request validation, relative names.
  \<^item> \<open>Plugins\<close>, \<open>ZoneService\<close>, \<open>DnsMutation\<close>, \<open>DnsApi\<close>: the plugin registry and the client contract of
    \<^verbatim>\<open>plugins/base.py\<close>, \<^verbatim>\<open>zone_service.py\<close>, \<^verbatim>\<open>dns_mutation.py\<close>, and the public API of
    \<^verbatim>\<open>dns_api_service.py\<close> and \<^verbatim>\<open>routes/dns_api.py\<close>. A request runs on the program's state and the
    state of the providers together (\<open>world\<close>).
  \<^item> \<open>Browser\<close>: \<^verbatim>\<open>dns_browser_service.py\<close> and \<^verbatim>\<open>routes/dns_browser.py\<close>, the same changes in a session.
  \<^item> \<open>Settings\<close>, \<open>Restart\<close>: \<^verbatim>\<open>settings_store.py\<close>, \<^verbatim>\<open>settings_registry.py\<close> and \<^verbatim>\<open>restart.py\<close>.
  \<^item> \<open>Rbac\<close>, \<open>Auth\<close>, \<open>Csrf\<close>, \<open>RateLimit\<close>, \<open>HttpUtils\<close>, \<open>Users\<close>: roles, sessions, the CSRF check, the
    rate limiter, error messages, and the account routes with login and logout.
  \<^item> \<open>Syslog\<close>, \<open>SyslogConfig\<close>, \<open>World\<close>, \<open>Activity\<close>, \<open>Template\<close>, \<open>Alerting\<close>: the remote syslog forwarder as
    a step relation, its configuration, the shared state of the handlers (\<open>core\<close>), the activity
    log with retention and search, \<^verbatim>\<open>str.format_map\<close>, and the alert rules with SMTP.

  \<^item> \<open>Cloudflare\<close>: \<^verbatim>\<open>plugins/cloudflare.py\<close> against a service that is a parameter: requests, paged
    listing, and the synchronisation of an RRset with the rows of the zone.
  \<^item> \<open>PyJson\<close>, \<open>Base64\<close>, \<open>JsonText\<close>: the truth value and \<^verbatim>\<open>repr\<close> of JSON values, \<^verbatim>\<open>base64\<close>, and the compact
    and indented texts of \<^verbatim>\<open>json.dumps\<close> with the lemmas that they read back.
  \<^item> \<open>ApiKeys\<close>, \<open>Zones\<close>, \<open>Access\<close>: \<^verbatim>\<open>routes/api_keys.py\<close>, \<^verbatim>\<open>routes/zones.py\<close>, and what holds of keys, zones and
    their links over every run of those routes and of the public API.
  \<^item> \<open>Certs\<close>, \<open>LeConfig\<close>, \<open>LetsEncrypt\<close>: \<^verbatim>\<open>ssl_certs.py\<close> with the start of the listener, and \<^verbatim>\<open>letsencrypt.py\<close>:
    configuration, gate and progress of an enrollment, challenges, orders, renewal.
  \<^item> \<open>EnvSecrets\<close>, \<open>Backup\<close>, \<open>Restore\<close>, \<open>Recovery\<close>, \<open>Migration\<close>: \<^verbatim>\<open>env_bootstrap.py\<close>, \<^verbatim>\<open>backup_crypto.py\<close>,
    \<^verbatim>\<open>backup_service.py\<close> and \<^verbatim>\<open>routes/settings_backup.py\<close>: export, archive, validation and restore over the
    database, the certificate directory and the persisted secrets (\<open>site\<close>), and the theorems about them.

  \<^bold>\<open>How the parts meet.\<close> Handlers read and change the tables of \<open>core\<close> and emit events; an event appends
  a row, queues a syslog message, may run the retention cleanup, and evaluates the alert rules, which
  may send mail. \<open>event_blind\<close> and \<open>emit_frame\<close> state what an event never touches, so that the proofs
  about accounts and DNS writes do not look inside it. The settings store is used through the locale
  \<open>setting_store\<close>, interpreted on the model of \<^verbatim>\<open>settings_store.py\<close>. The locales \<open>event_invariant\<close>,
  \<open>zone_addition\<close> and \<open>access_invariant\<close> of \<open>Access\<close> lift an invariant of the tables to every route; they
  are interpreted on the consistency of the tables, the revocation of a key, the zones and the accounts.

  \<^bold>\<open>What the lemmas show.\<close> Values: normalisation is idempotent, keeps the fields and the bounds.
  Settings: typed values read back. Access: sessions, roles, rate limits and CSRF admit exactly what they
  should; an enabled global administrator always remains; a provider is reached only with a
  read-write key of the zone. DNS writes: the operations of \<open>DnsMutation\<close> refine steps on an
  abstract map of RRsets (\<open>rrset_step\<close>) for every client that keeps the contract \<open>serves\<close>, and so do
  the routes. Certificates: an HTTPS start finds a matching pair; one enrollment runs at a time. Backup:
  an archive reads back, a restore keeps an administrator, and after it the same keys may write to the
  same zones although their secrets were encrypted again. Logging: secrets are redacted, security events are stored, retention is exact, credentials
  do not travel in clear text. Defects of the code that the proofs met are theorems too: the
  apex guard, the hostname newline, the rate limit of distinct keys, the migrated zone, the recreated
  account.

  \<^bold>\<open>Bounds and fuel.\<close> No definition runs on fuel; every recursion is structural or has a termination
  proof. Integers are Python's, so they are unbounded; the bounded ones (TTL, ports, priorities) are
  checked by the code and their bounds are theorems.

  \<^bold>\<open>Parameters.\<close> Fernet, SHA-256, PBKDF2, the signer of the cookies, the clock, the environment variables,
  SMTP servers, sockets, dnspython and the plugins' HTTP, WinRM and RFC 2136 transports are parameters;
  what a theorem needs of them is one of its hypotheses (\<open>fernet_ok\<close>, \<open>signer_ok\<close>, \<open>serves\<close>).

  \<^bold>\<open>Not modelled.\<close> Rendering of pages and FastAPI's parsing and routing (I/O and third-party code);
  \<^verbatim>\<open>app.py\<close>, \<^verbatim>\<open>db.py\<close>, \<^verbatim>\<open>operational_logging.py\<close> (start-up, schema migration and logging glue);
  concurrency between requests: a request is one atomic step, a background worker is one run. The clients
  of the Azure, BIND and Microsoft plugins are sequences of calls of REST, dnspython and PowerShell; only
  their registration is modelled, and the DNS theorems speak about every client that keeps the contract.
  The form handlers of \<^verbatim>\<open>routes/settings_ssl.py\<close>, \<^verbatim>\<open>routes/settings_alerts.py\<close>, \<^verbatim>\<open>routes/settings_plugins.py\<close>,
  and \<^verbatim>\<open>routes/settings_system.py\<close> only call modelled services and render pages. Messages
  that contain a non-ASCII ellipsis are written with three dots.
\<close>

end
